(* ===== verification/KVM_Prelude.thy ===== *)
theory KVM_Prelude
  imports Main "HOL-Library.Word" "HOL-Library.AList" "HOL-Library.Sublist" "HOL-Library.Multiset"
begin

text \<open>
  What every component theory shares: the outcome of a run of Go code, programs as state
  transformers that may stop early, Go maps and their iteration order, and the two generic
  interfaces of the development (a codec and an event handler with an invariant).

  A Go function that touches shared state is a program \<open>'s \<Rightarrow> 'a outcome \<times> 's\<close>. It either
  returns a value (\<open>Ret\<close>) or ends the process or the goroutine (\<open>Stop\<close>), and the state is
  kept in both cases, because the part of it that lives in etcd outlives the process.
\<close>

named_theorems prog_simps \<open>unfolding rules of the program combinators\<close>
named_theorems keeps_intros \<open>rules that carry an invariant through a program\<close>

type_synonym uint16 = "16 word"
type_synonym uint32 = "32 word"
type_synonym go_error = string


section \<open>Outcomes and programs\<close>

text \<open>
  How a run can end without a value: \<open>log.Fatal\<close> (the process exits with status 1), a run-time
  panic, waiting for ever on a lock, or a loop whose supply of random draws is used up before
  it ends (the model gives such a loop a finite list of draws).
\<close>

datatype stop = Fatal go_error | Panic string | Blocked | Starved

datatype 'a outcome = Ret 'a | Stop stop

type_synonym ('s, 'a) prog = "'s \<Rightarrow> 'a outcome \<times> 's"

definition ret :: "'a \<Rightarrow> ('s, 'a) prog" where
  "ret x s = (Ret x, s)"

definition stop_with :: "stop \<Rightarrow> ('s, 'a) prog" where
  "stop_with c s = (Stop c, s)"

definition andThen :: "('s, 'a) prog \<Rightarrow> ('a \<Rightarrow> ('s, 'b) prog) \<Rightarrow> ('s, 'b) prog" where
  "andThen m f s = (case m s of (Ret x, s') \<Rightarrow> f x s' | (Stop c, s') \<Rightarrow> (Stop c, s'))"

definition modify :: "('s \<Rightarrow> 's) \<Rightarrow> ('s, unit) prog" where
  "modify f s = (Ret (), f s)"

definition reads :: "('s \<Rightarrow> 'a) \<Rightarrow> ('s, 'a) prog" where
  "reads f s = (Ret (f s), s)"

text \<open>The body of a \<open>for \<dots> range\<close> loop without a \<open>break\<close>, over the elements in order.\<close>

primrec for_each :: "'a list \<Rightarrow> ('a \<Rightarrow> ('s, unit) prog) \<Rightarrow> ('s, unit) prog" where
  "for_each [] f = ret ()"
| "for_each (x # xs) f = andThen (f x) (\<lambda>_. for_each xs f)"

text \<open>Running a program on one part of a larger state.\<close>

definition on_part :: "('s \<Rightarrow> 'e) \<Rightarrow> ('e \<Rightarrow> 's \<Rightarrow> 's) \<Rightarrow> ('e, 'a) prog \<Rightarrow> ('s, 'a) prog" where
  "on_part get put m s = (case m (get s) of (r, e) \<Rightarrow> (r, put e s))"

text \<open>\<open>if err != nil { log.Fatal(err) }\<close>\<close>

definition fatal_on :: "go_error option \<Rightarrow> ('s, unit) prog" where
  "fatal_on err = (case err of None \<Rightarrow> ret () | Some e \<Rightarrow> stop_with (Fatal e))"

declare ret_def [prog_simps] stop_with_def [prog_simps] modify_def [prog_simps]
  reads_def [prog_simps] on_part_def [prog_simps]

lemma andThen_Ret [simp, prog_simps]: "m s = (Ret x, s') \<Longrightarrow> andThen m f s = f x s'"
  by (simp add: andThen_def)

lemma andThen_Stop [simp, prog_simps]: "m s = (Stop c, s') \<Longrightarrow> andThen m f s = (Stop c, s')"
  by (simp add: andThen_def)

lemma andThen_ret [simp]: "andThen (ret x) f = f x"
  by (rule ext) (simp add: ret_def)

lemma andThen_assoc: "andThen (andThen m f) g = andThen m (\<lambda>x. andThen (f x) g)"
  by (rule ext) (simp add: andThen_def split: prod.splits outcome.splits)

lemma andThen_stop_with [simp]: "andThen (stop_with c) f = stop_with c"
  by (rule ext) (simp add: stop_with_def)

lemma andThen_modify [prog_simps]: "andThen (modify g) f s = f () (g s)"
  by (simp add: modify_def)

lemma andThen_reads [prog_simps]: "andThen (reads g) f s = f (g s) s"
  by (simp add: reads_def)

lemma fatal_on_simps [simp]:
  "fatal_on None = ret ()" "fatal_on (Some e) = stop_with (Fatal e)"
  by (simp_all add: fatal_on_def)

lemma andThen_RetE:
  assumes "andThen m f s = (Ret y, t)"
  obtains x s' where "m s = (Ret x, s')" "f x s' = (Ret y, t)"
  using assms by (auto simp: andThen_def split: prod.splits outcome.splits)


section \<open>Total correctness and invariants of programs\<close>

text \<open>
  \<open>wp m Q s\<close>: started in \<open>s\<close>, the program \<open>m\<close> returns, and \<open>Q\<close> holds of the value and the state
  it leaves. The equations compute it along the combinators.
\<close>

definition wp :: "('s, 'a) prog \<Rightarrow> ('a \<Rightarrow> 's \<Rightarrow> bool) \<Rightarrow> 's \<Rightarrow> bool" where
  "wp m Q s \<longleftrightarrow> (\<exists>x t. m s = (Ret x, t) \<and> Q x t)"

lemma wp_ret [simp]: "wp (ret x) Q s \<longleftrightarrow> Q x s"
  by (simp add: wp_def ret_def)

lemma wp_stop_with [simp]: "\<not> wp (stop_with c) Q s"
  by (simp add: wp_def stop_with_def)

lemma wp_modify [simp]: "wp (modify f) Q s \<longleftrightarrow> Q () (f s)"
  by (simp add: wp_def modify_def)

lemma wp_reads [simp]: "wp (reads f) Q s \<longleftrightarrow> Q (f s) s"
  by (simp add: wp_def reads_def)

lemma wp_andThen [simp]: "wp (andThen m f) Q s \<longleftrightarrow> wp m (\<lambda>x. wp (f x) Q) s"
  by (auto simp: wp_def andThen_def split: prod.splits outcome.splits)

lemma wp_if [simp]: "wp (if b then m else n) Q s \<longleftrightarrow> (if b then wp m Q s else wp n Q s)"
  by simp

lemma wp_mono: "wp m P s \<Longrightarrow> (\<And>x t. P x t \<Longrightarrow> Q x t) \<Longrightarrow> wp m Q s"
  by (auto simp: wp_def)

lemma wp_eqI: "m s = (Ret x, t) \<Longrightarrow> Q x t \<Longrightarrow> wp m Q s"
  by (auto simp: wp_def)

lemma wpE:
  assumes "wp m Q s"
  obtains x t where "m s = (Ret x, t)" "Q x t"
  using assms by (auto simp: wp_def)

lemma wp_for_each:
  assumes "I [] s"
    and "\<And>done x rest s. xs = done @ x # rest \<Longrightarrow> I done s \<Longrightarrow> wp (f x) (\<lambda>_. I (done @ [x])) s"
  shows "wp (for_each xs f) (\<lambda>_. I xs) s"
proof -
  have "wp (for_each ys f) (\<lambda>_. I xs) s" if "xs = done @ ys" "I done s" for "done" ys s
    using that
  proof (induction ys arbitrary: "done" s)
    case (Cons y ys)
    then have "wp (f y) (\<lambda>_. I (done @ [y])) s" using assms(2) by blast
    then show ?case
      using Cons.IH [of "done @ [y]"] Cons.prems(1) by (auto elim!: wp_mono)
  qed simp
  from this [of "[]" xs s] assms(1) show ?thesis by simp
qed

text \<open>
  \<open>wlp m Q s\<close>: if \<open>m\<close> returns from \<open>s\<close>, then with \<open>Q\<close>. A program that returns and has a
  partial specification meets it totally.
\<close>

definition wlp :: "('s, 'a) prog \<Rightarrow> ('a \<Rightarrow> 's \<Rightarrow> bool) \<Rightarrow> 's \<Rightarrow> bool" where
  "wlp m Q s \<longleftrightarrow> (\<forall>x t. m s = (Ret x, t) \<longrightarrow> Q x t)"

lemma wlp_ret [simp]: "wlp (ret x) Q s \<longleftrightarrow> Q x s"
  by (simp add: wlp_def ret_def)

lemma wlp_stop_with [simp]: "wlp (stop_with c) Q s"
  by (simp add: wlp_def stop_with_def)

lemma wlp_modify [simp]: "wlp (modify f) Q s \<longleftrightarrow> Q () (f s)"
  by (simp add: wlp_def modify_def)

lemma wlp_reads [simp]: "wlp (reads f) Q s \<longleftrightarrow> Q (f s) s"
  by (simp add: wlp_def reads_def)

lemma wlp_andThen [simp]: "wlp (andThen m f) Q s \<longleftrightarrow> wlp m (\<lambda>x. wlp (f x) Q) s"
  by (auto simp: wlp_def andThen_def split: prod.splits outcome.splits)

lemma wlp_if [simp]: "wlp (if b then m else n) Q s \<longleftrightarrow> (if b then wlp m Q s else wlp n Q s)"
  by simp

lemma wlp_mono: "wlp m P s \<Longrightarrow> (\<And>x t. P x t \<Longrightarrow> Q x t) \<Longrightarrow> wlp m Q s"
  by (auto simp: wlp_def)

lemma wlpD: "wlp m Q s \<Longrightarrow> m s = (Ret x, t) \<Longrightarrow> Q x t"
  by (auto simp: wlp_def)

lemma wp_wlp: "wp m P s \<Longrightarrow> wlp m Q s \<Longrightarrow> wp m (\<lambda>x t. P x t \<and> Q x t) s"
  by (auto simp: wp_def wlp_def)

text \<open>
  \<open>keeps I m\<close>: whenever \<open>m\<close> returns, the property \<open>I\<close> of the state survives it. The rules are
  syntax directed, one per combinator.
\<close>

definition keeps :: "('s \<Rightarrow> bool) \<Rightarrow> ('s, 'a) prog \<Rightarrow> bool" where
  "keeps I m \<longleftrightarrow> (\<forall>s x t. I s \<longrightarrow> m s = (Ret x, t) \<longrightarrow> I t)"

lemma keepsD: "keeps I m \<Longrightarrow> I s \<Longrightarrow> m s = (Ret x, t) \<Longrightarrow> I t"
  by (auto simp: keeps_def)

lemma keepsI: "(\<And>s x t. I s \<Longrightarrow> m s = (Ret x, t) \<Longrightarrow> I t) \<Longrightarrow> keeps I m"
  by (auto simp: keeps_def)

lemma keeps_ret [keeps_intros]: "keeps I (ret x)"
  by (simp add: keeps_def ret_def)

lemma keeps_stop_with [keeps_intros]: "keeps I (stop_with c)"
  by (simp add: keeps_def stop_with_def)

lemma keeps_reads [keeps_intros]: "keeps I (reads f)"
  by (simp add: keeps_def reads_def)

lemma keeps_andThen [keeps_intros]:
  "keeps I m \<Longrightarrow> (\<And>x. keeps I (f x)) \<Longrightarrow> keeps I (andThen m f)"
  by (rule keepsI) (erule andThen_RetE, blast dest: keepsD)

lemma keeps_fatal_on [keeps_intros]: "keeps I (fatal_on err)"
  by (cases err) (simp_all add: keeps_intros)

lemma keeps_for_each [keeps_intros]: "(\<And>x. keeps I (f x)) \<Longrightarrow> keeps I (for_each xs f)"
  by (induction xs) (simp_all add: keeps_intros)

lemma keeps_if [keeps_intros]: "keeps I m \<Longrightarrow> keeps I n \<Longrightarrow> keeps I (if b then m else n)"
  by simp

lemma keeps_modify: "(\<And>s. I s \<Longrightarrow> I (f s)) \<Longrightarrow> keeps I (modify f)"
  by (simp add: keeps_def modify_def)

lemma keeps_from_wlp: "(\<And>s. I s \<Longrightarrow> wlp m (\<lambda>_. I) s) \<Longrightarrow> keeps I m"
  by (auto simp: keeps_def wlp_def)

text \<open>\<open>never_blocks m\<close>: the program does not end up waiting for ever.\<close>

definition never_blocks :: "('s, 'a) prog \<Rightarrow> bool" where
  "never_blocks m \<longleftrightarrow> (\<forall>s. fst (m s) \<noteq> Stop Blocked)"

named_theorems never_blocks_intros \<open>rules that show that a program does not block\<close>

lemma never_blocks_basic [never_blocks_intros]:
  "never_blocks (ret x)" "never_blocks (reads f)" "never_blocks (modify g)"
  "c \<noteq> Blocked \<Longrightarrow> never_blocks (stop_with c)"
  by (simp_all add: never_blocks_def prog_simps)

lemma never_blocks_fatal_on [never_blocks_intros]: "never_blocks (fatal_on err)"
  by (cases err) (auto intro: never_blocks_intros)

lemma never_blocks_andThen [never_blocks_intros]:
  "never_blocks m \<Longrightarrow> (\<And>x. never_blocks (f x)) \<Longrightarrow> never_blocks (andThen m f)"
  by (auto simp: never_blocks_def andThen_def split: prod.splits outcome.splits) (metis fst_conv)

lemma never_blocks_if [never_blocks_intros]:
  "never_blocks m \<Longrightarrow> never_blocks n \<Longrightarrow> never_blocks (if b then m else n)"
  by simp


section \<open>Go maps\<close>

text \<open>
  A Go map is an association list with distinct keys. \<open>gm_read d m k\<close> is the expression
  \<open>m[k]\<close>, which gives the zero value \<open>d\<close> of the element type for a missing key;
  \<open>AList.update\<close> is \<open>m[k] = v\<close> and \<open>AList.delete\<close> is \<open>delete(m, k)\<close>. A \<open>range\<close> over a map
  visits the entries in an order the Go runtime picks; operations that range over a map take
  that order as an argument \<open>it\<close>, of which only \<open>permuting it\<close> is known.
\<close>

type_synonym ('k, 'v) gomap = "('k \<times> 'v) list"
type_synonym iteration = "(string \<times> string) list \<Rightarrow> (string \<times> string) list"

abbreviation gomap_ok :: "('k, 'v) gomap \<Rightarrow> bool" where
  "gomap_ok m \<equiv> distinct (map fst m)"

definition gm_read :: "'v \<Rightarrow> ('k, 'v) gomap \<Rightarrow> 'k \<Rightarrow> 'v" where
  "gm_read d m k = (case map_of m k of None \<Rightarrow> d | Some v \<Rightarrow> v)"

definition permuting :: "iteration \<Rightarrow> bool" where
  "permuting it \<longleftrightarrow> (\<forall>m. mset (it m) = mset m)"

lemma gm_read_update [simp]:
  "gm_read d (AList.update k v m) k' = (if k' = k then v else gm_read d m k')"
  by (simp add: gm_read_def update_conv')

lemma gm_read_delete [simp]:
  "gm_read d (AList.delete k m) k' = (if k' = k then d else gm_read d m k')"
  by (simp add: gm_read_def delete_conv')

lemma gm_read_Nil [simp]: "gm_read d [] k = d"
  by (simp add: gm_read_def)

lemma gm_read_Some: "map_of m k = Some v \<Longrightarrow> gm_read d m k = v"
  by (simp add: gm_read_def)

lemma gm_read_None: "map_of m k = None \<Longrightarrow> gm_read d m k = d"
  by (simp add: gm_read_def)

lemma gm_read_neq_default: "gm_read d m k = v \<Longrightarrow> v \<noteq> d \<Longrightarrow> map_of m k = Some v"
  by (auto simp: gm_read_def split: option.splits)

lemma gomap_ok_update [simp]: "gomap_ok m \<Longrightarrow> gomap_ok (AList.update k v m)"
  by (simp add: distinct_update)

lemma gomap_ok_delete [simp]: "gomap_ok m \<Longrightarrow> gomap_ok (AList.delete k m)"
  by (simp add: distinct_delete)

lemma permuting_set: "permuting it \<Longrightarrow> set (it m) = set m"
  by (metis permuting_def mset_eq_setD)

lemma permuting_distinct: "permuting it \<Longrightarrow> distinct (it m) = distinct m"
  by (metis permuting_def mset_eq_imp_distinct_iff)

lemma permuting_length: "permuting it \<Longrightarrow> length (it m) = length m"
  by (metis permuting_def mset_eq_length)

lemma permuting_id [simp]: "permuting (\<lambda>m. m)"
  by (simp add: permuting_def)

lemma permuting_rev [simp]: "permuting rev"
  by (simp add: permuting_def)


text \<open>A map that is filled in a loop holds the associations it is given.\<close>

lemma map_of_fold_update:
  "map_of (fold (\<lambda>(k, v) m. AList.update k v m) kv m) = map_of m ++ map_of (rev kv)"
  by (induction kv arbitrary: m) (auto simp: update_conv' map_add_def fun_eq_iff split: option.splits)

lemma gomap_ok_fold_update:
  "gomap_ok m \<Longrightarrow> gomap_ok (fold (\<lambda>(k, v) m. AList.update k v m) kv m)"
  by (induction kv arbitrary: m) auto

lemma permuting_gomap_ok: "permuting it \<Longrightarrow> gomap_ok (it m) = gomap_ok m"
  by (metis permuting_def mset_map mset_eq_imp_distinct_iff)

lemma map_of_range_copy:
  assumes "permuting it" and "gomap_ok m"
  shows "map_of (fold (\<lambda>(k, v) m. AList.update k v m) (it m) []) = map_of m"
proof -
  have "gomap_ok (rev (it m))" using assms by (simp add: permuting_gomap_ok rev_map [symmetric])
  then have "map_of (rev (it m)) = map_of m"
    using assms permuting_set [OF assms(1), of m] by (simp add: map_of_inject_set)
  then show ?thesis by (simp add: map_of_fold_update)
qed


section \<open>Two interfaces used throughout\<close>

text \<open>
  A codec turns values into text and back. Encoders used in database keys must not confuse two
  values; that follows from the round trip.
\<close>

locale codec =
  fixes enc :: "'a \<Rightarrow> string" and dec :: "string \<Rightarrow> go_error + 'a"
  assumes dec_enc: "dec (enc x) = Inr x"
begin

lemma enc_inject: "enc x = enc y \<longleftrightarrow> x = y"
  by (metis dec_enc sum.inject(2))

lemma dec_eq_iff: "dec (enc x) = Inr y \<longleftrightarrow> x = y"
  by (simp add: dec_enc)

end

text \<open>
  An event handler with an invariant: what one event keeps, a whole sequence of events keeps.
  A run ends at the first event whose handling does not return.
\<close>

fun run_events :: "('ev \<Rightarrow> ('s, unit) prog) \<Rightarrow> 'ev list \<Rightarrow> ('s, unit) prog" where
  "run_events h [] = ret ()"
| "run_events h (ev # evs) = andThen (h ev) (\<lambda>_. run_events h evs)"

locale event_handler =
  fixes handle :: "'ev \<Rightarrow> ('s, unit) prog" and admissible :: "'ev \<Rightarrow> bool" and inv :: "'s \<Rightarrow> bool"
  assumes handle_keeps: "admissible ev \<Longrightarrow> keeps inv (handle ev)"
begin

lemma run_keeps: "list_all admissible evs \<Longrightarrow> keeps inv (run_events handle evs)"
  by (induction evs) (auto intro: keeps_intros handle_keeps)

lemma run_inv: "list_all admissible evs \<Longrightarrow> inv s \<Longrightarrow> run_events handle evs s = (Ret x, t) \<Longrightarrow> inv t"
  by (rule keepsD [OF run_keeps])

end

end
