(* ===== verification/Go_Stdlib.thy ===== *)
theory Go_Stdlib
  imports KVM_Prelude
begin

text \<open>
  The parts of Go's standard library the program computes with: decimal integers of
  \<open>strconv\<close>, \<open>strings.Split\<close> and \<open>strings.ReplaceAll\<close>, and \<open>encoding/json\<close> for values of type
  \<open>[]uint16\<close>. A string is a list of bytes, as a Go string is. These are the encodings of the
  database: identities occur in keys as decimal text, and the list of identities of a label is
  stored as JSON text.
\<close>


section \<open>Decimal integers\<close>

definition is_digit :: "char \<Rightarrow> bool" where
  "is_digit c \<longleftrightarrow> 48 \<le> (of_char c :: nat) \<and> (of_char c :: nat) \<le> 57"

definition digit_of :: "char \<Rightarrow> nat" where
  "digit_of c = of_char c - 48"

definition digit_char :: "nat \<Rightarrow> char" where
  "digit_char d = char_of (48 + d)"

text \<open>\<open>strconv.FormatUint(n, 10)\<close> and, for \<open>n \<ge> 0\<close>, \<open>strconv.Itoa(n)\<close>\<close>

fun FormatUint :: "nat \<Rightarrow> string" where
  "FormatUint n = (if n < 10 then [digit_char n] else FormatUint (n div 10) @ [digit_char (n mod 10)])"

declare FormatUint.simps [simp del]

datatype num_error = ErrSyntax | ErrRange

text \<open>
  \<open>strconv.ParseUint(s, 10, 64)\<close> on a non-empty string: the scan stops at the first character
  that is not a digit, or at the first digit with which the value leaves 64 bits.
\<close>

definition maxUint64 :: nat where
  "maxUint64 = 2 ^ 64 - 1"

fun ParseUint_loop :: "nat \<Rightarrow> string \<Rightarrow> num_error + nat" where
  "ParseUint_loop n [] = Inr n"
| "ParseUint_loop n (c # cs) =
     (if \<not> is_digit c then Inl ErrSyntax
      else if maxUint64 div 10 + 1 \<le> n then Inl ErrRange
      else if maxUint64 < 10 * n + digit_of c then Inl ErrRange
      else ParseUint_loop (10 * n + digit_of c) cs)"

definition ParseUint :: "string \<Rightarrow> num_error + nat" where
  "ParseUint s = (if s = [] then Inl ErrSyntax else ParseUint_loop 0 s)"

text \<open>
  \<open>strconv.Atoi(s)\<close> with a 64-bit \<open>int\<close>: the value is 0 on a syntax error and the nearest
  bound on a range error.
\<close>

definition Atoi_sign :: "string \<Rightarrow> bool \<times> string" where
  "Atoi_sign s =
     (case s of [] \<Rightarrow> (False, [])
      | c # cs \<Rightarrow> if c = CHR ''-'' then (True, cs) else if c = CHR ''+'' then (False, cs) else (False, s))"

definition Atoi :: "string \<Rightarrow> int \<times> num_error option" where
  "Atoi s =
     (let (neg, ds) = Atoi_sign s in
      case ParseUint ds of
        Inl ErrSyntax \<Rightarrow> (0, Some ErrSyntax)
      | Inl ErrRange \<Rightarrow> (if neg then - (2 ^ 63) else 2 ^ 63 - 1, Some ErrRange)
      | Inr n \<Rightarrow>
          if \<not> neg \<and> 2 ^ 63 \<le> n then (2 ^ 63 - 1, Some ErrRange)
          else if neg \<and> 2 ^ 63 < n then (- (2 ^ 63), Some ErrRange)
          else (if neg then - int n else int n, None))"

text \<open>\<open>uint16(i)\<close> of an \<open>int\<close>: the low 16 bits\<close>

definition to_uint16 :: "int \<Rightarrow> uint16" where
  "to_uint16 i = word_of_int i"

text \<open>\<open>strconv.FormatUint(uint64(w), 10)\<close> of a \<open>uint16\<close>, and reading it back\<close>

definition u16_str :: "uint16 \<Rightarrow> string" where
  "u16_str w = FormatUint (unat w)"

definition u16_of_str :: "string \<Rightarrow> go_error + uint16" where
  "u16_of_str s = (case Atoi s of (i, None) \<Rightarrow> Inr (to_uint16 i) | (i, Some e) \<Rightarrow> Inl ''strconv.Atoi'')"

lemma digit_char_less [simp]:
  assumes "d < 10"
  shows "is_digit (digit_char d)" "digit_of (digit_char d) = d"
  using assms by (simp_all add: is_digit_def digit_of_def digit_char_def)

lemma FormatUint_not_Nil [simp]: "FormatUint n \<noteq> []"
  by (subst FormatUint.simps) simp

lemma FormatUint_digits: "c \<in> set (FormatUint n) \<Longrightarrow> is_digit c"
proof (induction n rule: FormatUint.induct)
  case (1 n)
  then show ?case
    by (cases "n < 10") (auto simp: FormatUint.simps [of n])
qed

lemma ParseUint_loop_snoc:
  assumes "ParseUint_loop m s = Inr n" and "is_digit c" and "10 * n + digit_of c \<le> maxUint64"
  shows "ParseUint_loop m (s @ [c]) = Inr (10 * n + digit_of c)"
  using assms
proof (induction m s rule: ParseUint_loop.induct)
  case (1 m)
  then have "m \<le> maxUint64 div 10"
    by (simp add: maxUint64_def)
  with 1 show ?case by simp
next
  case (2 m d cs)
  then show ?case by (auto split: if_splits)
qed

lemma ParseUint_FormatUint: "n \<le> maxUint64 \<Longrightarrow> ParseUint_loop 0 (FormatUint n) = Inr n"
proof (induction n rule: FormatUint.induct)
  case (1 n)
  show ?case
  proof (cases "n < 10")
    case True
    then show ?thesis by (simp add: FormatUint.simps [of n] maxUint64_def)
  next
    case False
    with 1 have "ParseUint_loop 0 (FormatUint (n div 10)) = Inr (n div 10)" by simp
    then have "ParseUint_loop 0 (FormatUint (n div 10) @ [digit_char (n mod 10)])
        = Inr (10 * (n div 10) + digit_of (digit_char (n mod 10)))"
      by (rule ParseUint_loop_snoc) (use 1 in simp_all)
    with False show ?thesis by (simp add: FormatUint.simps [of n])
  qed
qed

lemma not_digits [simp]:
  "\<not> is_digit (CHR ''-'')" "\<not> is_digit (CHR ''+'')" "\<not> is_digit (CHR ''/'')"
  "\<not> is_digit (CHR '','')" "\<not> is_digit (CHR '']'')" "\<not> is_digit (CHR '' '')"
  by (simp_all add: is_digit_def)

lemma Atoi_sign_digits:
  assumes "s \<noteq> []" and "is_digit (hd s)"
  shows "Atoi_sign s = (False, s)"
proof (cases s)
  case (Cons c cs)
  with assms(2) have "c \<noteq> CHR ''-''" "c \<noteq> CHR ''+''" using not_digits(1,2) by auto
  with Cons show ?thesis by (simp add: Atoi_sign_def)
qed (use assms in simp)

lemma Atoi_FormatUint:
  assumes "n < 2 ^ 63"
  shows "Atoi (FormatUint n) = (int n, None)"
proof -
  have "Atoi_sign (FormatUint n) = (False, FormatUint n)"
    by (rule Atoi_sign_digits) (simp_all add: FormatUint_digits [of "hd (FormatUint n)" n])
  moreover have "ParseUint_loop 0 (FormatUint n) = Inr n"
    using assms by (intro ParseUint_FormatUint) (simp add: maxUint64_def)
  ultimately show ?thesis
    using assms by (simp add: Atoi_def ParseUint_def)
qed

lemma unat_uint16_less: "unat (w :: uint16) < 2 ^ 16"
  using unsigned_less [of w] by simp

lemma Atoi_u16_str [simp]: "Atoi (u16_str w) = (uint w, None)"
  using unat_uint16_less [of w] by (simp add: u16_str_def Atoi_FormatUint)

lemma to_uint16_uint [simp]: "to_uint16 (uint w) = w"
  by (simp add: to_uint16_def)

lemma u16_of_str_u16_str: "u16_of_str (u16_str w) = Inr w"
  by (simp add: u16_of_str_def)

interpretation identity_text: codec u16_str u16_of_str
  by unfold_locales (rule u16_of_str_u16_str)

lemma u16_str_digits: "c \<in> set (u16_str w) \<Longrightarrow> is_digit c"
  by (auto simp: u16_str_def FormatUint_digits)

lemma u16_str_not_Nil [simp]: "u16_str w \<noteq> []"
  by (simp add: u16_str_def)

lemma u16_str_no_slash [simp]: "CHR ''/'' \<notin> set (u16_str w)"
  using u16_str_digits not_digits(3) by blast


section \<open>\<open>strings.Split\<close> and \<open>strings.ReplaceAll\<close>\<close>

text \<open>\<open>strings.Split(s, sep)\<close> for a separator of one byte, the only kind the program uses\<close>

fun Split :: "string \<Rightarrow> char \<Rightarrow> string list" where
  "Split [] sep = [[]]"
| "Split (c # cs) sep =
     (if c = sep then [] # Split cs sep
      else (case Split cs sep of [] \<Rightarrow> [[c]] | w # ws \<Rightarrow> (c # w) # ws))"

text \<open>\<open>s[len(s)-1]\<close> of the result of a split, which is never empty\<close>

definition last_field :: "string \<Rightarrow> char \<Rightarrow> string" where
  "last_field s sep = last (Split s sep)"

text \<open>\<open>strings.ReplaceAll(s, " ", "")\<close>\<close>

definition ReplaceAll_spaces :: "string \<Rightarrow> string" where
  "ReplaceAll_spaces s = filter (\<lambda>c. c \<noteq> CHR '' '') s"

lemma Split_not_Nil [simp]: "Split s sep \<noteq> []"
  by (cases s) (auto split: list.splits)

lemma Split_no_sep: "sep \<notin> set s \<Longrightarrow> Split s sep = [s]"
  by (induction s) auto

lemma Split_append: "Split (p @ sep # s) sep = Split p sep @ Split s sep"
  by (induction p) (auto split: list.splits)

lemma last_field_append: "sep \<notin> set s \<Longrightarrow> last_field (p @ sep # s) sep = s"
  by (simp add: last_field_def Split_append Split_no_sep)

lemma hd_Split: "hd (Split s sep) = takeWhile (\<lambda>c. c \<noteq> sep) s"
  by (induction s) (auto split: list.splits)

lemma Split_fields_no_sep: "w \<in> set (Split s sep) \<Longrightarrow> sep \<notin> set w"
  by (induction s arbitrary: w) (fastforce split: list.splits if_splits)+

fun join :: "string list \<Rightarrow> char \<Rightarrow> string" where
  "join [] sep = []"
| "join [w] sep = w"
| "join (w # v # ws) sep = w @ sep # join (v # ws) sep"

lemma join_Cons_ne: "ws \<noteq> [] \<Longrightarrow> join (w # ws) sep = w @ sep # join ws sep"
  by (cases ws) auto

lemma join_Split: "join (Split s sep) sep = s"
proof (induction s)
  case Nil
  then show ?case by simp
next
  case (Cons c s)
  obtain w ws where "Split s sep = w # ws" by (cases "Split s sep") auto
  with Cons show ?case by (cases ws) (auto simp: join_Cons_ne)
qed


section \<open>JSON text of a \<open>[]uint16\<close>\<close>

text \<open>
  \<open>json.Marshal\<close> of a \<open>[]uint16\<close>: \<open>None\<close> is the nil slice, which is written as \<open>null\<close>.
\<close>

definition MarshalU16s :: "uint16 list option \<Rightarrow> string" where
  "MarshalU16s sl =
     (case sl of None \<Rightarrow> ''null''
      | Some xs \<Rightarrow> ''['' @ join (map u16_str xs) (CHR '','') @ '']'')"

text \<open>
  \<open>json.Unmarshal\<close> into a \<open>[]uint16\<close>: white space between tokens is skipped, a number has no
  superfluous leading zero and fits into 16 bits, and anything else is an error. Not covered:
  a \<open>null\<close> inside the brackets, which Go accepts and \<open>json.Marshal\<close> of a \<open>[]uint16\<close> never
  writes; it is an error here.
\<close>

definition is_ws :: "char \<Rightarrow> bool" where
  "is_ws c \<longleftrightarrow> c = CHR '' '' \<or> c = CHR 0x09 \<or> c = CHR 0x0A \<or> c = CHR 0x0D"

definition skip_ws :: "string \<Rightarrow> string" where
  "skip_ws = dropWhile is_ws"

definition dec_value :: "string \<Rightarrow> nat" where
  "dec_value s = foldl (\<lambda>n c. 10 * n + digit_of c) 0 s"

definition json_uint16 :: "string \<Rightarrow> (uint16 \<times> string) option" where
  "json_uint16 s =
     (let ds = takeWhile is_digit s in
      if ds = [] \<or> (hd ds = CHR ''0'' \<and> 1 < length ds) \<or> 65535 < dec_value ds then None
      else Some (word_of_nat (dec_value ds), dropWhile is_digit s))"

lemma length_skip_ws: "length (skip_ws s) \<le> length s"
  by (simp add: skip_ws_def length_dropWhile_le)

lemma json_uint16_length: "json_uint16 s = Some (x, r) \<Longrightarrow> length r \<le> length s"
  by (auto simp: json_uint16_def Let_def length_dropWhile_le split: if_splits)

function json_elems :: "string \<Rightarrow> (uint16 list \<times> string) option" where
  "json_elems s =
     (case json_uint16 (skip_ws s) of None \<Rightarrow> None
      | Some (x, r) \<Rightarrow>
          (case skip_ws r of [] \<Rightarrow> None
           | c # r' \<Rightarrow>
               if c = CHR '']'' then Some ([x], r')
               else if c = CHR '','' then map_option (\<lambda>(xs, r''). (x # xs, r'')) (json_elems r')
               else None))"
  by pat_completeness auto
termination
proof (relation "measure length")
  fix s x r c r' and p :: "uint16 \<times> string"
  assume "json_uint16 (skip_ws s) = Some p" "(x, r) = p" "skip_ws r = c # r'"
  then show "(r', s) \<in> measure length"
    using json_uint16_length [of "skip_ws s" x r] length_skip_ws [of s] length_skip_ws [of r]
    by simp
qed simp

declare json_elems.simps [simp del]

definition UnmarshalU16s :: "string \<Rightarrow> go_error + uint16 list option" where
  "UnmarshalU16s s =
     (let bad = Inl ''json: cannot unmarshal'' in
      case skip_ws s of [] \<Rightarrow> bad
      | c # r \<Rightarrow>
          if c = CHR ''n'' then (if take 3 r = ''ull'' \<and> skip_ws (drop 3 r) = [] then Inr None else bad)
          else if c = CHR ''['' then
            (if skip_ws r \<noteq> [] \<and> hd (skip_ws r) = CHR '']''
             then (if skip_ws (tl (skip_ws r)) = [] then Inr (Some []) else bad)
             else (case json_elems r of None \<Rightarrow> bad
                   | Some (xs, r') \<Rightarrow> if skip_ws r' = [] then Inr (Some xs) else bad))
          else bad)"

lemma dec_value_snoc: "dec_value (s @ [c]) = 10 * dec_value s + digit_of c"
  by (simp add: dec_value_def)

lemma dec_value_FormatUint: "dec_value (FormatUint n) = n"
proof (induction n rule: FormatUint.induct)
  case (1 n)
  show ?case
  proof (cases "n < 10")
    case True
    then show ?thesis by (simp add: FormatUint.simps [of n] dec_value_def)
  next
    case False
    with 1 show ?thesis by (simp add: FormatUint.simps [of n] dec_value_snoc)
  qed
qed

lemma hd_FormatUint: "hd (FormatUint n) = CHR ''0'' \<Longrightarrow> n = 0"
proof (induction n rule: FormatUint.induct)
  case (1 n)
  show ?case
  proof (cases "n < 10")
    case True
    then have "digit_of (hd (FormatUint n)) = n" by (simp add: FormatUint.simps [of n])
    with 1 show ?thesis by (simp add: digit_of_def)
  next
    case False
    with 1 show ?thesis by (simp add: FormatUint.simps [of n])
  qed
qed

lemma json_uint16_u16_str:
  assumes "r = [] \<or> \<not> is_digit (hd r)"
  shows "json_uint16 (u16_str w @ r) = Some (w, r)"
proof -
  have tw: "takeWhile is_digit (u16_str w @ r) = u16_str w"
    and dw: "dropWhile is_digit (u16_str w @ r) = r"
    using assms u16_str_digits by (cases r; simp add: takeWhile_append2 dropWhile_append2)+
  have "\<not> (hd (u16_str w) = CHR ''0'' \<and> 1 < length (u16_str w))"
    using hd_FormatUint [of "unat w"] by (auto simp: u16_str_def FormatUint.simps [of 0])
  moreover have "unat w \<le> 65535" using unat_uint16_less [of w] by simp
  ultimately show ?thesis
    using dec_value_FormatUint [of "unat w"]
    by (simp add: json_uint16_def tw dw Let_def flip: u16_str_def)
qed

lemma skip_ws_head [simp]: "\<not> is_ws c \<Longrightarrow> skip_ws (c # r) = c # r"
  by (simp add: skip_ws_def)

lemma skip_ws_Nil [simp]: "skip_ws [] = []"
  by (simp add: skip_ws_def)

lemma is_ws_not_digit: "is_digit c \<Longrightarrow> \<not> is_ws c"
  by (auto simp: is_digit_def is_ws_def)

lemma skip_ws_u16_str [simp]: "skip_ws (u16_str w @ r) = u16_str w @ r"
  using u16_str_digits [of _ w] by (cases "u16_str w") (auto simp: is_ws_not_digit)

lemma json_elems_join:
  "json_elems (join (map u16_str (x # xs)) (CHR '','') @ CHR '']'' # r) = Some (x # xs, r)"
proof (induction xs arbitrary: x)
  case Nil
  show ?case
    by (subst json_elems.simps) (simp add: json_uint16_u16_str is_ws_def)
next
  case (Cons y ys)
  then show ?case
    by (subst json_elems.simps) (simp add: json_uint16_u16_str is_ws_def)
qed

lemma Unmarshal_Marshal: "UnmarshalU16s (MarshalU16s sl) = Inr sl"
proof (cases sl)
  case None
  then show ?thesis by (simp add: MarshalU16s_def UnmarshalU16s_def is_ws_def)
next
  case (Some xs)
  show ?thesis
  proof (cases xs)
    case Nil
    with Some show ?thesis by (simp add: MarshalU16s_def UnmarshalU16s_def is_ws_def)
  next
    case (Cons y ys)
    let ?t = "join (map u16_str (y # ys)) (CHR '','') @ '']''"
    have "\<exists>t. ?t = u16_str y @ t" by (cases ys) auto
    then obtain t where t: "?t = u16_str y @ t" ..
    have "skip_ws ?t = ?t" unfolding t by simp
    moreover have "hd ?t \<noteq> CHR '']''"
      unfolding t using u16_str_digits [of "CHR '']''" y]
      by (cases "u16_str y") auto
    ultimately show ?thesis
      using json_elems_join [of y ys "[]"] Some Cons
      by (simp add: MarshalU16s_def UnmarshalU16s_def is_ws_def del: list.map)
  qed
qed

interpretation identities_json: codec MarshalU16s UnmarshalU16s
  by unfold_locales (rule Unmarshal_Marshal)

end
