(* ===== verification/Constants.thy ===== *)
theory Constants
  imports KVM_Prelude
begin

text \<open>
  The constants of \<open>src/constants/constants.go\<close> the modelled code reads. The first five are the
  key spaces of the database; every key the program writes is one of them followed by an
  identity, a workload name or a label. The lemmas say that no key of one space is a prefix of a
  key of another, so the prefix reads and prefix deletes of the client stay in their space.
\<close>

definition KvmOprIdentityToEWName :: string where
  "KvmOprIdentityToEWName = ''/kvm-opr-map-identity-to-ewname/''"

definition KvmOprEWNameToIdentity :: string where
  "KvmOprEWNameToIdentity = ''/kvm-opr-map-ewname-to-identity/''"

definition KvmOprLabelToIdentities :: string where
  "KvmOprLabelToIdentities = ''/kvm-opr-label-to-identities-map/''"

definition KvmSvcIdentitiToPodIps :: string where
  "KvmSvcIdentitiToPodIps = ''/kvm-svc-identity-podip-maps/''"

definition KvmOprIdentityToLabel :: string where
  "KvmOprIdentityToLabel = ''/kvm-opr-identity-to-label-maps/''"

definition KhpCRDName :: string where
  "KhpCRDName = ''kubearmorhostpolicies''"

definition KewCRDName :: string where
  "KewCRDName = ''kubearmorexternalworkloads''"

definition LocalHostIPAddress :: string where
  "LocalHostIPAddress = ''127.0.0.1''"

definition KubeProxyK8sPort :: string where
  "KubeProxyK8sPort = ''8001''"

definition EtcdServiceAccountName :: string where
  "EtcdServiceAccountName = ''etcd0''"

definition KvmServiceAccountName :: string where
  "KvmServiceAccountName = ''kvmservice''"

definition KvmOperatorAccountName :: string where
  "KvmOperatorAccountName = ''kvmsoperator''"

definition EtcdClientTTL :: int where
  "EtcdClientTTL = 10"

lemmas key_space_defs = KvmOprIdentityToEWName_def
  KvmOprEWNameToIdentity_def
  KvmOprLabelToIdentities_def
  KvmSvcIdentitiToPodIps_def
  KvmOprIdentityToLabel_def

lemma separate_prefixes:
  assumes "\<not> prefix a b" and "\<not> prefix b a"
  shows "\<not> prefix (a @ x) (b @ y)"
proof
  assume "prefix (a @ x) (b @ y)"
  then have "prefix a (b @ y)" by (rule append_prefixD)
  moreover have "prefix b (b @ y)" by simp
  ultimately show False using assms prefix_same_cases by blast
qed

lemma key_spaces_apart:
  "\<not> prefix KvmOprIdentityToEWName KvmOprEWNameToIdentity"
  "\<not> prefix KvmOprIdentityToEWName KvmOprLabelToIdentities"
  "\<not> prefix KvmOprIdentityToEWName KvmSvcIdentitiToPodIps"
  "\<not> prefix KvmOprIdentityToEWName KvmOprIdentityToLabel"
  "\<not> prefix KvmOprEWNameToIdentity KvmOprIdentityToEWName"
  "\<not> prefix KvmOprEWNameToIdentity KvmOprLabelToIdentities"
  "\<not> prefix KvmOprEWNameToIdentity KvmSvcIdentitiToPodIps"
  "\<not> prefix KvmOprEWNameToIdentity KvmOprIdentityToLabel"
  "\<not> prefix KvmOprLabelToIdentities KvmOprIdentityToEWName"
  "\<not> prefix KvmOprLabelToIdentities KvmOprEWNameToIdentity"
  "\<not> prefix KvmOprLabelToIdentities KvmSvcIdentitiToPodIps"
  "\<not> prefix KvmOprLabelToIdentities KvmOprIdentityToLabel"
  "\<not> prefix KvmSvcIdentitiToPodIps KvmOprIdentityToEWName"
  "\<not> prefix KvmSvcIdentitiToPodIps KvmOprEWNameToIdentity"
  "\<not> prefix KvmSvcIdentitiToPodIps KvmOprLabelToIdentities"
  "\<not> prefix KvmSvcIdentitiToPodIps KvmOprIdentityToLabel"
  "\<not> prefix KvmOprIdentityToLabel KvmOprIdentityToEWName"
  "\<not> prefix KvmOprIdentityToLabel KvmOprEWNameToIdentity"
  "\<not> prefix KvmOprIdentityToLabel KvmOprLabelToIdentities"
  "\<not> prefix KvmOprIdentityToLabel KvmSvcIdentitiToPodIps"
  by (simp_all add: key_space_defs)

lemma key_prefix_apart [simp]:
  "\<not> prefix (KvmOprIdentityToEWName @ x) (KvmOprEWNameToIdentity @ y)"
  "\<not> prefix (KvmOprIdentityToEWName @ x) (KvmOprLabelToIdentities @ y)"
  "\<not> prefix (KvmOprIdentityToEWName @ x) (KvmSvcIdentitiToPodIps @ y)"
  "\<not> prefix (KvmOprIdentityToEWName @ x) (KvmOprIdentityToLabel @ y)"
  "\<not> prefix (KvmOprEWNameToIdentity @ x) (KvmOprIdentityToEWName @ y)"
  "\<not> prefix (KvmOprEWNameToIdentity @ x) (KvmOprLabelToIdentities @ y)"
  "\<not> prefix (KvmOprEWNameToIdentity @ x) (KvmSvcIdentitiToPodIps @ y)"
  "\<not> prefix (KvmOprEWNameToIdentity @ x) (KvmOprIdentityToLabel @ y)"
  "\<not> prefix (KvmOprLabelToIdentities @ x) (KvmOprIdentityToEWName @ y)"
  "\<not> prefix (KvmOprLabelToIdentities @ x) (KvmOprEWNameToIdentity @ y)"
  "\<not> prefix (KvmOprLabelToIdentities @ x) (KvmSvcIdentitiToPodIps @ y)"
  "\<not> prefix (KvmOprLabelToIdentities @ x) (KvmOprIdentityToLabel @ y)"
  "\<not> prefix (KvmSvcIdentitiToPodIps @ x) (KvmOprIdentityToEWName @ y)"
  "\<not> prefix (KvmSvcIdentitiToPodIps @ x) (KvmOprEWNameToIdentity @ y)"
  "\<not> prefix (KvmSvcIdentitiToPodIps @ x) (KvmOprLabelToIdentities @ y)"
  "\<not> prefix (KvmSvcIdentitiToPodIps @ x) (KvmOprIdentityToLabel @ y)"
  "\<not> prefix (KvmOprIdentityToLabel @ x) (KvmOprIdentityToEWName @ y)"
  "\<not> prefix (KvmOprIdentityToLabel @ x) (KvmOprEWNameToIdentity @ y)"
  "\<not> prefix (KvmOprIdentityToLabel @ x) (KvmOprLabelToIdentities @ y)"
  "\<not> prefix (KvmOprIdentityToLabel @ x) (KvmSvcIdentitiToPodIps @ y)"
  by (rule separate_prefixes; simp only: key_spaces_apart not_False_eq_True)+

lemma key_space_prefix_apart [simp]:
  "\<not> prefix KvmOprIdentityToEWName (KvmOprEWNameToIdentity @ y)"
  "\<not> prefix KvmOprIdentityToEWName (KvmOprLabelToIdentities @ y)"
  "\<not> prefix KvmOprIdentityToEWName (KvmSvcIdentitiToPodIps @ y)"
  "\<not> prefix KvmOprIdentityToEWName (KvmOprIdentityToLabel @ y)"
  "\<not> prefix KvmOprEWNameToIdentity (KvmOprIdentityToEWName @ y)"
  "\<not> prefix KvmOprEWNameToIdentity (KvmOprLabelToIdentities @ y)"
  "\<not> prefix KvmOprEWNameToIdentity (KvmSvcIdentitiToPodIps @ y)"
  "\<not> prefix KvmOprEWNameToIdentity (KvmOprIdentityToLabel @ y)"
  "\<not> prefix KvmOprLabelToIdentities (KvmOprIdentityToEWName @ y)"
  "\<not> prefix KvmOprLabelToIdentities (KvmOprEWNameToIdentity @ y)"
  "\<not> prefix KvmOprLabelToIdentities (KvmSvcIdentitiToPodIps @ y)"
  "\<not> prefix KvmOprLabelToIdentities (KvmOprIdentityToLabel @ y)"
  "\<not> prefix KvmSvcIdentitiToPodIps (KvmOprIdentityToEWName @ y)"
  "\<not> prefix KvmSvcIdentitiToPodIps (KvmOprEWNameToIdentity @ y)"
  "\<not> prefix KvmSvcIdentitiToPodIps (KvmOprLabelToIdentities @ y)"
  "\<not> prefix KvmSvcIdentitiToPodIps (KvmOprIdentityToLabel @ y)"
  "\<not> prefix KvmOprIdentityToLabel (KvmOprIdentityToEWName @ y)"
  "\<not> prefix KvmOprIdentityToLabel (KvmOprEWNameToIdentity @ y)"
  "\<not> prefix KvmOprIdentityToLabel (KvmOprLabelToIdentities @ y)"
  "\<not> prefix KvmOprIdentityToLabel (KvmSvcIdentitiToPodIps @ y)"
  using key_prefix_apart [where x = "[]"] by simp_all

lemma key_neq [simp]:
  "KvmOprIdentityToEWName @ x \<noteq> KvmOprEWNameToIdentity @ y"
  "KvmOprIdentityToEWName @ x \<noteq> KvmOprLabelToIdentities @ y"
  "KvmOprIdentityToEWName @ x \<noteq> KvmSvcIdentitiToPodIps @ y"
  "KvmOprIdentityToEWName @ x \<noteq> KvmOprIdentityToLabel @ y"
  "KvmOprEWNameToIdentity @ x \<noteq> KvmOprIdentityToEWName @ y"
  "KvmOprEWNameToIdentity @ x \<noteq> KvmOprLabelToIdentities @ y"
  "KvmOprEWNameToIdentity @ x \<noteq> KvmSvcIdentitiToPodIps @ y"
  "KvmOprEWNameToIdentity @ x \<noteq> KvmOprIdentityToLabel @ y"
  "KvmOprLabelToIdentities @ x \<noteq> KvmOprIdentityToEWName @ y"
  "KvmOprLabelToIdentities @ x \<noteq> KvmOprEWNameToIdentity @ y"
  "KvmOprLabelToIdentities @ x \<noteq> KvmSvcIdentitiToPodIps @ y"
  "KvmOprLabelToIdentities @ x \<noteq> KvmOprIdentityToLabel @ y"
  "KvmSvcIdentitiToPodIps @ x \<noteq> KvmOprIdentityToEWName @ y"
  "KvmSvcIdentitiToPodIps @ x \<noteq> KvmOprEWNameToIdentity @ y"
  "KvmSvcIdentitiToPodIps @ x \<noteq> KvmOprLabelToIdentities @ y"
  "KvmSvcIdentitiToPodIps @ x \<noteq> KvmOprIdentityToLabel @ y"
  "KvmOprIdentityToLabel @ x \<noteq> KvmOprIdentityToEWName @ y"
  "KvmOprIdentityToLabel @ x \<noteq> KvmOprEWNameToIdentity @ y"
  "KvmOprIdentityToLabel @ x \<noteq> KvmOprLabelToIdentities @ y"
  "KvmOprIdentityToLabel @ x \<noteq> KvmSvcIdentitiToPodIps @ y"
  using key_prefix_apart by (metis prefix_order.refl)+

end
