(* ===== verification/Etcd_Client.thy ===== *)
theory Etcd_Client
  imports Go_Stdlib Constants
begin

text \<open>
  Package \<open>etcdClient\<close> (\<open>src/etcd/etcdClient.go\<close>), a wrapper around the client of etcd.

  The etcd client library and the server behind it are not part of the repository. They are the
  parameter \<open>clientv3\<close>: one function per call the wrapper makes, over an unspecified state
  \<open>'e\<close> of the server and the network. What etcd documents about these calls is the locale
  \<open>etcd_server\<close>: \<open>kvs e\<close> is the content of the key-value store and \<open>up e\<close> says that the
  server answers. The locale \<open>kv_client\<close> is what the wrapper promises to the operator and to the
  service; the sublocale proof derives it from \<open>etcd_server\<close> for the wrapper's definitions.
\<close>


section \<open>The client library as a parameter\<close>

type_synonym kv_pair = "string \<times> string"

record 'e clientv3 =
  cPut :: "string \<Rightarrow> string \<Rightarrow> 'e \<Rightarrow> go_error option \<times> 'e"
  cPutWithLease :: "string \<Rightarrow> string \<Rightarrow> int \<Rightarrow> 'e \<Rightarrow> go_error option \<times> 'e"
  cGetWithPrefix :: "string \<Rightarrow> 'e \<Rightarrow> (go_error + kv_pair list) \<times> 'e"
  cDeleteWithPrefix :: "string \<Rightarrow> 'e \<Rightarrow> go_error option \<times> 'e"
  cGrant :: "int \<Rightarrow> 'e \<Rightarrow> (go_error + int) \<times> 'e"
  cKeepAlive :: "int \<Rightarrow> 'e \<Rightarrow> go_error option \<times> 'e"


section \<open>The wrapper\<close>

text \<open>
  The lease response is kept for its identifier only. \<open>NewEtcdClient\<close> returns nil when it fails,
  and its callers do not check: a method call on the nil pointer reads \<open>cli.etcdClient\<close> and
  panics.
\<close>

record 'e EtcdClient =
  etcdClient :: "'e clientv3"
  leaseResponse :: int

type_synonym 'e etcd_ptr = "'e EtcdClient option"

definition nil_deref :: "('s, 'a) prog" where
  "nil_deref = stop_with (Panic ''invalid memory address or nil pointer dereference'')"

definition with_client :: "'e etcd_ptr \<Rightarrow> ('e EtcdClient \<Rightarrow> ('e, 'a) prog) \<Rightarrow> ('e, 'a) prog" where
  "with_client cli f = (case cli of None \<Rightarrow> nil_deref | Some c \<Rightarrow> f c)"

definition api_call :: "('e \<Rightarrow> 'a \<times> 'e) \<Rightarrow> ('e, 'a) prog" where
  "api_call f e = (case f e of (x, e') \<Rightarrow> (Ret x, e'))"

definition NewEtcdClient ::
  "(string \<Rightarrow> 'e \<Rightarrow> (go_error + 'e clientv3) \<times> 'e) \<Rightarrow> string \<Rightarrow> ('e, 'e etcd_ptr) prog" where
  "NewEtcdClient clientv3_New endpoint =
     andThen (api_call (clientv3_New endpoint)) (\<lambda>r.
       case r of Inl err \<Rightarrow> ret None
       | Inr cli \<Rightarrow>
           andThen (api_call (cGrant cli EtcdClientTTL)) (\<lambda>g.
             case g of Inl err \<Rightarrow> ret None
             | Inr lease \<Rightarrow> ret (Some \<lparr>etcdClient = cli, leaseResponse = lease\<rparr>)))"

definition EtcdPutWithTTL :: "'e etcd_ptr \<Rightarrow> string \<Rightarrow> string \<Rightarrow> ('e, go_error option) prog" where
  "EtcdPutWithTTL cli key value =
     with_client cli (\<lambda>c. api_call (cPutWithLease (etcdClient c) key value (leaseResponse c)))"

definition EtcdPut :: "'e etcd_ptr \<Rightarrow> string \<Rightarrow> string \<Rightarrow> ('e, go_error option) prog" where
  "EtcdPut cli key value = with_client cli (\<lambda>c. api_call (cPut (etcdClient c) key value))"

text \<open>\<open>Inr None\<close> is the result \<open>nil, nil\<close> for a prefix with no key.\<close>

definition EtcdGetRaw :: "'e etcd_ptr \<Rightarrow> string \<Rightarrow> ('e, go_error + kv_pair list option) prog" where
  "EtcdGetRaw cli key =
     with_client cli (\<lambda>c.
       andThen (api_call (cGetWithPrefix (etcdClient c) key)) (\<lambda>r.
         case r of Inl err \<Rightarrow> ret (Inl err)
         | Inr kv \<Rightarrow> if length kv = 0 then ret (Inr None) else ret (Inr (Some kv))))"

text \<open>
  The map that is returned is nil when the prefix has no key. A nil map reads like an empty one,
  and no caller writes to it or compares it with nil, so both are the empty association list.
\<close>

definition EtcdGet :: "'e etcd_ptr \<Rightarrow> string \<Rightarrow> ('e, go_error + (string, string) gomap) prog" where
  "EtcdGet cli key =
     with_client cli (\<lambda>c.
       andThen (api_call (cGetWithPrefix (etcdClient c) key)) (\<lambda>r.
         case r of Inl err \<Rightarrow> ret (Inl err)
         | Inr kv \<Rightarrow>
             if length kv = 0 then ret (Inr [])
             else ret (Inr (fold (\<lambda>(k, v) m. AList.update k v m) kv []))))"

definition EtcdDelete :: "'e etcd_ptr \<Rightarrow> string \<Rightarrow> ('e, go_error option) prog" where
  "EtcdDelete cli key = with_client cli (\<lambda>c. api_call (cDeleteWithPrefix (etcdClient c) key))"

text \<open>The keep-alive loop never ends; \<open>n\<close> is the number of rounds that are observed.\<close>

fun KeepAliveEtcdConnection :: "'e etcd_ptr \<Rightarrow> nat \<Rightarrow> ('e, unit) prog" where
  "KeepAliveEtcdConnection cli 0 = ret ()"
| "KeepAliveEtcdConnection cli (Suc n) =
     andThen (with_client cli (\<lambda>c. api_call (cKeepAlive (etcdClient c) (leaseResponse c))))
       (\<lambda>_. KeepAliveEtcdConnection cli n)"

lemmas etcd_op_defs = EtcdPut_def EtcdPutWithTTL_def EtcdGetRaw_def EtcdGet_def EtcdDelete_def
  with_client_def api_call_def

lemma nil_client_panics [simp]:
  "EtcdPut None k v = nil_deref" "EtcdPutWithTTL None k v = nil_deref"
  "EtcdGetRaw None k = nil_deref" "EtcdGet None k = nil_deref" "EtcdDelete None k = nil_deref"
  by (simp_all add: etcd_op_defs)


section \<open>What etcd promises\<close>

locale etcd_server =
  fixes api :: "'e clientv3" and kvs :: "'e \<Rightarrow> string \<Rightarrow> string option" and up :: "'e \<Rightarrow> bool"
  assumes put_ok: "cPut api k v e = (None, e') \<Longrightarrow> kvs e' = (kvs e)(k \<mapsto> v)"
    and put_lease_ok: "cPutWithLease api k v l e = (None, e') \<Longrightarrow> kvs e' = (kvs e)(k \<mapsto> v)"
    and get_kvs: "cGetWithPrefix api p e = (g, e') \<Longrightarrow> kvs e' = kvs e"
    and get_ok: "cGetWithPrefix api p e = (Inr kv, e') \<Longrightarrow>
      distinct (map fst kv) \<and> set kv = {(k, v). prefix p k \<and> kvs e k = Some v}"
    and delete_ok: "cDeleteWithPrefix api p e = (None, e') \<Longrightarrow>
      kvs e' = (\<lambda>k. if prefix p k then None else kvs e k)"
    and put_up: "up e \<Longrightarrow> cPut api k v e = (r, e') \<Longrightarrow> r = None \<and> up e'"
    and put_lease_up: "up e \<Longrightarrow> cPutWithLease api k v l e = (r, e') \<Longrightarrow> r = None \<and> up e'"
    and get_up: "up e \<Longrightarrow> cGetWithPrefix api p e = (g, e') \<Longrightarrow> (\<exists>kv. g = Inr kv) \<and> up e'"
    and delete_up: "up e \<Longrightarrow> cDeleteWithPrefix api p e = (r, e') \<Longrightarrow> r = None \<and> up e'"

text \<open>
  The promise of the wrapper, for any implementation of its operations: on a server that is up,
  every operation returns without an error, a read changes nothing and gives the keys with the
  prefix, a write changes one key, and a delete removes every key with the prefix.
\<close>

locale kv_client =
  fixes put putTTL :: "string \<Rightarrow> string \<Rightarrow> ('e, go_error option) prog"
    and getRaw :: "string \<Rightarrow> ('e, go_error + kv_pair list option) prog"
    and get :: "string \<Rightarrow> ('e, go_error + (string, string) gomap) prog"
    and del :: "string \<Rightarrow> ('e, go_error option) prog"
    and kvs :: "'e \<Rightarrow> string \<Rightarrow> string option" and up :: "'e \<Rightarrow> bool"
  assumes put_spec: "up e \<Longrightarrow> \<exists>e'. put k v e = (Ret None, e') \<and> up e' \<and> kvs e' = (kvs e)(k \<mapsto> v)"
    and putTTL_spec: "up e \<Longrightarrow> \<exists>e'. putTTL k v e = (Ret None, e') \<and> up e' \<and> kvs e' = (kvs e)(k \<mapsto> v)"
    and del_spec: "up e \<Longrightarrow> \<exists>e'. del p e = (Ret None, e') \<and> up e' \<and>
      kvs e' = (\<lambda>k. if prefix p k then None else kvs e k)"
    and get_spec: "up e \<Longrightarrow> \<exists>m e'. get p e = (Ret (Inr m), e') \<and> up e' \<and> kvs e' = kvs e \<and>
      gomap_ok m \<and> map_of m = (\<lambda>k. if prefix p k then kvs e k else None)"
    and getRaw_spec: "up e \<Longrightarrow> \<exists>g e'. getRaw p e = (Ret (Inr g), e') \<and> up e' \<and> kvs e' = kvs e \<and>
      (case g of None \<Rightarrow> \<forall>k. prefix p k \<longrightarrow> kvs e k = None
       | Some kv \<Rightarrow> kv \<noteq> [] \<and> distinct (map fst kv) \<and>
           set kv = {(k, v). prefix p k \<and> kvs e k = Some v})"
begin

text \<open>The laws as rules for programs that call the client directly\<close>

lemma wp_put:
  "up e \<Longrightarrow> (\<And>e'. up e' \<Longrightarrow> kvs e' = (kvs e)(k \<mapsto> v) \<Longrightarrow> Q None e') \<Longrightarrow> wp (put k v) Q e"
  using put_spec [of e k v] by (auto simp: wp_def)

lemma wp_putTTL:
  "up e \<Longrightarrow> (\<And>e'. up e' \<Longrightarrow> kvs e' = (kvs e)(k \<mapsto> v) \<Longrightarrow> Q None e') \<Longrightarrow> wp (putTTL k v) Q e"
  using putTTL_spec [of e k v] by (auto simp: wp_def)

lemma wp_del:
  "up e \<Longrightarrow> (\<And>e'. up e' \<Longrightarrow> kvs e' = (\<lambda>k. if prefix p k then None else kvs e k) \<Longrightarrow> Q None e') \<Longrightarrow>
     wp (del p) Q e"
  using del_spec [of e p] by (auto simp: wp_def)

lemma wp_get:
  "up e \<Longrightarrow> (\<And>m e'. up e' \<Longrightarrow> kvs e' = kvs e \<Longrightarrow> gomap_ok m \<Longrightarrow>
       map_of m = (\<lambda>k. if prefix p k then kvs e k else None) \<Longrightarrow> Q (Inr m) e') \<Longrightarrow> wp (get p) Q e"
  using get_spec [of e p] by (auto simp: wp_def)

lemma wp_getRaw:
  assumes "up e"
    and "\<And>kv e'. up e' \<Longrightarrow> kvs e' = kvs e \<Longrightarrow> kv \<noteq> [] \<Longrightarrow> distinct (map fst kv) \<Longrightarrow>
      set kv = {(k, v). prefix p k \<and> kvs e k = Some v} \<Longrightarrow> Q (Inr (Some kv)) e'"
    and "\<And>e'. up e' \<Longrightarrow> kvs e' = kvs e \<Longrightarrow> (\<And>k. prefix p k \<Longrightarrow> kvs e k = None) \<Longrightarrow> Q (Inr None) e'"
  shows "wp (getRaw p) Q e"
proof -
  obtain g e' where g: "getRaw p e = (Ret (Inr g), e')" "up e'" "kvs e' = kvs e"
      "case g of None \<Rightarrow> \<forall>k. prefix p k \<longrightarrow> kvs e k = None
       | Some kv \<Rightarrow> kv \<noteq> [] \<and> distinct (map fst kv) \<and> set kv = {(k, v). prefix p k \<and> kvs e k = Some v}"
    using getRaw_spec [OF assms(1)] by blast
  then show ?thesis using assms(2,3) by (cases g) (auto simp: wp_def)
qed

lemma put_get:
  assumes "up e"
  shows "\<exists>m e'. andThen (put k v) (\<lambda>_. get k) e = (Ret (Inr m), e') \<and> up e' \<and> map_of m k = Some v"
proof -
  obtain e1 where e1: "put k v e = (Ret None, e1)" "up e1" "kvs e1 = (kvs e)(k \<mapsto> v)"
    using put_spec [OF assms] by blast
  then show ?thesis
    using get_spec [OF e1(2), of k] by auto
qed

lemma del_get:
  assumes "up e"
  shows "\<exists>e'. andThen (del p) (\<lambda>_. get (p @ x)) e = (Ret (Inr []), e') \<and> up e'"
proof -
  obtain e1 where e1: "del p e = (Ret None, e1)" "up e1"
      "kvs e1 = (\<lambda>k. if prefix p k then None else kvs e k)"
    using del_spec [OF assms] by blast
  obtain m e2 where m: "get (p @ x) e1 = (Ret (Inr m), e2)" "up e2"
      "map_of m = (\<lambda>k. if prefix (p @ x) k then kvs e1 k else None)"
    using get_spec [OF e1(2), of "p @ x"] by blast
  have "map_of m = Map.empty"
    unfolding m(3) e1(3) by (rule ext) (auto dest: append_prefixD)
  then have "m = []" by (cases m) (auto simp: fun_eq_iff split: if_splits)
  with e1 m show ?thesis by simp
qed

end

lemma map_of_prefix_response:
  assumes "distinct (map fst kv)" and "set kv = {(k, v). prefix p k \<and> M k = Some v}"
  shows "map_of (rev kv) = (\<lambda>k. if prefix p k then M k else None)"
proof
  fix k
  have rev: "distinct (map fst (rev kv))" using assms(1) by (simp add: rev_map [symmetric])
  show "map_of (rev kv) k = (if prefix p k then M k else None)"
  proof (cases "prefix p k \<and> M k \<noteq> None")
    case True
    then obtain v where "M k = Some v" "(k, v) \<in> set (rev kv)" using assms(2) by auto
    with True rev show ?thesis by simp
  next
    case False
    then have "k \<notin> fst ` set (rev kv)" using assms(2) by auto
    then have "map_of (rev kv) k = None" by (simp add: map_of_eq_None_iff)
    with False show ?thesis by auto
  qed
qed

sublocale etcd_server \<subseteq> kv: kv_client
  "EtcdPut (Some \<lparr>etcdClient = api, leaseResponse = l\<rparr>)"
  "EtcdPutWithTTL (Some \<lparr>etcdClient = api, leaseResponse = l\<rparr>)"
  "EtcdGetRaw (Some \<lparr>etcdClient = api, leaseResponse = l\<rparr>)"
  "EtcdGet (Some \<lparr>etcdClient = api, leaseResponse = l\<rparr>)"
  "EtcdDelete (Some \<lparr>etcdClient = api, leaseResponse = l\<rparr>)" kvs up for l
proof (unfold_locales, goal_cases)
  case (1 e k v)
  then show ?case
    using put_up put_ok by (cases "cPut api k v e") (fastforce simp: etcd_op_defs)
next
  case (2 e k v)
  then show ?case
    using put_lease_up put_lease_ok
    by (cases "cPutWithLease api k v l e") (fastforce simp: etcd_op_defs)
next
  case (3 e p)
  then show ?case
    using delete_up delete_ok by (cases "cDeleteWithPrefix api p e") (fastforce simp: etcd_op_defs)
next
  case (4 e p)
  obtain g e' where g: "cGetWithPrefix api p e = (g, e')" by fastforce
  with 4 get_up obtain kv where kv: "g = Inr kv" "up e'" by blast
  with g get_ok have "distinct (map fst kv)" "set kv = {(k, v). prefix p k \<and> kvs e k = Some v}"
    by auto
  then have "map_of (rev kv) = (\<lambda>k. if prefix p k then kvs e k else None)"
    by (rule map_of_prefix_response)
  with g kv get_kvs [OF g] show ?case
    by (auto simp: etcd_op_defs ret_def map_of_fold_update gomap_ok_fold_update)
next
  case (5 e p)
  obtain g e' where g: "cGetWithPrefix api p e = (g, e')" by fastforce
  with 5 get_up obtain kv where kv: "g = Inr kv" "up e'" by blast
  with g get_ok have s: "distinct (map fst kv)" "set kv = {(k, v). prefix p k \<and> kvs e k = Some v}"
    by auto
  then have "kv = [] \<Longrightarrow> \<forall>k. prefix p k \<longrightarrow> kvs e k = None"
    by (metis (mono_tags, lifting) case_prod_conv empty_iff list.set(1) mem_Collect_eq option.exhaust)
  with g kv s get_kvs [OF g] show ?case
    by (cases kv) (auto simp: etcd_op_defs ret_def)
qed


context etcd_server
begin

lemmas client_laws = kv.kv_client_axioms

end


section \<open>A reference server\<close>

text \<open>
  A store in memory that can be cut off, with the documented behaviour of the calls. It shows
  that the assumptions of \<open>etcd_server\<close> can hold, and the concrete runs of the development use it.
\<close>

record mem_etcd =
  mem_data :: "kv_pair list"
  mem_online :: bool

definition mem_write :: "string \<Rightarrow> string \<Rightarrow> mem_etcd \<Rightarrow> go_error option \<times> mem_etcd" where
  "mem_write k v e =
     (if mem_online e then (None, e\<lparr>mem_data := AList.update k v (mem_data e)\<rparr>)
      else (Some ''context deadline exceeded'', e))"

definition mem_api :: "mem_etcd clientv3" where
  "mem_api =
     \<lparr>cPut = mem_write,
      cPutWithLease = (\<lambda>k v l. mem_write k v),
      cGetWithPrefix = (\<lambda>p e.
        (if mem_online e then Inr (filter (\<lambda>(k, v). prefix p k) (AList.clearjunk (mem_data e)))
         else Inl ''context deadline exceeded'', e)),
      cDeleteWithPrefix = (\<lambda>p e.
        if mem_online e then (None, e\<lparr>mem_data := filter (\<lambda>(k, v). \<not> prefix p k) (mem_data e)\<rparr>)
        else (Some ''context deadline exceeded'', e)),
      cGrant = (\<lambda>ttl e. (if mem_online e then Inr 1 else Inl ''context deadline exceeded'', e)),
      cKeepAlive = (\<lambda>l e. (None, e))\<rparr>"

definition mem_kvs :: "mem_etcd \<Rightarrow> string \<Rightarrow> string option" where
  "mem_kvs e = map_of (mem_data e)"

lemma map_of_filter_keys:
  "map_of (filter (\<lambda>(k, v). P k) kv) = (\<lambda>k. if P k then map_of kv k else None)"
  by (induction kv) auto

lemma in_clearjunk_iff: "(k, v) \<in> set (AList.clearjunk kv) \<longleftrightarrow> map_of kv k = Some v"
  using map_of_clearjunk [of kv] distinct_clearjunk [of kv]
  by (simp add: map_of_eq_Some_iff [symmetric])

lemma mem_get_distinct: "distinct (map fst (filter P (AList.clearjunk kv)))"
  by (simp add: distinct_map_filter)

interpretation mem: etcd_server mem_api mem_kvs mem_online
  by unfold_locales
    (auto simp: mem_api_def mem_write_def mem_kvs_def in_clearjunk_iff mem_get_distinct update_conv'
      map_of_filter_keys split: if_splits)



section \<open>Properties\<close>

text \<open>
  On a server that is up, what \<open>EtcdPut\<close> writes \<open>EtcdGet\<close> reads, and \<open>EtcdDelete\<close> of a key leaves
  no key that begins with it.
\<close>

theorem etcd_put_get_delete:
  assumes "etcd_server api kvs up" and "up e"
  shows "(\<exists>m e'. andThen (EtcdPut (Some \<lparr>etcdClient = api, leaseResponse = l\<rparr>) k v)
        (\<lambda>_. EtcdGet (Some \<lparr>etcdClient = api, leaseResponse = l\<rparr>) k) e = (Ret (Inr m), e') \<and> up e' \<and> gm_read [] m k = v) \<and>
    (\<exists>e'. andThen (EtcdDelete (Some \<lparr>etcdClient = api, leaseResponse = l\<rparr>) k)
        (\<lambda>_. EtcdGet (Some \<lparr>etcdClient = api, leaseResponse = l\<rparr>) (k @ x)) e = (Ret (Inr []), e') \<and> up e')"
proof -
  have kv: "kv_client
      (EtcdPut (Some \<lparr>etcdClient = api, leaseResponse = l\<rparr>)) (EtcdPutWithTTL (Some \<lparr>etcdClient = api, leaseResponse = l\<rparr>))
      (EtcdGetRaw (Some \<lparr>etcdClient = api, leaseResponse = l\<rparr>)) (EtcdGet (Some \<lparr>etcdClient = api, leaseResponse = l\<rparr>))
      (EtcdDelete (Some \<lparr>etcdClient = api, leaseResponse = l\<rparr>)) kvs up"
    by (rule etcd_server.client_laws [OF assms(1)])
  show ?thesis
    using kv_client.put_get [OF kv assms(2), of k v] kv_client.del_get [OF kv assms(2), of k x]
    by (fastforce simp: gm_read_def)
qed

theorem etcd_put_get_delete_witness:
  "\<exists>m e'. andThen (EtcdPut (Some \<lparr>etcdClient = mem_api, leaseResponse = 1\<rparr>) ''/k'' ''v'')
     (\<lambda>_. EtcdGet (Some \<lparr>etcdClient = mem_api, leaseResponse = 1\<rparr>) ''/k'') \<lparr>mem_data = [], mem_online = True\<rparr> = (Ret (Inr m), e') \<and>
     mem_online e' \<and> gm_read [] m ''/k'' = ''v''"
  using etcd_put_get_delete [OF mem.etcd_server_axioms, of "\<lparr>mem_data = [], mem_online = True\<rparr>" 1 "''/k''" "''v''" "[]"] by simp

end
