(* ===== verification/Etcd_Threads.thy ===== *)
theory Etcd_Threads
  imports Etcd_Client
begin

text \<open>
  Code that talks to etcd, cut at its calls. The gRPC server runs every handler in a goroutine of
  its own, several pods run the service, and the operator is another process: between two calls
  of one of them the others make theirs. A \<open>thread\<close> is such a piece of code as a tree: it has
  finished, or it makes one call of the wrapper and goes on with the answer. \<open>exec\<close> runs a thread
  alone, without interruption, and is the bridge to the definitions of the handlers as programs;
  \<open>pool_step\<close> lets any one thread of a pool make its next call.
\<close>

named_theorems thread_simps \<open>what the threads of the handlers compute to\<close>


section \<open>Threads\<close>

datatype 'a thread =
    Finish "'a outcome"
  | PutCall string string "go_error option \<Rightarrow> 'a thread"
  | PutTTLCall string string "go_error option \<Rightarrow> 'a thread"
  | GetRawCall string "go_error + kv_pair list option \<Rightarrow> 'a thread"
  | GetCall string "go_error + (string, string) gomap \<Rightarrow> 'a thread"
  | DeleteCall string "go_error option \<Rightarrow> 'a thread"

abbreviation done_with :: "'a \<Rightarrow> 'a thread" where
  "done_with x \<equiv> Finish (Ret x)"

primrec bind_thread :: "'a thread \<Rightarrow> ('a \<Rightarrow> 'b thread) \<Rightarrow> 'b thread" where
  "bind_thread (Finish r) f = (case r of Ret x \<Rightarrow> f x | Stop c \<Rightarrow> Finish (Stop c))"
| "bind_thread (PutCall k v g) f = PutCall k v (\<lambda>r. bind_thread (g r) f)"
| "bind_thread (PutTTLCall k v g) f = PutTTLCall k v (\<lambda>r. bind_thread (g r) f)"
| "bind_thread (GetRawCall k g) f = GetRawCall k (\<lambda>r. bind_thread (g r) f)"
| "bind_thread (GetCall k g) f = GetCall k (\<lambda>r. bind_thread (g r) f)"
| "bind_thread (DeleteCall k g) f = DeleteCall k (\<lambda>r. bind_thread (g r) f)"

primrec each_thread :: "'a list \<Rightarrow> ('a \<Rightarrow> unit thread) \<Rightarrow> unit thread" where
  "each_thread [] f = done_with ()"
| "each_thread (x # xs) f = bind_thread (f x) (\<lambda>_. each_thread xs f)"

definition fatal_thread :: "go_error option \<Rightarrow> unit thread" where
  "fatal_thread err = (case err of None \<Rightarrow> done_with () | Some e \<Rightarrow> Finish (Stop (Fatal e)))"

lemma fatal_thread_simps [simp]:
  "fatal_thread None = done_with ()" "fatal_thread (Some e) = Finish (Stop (Fatal e))"
  by (simp_all add: fatal_thread_def)


section \<open>A thread that runs alone\<close>

primrec exec :: "'e etcd_ptr \<Rightarrow> 'a thread \<Rightarrow> ('e, 'a) prog" where
  "exec cli (Finish r) = (\<lambda>e. (r, e))"
| "exec cli (PutCall k v f) = andThen (EtcdPut cli k v) (\<lambda>r. exec cli (f r))"
| "exec cli (PutTTLCall k v f) = andThen (EtcdPutWithTTL cli k v) (\<lambda>r. exec cli (f r))"
| "exec cli (GetRawCall k f) = andThen (EtcdGetRaw cli k) (\<lambda>r. exec cli (f r))"
| "exec cli (GetCall k f) = andThen (EtcdGet cli k) (\<lambda>r. exec cli (f r))"
| "exec cli (DeleteCall k f) = andThen (EtcdDelete cli k) (\<lambda>r. exec cli (f r))"

lemma exec_Finish [simp]: "exec cli (done_with x) = ret x" "exec cli (Finish (Stop c)) = stop_with c"
  by (simp_all add: fun_eq_iff ret_def stop_with_def)

declare exec.simps(1) [simp del]

lemma exec_bind [simp]: "exec cli (bind_thread t f) = andThen (exec cli t) (\<lambda>x. exec cli (f x))"
proof (induction t)
  case (Finish r)
  then show ?case by (cases r) simp_all
qed (simp_all add: andThen_assoc)

lemma exec_each [simp]: "exec cli (each_thread xs f) = for_each xs (\<lambda>x. exec cli (f x))"
  by (induction xs) simp_all

lemma exec_fatal [simp]: "exec cli (fatal_thread err) = fatal_on err"
  by (cases err) simp_all


section \<open>Threads that take turns\<close>

text \<open>One call of a thread. A call that does not return ends the thread.\<close>

definition resume :: "'a outcome \<Rightarrow> ('a \<Rightarrow> 'b thread) \<Rightarrow> 'b thread" where
  "resume r f = (case r of Ret x \<Rightarrow> f x | Stop c \<Rightarrow> Finish (Stop c))"

lemma resume_simps [simp]: "resume (Ret x) f = f x" "resume (Stop c) f = Finish (Stop c)"
  by (simp_all add: resume_def)

inductive call :: "'e etcd_ptr \<Rightarrow> 'a thread \<Rightarrow> 'e \<Rightarrow> 'a thread \<Rightarrow> 'e \<Rightarrow> bool" for cli where
  call_put: "EtcdPut cli k v e = (r, e') \<Longrightarrow> call cli (PutCall k v f) e (resume r f) e'"
| call_putTTL: "EtcdPutWithTTL cli k v e = (r, e') \<Longrightarrow> call cli (PutTTLCall k v f) e (resume r f) e'"
| call_getRaw: "EtcdGetRaw cli k e = (r, e') \<Longrightarrow> call cli (GetRawCall k f) e (resume r f) e'"
| call_get: "EtcdGet cli k e = (r, e') \<Longrightarrow> call cli (GetCall k f) e (resume r f) e'"
| call_delete: "EtcdDelete cli k e = (r, e') \<Longrightarrow> call cli (DeleteCall k f) e (resume r f) e'"

inductive_cases call_elims:
  "call cli (PutCall k v f) e t e'"
  "call cli (PutTTLCall k v f) e t e'"
  "call cli (GetRawCall k f) e t e'"
  "call cli (GetCall k f) e t e'"
  "call cli (DeleteCall k f) e t e'"

inductive_simps call_Finish [simp]: "call cli (Finish r) e t e'"

text \<open>A pool: each thread with the etcd client of its process, and the server they share.\<close>

type_synonym ('e, 'a) pool = "('e etcd_ptr \<times> 'a thread) list \<times> 'e"

inductive pool_step :: "('e, 'a) pool \<Rightarrow> ('e, 'a) pool \<Rightarrow> bool" where
  turn: "n < length ts \<Longrightarrow> ts ! n = (cli, t) \<Longrightarrow> call cli t e t' e' \<Longrightarrow>
    pool_step (ts, e) (ts[n := (cli, t')], e')"

inductive_cases pool_stepE: "pool_step p q"

abbreviation pool_runs :: "('e, 'a) pool \<Rightarrow> ('e, 'a) pool \<Rightarrow> bool" where
  "pool_runs \<equiv> pool_step\<^sup>*\<^sup>*"

text \<open>Schedules of two threads\<close>

lemma run_first: "call c1 t e t' e' \<Longrightarrow> pool_runs ([(c1, t'), q], e') z \<Longrightarrow> pool_runs ([(c1, t), q], e) z"
  using turn [of 0 "[(c1, t), q]" c1 t e t' e'] by (simp add: converse_rtranclp_into_rtranclp)

lemma run_second: "call c2 t e t' e' \<Longrightarrow> pool_runs ([q, (c2, t')], e') z \<Longrightarrow> pool_runs ([q, (c2, t)], e) z"
  using turn [of 1 "[q, (c2, t)]" c2 t e t' e'] by (simp add: converse_rtranclp_into_rtranclp)

definition finished :: "'a thread \<Rightarrow> bool" where
  "finished t = (case t of Finish r \<Rightarrow> True | _ \<Rightarrow> False)"

lemma finished_simps [simp]: "finished (Finish r)" "\<not> finished (PutCall k v f)"
  "\<not> finished (PutTTLCall k v f)" "\<not> finished (GetRawCall k f')" "\<not> finished (GetCall k g)"
  "\<not> finished (DeleteCall k f)"
  by (simp_all add: finished_def)

lemma finished_iff: "finished t \<longleftrightarrow> (\<exists>r. t = Finish r)"
  by (cases t) simp_all

text \<open>Only a finished thread cannot make a call.\<close>

lemma call_enabled: "\<not> finished t \<Longrightarrow> \<exists>t' e'. call cli t e t' e'"
proof (cases t)
  case (PutCall k v f)
  obtain r e' where "EtcdPut cli k v e = (r, e')" by fastforce
  then show ?thesis unfolding PutCall by (intro exI, rule call_put)
next
  case (PutTTLCall k v f)
  obtain r e' where "EtcdPutWithTTL cli k v e = (r, e')" by fastforce
  then show ?thesis unfolding PutTTLCall by (intro exI, rule call_putTTL)
next
  case (GetRawCall k f)
  obtain r e' where "EtcdGetRaw cli k e = (r, e')" by fastforce
  then show ?thesis unfolding GetRawCall by (intro exI, rule call_getRaw)
next
  case (GetCall k f)
  obtain r e' where "EtcdGet cli k e = (r, e')" by fastforce
  then show ?thesis unfolding GetCall by (intro exI, rule call_get)
next
  case (DeleteCall k f)
  obtain r e' where "EtcdDelete cli k e = (r, e')" by fastforce
  then show ?thesis unfolding DeleteCall by (intro exI, rule call_delete)
qed simp

lemma pool_stuck_finished:
  assumes "\<And>q. \<not> pool_step (ts, e) q" and "(cli, t) \<in> set ts"
  shows "finished t"
proof (rule ccontr)
  assume "\<not> finished t"
  from call_enabled [OF this, of cli e] obtain t' e' where "call cli t e t' e'" by (elim exE)
  moreover obtain n where "n < length ts" "ts ! n = (cli, t)"
    using assms(2) unfolding in_set_conv_nth by blast
  ultimately have "pool_step (ts, e) (ts[n := (cli, t')], e')" by (intro turn)
  then show False using assms(1) by blast
qed

text \<open>
  A call leads to a smaller tree, so that no pool goes on for ever: with each turn the multiset of
  the threads gets smaller in the multiset order.
\<close>

definition after_call :: "('a thread \<times> 'a thread) set" where
  "after_call = {(t', t).
     (case t of Finish r \<Rightarrow> False
      | PutCall k v f \<Rightarrow> \<exists>r. t' = resume r f | PutTTLCall k v f \<Rightarrow> \<exists>r. t' = resume r f
      | GetRawCall k f \<Rightarrow> \<exists>r. t' = resume r f | GetCall k f \<Rightarrow> \<exists>r. t' = resume r f
      | DeleteCall k f \<Rightarrow> \<exists>r. t' = resume r f)}"

lemma after_call_simps [simp]:
  "(t, Finish r) \<notin> after_call"
  "(t, PutCall k v f) \<in> after_call \<longleftrightarrow> (\<exists>r. t = resume r f)"
  "(t, PutTTLCall k v f) \<in> after_call \<longleftrightarrow> (\<exists>r. t = resume r f)"
  "(t, GetRawCall k f') \<in> after_call \<longleftrightarrow> (\<exists>r. t = resume r f')"
  "(t, GetCall k g) \<in> after_call \<longleftrightarrow> (\<exists>r. t = resume r g)"
  "(t, DeleteCall k f) \<in> after_call \<longleftrightarrow> (\<exists>r. t = resume r f)"
  by (simp_all add: after_call_def)

lemma call_after: "call cli t e t' e' \<Longrightarrow> (t', t) \<in> after_call"
  by (induction rule: call.induct) auto

lemma acc_after_call:
  assumes "\<And>x. f x \<in> Wellfounded.acc after_call" and "\<And>t'. (t', t) \<in> after_call \<longleftrightarrow> (\<exists>r. t' = resume r f)"
  shows "t \<in> Wellfounded.acc after_call"
proof (rule accI)
  fix t'
  assume "(t', t) \<in> after_call"
  then obtain r where t': "t' = resume r f" using assms(2) by blast
  show "t' \<in> Wellfounded.acc after_call"
  proof (cases r)
    case (Ret x)
    then show ?thesis by (simp add: t' assms(1))
  next
    case (Stop c)
    show ?thesis by (rule accI) (simp add: t' Stop)
  qed
qed

lemma wf_after_call: "wf after_call"
proof -
  have "t \<in> Wellfounded.acc after_call" for t :: "'a thread"
  proof (induction t)
    case (Finish r)
    show ?case by (rule accI) simp
  qed (rule acc_after_call; simp)+
  then show ?thesis by (simp add: wf_iff_acc)
qed

lemma mset_update_mult1:
  assumes "n < length xs" and "(y, xs ! n) \<in> r"
  shows "(mset (xs[n := y]), mset xs) \<in> mult1 r"
proof -
  have "mset xs = add_mset (xs ! n) (mset xs - {#xs ! n#})" using assms(1) by simp
  moreover have "mset (xs[n := y]) = (mset xs - {#xs ! n#}) + {#y#}"
    using assms(1) by (simp add: mset_update)
  ultimately show ?thesis unfolding mult1_def using assms(2) by fastforce
qed

lemma pool_step_smaller:
  assumes "pool_step p q"
  shows "(mset (map snd (fst q)), mset (map snd (fst p))) \<in> mult1 after_call"
  using assms
proof (cases rule: pool_step.cases)
  case (turn n ts cli t e t' e')
  then show ?thesis
    using mset_update_mult1 [of n "map snd ts" t' after_call] call_after
    by (fastforce simp: map_update)
qed

lemma wf_pool_step: "wf {(q, p). pool_step p q}"
  by (rule wf_subset [OF wf_inv_image [OF wf_mult1 [OF wf_after_call], of "\<lambda>p. mset (map snd (fst p))"]])
    (auto dest: pool_step_smaller)

text \<open>Every pool can be run until all its threads have finished.\<close>

lemma pool_can_finish: "\<exists>q. pool_runs p q \<and> (\<forall>(cli, t) \<in> set (fst q). finished t)"
proof (induction p rule: wf_induct_rule [OF wf_pool_step])
  case (1 p)
  show ?case
  proof (cases "\<exists>q. pool_step p q")
    case True
    then obtain q q' where "pool_step p q" "pool_runs q q'" "\<forall>(cli, t) \<in> set (fst q'). finished t"
      using 1 by blast
    then show ?thesis by (meson converse_rtranclp_into_rtranclp)
  next
    case False
    then have "\<forall>(cli, t) \<in> set (fst p). finished t"
      using pool_stuck_finished [of "fst p" "snd p"] by auto
    then show ?thesis by blast
  qed
qed


section \<open>What a thread may write\<close>

text \<open>
  \<open>writes_in W t\<close>: whatever answers the thread gets, it writes and deletes only keys in \<open>W\<close>.
\<close>

primrec writes_in :: "(string \<Rightarrow> bool) \<Rightarrow> 'a thread \<Rightarrow> bool" where
  "writes_in W (Finish r) \<longleftrightarrow> True"
| "writes_in W (PutCall k v f) \<longleftrightarrow> W k \<and> (\<forall>r. writes_in W (f r))"
| "writes_in W (PutTTLCall k v f) \<longleftrightarrow> W k \<and> (\<forall>r. writes_in W (f r))"
| "writes_in W (GetRawCall k f) \<longleftrightarrow> (\<forall>r. writes_in W (f r))"
| "writes_in W (GetCall k f) \<longleftrightarrow> (\<forall>r. writes_in W (f r))"
| "writes_in W (DeleteCall p f) \<longleftrightarrow> (\<forall>k. prefix p k \<longrightarrow> W k) \<and> (\<forall>r. writes_in W (f r))"

lemma writes_in_bind [simp]:
  "writes_in W t \<Longrightarrow> (\<And>x. writes_in W (f x)) \<Longrightarrow> writes_in W (bind_thread t f)"
proof (induction t)
  case (Finish r)
  then show ?case by (cases r) simp_all
qed simp_all

lemma writes_in_each: "(\<And>x. writes_in W (f x)) \<Longrightarrow> writes_in W (each_thread xs f)"
  by (induction xs) simp_all

lemma writes_in_fatal [simp]: "writes_in W (fatal_thread err)"
  by (cases err) simp_all

lemma writes_in_resume: "(\<And>x. writes_in W (f x)) \<Longrightarrow> writes_in W (resume r f)"
  by (cases r) simp_all

lemma writes_in_call: "call cli t e t' e' \<Longrightarrow> writes_in W t \<Longrightarrow> writes_in W t'"
  by (induction rule: call.induct) (auto intro: writes_in_resume)


section \<open>Pools on a server that is up\<close>

context etcd_server
begin

abbreviation etcd_client :: "int \<Rightarrow> 'e etcd_ptr" where
  "etcd_client l \<equiv> Some \<lparr>etcdClient = api, leaseResponse = l\<rparr>"

lemma call_frame:
  assumes "call (etcd_client l) t e t' e'" and "up e" and "writes_in W t"
  shows "up e' \<and> (\<forall>k. \<not> W k \<longrightarrow> kvs e' k = kvs e k)"
  using assms
proof (induction rule: call.induct)
  case (call_put k v e r e' f)
  then show ?case using kv.put_spec [of e l k v] by fastforce
next
  case (call_putTTL k v e r e' f)
  then show ?case using kv.putTTL_spec [of e l k v] by fastforce
next
  case (call_getRaw k e r e' f)
  then show ?case using kv.getRaw_spec [of e l k] by fastforce
next
  case (call_get k e r e' f)
  then show ?case using kv.get_spec [of e l k] by fastforce
next
  case (call_delete k e r e' f)
  then show ?case using kv.del_spec [of e l k] by fastforce
qed

text \<open>All threads of a pool use this server.\<close>

definition served :: "('e etcd_ptr \<times> 'a thread) list \<Rightarrow> bool" where
  "served ts \<longleftrightarrow> (\<forall>(cli, t) \<in> set ts. \<exists>l. cli = etcd_client l)"

lemma served_update: "served ts \<Longrightarrow> n < length ts \<Longrightarrow> ts ! n = (cli, t) \<Longrightarrow> served (ts[n := (cli, t')])"
  by (auto simp: served_def dest!: set_update_subset_insert [THEN subsetD] nth_mem)

lemma pool_frame:
  assumes "pool_runs (ts, e) (ts', e')" and "up e" and "served ts"
    and "\<forall>(cli, t) \<in> set ts. writes_in W t"
  shows "up e' \<and> (\<forall>k. \<not> W k \<longrightarrow> kvs e' k = kvs e k)"
proof -
  have "up e' \<and> served ts' \<and> (\<forall>(cli, t) \<in> set ts'. writes_in W t) \<and> (\<forall>k. \<not> W k \<longrightarrow> kvs e' k = kvs e k)"
    using assms(1)
  proof (induction rule: rtranclp_induct2)
    case refl
    then show ?case using assms by simp
  next
    case (step ts1 e1 ts2 e2)
    from step(2) obtain n cli t t' where n: "n < length ts1" "ts1 ! n = (cli, t)"
        and c: "call cli t e1 t' e2" and ts2: "ts2 = ts1[n := (cli, t')]"
      by (auto elim: pool_stepE)
    have t: "(cli, t) \<in> set ts1" using n by (metis nth_mem)
    then obtain l where l: "cli = etcd_client l" using step.IH by (auto simp: served_def)
    have w: "writes_in W t" using t step.IH by auto
    have "up e2 \<and> (\<forall>k. \<not> W k \<longrightarrow> kvs e2 k = kvs e1 k)"
      using call_frame c l w step.IH by blast
    moreover have "served ts2" using served_update n step.IH ts2 by blast
    moreover have "\<forall>(cli, t) \<in> set ts2. writes_in W t"
      using writes_in_call [OF c w] step.IH unfolding ts2
      by (auto dest!: set_update_subset_insert [THEN subsetD])
    ultimately show ?case using step.IH by auto
  qed
  then show ?thesis by blast
qed

end

end
