(* ===== verification/Memory_Threads.thy ===== *)
theory Memory_Threads
  imports Etcd_Threads
begin

text \<open>
  Threads of a process with a memory of its own. The operator keeps its maps, and the watcher of the
  service its labels, in memory that no other goroutine uses while it runs, so that a step in memory
  is no point of interruption. Such a thread carries its memory along and ends with the new one; the
  field of the memory that stands for the etcd server in the sequential programs is not used, since
  the server is that of the pool.

  The locale \<open>process_memory\<close> says how the record of a process holds the server and the client.
  \<open>implements th m\<close> in it says that the thread, run alone, is the sequential program; one rule per
  combinator carries it from the parts to the whole.
\<close>

named_theorems implements_intros \<open>threads that are sequential programs when they run alone\<close>


section \<open>Threads with a memory\<close>

type_synonym ('s, 'a) mthread = "'s \<Rightarrow> ('a \<times> 's) thread"

definition mt_andThen :: "('s, 'a) mthread \<Rightarrow> ('a \<Rightarrow> ('s, 'b) mthread) \<Rightarrow> ('s, 'b) mthread" where
  "mt_andThen m f s = bind_thread (m s) (\<lambda>(x, s'). f x s')"

text \<open>A step in memory\<close>

definition mt_local :: "('s, 'a) prog \<Rightarrow> ('s, 'a) mthread" where
  "mt_local m s = (case m s of (Ret x, s') \<Rightarrow> done_with (x, s') | (Stop c, s') \<Rightarrow> Finish (Stop c))"

text \<open>Calls whose error ends the process\<close>

definition mt_put :: "string \<Rightarrow> string \<Rightarrow> ('s, unit) mthread" where
  "mt_put k v s = PutCall k v (\<lambda>err. bind_thread (fatal_thread err) (\<lambda>_. done_with ((), s)))"

definition mt_delete :: "string \<Rightarrow> ('s, unit) mthread" where
  "mt_delete k s = DeleteCall k (\<lambda>err. bind_thread (fatal_thread err) (\<lambda>_. done_with ((), s)))"

text \<open>Calls that return what they read\<close>

definition mt_get :: "string \<Rightarrow> ('s, go_error + (string, string) gomap) mthread" where
  "mt_get p s = GetCall p (\<lambda>r. done_with (r, s))"

definition mt_getRaw :: "string \<Rightarrow> ('s, go_error + kv_pair list option) mthread" where
  "mt_getRaw p s = GetRawCall p (\<lambda>r. done_with (r, s))"

primrec mt_each :: "'a list \<Rightarrow> ('a \<Rightarrow> ('s, unit) mthread) \<Rightarrow> ('s, unit) mthread" where
  "mt_each [] f = mt_local (ret ())"
| "mt_each (x # xs) f = mt_andThen (f x) (\<lambda>_. mt_each xs f)"


section \<open>Threads and programs\<close>

locale process_memory =
  fixes store :: "'s \<Rightarrow> 'e" and set_store :: "'e \<Rightarrow> 's \<Rightarrow> 's" and cli :: "'s \<Rightarrow> 'e etcd_ptr"
  assumes store_set [simp]: "store (set_store e s) = e"
    and set_set [simp]: "set_store e (set_store e' s) = set_store e s"
    and cli_set [simp]: "cli (set_store e s) = cli s"
begin

definition implements :: "('s, 'a) mthread \<Rightarrow> ('s, 'a) prog \<Rightarrow> bool" where
  "implements th m \<longleftrightarrow> (\<forall>s e.
     case exec (cli s) (th s) e of
       (Ret (x, s'), e') \<Rightarrow> m (set_store e s) = (Ret x, set_store e' s') \<and> cli s' = cli s
     | (Stop c, e') \<Rightarrow> (case m (set_store e s) of (r, t) \<Rightarrow> r = Stop c \<and> store t = e'))"

lemma implementsD:
  assumes "implements th m"
  shows "case exec (cli s) (th s) e of
       (Ret (x, s'), e') \<Rightarrow> m (set_store e s) = (Ret x, set_store e' s') \<and> cli s' = cli s
     | (Stop c, e') \<Rightarrow> (case m (set_store e s) of (r, t) \<Rightarrow> r = Stop c \<and> store t = e')"
  by (rule assms [unfolded implements_def, THEN spec, THEN spec])

text \<open>A program that neither looks at the server nor changes it\<close>

definition in_memory :: "('s, 'a) prog \<Rightarrow> bool" where
  "in_memory m \<longleftrightarrow> (\<forall>s e. m (set_store e s) = (case m s of (r, t) \<Rightarrow> (r, set_store e t)) \<and> cli (snd (m s)) = cli s)"

text \<open>A call of the client in a sequential program\<close>

definition on_server :: "('e etcd_ptr \<Rightarrow> ('e, 'a) prog) \<Rightarrow> ('s, 'a) prog" where
  "on_server q s = on_part store set_store (q (cli s)) s"

lemma implements_local [implements_intros]: "in_memory m \<Longrightarrow> implements (mt_local m) m"
  by (auto simp: implements_def in_memory_def mt_local_def ret_def stop_with_def split: prod.splits outcome.splits)
    (metis snd_conv)

lemma implements_put [implements_intros]: "implements (mt_put k v) (andThen (on_server (\<lambda>c. EtcdPut c k v)) fatal_on)"
  by (auto simp: implements_def mt_put_def andThen_def on_server_def on_part_def prog_simps fatal_on_def
      split: prod.splits outcome.splits option.splits)

lemma implements_delete [implements_intros]: "implements (mt_delete k) (andThen (on_server (\<lambda>c. EtcdDelete c k)) fatal_on)"
  by (auto simp: implements_def mt_delete_def andThen_def on_server_def on_part_def prog_simps fatal_on_def
      split: prod.splits outcome.splits option.splits)

lemma implements_get [implements_intros]: "implements (mt_get p) (on_server (\<lambda>c. EtcdGet c p))"
  by (auto simp: implements_def mt_get_def andThen_def on_server_def on_part_def prog_simps split: prod.splits outcome.splits)

lemma implements_getRaw [implements_intros]: "implements (mt_getRaw p) (on_server (\<lambda>c. EtcdGetRaw c p))"
  by (auto simp: implements_def mt_getRaw_def andThen_def on_server_def on_part_def prog_simps split: prod.splits outcome.splits)

lemma implements_andThen [implements_intros]:
  assumes "implements th m" and "\<And>x. implements (g x) (f x)"
  shows "implements (mt_andThen th g) (andThen m f)"
  unfolding implements_def
proof (intro allI)
  fix s e
  obtain r e1 where run: "exec (cli s) (th s) e = (r, e1)" by fastforce
  note m = implementsD [OF assms(1), where s = s and e = e]
  show "case exec (cli s) (mt_andThen th g s) e of
       (Ret (x, s'), e') \<Rightarrow> andThen m f (set_store e s) = (Ret x, set_store e' s') \<and> cli s' = cli s
     | (Stop c, e') \<Rightarrow> (case andThen m f (set_store e s) of (r, t) \<Rightarrow> r = Stop c \<and> store t = e')"
  proof (cases r)
    case (Ret y)
    obtain x s1 where y: "y = (x, s1)" by fastforce
    have s1: "m (set_store e s) = (Ret x, set_store e1 s1)" "cli s1 = cli s" using m run Ret y by simp_all
    have f: "andThen m f (set_store e s) = f x (set_store e1 s1)" by (simp add: andThen_def s1)
    have "exec (cli s) (mt_andThen th g s) e = exec (cli s) (g x s1) e1"
      using run by (simp add: mt_andThen_def andThen_def Ret y)
    then show ?thesis unfolding f using implementsD [OF assms(2), where s = s1 and e = e1] by (simp only: s1(2))
  next
    case (Stop c)
    then show ?thesis using m run by (auto simp: mt_andThen_def andThen_def split: prod.splits outcome.splits)
  qed
qed

lemma implements_if [implements_intros]:
  "implements th m \<Longrightarrow> implements th' m' \<Longrightarrow> implements (if b then th else th') (if b then m else m')"
  by simp

lemma in_memory_basic [implements_intros]: "in_memory (ret x)" "in_memory (stop_with c)"
  by (simp_all add: in_memory_def prog_simps)

lemma in_memory_reads [implements_intros]: "(\<And>s e. f (set_store e s) = f s) \<Longrightarrow> in_memory (reads f)"
  by (simp add: in_memory_def prog_simps)

lemma in_memory_modify [implements_intros]:
  "(\<And>s e. f (set_store e s) = set_store e (f s)) \<Longrightarrow> (\<And>s. cli (f s) = cli s) \<Longrightarrow> in_memory (modify f)"
  by (simp add: in_memory_def prog_simps)

lemma in_memory_andThen [implements_intros]:
  assumes "in_memory m" and "\<And>x. in_memory (f x)"
  shows "in_memory (andThen m f)"
  unfolding in_memory_def
proof (intro allI)
  fix s e
  obtain r t where r: "m s = (r, t)" by fastforce
  have m: "m (set_store e s) = (r, set_store e t)" "cli t = cli s"
    using assms(1) r by (auto simp: in_memory_def) (metis snd_conv)
  show "andThen m f (set_store e s) = (case andThen m f s of (r, t) \<Rightarrow> (r, set_store e t)) \<and>
      cli (snd (andThen m f s)) = cli s"
    using assms(2) m r by (cases r) (auto simp: in_memory_def)
qed

lemma in_memory_if [implements_intros]: "in_memory m \<Longrightarrow> in_memory n \<Longrightarrow> in_memory (if b then m else n)"
  by simp

lemma in_memory_each: "(\<And>x. in_memory (f x)) \<Longrightarrow> in_memory (for_each xs f)"
  by (induction xs) (auto intro!: in_memory_basic in_memory_andThen)

lemma implements_each [implements_intros]: "(\<And>x. implements (th x) (f x)) \<Longrightarrow> implements (mt_each xs th) (for_each xs f)"
  by (induction xs) (auto intro!: implements_local in_memory_basic implements_andThen)

end

end
