(* ===== verification/Types.thy ===== *)
theory Types
  imports Etcd_Client
begin

text \<open>
  The structures of \<open>src/types/types.go\<close> that flow through the operator and the service: the host
  policy with its rules, the external workload, and the watch events. Field names carry a short
  prefix, because two structures may have a field of the same name.

  A map or slice is \<open>None\<close> for Go's nil where the program can tell nil from empty (the labels and
  identities that \<open>reflect.DeepEqual\<close> compares); the slices inside the rules are plain lists,
  because nothing the program does distinguishes nil from empty there. Of the Kubernetes
  \<open>ObjectMeta\<close> the two fields the program reads are kept.
\<close>

record ObjectMeta =
  om_Name :: string
  om_Labels :: "(string, string) gomap option"

record MatchSourceType =
  ms_Path :: string
  ms_Directory :: string
  ms_Recursive :: bool

record ProcessPathType =
  pp_Path :: string
  pp_OwnerOnly :: bool
  pp_FromSource :: "MatchSourceType list"
  pp_Severity :: int
  pp_Tags :: "string list"
  pp_Message :: string
  pp_Action :: string

record ProcessDirectoryType =
  pd_Directory :: string
  pd_Recursive :: bool
  pd_OwnerOnly :: bool
  pd_FromSource :: "MatchSourceType list"
  pd_Severity :: int
  pd_Tags :: "string list"
  pd_Message :: string
  pd_Action :: string

record ProcessPatternType =
  pt_Pattern :: string
  pt_OwnerOnly :: bool
  pt_Severity :: int
  pt_Tags :: "string list"
  pt_Message :: string
  pt_Action :: string

record ProcessType =
  pr_MatchPaths :: "ProcessPathType list"
  pr_MatchDirectories :: "ProcessDirectoryType list"
  pr_MatchPatterns :: "ProcessPatternType list"
  pr_Severity :: int
  pr_Tags :: "string list"
  pr_Message :: string
  pr_Action :: string

record FilePathType =
  fp_Path :: string
  fp_ReadOnly :: bool
  fp_OwnerOnly :: bool
  fp_FromSource :: "MatchSourceType list"
  fp_Severity :: int
  fp_Tags :: "string list"
  fp_Message :: string
  fp_Action :: string

record FileDirectoryType =
  fd_Directory :: string
  fd_ReadOnly :: bool
  fd_Recursive :: bool
  fd_OwnerOnly :: bool
  fd_FromSource :: "MatchSourceType list"
  fd_Severity :: int
  fd_Tags :: "string list"
  fd_Message :: string
  fd_Action :: string

record FilePatternType =
  ft_Pattern :: string
  ft_ReadOnly :: bool
  ft_OwnerOnly :: bool
  ft_Severity :: int
  ft_Tags :: "string list"
  ft_Message :: string
  ft_Action :: string

record FileType =
  fi_MatchPaths :: "FilePathType list"
  fi_MatchDirectories :: "FileDirectoryType list"
  fi_MatchPatterns :: "FilePatternType list"
  fi_Severity :: int
  fi_Tags :: "string list"
  fi_Message :: string
  fi_Action :: string

record NetworkProtocolType =
  np_Protocol :: string
  np_FromSource :: "MatchSourceType list"
  np_Severity :: int
  np_Tags :: "string list"
  np_Message :: string
  np_Action :: string

record NetworkType =
  nw_MatchProtocols :: "NetworkProtocolType list"
  nw_Severity :: int
  nw_Tags :: "string list"
  nw_Message :: string
  nw_Action :: string

record CapabilitiesCapabilityType =
  cc_Capability :: string
  cc_FromSource :: "MatchSourceType list"
  cc_Severity :: int
  cc_Tags :: "string list"
  cc_Message :: string
  cc_Action :: string

record CapabilitiesType =
  ca_MatchCapabilities :: "CapabilitiesCapabilityType list"
  ca_Severity :: int
  ca_Tags :: "string list"
  ca_Message :: string
  ca_Action :: string

record NodeSelectorType =
  ns_MatchLabels :: "(string, string) gomap option"
  ns_Identities :: "string list option"

record HostSecuritySpec =
  hs_NodeSelector :: NodeSelectorType
  hs_Process :: ProcessType
  hs_File :: FileType
  hs_Network :: NetworkType
  hs_Capabilities :: CapabilitiesType
  hs_AppArmor :: string
  hs_Severity :: int
  hs_Tags :: "string list"
  hs_Message :: string
  hs_Action :: string

record HostSecurityPolicy =
  hp_Metadata :: "(string, string) gomap"
  hp_Spec :: HostSecuritySpec

record K8sPolicyStatus =
  st_Status :: string

record K8sKubeArmorHostPolicy =
  kh_Metadata :: ObjectMeta
  kh_Spec :: HostSecuritySpec
  kh_Status :: K8sPolicyStatus

record K8sKubeArmorHostPolicyEvent =
  he_Type :: string
  he_Object :: K8sKubeArmorHostPolicy

record K8sKubeArmorHostPolicyEventWithIdentity =
  wi_Event :: K8sKubeArmorHostPolicyEvent
  wi_Identity :: uint16
  wi_CloseConnection :: bool

record ExternalWorkloadSecuritySpec =
  es_IPv4AllocCIDR :: string
  es_IPv6AllocCIDR :: string

record K8sKubeArmorExternalWorkloadPolicyStatus =
  ws_ID :: "64 word"
  ws_IP :: string
  ws_Status :: string

record K8sKubeArmorExternalWorkloadPolicy =
  ke_Metadata :: ObjectMeta
  ke_Spec :: ExternalWorkloadSecuritySpec
  ke_Status :: K8sKubeArmorExternalWorkloadPolicyStatus

record K8sKubeArmorExternalWorkloadPolicyEvent =
  we_Type :: string
  we_Object :: K8sKubeArmorExternalWorkloadPolicy

record ExternalWorkloadMetadata =
  em_NodeSelector :: NodeSelectorType
  em_Name :: string

record ExternalWorkloadSecurityPolicy =
  ew_Metadata :: ExternalWorkloadMetadata

text \<open>The zero values of the structures, which \<open>T{}\<close> denotes in Go.\<close>

definition zero_NodeSelectorType :: NodeSelectorType where
  "zero_NodeSelectorType =
     \<lparr>ns_MatchLabels = None, ns_Identities = None\<rparr>"

definition zero_ProcessType :: ProcessType where
  "zero_ProcessType =
     \<lparr>pr_MatchPaths = [], pr_MatchDirectories = [], pr_MatchPatterns = [], pr_Severity = 0, pr_Tags = [], pr_Message = [], pr_Action = []\<rparr>"

definition zero_FileType :: FileType where
  "zero_FileType =
     \<lparr>fi_MatchPaths = [], fi_MatchDirectories = [], fi_MatchPatterns = [], fi_Severity = 0, fi_Tags = [], fi_Message = [], fi_Action = []\<rparr>"

definition zero_NetworkType :: NetworkType where
  "zero_NetworkType =
     \<lparr>nw_MatchProtocols = [], nw_Severity = 0, nw_Tags = [], nw_Message = [], nw_Action = []\<rparr>"

definition zero_CapabilitiesType :: CapabilitiesType where
  "zero_CapabilitiesType =
     \<lparr>ca_MatchCapabilities = [], ca_Severity = 0, ca_Tags = [], ca_Message = [], ca_Action = []\<rparr>"

definition zero_HostSecuritySpec :: HostSecuritySpec where
  "zero_HostSecuritySpec =
     \<lparr>hs_NodeSelector = zero_NodeSelectorType, hs_Process = zero_ProcessType, hs_File = zero_FileType, hs_Network = zero_NetworkType, hs_Capabilities = zero_CapabilitiesType, hs_AppArmor = [], hs_Severity = 0, hs_Tags = [], hs_Message = [], hs_Action = []\<rparr>"

definition zero_HostPolicyEvent :: K8sKubeArmorHostPolicyEvent where
  "zero_HostPolicyEvent =
     \<lparr>he_Type = [], he_Object =
       \<lparr>kh_Metadata = \<lparr>om_Name = [], om_Labels = None\<rparr>, kh_Spec = zero_HostSecuritySpec,
        kh_Status = \<lparr>st_Status = []\<rparr>\<rparr>\<rparr>"

text \<open>
  \<open>reflect.DeepEqual\<close> on a map: both nil, or both not nil with the same keys and values, in
  whatever order the entries are held; on a workload: field by field.
\<close>

definition DeepEqual_gomap :: "(string, string) gomap option \<Rightarrow> (string, string) gomap option \<Rightarrow> bool" where
  "DeepEqual_gomap a b =
     (case (a, b) of
        (None, None) \<Rightarrow> True
      | (Some m, Some n) \<Rightarrow> length m = length n \<and> list_all (\<lambda>(k, v). map_of n k = Some v) m
      | _ \<Rightarrow> False)"

definition DeepEqual_workload ::
  "ExternalWorkloadSecurityPolicy \<Rightarrow> ExternalWorkloadSecurityPolicy \<Rightarrow> bool" where
  "DeepEqual_workload p q \<longleftrightarrow>
     DeepEqual_gomap (ns_MatchLabels (em_NodeSelector (ew_Metadata p)))
       (ns_MatchLabels (em_NodeSelector (ew_Metadata q))) \<and>
     ns_Identities (em_NodeSelector (ew_Metadata p)) = ns_Identities (em_NodeSelector (ew_Metadata q)) \<and>
     em_Name (ew_Metadata p) = em_Name (ew_Metadata q)"

text \<open>The labels of a nil map are those of an empty one for every read of it.\<close>

definition labels_of :: "(string, string) gomap option \<Rightarrow> (string, string) gomap" where
  "labels_of m = (case m of None \<Rightarrow> [] | Some l \<Rightarrow> l)"

lemma labels_of_simps [simp]: "labels_of None = []" "labels_of (Some l) = l"
  by (simp_all add: labels_of_def)

lemma DeepEqual_gomap_refl:
  "gomap_ok (labels_of a) \<Longrightarrow> DeepEqual_gomap a a"
  by (cases a) (auto simp: DeepEqual_gomap_def list_all_iff)

lemma DeepEqual_gomap_iff:
  assumes "gomap_ok m" and "gomap_ok n"
  shows "DeepEqual_gomap (Some m) (Some n) \<longleftrightarrow> map_of m = map_of n"
proof
  assume eq: "DeepEqual_gomap (Some m) (Some n)"
  have sub: "set m \<subseteq> set n"
    using eq assms(2) by (auto simp: DeepEqual_gomap_def list_all_iff dest: map_of_SomeD)
  moreover have "card (set n) \<le> card (set m)"
    using eq assms by (simp add: DeepEqual_gomap_def distinct_card distinct_map)
  ultimately have "set m = set n"
    by (metis List.finite_set card_seteq)
  then show "map_of m = map_of n"
    by (rule map_of_inject_set [THEN iffD2, OF assms])
next
  assume eq: "map_of m = map_of n"
  then have "set m = set n" by (rule map_of_inject_set [THEN iffD1, OF assms])
  then have "length m = length n"
    using assms by (metis distinct_card distinct_map)
  with eq [symmetric] assms(1) show "DeepEqual_gomap (Some m) (Some n)"
    by (auto simp: DeepEqual_gomap_def list_all_iff)
qed

end
