(* ===== verification/Json_Codec.thy ===== *)
theory Json_Codec
  imports Types "HOL-Library.Monad_Syntax"
begin

text \<open>
  \<open>encoding/json\<close> for the host policy structures of \<open>src/types/types.go\<close>, at the level of JSON
  values, and \<open>Clone\<close> of \<open>src/common/common.go\<close>, which copies a value by writing and reading its
  JSON. Each structure has a writer and a reader that follow its field tags: the name of the
  field, and \<open>omitempty\<close>, which leaves a zero number, \<open>false\<close>, an empty string, list or map out.
  (On a field of structure type the tag has no effect.) A reader leaves the zero value in a field
  that is missing or \<open>null\<close> and fails on a value of the wrong kind.

  Strings are taken to be valid UTF-8, as everything read from the API server is; \<open>json.Marshal\<close>
  would replace other bytes. The order of the members of an object carries no meaning.
\<close>

datatype json =
  JNull | JBool bool | JNum int | JStr string | JArr "json list" | JObj "(string \<times> json) list"


section \<open>Fields\<close>

definition omit_string :: "string \<Rightarrow> string \<Rightarrow> (string \<times> json) list" where
  "omit_string k s = (if s = [] then [] else [(k, JStr s)])"

definition omit_int :: "string \<Rightarrow> int \<Rightarrow> (string \<times> json) list" where
  "omit_int k i = (if i = 0 then [] else [(k, JNum i)])"

definition omit_bool :: "string \<Rightarrow> bool \<Rightarrow> (string \<times> json) list" where
  "omit_bool k b = (if \<not> b then [] else [(k, JBool b)])"

definition omit_list :: "string \<Rightarrow> ('a \<Rightarrow> json) \<Rightarrow> 'a list \<Rightarrow> (string \<times> json) list" where
  "omit_list k enc xs = (if xs = [] then [] else [(k, JArr (map enc xs))])"

definition omit_map :: "string \<Rightarrow> (string, string) gomap option \<Rightarrow> (string \<times> json) list" where
  "omit_map k m = (if labels_of m = [] then [] else [(k, JObj (map (\<lambda>(a, b). (a, JStr b)) (labels_of m)))])"

definition omit_strings :: "string \<Rightarrow> string list option \<Rightarrow> (string \<times> json) list" where
  "omit_strings k xs =
     (case xs of None \<Rightarrow> [] | Some ys \<Rightarrow> omit_list k JStr ys)"

definition read_field :: "'a \<Rightarrow> (json \<Rightarrow> 'a option) \<Rightarrow> string \<Rightarrow> (string \<times> json) list \<Rightarrow> 'a option" where
  "read_field z dec k obj =
     (case map_of obj k of None \<Rightarrow> Some z | Some j \<Rightarrow> if j = JNull then Some z else dec j)"

definition read_string :: "json \<Rightarrow> string option" where
  "read_string j = (case j of JStr s \<Rightarrow> Some s | _ \<Rightarrow> None)"

definition read_int :: "json \<Rightarrow> int option" where
  "read_int j = (case j of JNum i \<Rightarrow> Some i | _ \<Rightarrow> None)"

definition read_bool :: "json \<Rightarrow> bool option" where
  "read_bool j = (case j of JBool b \<Rightarrow> Some b | _ \<Rightarrow> None)"

definition read_list :: "(json \<Rightarrow> 'a option) \<Rightarrow> json \<Rightarrow> 'a list option" where
  "read_list dec j = (case j of JArr js \<Rightarrow> those (map dec js) | _ \<Rightarrow> None)"

definition read_map :: "json \<Rightarrow> (string, string) gomap option option" where
  "read_map j =
     (case j of
        JObj ms \<Rightarrow>
          map_option Some (those (map (\<lambda>(k, v). map_option (Pair k) (read_string v)) ms))
      | _ \<Rightarrow> None)"

definition read_object :: "((string \<times> json) list \<Rightarrow> 'a option) \<Rightarrow> json \<Rightarrow> 'a option" where
  "read_object dec j = (case j of JObj ms \<Rightarrow> dec ms | _ \<Rightarrow> None)"

text \<open>
  Reading a field of an object that was written field by field: fields of other names are
  skipped, and the field itself gives back what was written, also when it was left out.
\<close>

lemma read_field_skip [simp]:
  "k \<noteq> k' \<Longrightarrow> read_field z d k ((k', j) # r) = read_field z d k r"
  "k \<noteq> k' \<Longrightarrow> read_field z d k (omit_string k' s @ r) = read_field z d k r"
  "k \<noteq> k' \<Longrightarrow> read_field z d k (omit_int k' i @ r) = read_field z d k r"
  "k \<noteq> k' \<Longrightarrow> read_field z d k (omit_bool k' b @ r) = read_field z d k r"
  "k \<noteq> k' \<Longrightarrow> read_field z d k (omit_list k' enc xs @ r) = read_field z d k r"
  "k \<noteq> k' \<Longrightarrow> read_field z d k (omit_map k' m @ r) = read_field z d k r"
  "k \<noteq> k' \<Longrightarrow> read_field z d k (omit_strings k' ys @ r) = read_field z d k r"
  by (simp_all add: read_field_def omit_string_def omit_int_def omit_bool_def omit_list_def
      omit_map_def omit_strings_def split: option.splits)

lemma read_field_Nil [simp]: "read_field z d k [] = Some z"
  by (simp add: read_field_def)

lemma read_field_here [simp]: "j \<noteq> JNull \<Longrightarrow> read_field z d k ((k, j) # r) = d j"
  by (simp add: read_field_def)

lemma those_map_map: "(\<And>x. dec (enc x) = Some x) \<Longrightarrow> those (map dec (map enc xs)) = Some xs"
  by (induction xs) simp_all

lemma read_list_JArr:
  "(\<And>x. dec (enc x) = Some x) \<Longrightarrow> read_list dec (JArr (map enc xs)) = Some xs"
  unfolding read_list_def by (simp only: json.case those_map_map)

lemma read_map_JObj: "read_map (JObj (map (\<lambda>(a, b). (a, JStr b)) m)) = Some (Some m)"
proof -
  have "those (map (\<lambda>(k, v). map_option (Pair k) (read_string v)) (map (\<lambda>(a, b). (a, JStr b)) m)) = Some m"
    by (induction m) (auto simp: read_string_def)
  then show ?thesis by (simp add: read_map_def)
qed

lemma read_scalars [simp]:
  "read_string (JStr s) = Some s" "read_int (JNum i) = Some i" "read_bool (JBool b) = Some b"
  by (simp_all add: read_string_def read_int_def read_bool_def)

lemma read_omit_scalars [simp]:
  "read_field [] read_string k r = Some [] \<Longrightarrow> read_field [] read_string k (omit_string k s @ r) = Some s"
  "read_field 0 read_int k r = Some 0 \<Longrightarrow> read_field 0 read_int k (omit_int k i @ r) = Some i"
  "read_field False read_bool k r = Some False \<Longrightarrow>
     read_field False read_bool k (omit_bool k b @ r) = Some b"
  by (simp_all add: omit_string_def omit_int_def omit_bool_def)

lemma read_omit_list:
  assumes "\<And>x. dec (enc x) = Some x" and "read_field [] (read_list dec) k r = Some []"
  shows "read_field [] (read_list dec) k (omit_list k enc xs @ r) = Some xs"
  using assms read_list_JArr [of dec enc xs] by (simp add: omit_list_def)

lemmas read_omit_JStr [simp] = read_omit_list [of read_string JStr, OF read_scalars(1)]

lemma read_omit_map [simp]:
  "read_field None read_map k r = Some None \<Longrightarrow>
     read_field None read_map k (omit_map k m @ r) = Some (if labels_of m = [] then None else m)"
  by (cases m) (simp_all add: omit_map_def read_map_JObj)

lemma read_omit_strings [simp]:
  "read_field None (\<lambda>j. map_option Some (read_list read_string j)) k r = Some None \<Longrightarrow>
     read_field None (\<lambda>j. map_option Some (read_list read_string j)) k (omit_strings k ys @ r) =
       Some (if ys = Some [] then None else ys)"
  using read_list_JArr [of read_string JStr] by (cases ys) (simp_all add: omit_strings_def omit_list_def)


section \<open>The structures\<close>

text \<open>
  One writer and one reader per structure, in the order of the source, each with its round trip.
\<close>

definition enc_MatchSourceType :: "MatchSourceType \<Rightarrow> json" where
  "enc_MatchSourceType x = JObj
     (omit_string ''path'' (ms_Path x) @
      omit_string ''dir'' (ms_Directory x) @
      omit_bool ''recursive'' (ms_Recursive x) @ [])"

definition dec_MatchSourceType :: "json \<Rightarrow> MatchSourceType option" where
  "dec_MatchSourceType = read_object (\<lambda>ms. do {
     f0 \<leftarrow> read_field [] read_string ''path'' ms;
     f1 \<leftarrow> read_field [] read_string ''dir'' ms;
     f2 \<leftarrow> read_field False read_bool ''recursive'' ms;
     Some \<lparr>ms_Path = f0, ms_Directory = f1, ms_Recursive = f2\<rparr> })"

lemma dec_enc_MatchSourceType: "dec_MatchSourceType (enc_MatchSourceType x) = Some x"
  by (cases x) (simp add: enc_MatchSourceType_def dec_MatchSourceType_def read_object_def
       del: append_Nil2)

definition enc_ProcessPathType :: "ProcessPathType \<Rightarrow> json" where
  "enc_ProcessPathType x = JObj
     ([(''path'', JStr (pp_Path x))] @
      omit_bool ''ownerOnly'' (pp_OwnerOnly x) @
      omit_list ''fromSource'' enc_MatchSourceType (pp_FromSource x) @
      omit_int ''severity'' (pp_Severity x) @
      omit_list ''tags'' JStr (pp_Tags x) @
      omit_string ''message'' (pp_Message x) @
      omit_string ''action'' (pp_Action x) @ [])"

definition dec_ProcessPathType :: "json \<Rightarrow> ProcessPathType option" where
  "dec_ProcessPathType = read_object (\<lambda>ms. do {
     f0 \<leftarrow> read_field [] read_string ''path'' ms;
     f1 \<leftarrow> read_field False read_bool ''ownerOnly'' ms;
     f2 \<leftarrow> read_field [] (read_list dec_MatchSourceType) ''fromSource'' ms;
     f3 \<leftarrow> read_field 0 read_int ''severity'' ms;
     f4 \<leftarrow> read_field [] (read_list read_string) ''tags'' ms;
     f5 \<leftarrow> read_field [] read_string ''message'' ms;
     f6 \<leftarrow> read_field [] read_string ''action'' ms;
     Some \<lparr>pp_Path = f0, pp_OwnerOnly = f1, pp_FromSource = f2, pp_Severity = f3, pp_Tags = f4, pp_Message = f5, pp_Action = f6\<rparr> })"

lemma dec_enc_ProcessPathType: "dec_ProcessPathType (enc_ProcessPathType x) = Some x"
  by (cases x) (simp add: enc_ProcessPathType_def dec_ProcessPathType_def read_object_def
      read_omit_list [of dec_MatchSourceType enc_MatchSourceType, OF dec_enc_MatchSourceType] del: append_Nil2)

definition enc_ProcessDirectoryType :: "ProcessDirectoryType \<Rightarrow> json" where
  "enc_ProcessDirectoryType x = JObj
     ([(''dir'', JStr (pd_Directory x))] @
      omit_bool ''recursive'' (pd_Recursive x) @
      omit_bool ''ownerOnly'' (pd_OwnerOnly x) @
      omit_list ''fromSource'' enc_MatchSourceType (pd_FromSource x) @
      omit_int ''severity'' (pd_Severity x) @
      omit_list ''tags'' JStr (pd_Tags x) @
      omit_string ''message'' (pd_Message x) @
      omit_string ''action'' (pd_Action x) @ [])"

definition dec_ProcessDirectoryType :: "json \<Rightarrow> ProcessDirectoryType option" where
  "dec_ProcessDirectoryType = read_object (\<lambda>ms. do {
     f0 \<leftarrow> read_field [] read_string ''dir'' ms;
     f1 \<leftarrow> read_field False read_bool ''recursive'' ms;
     f2 \<leftarrow> read_field False read_bool ''ownerOnly'' ms;
     f3 \<leftarrow> read_field [] (read_list dec_MatchSourceType) ''fromSource'' ms;
     f4 \<leftarrow> read_field 0 read_int ''severity'' ms;
     f5 \<leftarrow> read_field [] (read_list read_string) ''tags'' ms;
     f6 \<leftarrow> read_field [] read_string ''message'' ms;
     f7 \<leftarrow> read_field [] read_string ''action'' ms;
     Some \<lparr>pd_Directory = f0, pd_Recursive = f1, pd_OwnerOnly = f2, pd_FromSource = f3, pd_Severity = f4, pd_Tags = f5, pd_Message = f6, pd_Action = f7\<rparr> })"

lemma dec_enc_ProcessDirectoryType: "dec_ProcessDirectoryType (enc_ProcessDirectoryType x) = Some x"
  by (cases x) (simp add: enc_ProcessDirectoryType_def dec_ProcessDirectoryType_def read_object_def
      read_omit_list [of dec_MatchSourceType enc_MatchSourceType, OF dec_enc_MatchSourceType] del: append_Nil2)

definition enc_ProcessPatternType :: "ProcessPatternType \<Rightarrow> json" where
  "enc_ProcessPatternType x = JObj
     ([(''pattern'', JStr (pt_Pattern x))] @
      omit_bool ''ownerOnly'' (pt_OwnerOnly x) @
      omit_int ''severity'' (pt_Severity x) @
      omit_list ''tags'' JStr (pt_Tags x) @
      omit_string ''message'' (pt_Message x) @
      omit_string ''action'' (pt_Action x) @ [])"

definition dec_ProcessPatternType :: "json \<Rightarrow> ProcessPatternType option" where
  "dec_ProcessPatternType = read_object (\<lambda>ms. do {
     f0 \<leftarrow> read_field [] read_string ''pattern'' ms;
     f1 \<leftarrow> read_field False read_bool ''ownerOnly'' ms;
     f2 \<leftarrow> read_field 0 read_int ''severity'' ms;
     f3 \<leftarrow> read_field [] (read_list read_string) ''tags'' ms;
     f4 \<leftarrow> read_field [] read_string ''message'' ms;
     f5 \<leftarrow> read_field [] read_string ''action'' ms;
     Some \<lparr>pt_Pattern = f0, pt_OwnerOnly = f1, pt_Severity = f2, pt_Tags = f3, pt_Message = f4, pt_Action = f5\<rparr> })"

lemma dec_enc_ProcessPatternType: "dec_ProcessPatternType (enc_ProcessPatternType x) = Some x"
  by (cases x) (simp add: enc_ProcessPatternType_def dec_ProcessPatternType_def read_object_def
       del: append_Nil2)

definition enc_ProcessType :: "ProcessType \<Rightarrow> json" where
  "enc_ProcessType x = JObj
     (omit_list ''matchPaths'' enc_ProcessPathType (pr_MatchPaths x) @
      omit_list ''matchDirectories'' enc_ProcessDirectoryType (pr_MatchDirectories x) @
      omit_list ''matchPatterns'' enc_ProcessPatternType (pr_MatchPatterns x) @
      omit_int ''severity'' (pr_Severity x) @
      omit_list ''tags'' JStr (pr_Tags x) @
      omit_string ''message'' (pr_Message x) @
      omit_string ''action'' (pr_Action x) @ [])"

definition dec_ProcessType :: "json \<Rightarrow> ProcessType option" where
  "dec_ProcessType = read_object (\<lambda>ms. do {
     f0 \<leftarrow> read_field [] (read_list dec_ProcessPathType) ''matchPaths'' ms;
     f1 \<leftarrow> read_field [] (read_list dec_ProcessDirectoryType) ''matchDirectories'' ms;
     f2 \<leftarrow> read_field [] (read_list dec_ProcessPatternType) ''matchPatterns'' ms;
     f3 \<leftarrow> read_field 0 read_int ''severity'' ms;
     f4 \<leftarrow> read_field [] (read_list read_string) ''tags'' ms;
     f5 \<leftarrow> read_field [] read_string ''message'' ms;
     f6 \<leftarrow> read_field [] read_string ''action'' ms;
     Some \<lparr>pr_MatchPaths = f0, pr_MatchDirectories = f1, pr_MatchPatterns = f2, pr_Severity = f3, pr_Tags = f4, pr_Message = f5, pr_Action = f6\<rparr> })"

lemma dec_enc_ProcessType: "dec_ProcessType (enc_ProcessType x) = Some x"
  by (cases x) (simp add: enc_ProcessType_def dec_ProcessType_def read_object_def
      read_omit_list [of dec_ProcessPathType enc_ProcessPathType, OF dec_enc_ProcessPathType] read_omit_list [of dec_ProcessDirectoryType enc_ProcessDirectoryType, OF dec_enc_ProcessDirectoryType] read_omit_list [of dec_ProcessPatternType enc_ProcessPatternType, OF dec_enc_ProcessPatternType] del: append_Nil2)

definition enc_FilePathType :: "FilePathType \<Rightarrow> json" where
  "enc_FilePathType x = JObj
     ([(''path'', JStr (fp_Path x))] @
      omit_bool ''readOnly'' (fp_ReadOnly x) @
      omit_bool ''ownerOnly'' (fp_OwnerOnly x) @
      omit_list ''fromSource'' enc_MatchSourceType (fp_FromSource x) @
      omit_int ''severity'' (fp_Severity x) @
      omit_list ''tags'' JStr (fp_Tags x) @
      omit_string ''message'' (fp_Message x) @
      omit_string ''action'' (fp_Action x) @ [])"

definition dec_FilePathType :: "json \<Rightarrow> FilePathType option" where
  "dec_FilePathType = read_object (\<lambda>ms. do {
     f0 \<leftarrow> read_field [] read_string ''path'' ms;
     f1 \<leftarrow> read_field False read_bool ''readOnly'' ms;
     f2 \<leftarrow> read_field False read_bool ''ownerOnly'' ms;
     f3 \<leftarrow> read_field [] (read_list dec_MatchSourceType) ''fromSource'' ms;
     f4 \<leftarrow> read_field 0 read_int ''severity'' ms;
     f5 \<leftarrow> read_field [] (read_list read_string) ''tags'' ms;
     f6 \<leftarrow> read_field [] read_string ''message'' ms;
     f7 \<leftarrow> read_field [] read_string ''action'' ms;
     Some \<lparr>fp_Path = f0, fp_ReadOnly = f1, fp_OwnerOnly = f2, fp_FromSource = f3, fp_Severity = f4, fp_Tags = f5, fp_Message = f6, fp_Action = f7\<rparr> })"

lemma dec_enc_FilePathType: "dec_FilePathType (enc_FilePathType x) = Some x"
  by (cases x) (simp add: enc_FilePathType_def dec_FilePathType_def read_object_def
      read_omit_list [of dec_MatchSourceType enc_MatchSourceType, OF dec_enc_MatchSourceType] del: append_Nil2)

definition enc_FileDirectoryType :: "FileDirectoryType \<Rightarrow> json" where
  "enc_FileDirectoryType x = JObj
     ([(''dir'', JStr (fd_Directory x))] @
      omit_bool ''readOnly'' (fd_ReadOnly x) @
      omit_bool ''recursive'' (fd_Recursive x) @
      omit_bool ''ownerOnly'' (fd_OwnerOnly x) @
      omit_list ''fromSource'' enc_MatchSourceType (fd_FromSource x) @
      omit_int ''severity'' (fd_Severity x) @
      omit_list ''tags'' JStr (fd_Tags x) @
      omit_string ''message'' (fd_Message x) @
      omit_string ''action'' (fd_Action x) @ [])"

definition dec_FileDirectoryType :: "json \<Rightarrow> FileDirectoryType option" where
  "dec_FileDirectoryType = read_object (\<lambda>ms. do {
     f0 \<leftarrow> read_field [] read_string ''dir'' ms;
     f1 \<leftarrow> read_field False read_bool ''readOnly'' ms;
     f2 \<leftarrow> read_field False read_bool ''recursive'' ms;
     f3 \<leftarrow> read_field False read_bool ''ownerOnly'' ms;
     f4 \<leftarrow> read_field [] (read_list dec_MatchSourceType) ''fromSource'' ms;
     f5 \<leftarrow> read_field 0 read_int ''severity'' ms;
     f6 \<leftarrow> read_field [] (read_list read_string) ''tags'' ms;
     f7 \<leftarrow> read_field [] read_string ''message'' ms;
     f8 \<leftarrow> read_field [] read_string ''action'' ms;
     Some \<lparr>fd_Directory = f0, fd_ReadOnly = f1, fd_Recursive = f2, fd_OwnerOnly = f3, fd_FromSource = f4, fd_Severity = f5, fd_Tags = f6, fd_Message = f7, fd_Action = f8\<rparr> })"

lemma dec_enc_FileDirectoryType: "dec_FileDirectoryType (enc_FileDirectoryType x) = Some x"
  by (cases x) (simp add: enc_FileDirectoryType_def dec_FileDirectoryType_def read_object_def
      read_omit_list [of dec_MatchSourceType enc_MatchSourceType, OF dec_enc_MatchSourceType] del: append_Nil2)

definition enc_FilePatternType :: "FilePatternType \<Rightarrow> json" where
  "enc_FilePatternType x = JObj
     ([(''pattern'', JStr (ft_Pattern x))] @
      omit_bool ''readOnly'' (ft_ReadOnly x) @
      omit_bool ''ownerOnly'' (ft_OwnerOnly x) @
      omit_int ''severity'' (ft_Severity x) @
      omit_list ''tags'' JStr (ft_Tags x) @
      omit_string ''message'' (ft_Message x) @
      omit_string ''action'' (ft_Action x) @ [])"

definition dec_FilePatternType :: "json \<Rightarrow> FilePatternType option" where
  "dec_FilePatternType = read_object (\<lambda>ms. do {
     f0 \<leftarrow> read_field [] read_string ''pattern'' ms;
     f1 \<leftarrow> read_field False read_bool ''readOnly'' ms;
     f2 \<leftarrow> read_field False read_bool ''ownerOnly'' ms;
     f3 \<leftarrow> read_field 0 read_int ''severity'' ms;
     f4 \<leftarrow> read_field [] (read_list read_string) ''tags'' ms;
     f5 \<leftarrow> read_field [] read_string ''message'' ms;
     f6 \<leftarrow> read_field [] read_string ''action'' ms;
     Some \<lparr>ft_Pattern = f0, ft_ReadOnly = f1, ft_OwnerOnly = f2, ft_Severity = f3, ft_Tags = f4, ft_Message = f5, ft_Action = f6\<rparr> })"

lemma dec_enc_FilePatternType: "dec_FilePatternType (enc_FilePatternType x) = Some x"
  by (cases x) (simp add: enc_FilePatternType_def dec_FilePatternType_def read_object_def
       del: append_Nil2)

definition enc_FileType :: "FileType \<Rightarrow> json" where
  "enc_FileType x = JObj
     (omit_list ''matchPaths'' enc_FilePathType (fi_MatchPaths x) @
      omit_list ''matchDirectories'' enc_FileDirectoryType (fi_MatchDirectories x) @
      omit_list ''matchPatterns'' enc_FilePatternType (fi_MatchPatterns x) @
      omit_int ''severity'' (fi_Severity x) @
      omit_list ''tags'' JStr (fi_Tags x) @
      omit_string ''message'' (fi_Message x) @
      omit_string ''action'' (fi_Action x) @ [])"

definition dec_FileType :: "json \<Rightarrow> FileType option" where
  "dec_FileType = read_object (\<lambda>ms. do {
     f0 \<leftarrow> read_field [] (read_list dec_FilePathType) ''matchPaths'' ms;
     f1 \<leftarrow> read_field [] (read_list dec_FileDirectoryType) ''matchDirectories'' ms;
     f2 \<leftarrow> read_field [] (read_list dec_FilePatternType) ''matchPatterns'' ms;
     f3 \<leftarrow> read_field 0 read_int ''severity'' ms;
     f4 \<leftarrow> read_field [] (read_list read_string) ''tags'' ms;
     f5 \<leftarrow> read_field [] read_string ''message'' ms;
     f6 \<leftarrow> read_field [] read_string ''action'' ms;
     Some \<lparr>fi_MatchPaths = f0, fi_MatchDirectories = f1, fi_MatchPatterns = f2, fi_Severity = f3, fi_Tags = f4, fi_Message = f5, fi_Action = f6\<rparr> })"

lemma dec_enc_FileType: "dec_FileType (enc_FileType x) = Some x"
  by (cases x) (simp add: enc_FileType_def dec_FileType_def read_object_def
      read_omit_list [of dec_FilePathType enc_FilePathType, OF dec_enc_FilePathType] read_omit_list [of dec_FileDirectoryType enc_FileDirectoryType, OF dec_enc_FileDirectoryType] read_omit_list [of dec_FilePatternType enc_FilePatternType, OF dec_enc_FilePatternType] del: append_Nil2)

definition enc_NetworkProtocolType :: "NetworkProtocolType \<Rightarrow> json" where
  "enc_NetworkProtocolType x = JObj
     ([(''protocol'', JStr (np_Protocol x))] @
      omit_list ''fromSource'' enc_MatchSourceType (np_FromSource x) @
      omit_int ''severity'' (np_Severity x) @
      omit_list ''tags'' JStr (np_Tags x) @
      omit_string ''message'' (np_Message x) @
      omit_string ''action'' (np_Action x) @ [])"

definition dec_NetworkProtocolType :: "json \<Rightarrow> NetworkProtocolType option" where
  "dec_NetworkProtocolType = read_object (\<lambda>ms. do {
     f0 \<leftarrow> read_field [] read_string ''protocol'' ms;
     f1 \<leftarrow> read_field [] (read_list dec_MatchSourceType) ''fromSource'' ms;
     f2 \<leftarrow> read_field 0 read_int ''severity'' ms;
     f3 \<leftarrow> read_field [] (read_list read_string) ''tags'' ms;
     f4 \<leftarrow> read_field [] read_string ''message'' ms;
     f5 \<leftarrow> read_field [] read_string ''action'' ms;
     Some \<lparr>np_Protocol = f0, np_FromSource = f1, np_Severity = f2, np_Tags = f3, np_Message = f4, np_Action = f5\<rparr> })"

lemma dec_enc_NetworkProtocolType: "dec_NetworkProtocolType (enc_NetworkProtocolType x) = Some x"
  by (cases x) (simp add: enc_NetworkProtocolType_def dec_NetworkProtocolType_def read_object_def
      read_omit_list [of dec_MatchSourceType enc_MatchSourceType, OF dec_enc_MatchSourceType] del: append_Nil2)

definition enc_NetworkType :: "NetworkType \<Rightarrow> json" where
  "enc_NetworkType x = JObj
     (omit_list ''matchProtocols'' enc_NetworkProtocolType (nw_MatchProtocols x) @
      omit_int ''severity'' (nw_Severity x) @
      omit_list ''tags'' JStr (nw_Tags x) @
      omit_string ''message'' (nw_Message x) @
      omit_string ''action'' (nw_Action x) @ [])"

definition dec_NetworkType :: "json \<Rightarrow> NetworkType option" where
  "dec_NetworkType = read_object (\<lambda>ms. do {
     f0 \<leftarrow> read_field [] (read_list dec_NetworkProtocolType) ''matchProtocols'' ms;
     f1 \<leftarrow> read_field 0 read_int ''severity'' ms;
     f2 \<leftarrow> read_field [] (read_list read_string) ''tags'' ms;
     f3 \<leftarrow> read_field [] read_string ''message'' ms;
     f4 \<leftarrow> read_field [] read_string ''action'' ms;
     Some \<lparr>nw_MatchProtocols = f0, nw_Severity = f1, nw_Tags = f2, nw_Message = f3, nw_Action = f4\<rparr> })"

lemma dec_enc_NetworkType: "dec_NetworkType (enc_NetworkType x) = Some x"
  by (cases x) (simp add: enc_NetworkType_def dec_NetworkType_def read_object_def
      read_omit_list [of dec_NetworkProtocolType enc_NetworkProtocolType, OF dec_enc_NetworkProtocolType] del: append_Nil2)

definition enc_CapabilitiesCapabilityType :: "CapabilitiesCapabilityType \<Rightarrow> json" where
  "enc_CapabilitiesCapabilityType x = JObj
     ([(''capability'', JStr (cc_Capability x))] @
      omit_list ''fromSource'' enc_MatchSourceType (cc_FromSource x) @
      omit_int ''severity'' (cc_Severity x) @
      omit_list ''tags'' JStr (cc_Tags x) @
      omit_string ''message'' (cc_Message x) @
      omit_string ''action'' (cc_Action x) @ [])"

definition dec_CapabilitiesCapabilityType :: "json \<Rightarrow> CapabilitiesCapabilityType option" where
  "dec_CapabilitiesCapabilityType = read_object (\<lambda>ms. do {
     f0 \<leftarrow> read_field [] read_string ''capability'' ms;
     f1 \<leftarrow> read_field [] (read_list dec_MatchSourceType) ''fromSource'' ms;
     f2 \<leftarrow> read_field 0 read_int ''severity'' ms;
     f3 \<leftarrow> read_field [] (read_list read_string) ''tags'' ms;
     f4 \<leftarrow> read_field [] read_string ''message'' ms;
     f5 \<leftarrow> read_field [] read_string ''action'' ms;
     Some \<lparr>cc_Capability = f0, cc_FromSource = f1, cc_Severity = f2, cc_Tags = f3, cc_Message = f4, cc_Action = f5\<rparr> })"

lemma dec_enc_CapabilitiesCapabilityType: "dec_CapabilitiesCapabilityType (enc_CapabilitiesCapabilityType x) = Some x"
  by (cases x) (simp add: enc_CapabilitiesCapabilityType_def dec_CapabilitiesCapabilityType_def read_object_def
      read_omit_list [of dec_MatchSourceType enc_MatchSourceType, OF dec_enc_MatchSourceType] del: append_Nil2)

definition enc_CapabilitiesType :: "CapabilitiesType \<Rightarrow> json" where
  "enc_CapabilitiesType x = JObj
     (omit_list ''matchCapabilities'' enc_CapabilitiesCapabilityType (ca_MatchCapabilities x) @
      omit_int ''severity'' (ca_Severity x) @
      omit_list ''tags'' JStr (ca_Tags x) @
      omit_string ''message'' (ca_Message x) @
      omit_string ''action'' (ca_Action x) @ [])"

definition dec_CapabilitiesType :: "json \<Rightarrow> CapabilitiesType option" where
  "dec_CapabilitiesType = read_object (\<lambda>ms. do {
     f0 \<leftarrow> read_field [] (read_list dec_CapabilitiesCapabilityType) ''matchCapabilities'' ms;
     f1 \<leftarrow> read_field 0 read_int ''severity'' ms;
     f2 \<leftarrow> read_field [] (read_list read_string) ''tags'' ms;
     f3 \<leftarrow> read_field [] read_string ''message'' ms;
     f4 \<leftarrow> read_field [] read_string ''action'' ms;
     Some \<lparr>ca_MatchCapabilities = f0, ca_Severity = f1, ca_Tags = f2, ca_Message = f3, ca_Action = f4\<rparr> })"

lemma dec_enc_CapabilitiesType: "dec_CapabilitiesType (enc_CapabilitiesType x) = Some x"
  by (cases x) (simp add: enc_CapabilitiesType_def dec_CapabilitiesType_def read_object_def
      read_omit_list [of dec_CapabilitiesCapabilityType enc_CapabilitiesCapabilityType, OF dec_enc_CapabilitiesCapabilityType] del: append_Nil2)

definition enc_NodeSelectorType :: "NodeSelectorType \<Rightarrow> json" where
  "enc_NodeSelectorType x = JObj
     (omit_map ''matchLabels'' (ns_MatchLabels x) @
      omit_strings ''identities'' (ns_Identities x) @ [])"

definition dec_NodeSelectorType :: "json \<Rightarrow> NodeSelectorType option" where
  "dec_NodeSelectorType = read_object (\<lambda>ms. do {
     f0 \<leftarrow> read_field None read_map ''matchLabels'' ms;
     f1 \<leftarrow> read_field None (\<lambda>j. map_option Some (read_list read_string j)) ''identities'' ms;
     Some \<lparr>ns_MatchLabels = f0, ns_Identities = f1\<rparr> })"

text \<open>An empty map or list is not written, so it comes back as nil.\<close>

definition norm_selector :: "NodeSelectorType \<Rightarrow> NodeSelectorType" where
  "norm_selector x =
     \<lparr>ns_MatchLabels = (if labels_of (ns_MatchLabels x) = [] then None else ns_MatchLabels x),
      ns_Identities = (if ns_Identities x = Some [] then None else ns_Identities x)\<rparr>"

lemma dec_enc_NodeSelectorType: "dec_NodeSelectorType (enc_NodeSelectorType x) = Some (norm_selector x)"
  by (cases x) (auto simp: enc_NodeSelectorType_def dec_NodeSelectorType_def read_object_def
      norm_selector_def simp del: append_Nil2)

definition enc_HostSecuritySpec :: "HostSecuritySpec \<Rightarrow> json" where
  "enc_HostSecuritySpec x = JObj
     ([(''nodeSelector'', enc_NodeSelectorType (hs_NodeSelector x))] @
      [(''process'', enc_ProcessType (hs_Process x))] @
      [(''file'', enc_FileType (hs_File x))] @
      [(''network'', enc_NetworkType (hs_Network x))] @
      [(''capabilities'', enc_CapabilitiesType (hs_Capabilities x))] @
      omit_string ''apparmor'' (hs_AppArmor x) @
      [(''severity'', JNum (hs_Severity x))] @
      omit_list ''tags'' JStr (hs_Tags x) @
      omit_string ''message'' (hs_Message x) @
      [(''action'', JStr (hs_Action x))] @ [])"

definition dec_HostSecuritySpec :: "json \<Rightarrow> HostSecuritySpec option" where
  "dec_HostSecuritySpec = read_object (\<lambda>ms. do {
     f0 \<leftarrow> read_field zero_NodeSelectorType dec_NodeSelectorType ''nodeSelector'' ms;
     f1 \<leftarrow> read_field zero_ProcessType dec_ProcessType ''process'' ms;
     f2 \<leftarrow> read_field zero_FileType dec_FileType ''file'' ms;
     f3 \<leftarrow> read_field zero_NetworkType dec_NetworkType ''network'' ms;
     f4 \<leftarrow> read_field zero_CapabilitiesType dec_CapabilitiesType ''capabilities'' ms;
     f5 \<leftarrow> read_field [] read_string ''apparmor'' ms;
     f6 \<leftarrow> read_field 0 read_int ''severity'' ms;
     f7 \<leftarrow> read_field [] (read_list read_string) ''tags'' ms;
     f8 \<leftarrow> read_field [] read_string ''message'' ms;
     f9 \<leftarrow> read_field [] read_string ''action'' ms;
     Some \<lparr>hs_NodeSelector = f0, hs_Process = f1, hs_File = f2, hs_Network = f3, hs_Capabilities = f4, hs_AppArmor = f5, hs_Severity = f6, hs_Tags = f7, hs_Message = f8, hs_Action = f9\<rparr> })"

text \<open>A structure is always written as an object, never as \<open>null\<close>.\<close>

lemma enc_not_null [simp]:
  "enc_NodeSelectorType a \<noteq> JNull" "enc_ProcessType b \<noteq> JNull" "enc_FileType c \<noteq> JNull"
  "enc_NetworkType d \<noteq> JNull" "enc_CapabilitiesType e \<noteq> JNull"
  by (simp_all add: enc_NodeSelectorType_def enc_ProcessType_def enc_FileType_def
      enc_NetworkType_def enc_CapabilitiesType_def)

lemma dec_enc_HostSecuritySpec:
  "dec_HostSecuritySpec (enc_HostSecuritySpec x) =
     Some (x\<lparr>hs_NodeSelector := norm_selector (hs_NodeSelector x)\<rparr>)"
  by (cases x) (simp add: enc_HostSecuritySpec_def dec_HostSecuritySpec_def read_object_def
      dec_enc_NodeSelectorType dec_enc_ProcessType dec_enc_FileType
      dec_enc_NetworkType dec_enc_CapabilitiesType del: append_Nil2)


section \<open>\<open>Clone\<close>\<close>

text \<open>
  \<open>kl.Clone(src, &dst)\<close> at the one type the service uses it: the JSON of the source is read into
  the zero value of the destination.
\<close>

definition Clone :: "HostSecuritySpec \<Rightarrow> go_error + HostSecuritySpec" where
  "Clone src =
     (let arr = enc_HostSecuritySpec src in
      case dec_HostSecuritySpec arr of None \<Rightarrow> Inl ''json: cannot unmarshal'' | Some dst \<Rightarrow> Inr dst)"

lemma Clone_eq: "Clone src = Inr (src\<lparr>hs_NodeSelector := norm_selector (hs_NodeSelector src)\<rparr>)"
  by (simp add: Clone_def dec_enc_HostSecuritySpec)

lemma labels_of_norm_selector [simp]:
  "labels_of (ns_MatchLabels (norm_selector sel)) = labels_of (ns_MatchLabels sel)"
  by (simp add: norm_selector_def)


section \<open>Properties\<close>


end
