(* ===== verification/Common.thy ===== *)
theory Common
  imports Json_Codec
begin

text \<open>
  The helpers of \<open>src/common/common.go\<close> (package \<open>common\<close>) apart from \<open>Clone\<close>, which is in
  \<open>Json_Codec\<close>: searching a slice, expanding comma-separated first fields, recognising a
  Kubernetes environment, matching labels, and finding addresses. What the operating system or
  the Kubernetes API answers is an argument of the function that asks.
\<close>


section \<open>Slices\<close>

text \<open>
  \<open>ContainsElement(slice, element)\<close>: the loop over the slice, with \<open>reflect.DeepEqual\<close> of the
  element type as \<open>deep_eq\<close>. Every caller passes a slice.
\<close>

fun ContainsElement :: "('a \<Rightarrow> 'a \<Rightarrow> bool) \<Rightarrow> 'a list \<Rightarrow> 'a \<Rightarrow> bool" where
  "ContainsElement deep_eq [] element = False"
| "ContainsElement deep_eq (val # rest) element =
     (if deep_eq val element then True else ContainsElement deep_eq rest element)"

lemma ContainsElement_iff: "ContainsElement deep_eq xs x \<longleftrightarrow> (\<exists>y \<in> set xs. deep_eq y x)"
  by (induction xs) auto

text \<open>
  \<open>MatchIdentities(identities, superIdentities)\<close>; the loop leaves at the first identity that is
  not found.
\<close>

fun MatchIdentities_loop :: "string list \<Rightarrow> string list \<Rightarrow> bool" where
  "MatchIdentities_loop [] superIdentities = True"
| "MatchIdentities_loop (identity # rest) superIdentities =
     (if \<not> ContainsElement (=) superIdentities identity then False
      else MatchIdentities_loop rest superIdentities)"

definition MatchIdentities :: "string list \<Rightarrow> string list \<Rightarrow> bool" where
  "MatchIdentities identities superIdentities =
     (if length identities = 0 then False else MatchIdentities_loop identities superIdentities)"

lemma MatchIdentities_iff:
  "MatchIdentities ids super \<longleftrightarrow> ids \<noteq> [] \<and> set ids \<subseteq> set super"
proof -
  have "MatchIdentities_loop ids super \<longleftrightarrow> set ids \<subseteq> set super"
    by (induction ids) (auto simp: ContainsElement_iff)
  then show ?thesis by (simp add: MatchIdentities_def)
qed


section \<open>Comma-separated fields\<close>

text \<open>
  The three \<open>ObjComma\<close> functions inspect their argument by reflection. \<open>objptr\<close> lists the shapes
  they tell apart: not a pointer, a pointer to something that is not a slice, a pointer to a slice
  of something other than structures, of structures whose first field is not a string, and of
  structures whose first field is the given string (\<open>'r\<close> stands for the other fields).
\<close>

datatype 'r objptr =
    NotPointer
  | PointerToOther
  | SliceOfOther nat
  | SliceOfStructs "'r list"
  | SliceOfNamed "(string \<times> 'r) list"

definition ObjCommaCanBeExpanded :: "'r objptr \<Rightarrow> bool" where
  "ObjCommaCanBeExpanded p =
     (case p of
        SliceOfNamed (e # es) \<Rightarrow> Split (fst e) (CHR '','') ! 0 \<noteq> fst e
      | _ \<Rightarrow> False)"

definition ObjCommaExpand :: "string \<times> 'r \<Rightarrow> string list" where
  "ObjCommaExpand e = Split (fst e) (CHR '','')"

text \<open>The two nested loops of \<open>ObjCommaExpandFirstDupOthers\<close>, which append to the new slice\<close>

definition expand_loops :: "(string \<times> 'r) list \<Rightarrow> (string \<times> 'r) list" where
  "expand_loops old =
     concat (map (\<lambda>e. map (\<lambda>f. (ReplaceAll_spaces f, snd e)) (ObjCommaExpand e)) old)"

definition ObjCommaExpandFirstDupOthers :: "'r objptr \<Rightarrow> 'r objptr" where
  "ObjCommaExpandFirstDupOthers p =
     (if ObjCommaCanBeExpanded p then
        (case p of SliceOfNamed old \<Rightarrow> SliceOfNamed (expand_loops old) | _ \<Rightarrow> p)
      else p)"

lemma nth_0_Split: "Split s sep ! 0 = takeWhile (\<lambda>c. c \<noteq> sep) s"
  by (metis Split_not_Nil hd_Split hd_conv_nth)

lemma ObjCommaCanBeExpanded_iff:
  "ObjCommaCanBeExpanded p \<longleftrightarrow> (\<exists>f r es. p = SliceOfNamed ((f, r) # es) \<and> CHR '','' \<in> set f)"
  by (auto simp: ObjCommaCanBeExpanded_def nth_0_Split takeWhile_eq_all_conv
      split: objptr.splits list.splits)

lemma expanded_fields_no_comma:
  "(f, r) \<in> set (expand_loops old) \<Longrightarrow> CHR '','' \<notin> set f"
  by (auto simp: expand_loops_def ObjCommaExpand_def ReplaceAll_spaces_def dest: Split_fields_no_sep)

lemma expanded_not_expandable: "\<not> ObjCommaCanBeExpanded (ObjCommaExpandFirstDupOthers p)"
proof (cases "ObjCommaCanBeExpanded p")
  case True
  then obtain old where p: "p = SliceOfNamed old" by (auto simp: ObjCommaCanBeExpanded_iff)
  have "\<not> ObjCommaCanBeExpanded (SliceOfNamed (expand_loops old))"
    unfolding ObjCommaCanBeExpanded_iff
    by (metis expanded_fields_no_comma list.set_intros(1) objptr.inject(3))
  with True p show ?thesis by (simp add: ObjCommaExpandFirstDupOthers_def)
next
  case False
  then show ?thesis by (simp add: ObjCommaExpandFirstDupOthers_def)
qed


section \<open>The environment\<close>

text \<open>
  \<open>filepath.Clean\<close>: empty and \<open>.\<close> elements go, \<open>..\<close> removes the element before it, or goes
  itself at the root. The list under construction is reversed.
\<close>

definition Clean_elem :: "bool \<Rightarrow> string \<Rightarrow> string list \<Rightarrow> string list" where
  "Clean_elem rooted c st =
     (if c = [] \<or> c = ''.'' then st
      else if c = ''..'' then
        (case st of [] \<Rightarrow> if rooted then [] else [''..'']
         | t # ts \<Rightarrow> if t = ''..'' then ''..'' # st else ts)
      else c # st)"

definition Clean :: "string \<Rightarrow> string" where
  "Clean path =
     (let rooted = (path \<noteq> [] \<and> hd path = CHR ''/'');
          out = join (rev (fold (Clean_elem rooted) (Split path (CHR ''/'')) [])) (CHR ''/'')
      in if rooted then CHR ''/'' # out else if out = [] then ''.'' else out)"

text \<open>
  The process environment: the variables that are set, and which paths \<open>os.Stat\<close> finds.
\<close>

record os_env =
  env_vars :: "string \<Rightarrow> string option"
  env_stat :: "string \<Rightarrow> bool"

definition Getenv :: "os_env \<Rightarrow> string \<Rightarrow> string" where
  "Getenv os v = (case env_vars os v of None \<Rightarrow> [] | Some x \<Rightarrow> x)"

definition IsK8sLocal :: "os_env \<Rightarrow> bool" where
  "IsK8sLocal os =
     (let k8sConfig = Getenv os ''HOME'' @ ''/.kube'' in
      if env_stat os (Clean k8sConfig) then True else False)"

definition IsInK8sCluster :: "os_env \<Rightarrow> bool" where
  "IsInK8sCluster os = (case env_vars os ''KUBERNETES_PORT'' of Some _ \<Rightarrow> True | None \<Rightarrow> False)"

definition IsK8sEnv :: "os_env \<Rightarrow> bool" where
  "IsK8sEnv os = (if IsK8sLocal os then True else if IsInK8sCluster os then True else False)"


section \<open>Addresses\<close>

text \<open>
  \<open>GetExternalInterface\<close>: the word after the first \<open>dev\<close> in the first line of \<open>ip route\<close>, whose
  output is the argument. The index \<open>idx+1\<close> is out of range when \<open>dev\<close> is the last word.
\<close>

fun GetExternalInterface_loop :: "string list \<Rightarrow> string outcome" where
  "GetExternalInterface_loop [] = Ret []"
| "GetExternalInterface_loop (word # rest) =
     (if word = ''dev'' then (case rest of [] \<Rightarrow> Stop (Panic ''index out of range'') | w # _ \<Rightarrow> Ret w)
      else GetExternalInterface_loop rest)"

definition GetExternalInterface :: "string \<Rightarrow> string outcome" where
  "GetExternalInterface route =
     GetExternalInterface_loop (Split (Split route (CHR 0x0A) ! 0) (CHR '' ''))"

text \<open>
  \<open>GetIPAddr\<close>: \<open>interfaces\<close> is what \<open>net.Interfaces\<close> gives, each with the answer of its \<open>Addrs\<close>.
\<close>

fun GetIPAddr_loop :: "(string \<times> (go_error + string list)) list \<Rightarrow> string \<Rightarrow> string outcome" where
  "GetIPAddr_loop [] ifname = Ret []"
| "GetIPAddr_loop ((name, addrs) # rest) ifname =
     (if name = ifname then
        (case addrs of
           Inr [] \<Rightarrow> Stop (Panic ''index out of range'')
         | Inr (a # _) \<Rightarrow> Ret (Split a (CHR ''/'') ! 0)
         | Inl _ \<Rightarrow> Ret [])
      else GetIPAddr_loop rest ifname)"

definition GetIPAddr ::
  "(go_error + (string \<times> (go_error + string list)) list) \<Rightarrow> string \<Rightarrow> string outcome" where
  "GetIPAddr interfaces ifname =
     (case interfaces of Inr l \<Rightarrow> GetIPAddr_loop l ifname | Inl _ \<Rightarrow> Ret [])"

definition GetExternalIPAddr ::
  "string \<Rightarrow> (go_error + (string \<times> (go_error + string list)) list) \<Rightarrow> string outcome" where
  "GetExternalIPAddr route interfaces =
     (case GetExternalInterface route of Stop c \<Rightarrow> Stop c | Ret iface \<Rightarrow> GetIPAddr interfaces iface)"

text \<open>
  \<open>GetEtcdEndPoint\<close>: \<open>svcs\<close> is the answer of the Kubernetes API to the list request, the cluster
  address of each service. The configuration of the client is part of that answer.
\<close>

definition GetEtcdEndPoint :: "(go_error + string list) \<Rightarrow> string" where
  "GetEtcdEndPoint svcs =
     (case svcs of
        Inl err \<Rightarrow> []
      | Inr ips \<Rightarrow>
          (let etcdClusterIP = (case ips of [] \<Rightarrow> [] | ip # _ \<Rightarrow> ip)
           in ''http://'' @ etcdClusterIP @ '':2379''))"

text \<open>
  \<open>GetExternalIP\<close> polls the service until its load balancer has an address. \<open>answers\<close> are the
  answers of the API to the successive requests, each an error or the ingress addresses of the
  service; \<open>Starved\<close> says that all of them were used up without an end. The \<open>err\<close> of the loop
  body is a new variable, so the error that is returned is the one the client set-up left in the
  outer variable, \<open>setup_err\<close>.
\<close>

fun GetExternalIP_loop :: "(go_error + string list) list \<Rightarrow> string outcome" where
  "GetExternalIP_loop [] = Stop Starved"
| "GetExternalIP_loop (Inl err # answers) = Ret []"
| "GetExternalIP_loop (Inr ingress # answers) =
     (let externalIp = (case ingress of [] \<Rightarrow> [] | ip # _ \<Rightarrow> ip) in
      if externalIp = [] then GetExternalIP_loop answers else Ret externalIp)"

definition GetExternalIP ::
  "go_error option \<Rightarrow> (go_error + string list) list \<Rightarrow> (string \<times> go_error option) outcome" where
  "GetExternalIP setup_err answers =
     (case GetExternalIP_loop answers of Stop c \<Rightarrow> Stop c | Ret ip \<Rightarrow> Ret (ip, setup_err))"

definition no_address :: "go_error + string list \<Rightarrow> bool" where
  "no_address a = (case a of Inl _ \<Rightarrow> False | Inr ingress \<Rightarrow> ingress = [] \<or> hd ingress = [])"

lemma GetExternalIP_loop_wait:
  "list_all no_address as \<Longrightarrow> GetExternalIP_loop (as @ bs) = GetExternalIP_loop bs"
proof (induction as)
  case (Cons a as)
  then show ?case by (cases a) (auto simp: no_address_def split: list.splits)
qed simp


section \<open>Properties\<close>

text \<open>
  \<open>GetExternalIP\<close> waits as long as the load balancer has no address, and then returns its first
  address. An error of the API while it waits ends the wait with an empty address and no error.
\<close>

theorem external_ip_waits:
  assumes "list_all no_address waits" and "ip \<noteq> []"
  shows "GetExternalIP None (waits @ Inr (ip # ips) # answers) = Ret (ip, None) \<and>
    GetExternalIP None (waits @ Inl err # answers) = Ret ([], None)"
  by (simp add: GetExternalIP_def GetExternalIP_loop_wait [OF assms(1)] assms(2))

theorem external_ip_waits_witness:
  "GetExternalIP None ([Inr [], Inr [[]]] @ Inr (''10.0.0.1'' # []) # []) = Ret (''10.0.0.1'', None) \<and>
   GetExternalIP None ([Inr [], Inr [[]]] @ Inl ''timeout'' # []) = Ret ([], None)"
  by (rule external_ip_waits) (simp_all add: no_address_def)

text \<open>
  Expanding a slice whose first element has a comma leaves no comma in any first field, gives
  every part of a field the other fields of its element, and is done once: a second expansion
  changes nothing.
\<close>

theorem comma_expansion:
  assumes "CHR '','' \<in> set f"
  shows "\<exists>new. ObjCommaExpandFirstDupOthers (SliceOfNamed ((f, r) # es)) = SliceOfNamed new \<and>
    list_all (\<lambda>(g, _). CHR '','' \<notin> set g) new \<and>
    list_all (\<lambda>(g, q). list_all (\<lambda>part. (ReplaceAll_spaces part, q) \<in> set new) (Split g (CHR '',''))) ((f, r) # es) \<and>
    ObjCommaExpandFirstDupOthers (SliceOfNamed new) = SliceOfNamed new"
proof -
  let ?old = "(f, r) # es"
  have can: "ObjCommaCanBeExpanded (SliceOfNamed ?old)" using assms by (simp add: ObjCommaCanBeExpanded_iff)
  then have eq: "ObjCommaExpandFirstDupOthers (SliceOfNamed ?old) = SliceOfNamed (expand_loops ?old)"
    by (simp add: ObjCommaExpandFirstDupOthers_def)
  moreover have "ObjCommaExpandFirstDupOthers (SliceOfNamed (expand_loops ?old)) = SliceOfNamed (expand_loops ?old)"
    using expanded_not_expandable [of "SliceOfNamed ?old"] eq
    by (simp add: ObjCommaExpandFirstDupOthers_def [of "SliceOfNamed (expand_loops ?old)"])
  moreover have "list_all (\<lambda>(g, _). CHR '','' \<notin> set g) (expand_loops ?old)"
    using expanded_fields_no_comma by (fastforce simp: list_all_iff)
  moreover have "list_all (\<lambda>(g, q). list_all (\<lambda>part. (ReplaceAll_spaces part, q) \<in> set (expand_loops ?old))
      (Split g (CHR '',''))) ?old"
    unfolding expand_loops_def ObjCommaExpand_def by (force simp: list_all_iff)
  ultimately show ?thesis by blast
qed

theorem comma_expansion_witness:
  "\<exists>new. ObjCommaExpandFirstDupOthers (SliceOfNamed [(''/bin/a, /bin/b'', True), (''/bin/c'', False)]) = SliceOfNamed new \<and>
    list_all (\<lambda>(g, _). CHR '','' \<notin> set g) new \<and> (''/bin/b'', True) \<in> set new"
proof -
  have "ReplaceAll_spaces '' /bin/b'' = ''/bin/b''" "'' /bin/b'' \<in> set (Split ''/bin/a, /bin/b'' (CHR '',''))"
    by code_simp+
  with comma_expansion [of "''/bin/a, /bin/b''" True "[(''/bin/c'', False)]"] show ?thesis
    by (auto simp: list_all_iff)
qed

end
