(* ===== verification/Identity_List.thy ===== *)
theory Identity_List
  imports Go_Stdlib
begin

text \<open>
  The loop that takes an identity out of a list of identities. It occurs twice in the program,
  in \<open>UnMapLabelIdentity\<close> of \<open>src/operator/core/crdHandler.go\<close> and in
  \<open>UpdateETCDLabelToIdentitiesMaps\<close> of \<open>src/service/server/kvmserver.go\<close>: the element that is
  found is overwritten with the last one, the last one is set to 0, and the slice is shortened,
  while the \<open>range\<close> goes on over the slice it started with.

  A slice is a view on an array. \<open>arr\<close> is the array, as long as the slice the loop ranges over,
  and \<open>n\<close> is the length of the shortened slice, which is a view on the same array. The \<open>range\<close>
  reads each element from the array when it gets to it.
\<close>

fun drop_identity_loop ::
  "uint16 \<Rightarrow> nat \<Rightarrow> nat \<Rightarrow> uint16 list \<Rightarrow> nat \<Rightarrow> (uint16 list \<times> nat) outcome" where
  "drop_identity_loop identity index 0 arr n = Ret (arr, n)"
| "drop_identity_loop identity index (Suc todo) arr n =
     (if arr ! index = identity then
        (if index < n
         then drop_identity_loop identity (Suc index) todo ((arr[index := arr ! (n - 1)])[n - 1 := 0]) (n - 1)
         else Stop (Panic ''index out of range''))
      else drop_identity_loop identity (Suc index) todo arr n)"

definition drop_identity :: "uint16 \<Rightarrow> uint16 list \<Rightarrow> (uint16 list \<times> nat) outcome" where
  "drop_identity identity arr = drop_identity_loop identity 0 (length arr) arr (length arr)"

text \<open>The array after an element between \<open>xs\<close> and \<open>ys\<close> was taken out, without the final 0\<close>

definition close_gap :: "uint16 list \<Rightarrow> uint16 list \<Rightarrow> uint16 list" where
  "close_gap xs ys = (if ys = [] then xs else xs @ last ys # butlast ys)"

lemma drop_identity_loop_skip:
  assumes "\<forall>j. i \<le> j \<and> j < i + k \<longrightarrow> arr ! j \<noteq> x"
  shows "drop_identity_loop x i (k + m) arr n = drop_identity_loop x (i + k) m arr n"
  using assms by (induction k arbitrary: i) auto

lemma drop_identity_absent:
  assumes "x \<notin> set arr"
  shows "drop_identity x arr = Ret (arr, length arr)"
proof -
  have "\<forall>j. 0 \<le> j \<and> j < 0 + length arr \<longrightarrow> arr ! j \<noteq> x" using assms by auto
  then show ?thesis
    using drop_identity_loop_skip [of 0 "length arr" arr x 0] by (simp add: drop_identity_def)
qed

lemma length_close_gap [simp]: "length (close_gap xs ys) = length xs + length ys"
  by (simp add: close_gap_def)

lemma mset_close_gap [simp]: "mset (close_gap xs ys) = mset xs + mset ys"
proof (cases "ys = []")
  case False
  then have "mset (butlast ys @ [last ys]) = mset ys" by simp
  then show ?thesis by (simp add: close_gap_def add.commute)
qed (simp add: close_gap_def)

lemma set_close_gap [simp]: "set (close_gap xs ys) = set xs \<union> set ys"
  by (metis mset_close_gap set_append set_mset_mset mset_append)

lemma close_gap_update:
  "((xs @ x # ys)[length xs := (xs @ x # ys) ! (length xs + length ys)])[length xs + length ys := 0]
     = close_gap xs ys @ [0]"
proof (cases ys rule: rev_cases)
  case Nil
  then show ?thesis by (simp add: close_gap_def)
next
  case (snoc zs z)
  then show ?thesis
    by (simp add: close_gap_def nth_append list_update_append)
qed

lemma drop_identity_first:
  assumes "x \<notin> set xs"
  shows "drop_identity x (xs @ x # ys) =
    drop_identity_loop x (Suc (length xs)) (length ys) (close_gap xs ys @ [0]) (length xs + length ys)"
proof -
  let ?arr = "xs @ x # ys"
  have "\<forall>j. 0 \<le> j \<and> j < 0 + length xs \<longrightarrow> ?arr ! j \<noteq> x"
    using assms by (auto simp: nth_append)
  from drop_identity_loop_skip [OF this, of "Suc (length ys)" "length ?arr"]
  have "drop_identity x ?arr = drop_identity_loop x (length xs) (Suc (length ys)) ?arr (length ?arr)"
    unfolding drop_identity_def by simp
  then show ?thesis
    using close_gap_update [of xs x ys] by simp
qed

lemma drop_identity_once:
  assumes "x \<noteq> 0" and "x \<notin> set xs" and "x \<notin> set ys"
  shows "drop_identity x (xs @ x # ys) = Ret (close_gap xs ys @ [0], length xs + length ys)"
proof -
  let ?new = "close_gap xs ys @ [0]"
  have "x \<notin> set ?new" using assms by simp
  then have "\<forall>j. Suc (length xs) \<le> j \<and> j < Suc (length xs) + length ys \<longrightarrow> ?new ! j \<noteq> x"
    by (metis One_nat_def add_Suc add_Suc_right length_append length_close_gap
        list.size(3,4) nth_mem add_0_right)
  from drop_identity_loop_skip [OF this, of 0]
  show ?thesis using drop_identity_first [OF assms(2)] by simp
qed

text \<open>
  Taking out the identity 0 does not work: the 0 the first removal leaves at the end of the array
  is found again when the \<open>range\<close> gets there, behind the end of the shortened slice.
\<close>

lemma drop_zero_tail:
  assumes "i + k = length arr" and "0 < k" and "n < length arr" and "last arr = 0"
  shows "drop_identity_loop 0 i k arr n = Stop (Panic ''index out of range'')"
  using assms
proof (induction k arbitrary: i arr n)
  case (Suc k)
  then have last: "arr ! (length arr - 1) = 0" by (metis last_conv_nth list.size(3) not_less0)
  show ?case
  proof (cases "arr ! i = 0 \<and> i < n")
    case True
    let ?arr = "(arr[i := arr ! (n - 1)])[n - 1 := 0]"
    have "0 < k" using Suc.prems True by linarith
    moreover have "last ?arr = 0"
      using Suc.prems True last by (subst last_conv_nth) (auto simp: nth_list_update)
    ultimately have "drop_identity_loop 0 (Suc i) k ?arr (n - 1) = Stop (Panic ''index out of range'')"
      using Suc.prems by (intro Suc.IH) auto
    with True show ?thesis by simp
  next
    case False
    show ?thesis
    proof (cases "arr ! i = 0")
      case True
      with False show ?thesis by simp
    next
      case nz: False
      then have "i \<noteq> length arr - 1" using last by auto
      then have "0 < k" using Suc.prems by auto
      with nz Suc show ?thesis by simp
    qed
  qed
qed simp

lemma drop_zero_panics:
  assumes "0 \<in> set (butlast arr)"
  shows "drop_identity 0 arr = Stop (Panic ''index out of range'')"
proof -
  have ne: "arr \<noteq> []" using assms by auto
  then have "0 \<in> set arr" using assms by (metis in_set_butlastD)
  then obtain xs ys where arr: "arr = xs @ 0 # ys" and xs: "0 \<notin> set xs"
    by (meson split_list_first)
  have ys: "ys \<noteq> []" using assms arr xs by (auto simp: butlast_append)
  have "drop_identity 0 arr =
      drop_identity_loop 0 (Suc (length xs)) (length ys) (close_gap xs ys @ [0]) (length xs + length ys)"
    unfolding arr by (rule drop_identity_first [OF xs])
  also have "\<dots> = Stop (Panic ''index out of range'')"
    using ys by (intro drop_zero_tail) auto
  finally show ?thesis .
qed



section \<open>Properties\<close>

text \<open>
  Taking out an identity other than 0 that a list holds once: the loop returns, the shortened
  slice holds exactly the other identities, and the array behind it ends with a 0.
\<close>

theorem identity_taken_out:
  assumes "x \<noteq> 0" and "x \<notin> set xs" and "x \<notin> set ys"
  shows "\<exists>arr n. drop_identity x (xs @ x # ys) = Ret (arr, n) \<and> mset (take n arr) = mset xs + mset ys \<and>
    n = length (xs @ x # ys) - 1 \<and> arr ! n = 0 \<and> length arr = length (xs @ x # ys)"
  using drop_identity_once [OF assms] by (simp add: nth_append)

theorem identity_taken_out_witness:
  "\<exists>arr n. drop_identity 7 ([5] @ 7 # [9]) = Ret (arr, n) \<and> mset (take n arr) = {#5, 9#} \<and> arr ! n = 0"
  using identity_taken_out [of 7 "[5]" "[9]"] by (auto simp: add_mset_commute)

text \<open>
  Taking out the identity 0 makes the loop panic whenever a 0 stands before the last place.
\<close>

theorem zero_not_taken_out:
  assumes "0 \<in> set (butlast arr)"
  shows "drop_identity 0 arr = Stop (Panic ''index out of range'')"
  by (rule drop_zero_panics [OF assms])

theorem zero_not_taken_out_witness: "drop_identity 0 [0, 7] = Stop (Panic ''index out of range'')"
  by (rule zero_not_taken_out) simp

end
