(* ===== verification/Operator.thy ===== *)
theory Operator
  imports Common Identity_List
begin

text \<open>
  The operator daemon: \<open>src/operator/core/kvmOperator.go\<close> (its state, start and end) and
  \<open>src/operator/core/crdHandler.go\<close> (its reaction to the external workloads of the cluster). For
  each workload it draws a 16-bit identity, and it keeps four maps between names, identities and
  labels, in memory and in etcd.

  The state \<open>KVMSOperator\<close> is the structure of the same name together with \<open>op_store\<close>, the etcd
  server its client talks to. The read-write lock is only ever locked for writing; \<open>op_Locked\<close>
  says whether it is held. The map of client connections and the wait group are never used by
  the operator and are left out. Log output is not modelled.
\<close>


section \<open>The state\<close>

record 'e KVMSOperator =
  op_EtcdClient :: "'e etcd_ptr"
  op_store :: 'e
  EnableExternalWorkloadPolicy :: bool
  ExternalWorkloadSecurityPolicies :: "ExternalWorkloadSecurityPolicy list"
  op_Locked :: bool
  MapIdentityToEWName :: "(uint16, string) gomap"
  MapEWNameToIdentity :: "(string, uint16) gomap"
  MapIdentityToLabel :: "(uint16, string) gomap"
  MapLabelToIdentities :: "(string, uint16 list) gomap"

type_synonym ('e, 'a) op_prog = "('e KVMSOperator, 'a) prog"

definition NewKVMSOperatorDaemon :: "'e etcd_ptr \<Rightarrow> 'e \<Rightarrow> 'e KVMSOperator" where
  "NewKVMSOperatorDaemon cli e =
     \<lparr>op_EtcdClient = cli, op_store = e, EnableExternalWorkloadPolicy = False,
      ExternalWorkloadSecurityPolicies = [], op_Locked = False,
      MapIdentityToEWName = [], MapEWNameToIdentity = [], MapIdentityToLabel = [],
      MapLabelToIdentities = []\<rparr>"

definition op_etcd :: "('e etcd_ptr \<Rightarrow> ('e, 'a) prog) \<Rightarrow> ('e, 'a) op_prog" where
  "op_etcd call s = on_part op_store (\<lambda>e s. s\<lparr>op_store := e\<rparr>) (call (op_EtcdClient s)) s"

text \<open>A write or delete whose error ends the process with \<open>log.Fatal(err)\<close>\<close>

definition must_put :: "string \<Rightarrow> string \<Rightarrow> ('e, unit) op_prog" where
  "must_put k v = andThen (op_etcd (\<lambda>cli. EtcdPut cli k v)) fatal_on"

definition must_delete :: "string \<Rightarrow> ('e, unit) op_prog" where
  "must_delete k = andThen (op_etcd (\<lambda>cli. EtcdDelete cli k)) fatal_on"

text \<open>\<open>Lock\<close> waits while the lock is held; only the goroutine itself could release it.\<close>

definition op_Lock :: "('e, unit) op_prog" where
  "op_Lock = andThen (reads op_Locked) (\<lambda>held.
     if held then stop_with Blocked else modify (\<lambda>s. s\<lparr>op_Locked := True\<rparr>))"

definition op_Unlock :: "('e, unit) op_prog" where
  "op_Unlock = modify (\<lambda>s. s\<lparr>op_Locked := False\<rparr>)"


section \<open>Handling workloads\<close>

text \<open>\<open>UpdateExternalWorkloadSecurityPolicies\<close> copies the list into a variable it then drops.\<close>

definition UpdateExternalWorkloadSecurityPolicies :: "('e, unit) op_prog" where
  "UpdateExternalWorkloadSecurityPolicies =
     andThen op_Lock (\<lambda>_.
     andThen (reads (\<lambda>s. fold (\<lambda>policy secPolicies. secPolicies @ [policy])
       (ExternalWorkloadSecurityPolicies s) [])) (\<lambda>secPolicies. op_Unlock))"

fun Find_from :: "int \<Rightarrow> uint16 list \<Rightarrow> uint16 \<Rightarrow> int \<times> bool" where
  "Find_from i [] identity = (-1, False)"
| "Find_from i (item # rest) identity =
     (if item = identity then (i, True) else Find_from (i + 1) rest identity)"

definition Find :: "uint16 list \<Rightarrow> uint16 \<Rightarrow> int \<times> bool" where
  "Find identities identity = Find_from 0 identities identity"

text \<open>Of several labels the last one the iteration visits is kept.\<close>

definition convertLabelsToStr :: "iteration \<Rightarrow> (string, string) gomap option \<Rightarrow> string" where
  "convertLabelsToStr it labelStr =
     fold (\<lambda>(k, v) label. k @ ''='' @ v) (it (labels_of labelStr)) []"

text \<open>
  The loop over \<open>dm.MapLabelToIdentities[label]\<close>: the slice \<open>identities\<close> that is shortened is a
  local variable; the map keeps the slice at its old length, on the array that was changed.
\<close>

definition drop_from_label :: "uint16 \<Rightarrow> string \<Rightarrow> ('e, unit) op_prog" where
  "drop_from_label identity label s =
     (case map_of (MapLabelToIdentities s) label of
        None \<Rightarrow> (Ret (), s)
      | Some arr \<Rightarrow>
          (case drop_identity identity arr of
             Stop c \<Rightarrow> (Stop c, s)
           | Ret (arr', n) \<Rightarrow>
               (Ret (), s\<lparr>MapLabelToIdentities := AList.update label arr' (MapLabelToIdentities s)\<rparr>)))"

text \<open>The first half of \<open>UnMapLabelIdentity\<close>, up to the loop: names and identities\<close>

definition UnMap_names :: "uint16 \<Rightarrow> string \<Rightarrow> ('e, unit) op_prog" where
  "UnMap_names identity ewName =
     andThen (modify (\<lambda>s. s\<lparr>MapIdentityToEWName := AList.delete identity (MapIdentityToEWName s)\<rparr>)) (\<lambda>_.
     andThen (modify (\<lambda>s. s\<lparr>MapEWNameToIdentity := AList.delete ewName (MapEWNameToIdentity s)\<rparr>)) (\<lambda>_.
     andThen (modify (\<lambda>s. s\<lparr>MapIdentityToLabel := AList.delete identity (MapIdentityToLabel s)\<rparr>)) (\<lambda>_.
     andThen (must_delete (KvmOprIdentityToEWName @ u16_str identity)) (\<lambda>_.
     andThen (must_delete (KvmOprEWNameToIdentity @ ewName)) (\<lambda>_.
       must_delete (KvmOprIdentityToLabel @ u16_str identity))))))"

text \<open>The rest: the loop, and the write of the list the map then has\<close>

definition UnMap_label :: "uint16 \<Rightarrow> string \<Rightarrow> ('e, unit) op_prog" where
  "UnMap_label identity label =
     andThen (drop_from_label identity label) (\<lambda>_.
     andThen (reads (\<lambda>s. MarshalU16s (map_of (MapLabelToIdentities s) label))) (\<lambda>mapStr.
       must_put (KvmOprLabelToIdentities @ label) mapStr))"

definition UnMapLabelIdentity :: "uint16 \<Rightarrow> string \<Rightarrow> string \<Rightarrow> ('e, unit) op_prog" where
  "UnMapLabelIdentity identity ewName label =
     andThen (UnMap_names identity ewName) (\<lambda>_. UnMap_label identity label)"

text \<open>\<open>append\<close> to the slice of a label; a missing label has the nil slice.\<close>

definition append_identity :: "string \<Rightarrow> uint16 \<Rightarrow> 'e KVMSOperator \<Rightarrow> 'e KVMSOperator" where
  "append_identity label identity s =
     s\<lparr>MapLabelToIdentities :=
         AList.update label (gm_read [] (MapLabelToIdentities s) label @ [identity]) (MapLabelToIdentities s)\<rparr>"

definition UpdateIdentityLabelsMap :: "uint16 \<Rightarrow> string \<Rightarrow> ('e, unit) op_prog" where
  "UpdateIdentityLabelsMap identity label =
     andThen (modify (\<lambda>s. s\<lparr>MapIdentityToLabel := AList.update identity label (MapIdentityToLabel s)\<rparr>)) (\<lambda>_.
     andThen (must_put (KvmOprIdentityToLabel @ u16_str identity) label) (\<lambda>_.
     andThen (reads (\<lambda>s. snd (Find (gm_read [] (MapLabelToIdentities s) label) identity))) (\<lambda>found.
       if \<not> found then
         andThen (modify (append_identity label identity)) (\<lambda>_.
         andThen (reads (\<lambda>s. MarshalU16s (map_of (MapLabelToIdentities s) label))) (\<lambda>mapStr.
           must_put (KvmOprLabelToIdentities @ label) mapStr))
       else ret ())))"

text \<open>
  The identity is the low half of a 32-bit random number; numbers are drawn until one is found
  that no workload has. \<open>draws\<close> are the numbers \<open>rand.Uint32\<close> gives, and the run is \<open>Starved\<close> if
  none of them will do. The parameter \<open>labels\<close> of the source is never used.
\<close>

fun GenerateExternalWorkloadIdentity :: "uint32 list \<Rightarrow> string \<Rightarrow> ('e, uint16) op_prog" where
  "GenerateExternalWorkloadIdentity [] name = stop_with Starved"
| "GenerateExternalWorkloadIdentity (d # draws) name =
     (let identity = ucast d in
      andThen (reads (\<lambda>s. gm_read [] (MapIdentityToEWName s) identity)) (\<lambda>owner.
        if owner = [] then
          andThen (modify (\<lambda>s. s\<lparr>MapIdentityToEWName := AList.update identity name (MapIdentityToEWName s)\<rparr>)) (\<lambda>_.
          andThen (modify (\<lambda>s. s\<lparr>MapEWNameToIdentity := AList.update name identity (MapEWNameToIdentity s)\<rparr>)) (\<lambda>_.
          andThen (must_put (KvmOprIdentityToEWName @ u16_str identity) name) (\<lambda>_.
          andThen (must_put (KvmOprEWNameToIdentity @ name) (u16_str identity)) (\<lambda>_.
            ret identity))))
        else GenerateExternalWorkloadIdentity draws name))"

definition GetEWIdentityFromName :: "'e KVMSOperator \<Rightarrow> string \<Rightarrow> uint16" where
  "GetEWIdentityFromName s name = gm_read 0 (MapEWNameToIdentity s) name"

definition GetExternalWorkloadIdentities :: "'e KVMSOperator \<Rightarrow> string \<Rightarrow> uint16 list option" where
  "GetExternalWorkloadIdentities s name = map_of (MapLabelToIdentities s) name"

definition GetExternalWorkloadLabel :: "'e KVMSOperator \<Rightarrow> uint16 \<Rightarrow> string" where
  "GetExternalWorkloadLabel s identity = gm_read [] (MapIdentityToLabel s) identity"

definition GetExternalWorkLoadAllLabels ::
  "((string \<times> uint16 list) list \<Rightarrow> (string \<times> uint16 list) list) \<Rightarrow> 'e KVMSOperator \<Rightarrow> string list" where
  "GetExternalWorkLoadAllLabels it s =
     fold (\<lambda>(label, _) externalWorkloadLabels. externalWorkloadLabels @ [label])
       (it (MapLabelToIdentities s)) []"


section \<open>Watch events\<close>

definition workload_of :: "K8sKubeArmorExternalWorkloadPolicyEvent \<Rightarrow> ExternalWorkloadSecurityPolicy" where
  "workload_of event =
     \<lparr>ew_Metadata =
        \<lparr>em_NodeSelector =
           \<lparr>ns_MatchLabels = om_Labels (ke_Metadata (we_Object event)), ns_Identities = None\<rparr>,
         em_Name = om_Name (ke_Metadata (we_Object event))\<rparr>\<rparr>"

abbreviation workload_name :: "ExternalWorkloadSecurityPolicy \<Rightarrow> string" where
  "workload_name p \<equiv> em_Name (ew_Metadata p)"

abbreviation workload_labels :: "ExternalWorkloadSecurityPolicy \<Rightarrow> (string, string) gomap option" where
  "workload_labels p \<equiv> ns_MatchLabels (em_NodeSelector (ew_Metadata p))"

text \<open>What the random generator and the map iteration do while one event is handled\<close>

record choices =
  ch_draws :: "uint32 list"
  ch_iteration :: iteration

definition HandleAdded :: "choices \<Rightarrow> ExternalWorkloadSecurityPolicy \<Rightarrow> ('e, unit) op_prog" where
  "HandleAdded ch secPolicy =
     andThen (reads ExternalWorkloadSecurityPolicies) (\<lambda>policies.
       if \<not> ContainsElement DeepEqual_workload policies secPolicy then
         andThen (modify (\<lambda>s. s\<lparr>ExternalWorkloadSecurityPolicies :=
           ExternalWorkloadSecurityPolicies s @ [secPolicy]\<rparr>)) (\<lambda>_.
         andThen (GenerateExternalWorkloadIdentity (ch_draws ch) (workload_name secPolicy)) (\<lambda>identity.
           UpdateIdentityLabelsMap identity (convertLabelsToStr (ch_iteration ch) (workload_labels secPolicy))))
       else ret ())"

text \<open>The index at which a loop over the policies finds its first match and breaks off\<close>

fun first_index :: "('a \<Rightarrow> bool) \<Rightarrow> 'a list \<Rightarrow> nat option" where
  "first_index P [] = None"
| "first_index P (x # xs) = (if P x then Some 0 else map_option Suc (first_index P xs))"

definition HandleModified :: "choices \<Rightarrow> ExternalWorkloadSecurityPolicy \<Rightarrow> ('e, unit) op_prog" where
  "HandleModified ch secPolicy =
     andThen (reads ExternalWorkloadSecurityPolicies) (\<lambda>policies.
       case first_index (\<lambda>policy. workload_name policy = workload_name secPolicy) policies of
         None \<Rightarrow> ret ()
       | Some idx \<Rightarrow>
           andThen (modify (\<lambda>s. s\<lparr>ExternalWorkloadSecurityPolicies :=
             (ExternalWorkloadSecurityPolicies s)[idx := secPolicy]\<rparr>)) (\<lambda>_.
           andThen (reads (\<lambda>s. GetEWIdentityFromName s (workload_name secPolicy))) (\<lambda>identity.
             UpdateIdentityLabelsMap identity
               (convertLabelsToStr (ch_iteration ch) (workload_labels secPolicy)))))"

definition HandleDeleted :: "choices \<Rightarrow> ExternalWorkloadSecurityPolicy \<Rightarrow> ('e, unit) op_prog" where
  "HandleDeleted ch secPolicy =
     andThen (reads ExternalWorkloadSecurityPolicies) (\<lambda>policies.
       case first_index (\<lambda>policy. DeepEqual_workload secPolicy policy) policies of
         None \<Rightarrow> ret ()
       | Some idx \<Rightarrow>
           andThen (modify (\<lambda>s. s\<lparr>ExternalWorkloadSecurityPolicies :=
             take idx (ExternalWorkloadSecurityPolicies s) @
             drop (idx + 1) (ExternalWorkloadSecurityPolicies s)\<rparr>)) (\<lambda>_.
           andThen (reads (\<lambda>s. GetEWIdentityFromName s (workload_name secPolicy))) (\<lambda>identity.
             UnMapLabelIdentity identity (workload_name secPolicy)
               (convertLabelsToStr (ch_iteration ch) (workload_labels secPolicy)))))"

text \<open>The body of the decoder loop, for one event that was read\<close>

definition HandleEvent :: "choices \<times> K8sKubeArmorExternalWorkloadPolicyEvent \<Rightarrow> ('e, unit) op_prog" where
  "HandleEvent ce =
     (case ce of (ch, event) \<Rightarrow>
        if ws_Status (ke_Status (we_Object event)) \<noteq> [] \<and> ws_Status (ke_Status (we_Object event)) \<noteq> ''OK''
        then ret ()
        else
          andThen op_Lock (\<lambda>_.
          andThen
            (let secPolicy = workload_of event in
             if we_Type event = ''ADDED'' then HandleAdded ch secPolicy
             else if we_Type event = ''MODIFIED'' then HandleModified ch secPolicy
             else if we_Type event = ''DELETED'' then HandleDeleted ch secPolicy
             else ret ()) (\<lambda>_.
          andThen op_Unlock (\<lambda>_.
            UpdateExternalWorkloadSecurityPolicies))))"

text \<open>
  The outer loop never ends; \<open>rounds\<close> are the rounds that are observed. In each the custom
  resource is not there yet, the watch request fails, or a stream of events is read to its end.
\<close>

datatype 'ev watch_round = CrdMissing | WatchFailed | WatchStream "'ev list"

fun WatchExternalWorkloadSecurityPolicies ::
  "(choices \<times> K8sKubeArmorExternalWorkloadPolicyEvent) watch_round list \<Rightarrow> ('e, unit) op_prog" where
  "WatchExternalWorkloadSecurityPolicies [] = ret ()"
| "WatchExternalWorkloadSecurityPolicies (CrdMissing # rounds) = WatchExternalWorkloadSecurityPolicies rounds"
| "WatchExternalWorkloadSecurityPolicies (WatchFailed # rounds) = WatchExternalWorkloadSecurityPolicies rounds"
| "WatchExternalWorkloadSecurityPolicies (WatchStream events # rounds) =
     andThen (run_events HandleEvent events) (\<lambda>_. WatchExternalWorkloadSecurityPolicies rounds)"

text \<open>
  Shutting down removes the label map from etcd and nothing else; an error is ignored. The pause
  before and the wait for other goroutines after it do not touch the state.
\<close>

definition DestroyKVMSOperator :: "('e, unit) op_prog" where
  "DestroyKVMSOperator =
     andThen (op_etcd (\<lambda>cli. EtcdDelete cli KvmOprLabelToIdentities)) (\<lambda>_. ret ())"

text \<open>
  \<open>KVMSOperatorDaemon\<close>: the watch is started only if the Kubernetes client was initialised; a
  signal ends it. The goroutine of the watch has handled \<open>rounds\<close> when the signal comes.
\<close>

definition KVMSOperatorDaemon ::
  "bool \<Rightarrow> (choices \<times> K8sKubeArmorExternalWorkloadPolicyEvent) watch_round list \<Rightarrow> ('e, unit) op_prog" where
  "KVMSOperatorDaemon initK8sClient rounds =
     andThen (if initK8sClient then WatchExternalWorkloadSecurityPolicies rounds else ret ())
       (\<lambda>_. DestroyKVMSOperator)"

end
