(* ===== verification/Operator_Spec.thy ===== *)
theory Operator_Spec
  imports Operator
begin

text \<open>
  The specification of the operator's bookkeeping, and the proof that the code refines it.

  \<open>op_view\<close> abstracts the state to four finite maps and the content of etcd; the abstract
  operations \<open>spec_assign\<close>, \<open>spec_label\<close> and \<open>spec_unmap\<close> say what one call of
  \<open>GenerateExternalWorkloadIdentity\<close>, \<open>UpdateIdentityLabelsMap\<close> and \<open>UnMapLabelIdentity\<close> does
  to it. The refinement lemmas hold whenever the call returns, whether or not etcd stays up in
  between; that it returns while etcd is up is shown separately.
\<close>


section \<open>Abstract state and operations\<close>

record op_view =
  v_idname :: "uint16 \<rightharpoonup> string"
  v_nameid :: "string \<rightharpoonup> uint16"
  v_idlabel :: "uint16 \<rightharpoonup> string"
  v_label :: "string \<rightharpoonup> uint16 list"
  v_kvs :: "string \<rightharpoonup> string"

definition view :: "('e \<Rightarrow> string \<rightharpoonup> string) \<Rightarrow> 'e KVMSOperator \<Rightarrow> op_view" where
  "view kvs s =
     \<lparr>v_idname = map_of (MapIdentityToEWName s), v_nameid = map_of (MapEWNameToIdentity s),
      v_idlabel = map_of (MapIdentityToLabel s), v_label = map_of (MapLabelToIdentities s),
      v_kvs = kvs (op_store s)\<rparr>"

definition identity_free :: "op_view \<Rightarrow> uint16 \<Rightarrow> bool" where
  "identity_free v i = (case v_idname v i of None \<Rightarrow> True | Some n \<Rightarrow> n = [])"

definition spec_assign :: "uint16 \<Rightarrow> string \<Rightarrow> op_view \<Rightarrow> op_view" where
  "spec_assign i name v =
     v\<lparr>v_idname := (v_idname v)(i \<mapsto> name), v_nameid := (v_nameid v)(name \<mapsto> i),
       v_kvs := (v_kvs v)(KvmOprIdentityToEWName @ u16_str i \<mapsto> name,
                          KvmOprEWNameToIdentity @ name \<mapsto> u16_str i)\<rparr>"

definition label_list :: "op_view \<Rightarrow> string \<Rightarrow> uint16 list" where
  "label_list v label = (case v_label v label of None \<Rightarrow> [] | Some l \<Rightarrow> l)"

definition spec_label :: "uint16 \<Rightarrow> string \<Rightarrow> op_view \<Rightarrow> op_view" where
  "spec_label i label v =
     (let v1 = v\<lparr>v_idlabel := (v_idlabel v)(i \<mapsto> label),
                 v_kvs := (v_kvs v)(KvmOprIdentityToLabel @ u16_str i \<mapsto> label)\<rparr>;
          l = label_list v label
      in if i \<in> set l then v1
         else v1\<lparr>v_label := (v_label v1)(label \<mapsto> l @ [i]),
                 v_kvs := (v_kvs v1)(KvmOprLabelToIdentities @ label \<mapsto> MarshalU16s (Some (l @ [i])))\<rparr>)"

text \<open>
  What is left of the list of a label when an identity is taken out; \<open>None\<close> if the loop panics.
\<close>

definition drop_result :: "uint16 \<Rightarrow> uint16 list option \<Rightarrow> uint16 list option option" where
  "drop_result i l =
     (case l of None \<Rightarrow> Some None
      | Some arr \<Rightarrow> (case drop_identity i arr of Stop c \<Rightarrow> None | Ret (arr', n) \<Rightarrow> Some (Some arr')))"

text \<open>The keys that deleting a workload removes: every key that begins with one of its three keys\<close>

definition unmapped_key :: "uint16 \<Rightarrow> string \<Rightarrow> string \<Rightarrow> bool" where
  "unmapped_key i name k \<longleftrightarrow>
     prefix (KvmOprIdentityToEWName @ u16_str i) k \<or> prefix (KvmOprEWNameToIdentity @ name) k \<or>
     prefix (KvmOprIdentityToLabel @ u16_str i) k"

definition spec_unmap :: "uint16 \<Rightarrow> string \<Rightarrow> string \<Rightarrow> uint16 list option \<Rightarrow> op_view \<Rightarrow> op_view" where
  "spec_unmap i name label l' v =
     v\<lparr>v_idname := (v_idname v)(i := None), v_nameid := (v_nameid v)(name := None),
       v_idlabel := (v_idlabel v)(i := None), v_label := (v_label v)(label := l'),
       v_kvs := (\<lambda>k. if unmapped_key i name k then None else v_kvs v k)
                  (KvmOprLabelToIdentities @ label \<mapsto> MarshalU16s l')\<rparr>"

text \<open>What none of the three operations touches\<close>

definition op_frame :: "'e KVMSOperator \<Rightarrow> 'e KVMSOperator \<Rightarrow> bool" where
  "op_frame s t \<longleftrightarrow> op_EtcdClient t = op_EtcdClient s \<and> op_Locked t = op_Locked s \<and>
     ExternalWorkloadSecurityPolicies t = ExternalWorkloadSecurityPolicies s"

text \<open>The state talks to the given client library (or has no client at all); it is connected
  when there is a client and the server is up.\<close>

definition uses :: "'e clientv3 \<Rightarrow> 'e KVMSOperator \<Rightarrow> bool" where
  "uses api s \<longleftrightarrow> (\<forall>c. op_EtcdClient s = Some c \<longrightarrow> etcdClient c = api)"

definition connected :: "'e clientv3 \<Rightarrow> ('e \<Rightarrow> bool) \<Rightarrow> 'e KVMSOperator \<Rightarrow> bool" where
  "connected api up s \<longleftrightarrow>
     (\<exists>l. op_EtcdClient s = Some \<lparr>etcdClient = api, leaseResponse = l\<rparr>) \<and> up (op_store s)"

lemma connected_uses: "connected api up s \<Longrightarrow> uses api s"
  by (auto simp: connected_def uses_def)

lemma uses_frame: "op_frame s t \<Longrightarrow> uses api s \<Longrightarrow> uses api t"
  by (simp add: op_frame_def uses_def)

lemma op_frame_refl [simp]: "op_frame s s"
  by (simp add: op_frame_def)

lemma op_frame_trans: "op_frame s t \<Longrightarrow> op_frame t u \<Longrightarrow> op_frame s u"
  by (simp add: op_frame_def)

lemma op_frame_updates [simp]:
  "op_frame s (t\<lparr>op_store := e\<rparr>) = op_frame s t"
  "op_frame s (t\<lparr>MapIdentityToEWName := a\<rparr>) = op_frame s t"
  "op_frame s (t\<lparr>MapEWNameToIdentity := b\<rparr>) = op_frame s t"
  "op_frame s (t\<lparr>MapIdentityToLabel := c\<rparr>) = op_frame s t"
  "op_frame s (t\<lparr>MapLabelToIdentities := d\<rparr>) = op_frame s t"
  by (simp_all add: op_frame_def)

lemma uses_updates [simp]:
  "uses api (t\<lparr>op_store := e\<rparr>) = uses api t"
  "uses api (t\<lparr>MapIdentityToEWName := a\<rparr>) = uses api t"
  "uses api (t\<lparr>MapEWNameToIdentity := b\<rparr>) = uses api t"
  "uses api (t\<lparr>MapIdentityToLabel := c\<rparr>) = uses api t"
  "uses api (t\<lparr>MapLabelToIdentities := d\<rparr>) = uses api t"
  "uses api (t\<lparr>ExternalWorkloadSecurityPolicies := p\<rparr>) = uses api t"
  "uses api (t\<lparr>op_Locked := h\<rparr>) = uses api t"
  by (simp_all add: uses_def)

lemma connected_updates [simp]:
  "connected api up (t\<lparr>MapIdentityToEWName := a\<rparr>) = connected api up t"
  "connected api up (t\<lparr>MapEWNameToIdentity := b\<rparr>) = connected api up t"
  "connected api up (t\<lparr>MapIdentityToLabel := c\<rparr>) = connected api up t"
  "connected api up (t\<lparr>MapLabelToIdentities := d\<rparr>) = connected api up t"
  "connected api up (t\<lparr>ExternalWorkloadSecurityPolicies := p\<rparr>) = connected api up t"
  "connected api up (t\<lparr>op_Locked := h\<rparr>) = connected api up t"
  by (simp_all add: connected_def)

lemma view_policies [simp]:
  "view kvs (t\<lparr>ExternalWorkloadSecurityPolicies := p\<rparr>) = view kvs t"
  "view kvs (t\<lparr>op_Locked := h\<rparr>) = view kvs t"
  by (simp_all add: view_def)

lemma Find_from_snd: "snd (Find_from i l x) \<longleftrightarrow> x \<in> set l"
  by (induction l arbitrary: i) auto

lemma Find_found [simp]: "snd (Find l x) \<longleftrightarrow> x \<in> set l"
  by (simp add: Find_def Find_from_snd)

lemma label_list_view [simp]: "label_list (view kvs s) label = gm_read [] (MapLabelToIdentities s) label"
  by (simp add: label_list_def view_def gm_read_def)

lemma identity_free_view [simp]:
  "identity_free (view kvs s) i \<longleftrightarrow> gm_read [] (MapIdentityToEWName s) i = []"
  by (auto simp: identity_free_def view_def gm_read_def split: option.splits)

lemma added_in_list: "\<exists>l. v_label (spec_label i label v) label = Some l \<and> i \<in> set l"
  by (cases "v_label v label") (auto simp: spec_label_def Let_def label_list_def)


section \<open>The calls of the client\<close>

context etcd_server
begin

lemma wlp_must_put:
  assumes "uses api s"
    and "\<And>e. kvs e = (kvs (op_store s))(k \<mapsto> v) \<Longrightarrow> Q () (s\<lparr>op_store := e\<rparr>)"
  shows "wlp (must_put k v) Q s"
proof (cases "op_EtcdClient s")
  case None
  then show ?thesis by (simp add: must_put_def wlp_def op_etcd_def on_part_def nil_deref_def stop_with_def)
next
  case (Some c)
  obtain r e where call: "cPut api k v (op_store s) = (r, e)" by fastforce
  have api: "etcdClient c = api" using assms(1) Some by (simp add: uses_def)
  show ?thesis
    using Some call api put_ok [of k v "op_store s" e] assms(2) [of e]
    by (cases r) (auto simp: must_put_def wlp_def op_etcd_def on_part_def etcd_op_defs prog_simps)
qed

lemma wlp_must_delete:
  assumes "uses api s"
    and "\<And>e. kvs e = (\<lambda>k. if prefix p k then None else kvs (op_store s) k) \<Longrightarrow> Q () (s\<lparr>op_store := e\<rparr>)"
  shows "wlp (must_delete p) Q s"
proof (cases "op_EtcdClient s")
  case None
  then show ?thesis by (simp add: must_delete_def wlp_def op_etcd_def on_part_def nil_deref_def stop_with_def)
next
  case (Some c)
  obtain r e where call: "cDeleteWithPrefix api p (op_store s) = (r, e)" by fastforce
  have api: "etcdClient c = api" using assms(1) Some by (simp add: uses_def)
  show ?thesis
    using Some call api delete_ok [of p "op_store s" e] assms(2) [of e]
    by (cases r) (auto simp: must_delete_def wlp_def op_etcd_def on_part_def etcd_op_defs prog_simps)
qed

lemma wp_must_put:
  assumes "connected api up s"
  shows "wp (must_put k v) (\<lambda>_. connected api up) s"
proof -
  from assms obtain l where l: "op_EtcdClient s = Some \<lparr>etcdClient = api, leaseResponse = l\<rparr>"
    and up: "up (op_store s)" by (auto simp: connected_def)
  from kv.put_spec [OF up] obtain e where
    "EtcdPut (Some \<lparr>etcdClient = api, leaseResponse = l\<rparr>) k v (op_store s) = (Ret None, e)" "up e"
    by blast
  with l show ?thesis
    by (simp add: connected_def must_put_def op_etcd_def on_part_def wp_def ret_def)
qed

lemma wp_must_delete:
  assumes "connected api up s"
  shows "wp (must_delete p) (\<lambda>_. connected api up) s"
proof -
  from assms obtain l where l: "op_EtcdClient s = Some \<lparr>etcdClient = api, leaseResponse = l\<rparr>"
    and up: "up (op_store s)" by (auto simp: connected_def)
  from kv.del_spec [OF up] obtain e where
    "EtcdDelete (Some \<lparr>etcdClient = api, leaseResponse = l\<rparr>) p (op_store s) = (Ret None, e)" "up e"
    by blast
  with l show ?thesis
    by (simp add: connected_def must_delete_def op_etcd_def on_part_def wp_def ret_def)
qed


section \<open>Refinement\<close>

lemma wlp_Generate:
  assumes "uses api s"
  shows "wlp (GenerateExternalWorkloadIdentity draws name)
    (\<lambda>i t. find (identity_free (view kvs s)) (map ucast draws) = Some i \<and> op_frame s t \<and>
      view kvs t = spec_assign i name (view kvs s)) s"
  using assms
proof (induction draws)
  case (Cons d draws)
  then show ?case
    by (simp add: Let_def)
      (auto simp: view_def spec_assign_def update_conv' intro!: wlp_must_put)
qed simp

lemma wp_Generate:
  assumes "connected api up s" and "find (identity_free (view kvs s)) (map ucast draws) \<noteq> None"
  shows "wp (GenerateExternalWorkloadIdentity draws name) (\<lambda>_. connected api up) s"
  using assms
proof (induction draws)
  case (Cons d draws)
  then show ?case
    by (auto simp: Let_def split: if_splits intro!: wp_must_put [THEN wp_mono])
qed simp

lemma wlp_UpdateLabels:
  assumes "uses api s"
  shows "wlp (UpdateIdentityLabelsMap i label)
    (\<lambda>_ t. op_frame s t \<and> view kvs t = spec_label i label (view kvs s)) s"
  using assms unfolding UpdateIdentityLabelsMap_def
  by (auto simp: view_def spec_label_def Let_def update_conv' append_identity_def label_list_def
      gm_read_def intro!: wlp_must_put)

lemma wp_UpdateLabels:
  assumes "connected api up s"
  shows "wp (UpdateIdentityLabelsMap i label) (\<lambda>_. connected api up) s"
  using assms unfolding UpdateIdentityLabelsMap_def
  by (auto simp: append_identity_def intro!: wp_must_put [THEN wp_mono])

lemma wlp_drop_from_label:
  assumes "\<And>l'. drop_result i (map_of (MapLabelToIdentities s) label) = Some l' \<Longrightarrow>
    (\<And>t. op_frame s t \<Longrightarrow> op_store t = op_store s \<Longrightarrow>
      view kvs t = (view kvs s)\<lparr>v_label := (v_label (view kvs s))(label := l')\<rparr> \<Longrightarrow> Q () t)"
  shows "wlp (drop_from_label i label) Q s"
proof (cases "map_of (MapLabelToIdentities s) label")
  case None
  then show ?thesis
    using assms [of None s] by (simp add: wlp_def drop_from_label_def drop_result_def view_def fun_upd_idem)
next
  case (Some arr)
  then show ?thesis
    using assms by (auto simp: wlp_def drop_from_label_def drop_result_def view_def update_conv'
        split: outcome.splits)
qed

lemma wlp_UnMap_names:
  assumes "uses api s"
  shows "wlp (UnMap_names i name) (\<lambda>_ t. op_frame s t \<and> view kvs t = (view kvs s)\<lparr>
      v_idname := (v_idname (view kvs s))(i := None), v_nameid := (v_nameid (view kvs s))(name := None),
      v_idlabel := (v_idlabel (view kvs s))(i := None),
      v_kvs := (\<lambda>k. if unmapped_key i name k then None else v_kvs (view kvs s) k)\<rparr>) s"
  using assms unfolding UnMap_names_def
  by (auto simp: view_def delete_conv' unmapped_key_def fun_eq_iff intro!: wlp_must_delete)

lemma wlp_UnMap_label:
  assumes "uses api s"
  shows "wlp (UnMap_label i label)
    (\<lambda>_ t. op_frame s t \<and> (\<exists>l'. drop_result i (v_label (view kvs s) label) = Some l' \<and>
       view kvs t = (view kvs s)\<lparr>v_label := (v_label (view kvs s))(label := l'),
         v_kvs := (v_kvs (view kvs s))(KvmOprLabelToIdentities @ label \<mapsto> MarshalU16s l')\<rparr>)) s"
  unfolding UnMap_label_def wlp_andThen
proof (rule wlp_drop_from_label, goal_cases)
  case (1 l' t)
  moreover from 1(2) assms have "uses api t" by (rule uses_frame)
  moreover have "map_of (MapLabelToIdentities t) label = l'" using 1(4) by (simp add: view_def)
  ultimately show ?case
    by (auto simp: view_def intro!: wlp_must_put)
qed

lemma wlp_UnMap:
  assumes "uses api s"
  shows "wlp (UnMapLabelIdentity i name label)
    (\<lambda>_ t. op_frame s t \<and>
      (\<exists>l'. drop_result i (v_label (view kvs s) label) = Some l' \<and>
         view kvs t = spec_unmap i name label l' (view kvs s))) s"
  unfolding UnMapLabelIdentity_def wlp_andThen
proof (rule wlp_mono [OF wlp_UnMap_names [OF assms]], goal_cases)
  case (1 x t)
  then have "uses api t" using assms uses_frame by blast
  from wlp_UnMap_label [OF this] show ?case
    by (rule wlp_mono) (use 1 in \<open>auto simp: spec_unmap_def intro: op_frame_trans\<close>)
qed

lemma wp_UnMap_names:
  assumes "connected api up s"
  shows "wp (UnMap_names i name) (\<lambda>_. connected api up) s"
  using assms unfolding UnMap_names_def
  by (auto intro!: wp_must_delete [THEN wp_mono] wp_must_delete)

lemma wp_UnMap_label:
  assumes "connected api up s" and "drop_result i (v_label (view kvs s) label) \<noteq> None"
  shows "wp (UnMap_label i label) (\<lambda>_. connected api up) s"
proof -
  obtain m where "drop_from_label i label s = (Ret (), s\<lparr>MapLabelToIdentities := m\<rparr>)"
  proof (cases "map_of (MapLabelToIdentities s) label")
    case None
    then show ?thesis using that [of "MapLabelToIdentities s"] by (simp add: drop_from_label_def)
  next
    case (Some arr)
    with assms(2) that show ?thesis
      by (auto simp: drop_from_label_def drop_result_def view_def split: outcome.splits)
  qed
  with assms(1) show ?thesis
    by (auto simp: UnMap_label_def wp_def [of "drop_from_label i label"] intro!: wp_must_put)
qed

lemma wp_UnMap:
  assumes "connected api up s" and "drop_result i (v_label (view kvs s) label) \<noteq> None"
  shows "wp (UnMapLabelIdentity i name label) (\<lambda>_. connected api up) s"
  unfolding UnMapLabelIdentity_def wp_andThen
  by (rule wp_mono [OF wp_wlp [OF wp_UnMap_names [OF assms(1)] wlp_UnMap_names [OF connected_uses [OF assms(1)]]]])
    (use assms(2) in \<open>auto intro!: wp_UnMap_label\<close>)

end

end
