(* ===== verification/Operator_Props.thy ===== *)
theory Operator_Props
  imports Operator_Spec
begin

text \<open>
  The invariant of the operator and what follows from it for every sequence of watch events:
  the maps between names and identities agree, a list holds a non-zero identity at most once, and
  etcd mirrors the list of every label. Further: the operator never waits for its own lock, and
  it gives the lock back.
\<close>


section \<open>The invariant\<close>

definition names_ok :: "op_view \<Rightarrow> bool" where
  "names_ok v \<longleftrightarrow> (\<forall>n i. v_nameid v n = Some i \<longrightarrow> n \<noteq> [] \<and> (i \<noteq> 0 \<longrightarrow> v_idname v i = Some n))"

definition lists_ok :: "op_view \<Rightarrow> bool" where
  "lists_ok v \<longleftrightarrow> (\<forall>label l i. v_label v label = Some l \<longrightarrow> i \<noteq> 0 \<longrightarrow> count (mset l) i \<le> 1)"

definition mirror_ok :: "op_view \<Rightarrow> bool" where
  "mirror_ok v \<longleftrightarrow> (\<forall>label l. v_label v label = Some l \<longrightarrow>
     v_kvs v (KvmOprLabelToIdentities @ label) = Some (MarshalU16s (Some l)))"

definition op_inv :: "op_view \<Rightarrow> bool" where
  "op_inv v \<longleftrightarrow> names_ok v \<and> lists_ok v \<and> mirror_ok v"

lemma op_inv_initial: "op_inv (view kvs (NewKVMSOperatorDaemon cli e))"
  by (simp add: op_inv_def names_ok_def lists_ok_def mirror_ok_def view_def NewKVMSOperatorDaemon_def)

lemma op_inv_assign:
  assumes "op_inv v" and "identity_free v i" and "name \<noteq> []"
  shows "op_inv (spec_assign i name v)"
proof -
  have "names_ok (spec_assign i name v)"
    using assms by (fastforce simp: op_inv_def names_ok_def spec_assign_def identity_free_def)
  with assms(1) show ?thesis
    by (simp add: op_inv_def lists_ok_def mirror_ok_def spec_assign_def)
qed

lemma op_inv_label:
  assumes "op_inv v"
  shows "op_inv (spec_label i label v)"
proof -
  have "names_ok (spec_label i label v)"
    using assms by (simp add: op_inv_def names_ok_def spec_label_def Let_def)
  moreover have "lists_ok (spec_label i label v)"
    using assms by (auto simp: op_inv_def lists_ok_def spec_label_def Let_def label_list_def
        not_in_iff split: option.splits)
  moreover have "mirror_ok (spec_label i label v)"
    using assms by (auto simp: op_inv_def mirror_ok_def spec_label_def Let_def)
  ultimately show ?thesis by (simp add: op_inv_def)
qed

lemma mset_drop_identity:
  assumes "drop_identity i arr = Ret (arr', n)" and "i \<noteq> 0 \<Longrightarrow> count (mset arr) i \<le> 1"
  shows "mset arr' = (if i \<noteq> 0 \<and> i \<in> set arr then mset arr - {#i#} + {#0#} else mset arr)"
proof (cases "i \<in> set arr")
  case False
  with assms(1) show ?thesis by (simp add: drop_identity_absent)
next
  case True
  then obtain xs ys where arr: "arr = xs @ i # ys" and xs: "i \<notin> set xs"
    by (meson split_list_first)
  show ?thesis
  proof (cases "i = 0")
    case False
    then have "i \<notin> set ys" using assms(2) arr by (auto simp: not_in_iff)
    with False xs assms(1) arr show ?thesis by (auto simp: drop_identity_once)
  next
    case zero: True
    then have "ys = []"
      using assms(1) arr drop_zero_panics [of arr] by (cases ys) (auto simp: butlast_append)
    with zero xs assms(1) arr drop_identity_first [of i xs ys] show ?thesis
      by (auto simp: close_gap_def)
  qed
qed

lemma op_inv_unmap:
  assumes "op_inv v" and "i = (case v_nameid v name of None \<Rightarrow> 0 | Some j \<Rightarrow> j)"
    and "drop_result i (v_label v label) = Some l'"
  shows "op_inv (spec_unmap i name label l' v)"
proof -
  have owner: "v_idname v j = Some n" if "v_nameid v n = Some j" "j \<noteq> 0" for n j
    using assms(1) that by (simp add: op_inv_def names_ok_def)
  have "i \<noteq> j" if "v_nameid v n = Some j" "j \<noteq> 0" "n \<noteq> name" for n j
    using owner [OF that(1,2)] owner [of name i] that assms(2) by (auto split: option.splits)
  with owner have "names_ok (spec_unmap i name label l' v)"
    using assms(1) by (auto simp: op_inv_def names_ok_def spec_unmap_def)
  moreover have "mirror_ok (spec_unmap i name label l' v)"
    using assms(1) by (auto simp: op_inv_def mirror_ok_def spec_unmap_def unmapped_key_def)
  moreover have "count (mset l) j \<le> 1" if "l' = Some l" "j \<noteq> 0" for l j
  proof -
    from that(1) assms(3) obtain arr n where
      arr: "v_label v label = Some arr" "drop_identity i arr = Ret (l, n)"
      by (auto simp: drop_result_def split: option.splits outcome.splits)
    have le: "\<And>k. k \<noteq> 0 \<Longrightarrow> count (mset arr) k \<le> 1"
      using assms(1) arr(1) by (auto simp: op_inv_def lists_ok_def)
    show ?thesis
      using mset_drop_identity [OF arr(2)] le [OF that(2)] le that(2) by auto
  qed
  then have "lists_ok (spec_unmap i name label l' v)"
    using assms(1) by (auto simp: op_inv_def lists_ok_def spec_unmap_def)
  ultimately show ?thesis by (simp add: op_inv_def)
qed


section \<open>Every event keeps the invariant\<close>

definition named_event :: "choices \<times> K8sKubeArmorExternalWorkloadPolicyEvent \<Rightarrow> bool" where
  "named_event ce \<longleftrightarrow> om_Name (ke_Metadata (we_Object (snd ce))) \<noteq> []"

lemma workload_name_of: "workload_name (workload_of ev) = om_Name (ke_Metadata (we_Object ev))"
  by (simp add: workload_of_def)

context etcd_server
begin

definition op_ok :: "'e KVMSOperator \<Rightarrow> bool" where
  "op_ok s \<longleftrightarrow> uses api s \<and> op_inv (view kvs s)"

lemma op_ok_updates [simp]:
  "op_ok (s\<lparr>ExternalWorkloadSecurityPolicies := p\<rparr>) = op_ok s"
  "op_ok (s\<lparr>op_Locked := h\<rparr>) = op_ok s"
  by (simp_all add: op_ok_def)

lemma Generate_keeps_ok:
  assumes "op_ok s" and "name \<noteq> []"
  shows "wlp (GenerateExternalWorkloadIdentity draws name) (\<lambda>_. op_ok) s"
  using assms
  by (auto simp: op_ok_def find_Some_iff intro!: wlp_mono [OF wlp_Generate] op_inv_assign uses_frame
      simp del: identity_free_view)

lemma UpdateLabels_keeps_ok: "op_ok s \<Longrightarrow> wlp (UpdateIdentityLabelsMap i label) (\<lambda>_. op_ok) s"
  by (auto simp: op_ok_def intro!: wlp_mono [OF wlp_UpdateLabels] op_inv_label uses_frame)

lemma UnMap_keeps_ok:
  assumes "op_ok s" and "i = GetEWIdentityFromName s name"
  shows "wlp (UnMapLabelIdentity i name label) (\<lambda>_. op_ok) s"
proof -
  have i: "i = (case v_nameid (view kvs s) name of None \<Rightarrow> 0 | Some j \<Rightarrow> j)"
    using assms(2) by (simp add: GetEWIdentityFromName_def gm_read_def view_def)
  show ?thesis
    by (rule wlp_mono [OF wlp_UnMap])
      (use assms(1) i op_inv_unmap in \<open>auto simp: op_ok_def intro: uses_frame\<close>)
qed

lemma HandleAdded_keeps_ok: "workload_name p \<noteq> [] \<Longrightarrow> keeps op_ok (HandleAdded ch p)"
  by (rule keeps_from_wlp)
    (auto simp: HandleAdded_def intro!: wlp_mono [OF Generate_keeps_ok] UpdateLabels_keeps_ok)

lemma HandleModified_keeps_ok: "keeps op_ok (HandleModified ch p)"
  by (rule keeps_from_wlp)
    (auto simp: HandleModified_def intro!: UpdateLabels_keeps_ok split: option.splits)

lemma HandleDeleted_keeps_ok: "keeps op_ok (HandleDeleted ch p)"
  by (rule keeps_from_wlp)
    (auto simp: HandleDeleted_def GetEWIdentityFromName_def intro!: UnMap_keeps_ok split: option.splits)

lemma lock_keeps_ok: "keeps op_ok op_Lock" "keeps op_ok op_Unlock"
  "keeps op_ok UpdateExternalWorkloadSecurityPolicies"
  by (auto simp: op_Lock_def op_Unlock_def UpdateExternalWorkloadSecurityPolicies_def
      intro!: keeps_intros keeps_modify)

lemma HandleEvent_keeps_ok: "named_event ce \<Longrightarrow> keeps op_ok (HandleEvent ce)"
  unfolding HandleEvent_def Let_def
  by (cases ce)
    (auto simp: named_event_def workload_name_of intro!: keeps_intros lock_keeps_ok
      HandleAdded_keeps_ok HandleModified_keeps_ok HandleDeleted_keeps_ok)

end

sublocale etcd_server \<subseteq> op: event_handler HandleEvent named_event op_ok
  by unfold_locales (rule HandleEvent_keeps_ok)

definition round_events :: "'ev watch_round \<Rightarrow> 'ev list" where
  "round_events r = (case r of WatchStream evs \<Rightarrow> evs | _ \<Rightarrow> [])"

context etcd_server
begin

lemma Watch_keeps_ok:
  assumes "\<forall>r \<in> set rounds. list_all named_event (round_events r)"
  shows "keeps op_ok (WatchExternalWorkloadSecurityPolicies rounds)"
  using assms
  by (induction rounds rule: WatchExternalWorkloadSecurityPolicies.induct)
    (auto simp: round_events_def intro!: keeps_intros op.run_keeps)

lemma Watch_from_start:
  assumes "\<forall>r \<in> set rounds. list_all named_event (round_events r)"
    and "WatchExternalWorkloadSecurityPolicies rounds
      (NewKVMSOperatorDaemon (Some \<lparr>etcdClient = api, leaseResponse = l\<rparr>) e) = (Ret (), s)"
  shows "op_inv (view kvs s)"
proof -
  have "op_ok (NewKVMSOperatorDaemon (Some \<lparr>etcdClient = api, leaseResponse = l\<rparr>) e)"
    by (simp add: op_ok_def op_inv_initial) (simp add: uses_def NewKVMSOperatorDaemon_def)
  from keepsD [OF Watch_keeps_ok [OF assms(1)] this assms(2)] show ?thesis by (simp add: op_ok_def)
qed

end


section \<open>The lock\<close>

lemma never_blocks_op_etcd [never_blocks_intros]:
  "never_blocks (op_etcd (\<lambda>cli. EtcdPut cli k v))" "never_blocks (op_etcd (\<lambda>cli. EtcdDelete cli k))"
  by (auto simp: never_blocks_def op_etcd_def on_part_def etcd_op_defs nil_deref_def stop_with_def
      split: prod.splits option.splits)

lemma never_blocks_must [never_blocks_intros]:
  "never_blocks (must_put k v)" "never_blocks (must_delete k)"
  by (simp_all add: must_put_def must_delete_def never_blocks_intros)

lemma drop_identity_loop_not_blocked: "drop_identity_loop x i k arr n \<noteq> Stop Blocked"
  by (induction x i k arr n rule: drop_identity_loop.induct) auto

lemma never_blocks_drop [never_blocks_intros]: "never_blocks (drop_from_label i label)"
  using drop_identity_loop_not_blocked
  by (auto simp: never_blocks_def drop_from_label_def drop_identity_def split: option.splits outcome.splits)

lemma never_blocks_Generate [never_blocks_intros]:
  "never_blocks (GenerateExternalWorkloadIdentity draws name)"
  by (induction draws) (simp_all add: Let_def never_blocks_intros)

lemma never_blocks_maps [never_blocks_intros]:
  "never_blocks (UpdateIdentityLabelsMap i label)" "never_blocks (UnMapLabelIdentity i name label)"
  by (simp_all add: UpdateIdentityLabelsMap_def UnMapLabelIdentity_def UnMap_names_def UnMap_label_def
      never_blocks_intros)

lemma never_blocks_handlers [never_blocks_intros]:
  "never_blocks (HandleAdded ch p)" "never_blocks (HandleModified ch p)" "never_blocks (HandleDeleted ch p)"
  by (auto simp: HandleAdded_def HandleModified_def HandleDeleted_def intro!: never_blocks_intros
      split: option.splits)

text \<open>Nothing between \<open>Lock\<close> and \<open>Unlock\<close> touches the lock.\<close>

named_theorems lock_kept \<open>programs that leave the lock as it is\<close>

abbreviation same_lock :: "bool \<Rightarrow> 'e KVMSOperator \<Rightarrow> bool" where
  "same_lock h s \<equiv> op_Locked s = h"

lemma same_lock_must [lock_kept]: "keeps (same_lock h) (must_put k v)" "keeps (same_lock h) (must_delete k)"
  by (auto simp: must_put_def must_delete_def keeps_def op_etcd_def on_part_def prog_simps fatal_on_def
      split: prod.splits option.splits elim!: andThen_RetE)

lemma same_lock_drop [lock_kept]: "keeps (same_lock h) (drop_from_label i label)"
  by (auto simp: keeps_def drop_from_label_def split: option.splits outcome.splits)

lemma same_lock_Generate [lock_kept]: "keeps (same_lock h) (GenerateExternalWorkloadIdentity draws name)"
  by (induction draws) (auto simp: Let_def intro!: keeps_intros keeps_modify lock_kept)

lemma same_lock_maps [lock_kept]:
  "keeps (same_lock h) (UpdateIdentityLabelsMap i label)" "keeps (same_lock h) (UnMapLabelIdentity i name label)"
  by (auto simp: UpdateIdentityLabelsMap_def UnMapLabelIdentity_def UnMap_names_def UnMap_label_def
      append_identity_def intro!: keeps_intros keeps_modify lock_kept)

lemma same_lock_handlers [lock_kept]:
  "keeps (same_lock h) (HandleAdded ch p)" "keeps (same_lock h) (HandleModified ch p)"
  "keeps (same_lock h) (HandleDeleted ch p)"
  by (auto simp: HandleAdded_def HandleModified_def HandleDeleted_def
      intro!: keeps_intros keeps_modify lock_kept split: option.splits)

text \<open>Nor does anything but the handlers themselves touch the list of the workloads.\<close>

named_theorems policies_kept \<open>programs that leave the list of the workloads as it is\<close>

abbreviation same_policies :: "ExternalWorkloadSecurityPolicy list \<Rightarrow> 'e KVMSOperator \<Rightarrow> bool" where
  "same_policies P s \<equiv> ExternalWorkloadSecurityPolicies s = P"

lemma same_policies_must [policies_kept]:
  "keeps (same_policies P) (must_put k v)" "keeps (same_policies P) (must_delete k)"
  by (auto simp: must_put_def must_delete_def keeps_def op_etcd_def on_part_def prog_simps fatal_on_def
      split: prod.splits option.splits elim!: andThen_RetE)

lemma same_policies_Generate [policies_kept]:
  "keeps (same_policies P) (GenerateExternalWorkloadIdentity draws name)"
  by (induction draws) (auto simp: Let_def intro!: keeps_intros keeps_modify policies_kept)

lemma same_policies_maps [policies_kept]: "keeps (same_policies P) (UpdateIdentityLabelsMap i label)"
  by (auto simp: UpdateIdentityLabelsMap_def append_identity_def intro!: keeps_intros keeps_modify policies_kept)

lemma HandleAdded_policies:
  assumes "HandleAdded ch p s = (Ret (), t)"
  shows "ExternalWorkloadSecurityPolicies t =
    (if ContainsElement DeepEqual_workload (ExternalWorkloadSecurityPolicies s) p
     then ExternalWorkloadSecurityPolicies s else ExternalWorkloadSecurityPolicies s @ [p])"
proof (cases "ContainsElement DeepEqual_workload (ExternalWorkloadSecurityPolicies s) p")
  case True
  with assms show ?thesis by (simp add: HandleAdded_def prog_simps)
next
  case False
  let ?P = "ExternalWorkloadSecurityPolicies s @ [p]"
  let ?rest = "andThen (GenerateExternalWorkloadIdentity (ch_draws ch) (workload_name p)) (\<lambda>i.
      UpdateIdentityLabelsMap i (convertLabelsToStr (ch_iteration ch) (workload_labels p)))"
  have run: "?rest (s\<lparr>ExternalWorkloadSecurityPolicies := ?P\<rparr>) = (Ret (), t)"
    using assms False by (simp add: HandleAdded_def andThen_reads andThen_modify)
  have "keeps (same_policies ?P) ?rest" by (intro keeps_intros policies_kept)
  from keepsD [OF this _ run] False show ?thesis by simp
qed

definition handle_by_type ::
  "choices \<Rightarrow> K8sKubeArmorExternalWorkloadPolicyEvent \<Rightarrow> ('e, unit) op_prog" where
  "handle_by_type ch event =
     (if we_Type event = ''ADDED'' then HandleAdded ch (workload_of event)
      else if we_Type event = ''MODIFIED'' then HandleModified ch (workload_of event)
      else if we_Type event = ''DELETED'' then HandleDeleted ch (workload_of event)
      else ret ())"

lemma handle_by_type_lock: "never_blocks (handle_by_type ch ev)" "keeps (same_lock h) (handle_by_type ch ev)"
  by (auto simp: handle_by_type_def intro!: never_blocks_intros keeps_intros lock_kept)

lemma HandleEvent_alt:
  "HandleEvent (ch, ev) =
     (if ws_Status (ke_Status (we_Object ev)) \<noteq> [] \<and> ws_Status (ke_Status (we_Object ev)) \<noteq> ''OK''
      then ret ()
      else andThen op_Lock (\<lambda>_. andThen (handle_by_type ch ev) (\<lambda>_.
        andThen op_Unlock (\<lambda>_. UpdateExternalWorkloadSecurityPolicies))))"
  by (simp add: HandleEvent_def handle_by_type_def Let_def)

lemma lock_ops:
  "\<not> op_Locked s \<Longrightarrow> op_Lock s = (Ret (), s\<lparr>op_Locked := True\<rparr>)"
  "op_Unlock s = (Ret (), s\<lparr>op_Locked := False\<rparr>)"
  "\<not> op_Locked s \<Longrightarrow> UpdateExternalWorkloadSecurityPolicies s = (Ret (), s\<lparr>op_Locked := False\<rparr>)"
  by (simp_all add: op_Lock_def op_Unlock_def UpdateExternalWorkloadSecurityPolicies_def prog_simps)

lemma HandleEvent_locks:
  assumes "\<not> op_Locked s" and "HandleEvent ce s = (r, t)"
  shows "r \<noteq> Stop Blocked \<and> (r = Ret () \<longrightarrow> \<not> op_Locked t)"
proof -
  obtain ch ev where ce: "ce = (ch, ev)" by (cases ce)
  obtain r1 s1 where h: "handle_by_type ch ev (s\<lparr>op_Locked := True\<rparr>) = (r1, s1)" by fastforce
  have "r1 \<noteq> Stop Blocked"
    using handle_by_type_lock(1) h by (metis fst_conv never_blocks_def)
  with assms h show ?thesis
    unfolding ce HandleEvent_alt
    by (cases r1) (auto simp: lock_ops prog_simps split: if_splits)
qed

lemma run_locks:
  assumes "\<not> op_Locked s" and "run_events HandleEvent evs s = (r, t)"
  shows "r \<noteq> Stop Blocked \<and> (r = Ret () \<longrightarrow> \<not> op_Locked t)"
  using assms
proof (induction evs arbitrary: s)
  case (Cons ev evs)
  obtain r1 s1 where h: "HandleEvent ev s = (r1, s1)" by fastforce
  from HandleEvent_locks [OF Cons.prems(1) h] Cons h show ?case
    by (cases r1) auto
qed (auto simp: ret_def)

lemma Watch_locks:
  assumes "\<not> op_Locked s" and "WatchExternalWorkloadSecurityPolicies rounds s = (r, t)"
  shows "r \<noteq> Stop Blocked \<and> (r = Ret () \<longrightarrow> \<not> op_Locked t)"
  using assms
proof (induction rounds arbitrary: s rule: WatchExternalWorkloadSecurityPolicies.induct)
  case (4 events rounds)
  obtain r1 s1 where h: "run_events HandleEvent events s = (r1, s1)" by fastforce
  from run_locks [OF 4(2) h] 4 h show ?case by (cases r1) auto
qed (auto simp: ret_def)


section \<open>What the events do\<close>

definition accepted_status :: "K8sKubeArmorExternalWorkloadPolicyEvent \<Rightarrow> bool" where
  "accepted_status ev \<longleftrightarrow> ws_Status (ke_Status (we_Object ev)) \<in> {[], ''OK''}"

definition event_label :: "choices \<Rightarrow> K8sKubeArmorExternalWorkloadPolicyEvent \<Rightarrow> string" where
  "event_label ch ev = convertLabelsToStr (ch_iteration ch) (om_Labels (ke_Metadata (we_Object ev)))"

abbreviation event_name :: "K8sKubeArmorExternalWorkloadPolicyEvent \<Rightarrow> string" where
  "event_name ev \<equiv> om_Name (ke_Metadata (we_Object ev))"

lemma workload_parts [simp]:
  "workload_name (workload_of ev) = event_name ev"
  "workload_labels (workload_of ev) = om_Labels (ke_Metadata (we_Object ev))"
  by (simp_all add: workload_of_def)

text \<open>An accepted event, between taking the lock and giving it back\<close>

lemma wp_HandleEvent:
  assumes "\<not> op_Locked s" and "accepted_status ev"
    and "wp (handle_by_type ch ev) (\<lambda>_ t. Q (t\<lparr>op_Locked := False\<rparr>)) (s\<lparr>op_Locked := True\<rparr>)"
  shows "wp (HandleEvent (ch, ev)) (\<lambda>_. Q) s"
proof -
  from assms(3) obtain t where t: "handle_by_type ch ev (s\<lparr>op_Locked := True\<rparr>) = (Ret (), t)"
    and Q: "Q (t\<lparr>op_Locked := False\<rparr>)" by (auto elim!: wpE)
  have "HandleEvent (ch, ev) s = (Ret (), t\<lparr>op_Locked := False\<rparr>)"
    using assms(1,2) t by (auto simp: HandleEvent_alt accepted_status_def lock_ops andThen_def)
  with Q show ?thesis by (simp add: wp_def)
qed

context etcd_server
begin

lemma wp_HandleAdded:
  assumes "connected api up s" and "\<not> ContainsElement DeepEqual_workload (ExternalWorkloadSecurityPolicies s) p"
    and "find (identity_free (view kvs s)) (map ucast (ch_draws ch)) = Some i"
  shows "wp (HandleAdded ch p) (\<lambda>_ t. connected api up t \<and> op_Locked t = op_Locked s \<and>
    ExternalWorkloadSecurityPolicies t = ExternalWorkloadSecurityPolicies s @ [p] \<and>
    view kvs t = spec_label i (convertLabelsToStr (ch_iteration ch) (workload_labels p))
      (spec_assign i (workload_name p) (view kvs s))) s"
proof -
  let ?s = "s\<lparr>ExternalWorkloadSecurityPolicies := ExternalWorkloadSecurityPolicies s @ [p]\<rparr>"
  have conn: "connected api up ?s" using assms(1) by simp
  have "wp (GenerateExternalWorkloadIdentity (ch_draws ch) (workload_name p)) (\<lambda>j t. connected api up t \<and>
      j = i \<and> op_frame ?s t \<and> view kvs t = spec_assign i (workload_name p) (view kvs s)) ?s"
    by (rule wp_mono [OF wp_wlp [OF wp_Generate [OF conn] wlp_Generate [OF connected_uses [OF conn]]]])
      (use assms(3) in \<open>auto simp del: identity_free_view\<close>)
  then have "wp (HandleAdded ch p) (\<lambda>_ t. connected api up t \<and> op_frame ?s t \<and>
      view kvs t = spec_label i (convertLabelsToStr (ch_iteration ch) (workload_labels p))
        (spec_assign i (workload_name p) (view kvs s))) s"
    using assms(2)
    by (auto simp: HandleAdded_def elim!: wp_mono
        intro!: wp_mono [OF wp_wlp [OF wp_UpdateLabels wlp_UpdateLabels]] intro: op_frame_trans connected_uses)
  then show ?thesis by (rule wp_mono) (auto simp: op_frame_def)
qed

lemma wp_event_added:
  assumes "connected api up s" and "\<not> op_Locked s" and "accepted_status ev" and "we_Type ev = ''ADDED''"
    and "\<not> ContainsElement DeepEqual_workload (ExternalWorkloadSecurityPolicies s) (workload_of ev)"
    and "find (identity_free (view kvs s)) (map ucast (ch_draws ch)) = Some i"
  shows "wp (HandleEvent (ch, ev)) (\<lambda>_ t. connected api up t \<and> \<not> op_Locked t \<and>
    view kvs t = spec_label i (event_label ch ev) (spec_assign i (event_name ev) (view kvs s)) \<and>
    ExternalWorkloadSecurityPolicies t = ExternalWorkloadSecurityPolicies s @ [workload_of ev]) s"
proof (rule wp_HandleEvent [OF assms(2,3)])
  have "wp (HandleAdded ch (workload_of ev)) (\<lambda>_ t. connected api up (t\<lparr>op_Locked := False\<rparr>) \<and>
      \<not> op_Locked (t\<lparr>op_Locked := False\<rparr>) \<and>
      view kvs (t\<lparr>op_Locked := False\<rparr>) = spec_label i (event_label ch ev) (spec_assign i (event_name ev) (view kvs s)) \<and>
      ExternalWorkloadSecurityPolicies (t\<lparr>op_Locked := False\<rparr>) = ExternalWorkloadSecurityPolicies s @ [workload_of ev])
      (s\<lparr>op_Locked := True\<rparr>)"
    by (rule wp_mono [OF wp_HandleAdded [where i = i]])
      (use assms in \<open>simp_all add: event_label_def del: identity_free_view\<close>)
  then show "wp (handle_by_type ch ev) (\<lambda>_ t. connected api up (t\<lparr>op_Locked := False\<rparr>) \<and>
      \<not> op_Locked (t\<lparr>op_Locked := False\<rparr>) \<and>
      view kvs (t\<lparr>op_Locked := False\<rparr>) = spec_label i (event_label ch ev) (spec_assign i (event_name ev) (view kvs s)) \<and>
      ExternalWorkloadSecurityPolicies (t\<lparr>op_Locked := False\<rparr>) = ExternalWorkloadSecurityPolicies s @ [workload_of ev])
      (s\<lparr>op_Locked := True\<rparr>)"
    using assms(4) by (simp add: handle_by_type_def)
qed

lemma wp_HandleDeleted:
  assumes "connected api up s" and "first_index (DeepEqual_workload p) (ExternalWorkloadSecurityPolicies s) = Some idx"
    and "i = GetEWIdentityFromName s (workload_name p)"
    and "label = convertLabelsToStr (ch_iteration ch) (workload_labels p)"
    and "drop_result i (v_label (view kvs s) label) = Some l'"
  shows "wp (HandleDeleted ch p) (\<lambda>_ t. connected api up t \<and> op_Locked t = op_Locked s \<and>
    ExternalWorkloadSecurityPolicies t =
      take idx (ExternalWorkloadSecurityPolicies s) @ drop (idx + 1) (ExternalWorkloadSecurityPolicies s) \<and>
    view kvs t = spec_unmap i (workload_name p) label l' (view kvs s)) s"
proof -
  let ?s = "s\<lparr>ExternalWorkloadSecurityPolicies :=
      take idx (ExternalWorkloadSecurityPolicies s) @ drop (idx + 1) (ExternalWorkloadSecurityPolicies s)\<rparr>"
  have conn: "connected api up ?s" using assms(1) by simp
  have "wp (UnMapLabelIdentity i (workload_name p) label) (\<lambda>_ t. connected api up t \<and> op_frame ?s t \<and>
      view kvs t = spec_unmap i (workload_name p) label l' (view kvs s)) ?s"
    by (rule wp_mono [OF wp_wlp [OF wp_UnMap [OF conn] wlp_UnMap [OF connected_uses [OF conn]]]])
      (use assms(5) in auto)
  then show ?thesis
    using assms(2,3,4) by (auto simp: HandleDeleted_def GetEWIdentityFromName_def op_frame_def elim!: wp_mono)
qed

lemma wp_event_deleted:
  assumes "connected api up s" and "\<not> op_Locked s" and "accepted_status ev" and "we_Type ev = ''DELETED''"
    and "first_index (DeepEqual_workload (workload_of ev)) (ExternalWorkloadSecurityPolicies s) = Some idx"
    and "drop_result (GetEWIdentityFromName s (event_name ev)) (v_label (view kvs s) (event_label ch ev)) = Some l'"
  shows "wp (HandleEvent (ch, ev)) (\<lambda>_ t. connected api up t \<and> \<not> op_Locked t \<and>
    view kvs t = spec_unmap (GetEWIdentityFromName s (event_name ev)) (event_name ev) (event_label ch ev) l'
      (view kvs s)) s"
proof (rule wp_HandleEvent [OF assms(2,3)])
  let ?Q = "\<lambda>t. connected api up t \<and> \<not> op_Locked t \<and>
    view kvs t = spec_unmap (GetEWIdentityFromName s (event_name ev)) (event_name ev) (event_label ch ev) l' (view kvs s)"
  have "wp (HandleDeleted ch (workload_of ev)) (\<lambda>_ t. ?Q (t\<lparr>op_Locked := False\<rparr>)) (s\<lparr>op_Locked := True\<rparr>)"
    by (rule wp_mono [OF wp_HandleDeleted [where idx = idx and l' = l']])
      (use assms in \<open>auto simp: event_label_def GetEWIdentityFromName_def\<close>)
  then show "wp (handle_by_type ch ev) (\<lambda>_ t. ?Q (t\<lparr>op_Locked := False\<rparr>)) (s\<lparr>op_Locked := True\<rparr>)"
    using assms(4) by (simp add: handle_by_type_def)
qed

lemma wp_HandleModified:
  assumes "connected api up s"
    and "first_index (\<lambda>q. workload_name q = workload_name p) (ExternalWorkloadSecurityPolicies s) = Some idx"
  shows "wp (HandleModified ch p) (\<lambda>_ t. connected api up t \<and>
    ExternalWorkloadSecurityPolicies t = (ExternalWorkloadSecurityPolicies s)[idx := p] \<and>
    view kvs t = spec_label (GetEWIdentityFromName s (workload_name p))
      (convertLabelsToStr (ch_iteration ch) (workload_labels p)) (view kvs s)) s"
proof -
  let ?s = "s\<lparr>ExternalWorkloadSecurityPolicies := (ExternalWorkloadSecurityPolicies s)[idx := p]\<rparr>"
  have conn: "connected api up ?s" using assms(1) by simp
  have labelled: "wp (UpdateIdentityLabelsMap i label) (\<lambda>_ t. connected api up t \<and> op_frame ?s t \<and>
      view kvs t = spec_label i label (view kvs s)) ?s" for i label
    using wp_wlp [OF wp_UpdateLabels [OF conn] wlp_UpdateLabels [OF connected_uses [OF conn]]] by simp
  show ?thesis
    using assms(2)
    by (auto simp: HandleModified_def GetEWIdentityFromName_def op_frame_def intro!: wp_mono [OF labelled])
qed

lemma wp_event_modified:
  assumes "connected api up s" and "\<not> op_Locked s" and "accepted_status ev" and "we_Type ev = ''MODIFIED''"
    and "first_index (\<lambda>q. workload_name q = event_name ev) (ExternalWorkloadSecurityPolicies s) = Some idx"
  shows "wp (HandleEvent (ch, ev)) (\<lambda>_ t. connected api up t \<and> \<not> op_Locked t \<and>
    ExternalWorkloadSecurityPolicies t = (ExternalWorkloadSecurityPolicies s)[idx := workload_of ev] \<and>
    view kvs t = spec_label (GetEWIdentityFromName s (event_name ev)) (event_label ch ev) (view kvs s)) s"
proof (rule wp_HandleEvent [OF assms(2,3)])
  let ?Q = "\<lambda>t. connected api up t \<and> \<not> op_Locked t \<and>
    ExternalWorkloadSecurityPolicies t = (ExternalWorkloadSecurityPolicies s)[idx := workload_of ev] \<and>
    view kvs t = spec_label (GetEWIdentityFromName s (event_name ev)) (event_label ch ev) (view kvs s)"
  have "wp (HandleModified ch (workload_of ev)) (\<lambda>_ t. ?Q (t\<lparr>op_Locked := False\<rparr>)) (s\<lparr>op_Locked := True\<rparr>)"
    by (rule wp_mono [OF wp_HandleModified [where idx = idx]])
      (use assms in \<open>auto simp: event_label_def GetEWIdentityFromName_def\<close>)
  then show "wp (handle_by_type ch ev) (\<lambda>_ t. ?Q (t\<lparr>op_Locked := False\<rparr>)) (s\<lparr>op_Locked := True\<rparr>)"
    using assms(4) by (simp add: handle_by_type_def)
qed

end

end
