(* ===== verification/Operator_Theorems.thy ===== *)
theory Operator_Theorems
  imports Operator_Props
begin

text \<open>
  The properties of the operator: uniqueness of identities, agreement of its maps with etcd, the
  exact effect of each bookkeeping operation, and the lock. The concrete runs use the reference
  server of \<open>Etcd_Client\<close>.
\<close>

definition demo_event :: "string \<Rightarrow> string \<Rightarrow> (string \<times> string) list \<Rightarrow> K8sKubeArmorExternalWorkloadPolicyEvent" where
  "demo_event type name labels =
     \<lparr>we_Type = type, we_Object =
        \<lparr>ke_Metadata = \<lparr>om_Name = name, om_Labels = Some labels\<rparr>,
         ke_Spec = \<lparr>es_IPv4AllocCIDR = [], es_IPv6AllocCIDR = []\<rparr>,
         ke_Status = \<lparr>ws_ID = 0, ws_IP = [], ws_Status = ''OK''\<rparr>\<rparr>\<rparr>"

definition demo_choices :: "uint32 list \<Rightarrow> choices" where
  "demo_choices draws = \<lparr>ch_draws = draws, ch_iteration = (\<lambda>m. m)\<rparr>"

definition demo_client :: "mem_etcd etcd_ptr" where
  "demo_client = Some \<lparr>etcdClient = mem_api, leaseResponse = 1\<rparr>"

definition demo_start :: "mem_etcd KVMSOperator" where
  "demo_start = NewKVMSOperatorDaemon demo_client \<lparr>mem_data = [], mem_online = True\<rparr>"

definition demo_rounds :: "(choices \<times> K8sKubeArmorExternalWorkloadPolicyEvent) watch_round list" where
  "demo_rounds =
     [CrdMissing,
      WatchStream [(demo_choices [65541], demo_event ''ADDED'' ''vm1'' [(''env'', ''prod'')]),
                   (demo_choices [5, 7], demo_event ''ADDED'' ''vm2'' [(''env'', ''prod'')])]]"

definition demo_state :: "mem_etcd KVMSOperator" where
  "demo_state = snd (WatchExternalWorkloadSecurityPolicies demo_rounds demo_start)"

lemma demo_run: "WatchExternalWorkloadSecurityPolicies demo_rounds demo_start = (Ret (), demo_state)"
proof -
  have "fst (WatchExternalWorkloadSecurityPolicies demo_rounds demo_start) = Ret ()" by code_simp
  then show ?thesis by (simp add: demo_state_def prod_eq_iff)
qed

lemma demo_named: "\<forall>r \<in> set demo_rounds. list_all named_event (round_events r)"
  by (simp add: demo_rounds_def round_events_def named_event_def demo_event_def)

lemma demo_client_eq: "demo_start =
    NewKVMSOperatorDaemon (Some \<lparr>etcdClient = mem_api, leaseResponse = 1\<rparr>) \<lparr>mem_data = [], mem_online = True\<rparr>"
  by (simp add: demo_start_def demo_client_def)

lemma demo_start_connected: "connected mem_api mem_online demo_start" "\<not> op_Locked demo_start"
  by (simp_all add: demo_start_def demo_client_def NewKVMSOperatorDaemon_def connected_def)


lemma map_of_const: "map_of (map (\<lambda>k. (f k, v)) ks) x = (if x \<in> f ` set ks then Some v else None)"
  by (induction ks) auto

definition all_taken :: "(uint16, string) gomap" where
  "all_taken = map (\<lambda>n. (of_nat n, ''x'')) [0..<65536]"

lemma all_taken_owner: "map_of all_taken i = Some ''x''"
proof -
  have "unat i < 65536" using unat_uint16_less [of i] by simp
  then have "i \<in> of_nat ` set [0..<65536]" by (intro image_eqI [of _ _ "unat i"]) simp_all
  then show ?thesis unfolding all_taken_def map_of_const by simp
qed


section \<open>Invariants\<close>

text \<open>
  C1. Whatever sequence of watch events the operator has handled, two workloads never share an
  identity other than 0, and the map from identities to names agrees with the map from names.
\<close>

theorem ew_identities_unique:
  assumes "etcd_server api kvs up"
    and "\<forall>r \<in> set rounds. list_all named_event (round_events r)"
    and "WatchExternalWorkloadSecurityPolicies rounds
      (NewKVMSOperatorDaemon (Some \<lparr>etcdClient = api, leaseResponse = l\<rparr>) e) = (Ret (), s)"
    and "map_of (MapEWNameToIdentity s) n = Some i" and "i \<noteq> 0"
  shows "map_of (MapIdentityToEWName s) i = Some n \<and> (map_of (MapEWNameToIdentity s) m = Some i \<longrightarrow> m = n)"
proof -
  have "names_ok (view kvs s)"
    using etcd_server.Watch_from_start [OF assms(1-3)] by (simp add: op_inv_def)
  then have owner: "map_of (MapIdentityToEWName s) i = Some k" if "map_of (MapEWNameToIdentity s) k = Some i" for k
    using that assms(5) by (simp add: names_ok_def view_def)
  with owner [OF assms(4)] show ?thesis by auto
qed

theorem ew_identities_unique_witness:
  "map_of (MapIdentityToEWName demo_state) 7 = Some ''vm2'' \<and>
   map_of (MapEWNameToIdentity demo_state) ''vm1'' \<noteq> Some 7"
proof -
  have "map_of (MapEWNameToIdentity demo_state) ''vm2'' = Some 7" by code_simp
  from ew_identities_unique [OF mem.etcd_server_axioms demo_named demo_run [unfolded demo_client_eq] this, of "''vm1''"]
  show ?thesis by auto
qed

text \<open>
  C2. Whatever sequence of watch events the operator has handled, etcd holds, for every label the
  operator knows, the JSON of the very list the operator has for it, and the list holds an
  identity other than 0 at most once.
\<close>

theorem label_lists_mirrored:
  assumes "etcd_server api kvs up"
    and "\<forall>r \<in> set rounds. list_all named_event (round_events r)"
    and "WatchExternalWorkloadSecurityPolicies rounds
      (NewKVMSOperatorDaemon (Some \<lparr>etcdClient = api, leaseResponse = l\<rparr>) e) = (Ret (), s)"
    and "GetExternalWorkloadIdentities s label = Some ids"
  shows "kvs (op_store s) (KvmOprLabelToIdentities @ label) = Some (MarshalU16s (Some ids)) \<and>
    UnmarshalU16s (MarshalU16s (Some ids)) = Inr (Some ids) \<and> (i \<noteq> 0 \<longrightarrow> count (mset ids) i \<le> 1)"
proof -
  have "mirror_ok (view kvs s)" "lists_ok (view kvs s)"
    using etcd_server.Watch_from_start [OF assms(1-3)] by (simp_all add: op_inv_def)
  then show ?thesis
    using assms(4) by (auto simp: mirror_ok_def lists_ok_def view_def GetExternalWorkloadIdentities_def
        identities_json.dec_enc)
qed

theorem label_lists_mirrored_witness:
  "mem_kvs (op_store demo_state) (KvmOprLabelToIdentities @ ''env=prod'') = Some (MarshalU16s (Some [5, 7])) \<and>
   count (mset [5, 7 :: uint16]) 5 \<le> 1"
proof -
  have "GetExternalWorkloadIdentities demo_state ''env=prod'' = Some [5, 7]" by code_simp
  from label_lists_mirrored [OF mem.etcd_server_axioms demo_named demo_run [unfolded demo_client_eq] this, of 5]
  show ?thesis by simp
qed


section \<open>Refinement\<close>

text \<open>
  C10. While etcd is up, \<open>GenerateExternalWorkloadIdentity\<close> returns as soon as one of the random
  numbers, cut to 16 bits, is an identity without an owner; it returns the first such identity,
  and its effect on the maps and on etcd is that of the abstract operation \<open>spec_assign\<close>.
\<close>

theorem generate_refines:
  assumes "etcd_server api kvs up" and "connected api up s"
    and "find (identity_free (view kvs s)) (map ucast draws) = Some i"
  shows "\<exists>t. GenerateExternalWorkloadIdentity draws name s = (Ret i, t) \<and> connected api up t \<and>
    op_frame s t \<and> view kvs t = spec_assign i name (view kvs s)"
proof -
  have "wp (GenerateExternalWorkloadIdentity draws name) (\<lambda>j t. connected api up t \<and>
      find (identity_free (view kvs s)) (map ucast draws) = Some j \<and> op_frame s t \<and>
      view kvs t = spec_assign j name (view kvs s)) s"
    by (rule wp_wlp [OF etcd_server.wp_Generate [OF assms(1,2)]
          etcd_server.wlp_Generate [OF assms(1) connected_uses [OF assms(2)]]])
      (simp add: assms(3) del: identity_free_view)
  then show ?thesis using assms(3) by (auto simp: wp_def simp del: identity_free_view)
qed

theorem generate_refines_witness:
  "\<exists>t. GenerateExternalWorkloadIdentity [65541, 7] ''vm1'' demo_start = (Ret 5, t) \<and>
     connected mem_api mem_online t \<and> op_frame demo_start t \<and>
     view mem_kvs t = spec_assign 5 ''vm1'' (view mem_kvs demo_start)"
proof -
  have "find (identity_free (view mem_kvs demo_start)) (map ucast [65541 :: uint32, 7]) = Some 5"
    by (simp add: demo_start_def NewKVMSOperatorDaemon_def)
  from generate_refines [OF mem.etcd_server_axioms demo_start_connected(1) this] show ?thesis by blast
qed

text \<open>
  Once all 65536 identities have an owner, \<open>GenerateExternalWorkloadIdentity\<close> does not return,
  however many random numbers are drawn; it also changes nothing.
\<close>

theorem generate_starves:
  assumes "\<forall>i. gm_read [] (MapIdentityToEWName s) i \<noteq> []"
  shows "GenerateExternalWorkloadIdentity draws name s = (Stop Starved, s)"
  using assms by (induction draws) (simp_all add: Let_def prog_simps)

theorem generate_starves_witness:
  "\<forall>draws. GenerateExternalWorkloadIdentity draws ''vm'' (demo_start\<lparr>MapIdentityToEWName := all_taken\<rparr>)
     = (Stop Starved, demo_start\<lparr>MapIdentityToEWName := all_taken\<rparr>)"
  by (intro allI generate_starves) (simp add: gm_read_def all_taken_owner)

text \<open>
  C12. While etcd is up, \<open>UpdateIdentityLabelsMap\<close> returns, and its effect is that of \<open>spec_label\<close>:
  the label of the identity is recorded, and the identity is appended to the list of the label,
  in memory and in etcd, unless it is there already.
\<close>

theorem update_labels_refines:
  assumes "etcd_server api kvs up" and "connected api up s"
  shows "\<exists>t. UpdateIdentityLabelsMap i label s = (Ret (), t) \<and> connected api up t \<and> op_frame s t \<and>
    view kvs t = spec_label i label (view kvs s)"
  using wp_wlp [OF etcd_server.wp_UpdateLabels [OF assms]
      etcd_server.wlp_UpdateLabels [OF assms(1) connected_uses [OF assms(2)]], of i label]
  by (auto simp: wp_def)

theorem update_labels_refines_witness:
  "\<exists>t. UpdateIdentityLabelsMap 5 ''env=prod'' demo_start = (Ret (), t) \<and> connected mem_api mem_online t \<and>
     op_frame demo_start t \<and> view mem_kvs t = spec_label 5 ''env=prod'' (view mem_kvs demo_start)"
  by (rule update_labels_refines [OF mem.etcd_server_axioms demo_start_connected(1)])

text \<open>
  C13. While etcd is up, \<open>UnMapLabelIdentity\<close> of an identity other than 0, which its label lists
  once, returns, and its effect is that of \<open>spec_unmap\<close>: the maps forget the workload, every
  key that begins with one of the three keys of the workload is removed from etcd, and the list
  of the label, in memory and in etcd, keeps its length: the identity is replaced by the last
  element and the last element by 0.
\<close>

theorem unmap_refines:
  assumes "etcd_server api kvs up" and "connected api up s"
    and "map_of (MapLabelToIdentities s) label = Some (xs @ i # ys)"
    and "i \<noteq> 0" and "i \<notin> set xs" and "i \<notin> set ys"
  shows "\<exists>t. UnMapLabelIdentity i name label s = (Ret (), t) \<and> connected api up t \<and> op_frame s t \<and>
    view kvs t = spec_unmap i name label (Some (close_gap xs ys @ [0])) (view kvs s)"
proof -
  have drop: "drop_result i (v_label (view kvs s) label) = Some (Some (close_gap xs ys @ [0]))"
    using assms(3-6) by (simp add: view_def drop_result_def drop_identity_once)
  have "wp (UnMapLabelIdentity i name label) (\<lambda>_ t. connected api up t \<and> op_frame s t \<and>
      view kvs t = spec_unmap i name label (Some (close_gap xs ys @ [0])) (view kvs s)) s"
    by (rule wp_mono [OF wp_wlp [OF etcd_server.wp_UnMap [OF assms(1,2)]
          etcd_server.wlp_UnMap [OF assms(1) connected_uses [OF assms(2)]]]])
      (use drop in auto)
  then show ?thesis by (auto simp: wp_def)
qed

theorem unmap_refines_witness:
  "\<exists>t. UnMapLabelIdentity 5 ''vm1'' ''env=prod'' (demo_start\<lparr>MapLabelToIdentities := [(''env=prod'', [5, 7, 9])]\<rparr>)
     = (Ret (), t) \<and> map_of (MapLabelToIdentities t) ''env=prod'' = Some [9, 7, 0]"
  using unmap_refines [OF mem.etcd_server_axioms, of "demo_start\<lparr>MapLabelToIdentities := [(''env=prod'', [5, 7, 9])]\<rparr>"
      "''env=prod''" "[]" 5 "[7, 9]" "''vm1''"] demo_start_connected
  by (auto simp: close_gap_def spec_unmap_def view_def)


section \<open>Events\<close>

text \<open>
  The operator never waits for ever for its lock, whatever events it is given and whatever
  etcd does, and whenever it has handled them all, the lock is free.
\<close>

theorem operator_never_waits:
  assumes "WatchExternalWorkloadSecurityPolicies rounds (NewKVMSOperatorDaemon cli e) = (r, t)"
  shows "r \<noteq> Stop Blocked \<and> (r = Ret () \<longrightarrow> \<not> op_Locked t)"
  by (rule Watch_locks [OF _ assms]) (simp add: NewKVMSOperatorDaemon_def)

theorem operator_never_waits_witness: "Ret () \<noteq> Stop Blocked \<and> \<not> op_Locked demo_state"
  using operator_never_waits [OF demo_run [unfolded demo_client_eq]] by simp

text \<open>
  When a watch is restarted, Kubernetes repeats the event for every workload that exists. A
  repeated event changes nothing: neither the maps nor etcd, and no identity is drawn.
\<close>

theorem added_twice:
  assumes "\<not> op_Locked s" and "we_Type ev = ''ADDED''"
    and "gomap_ok (labels_of (om_Labels (ke_Metadata (we_Object ev))))"
    and "HandleEvent (ch, ev) s = (Ret (), t)" and "accepted_status ev"
  shows "HandleEvent (ch', ev) t = (Ret (), t)"
proof -
  have free: "\<not> op_Locked t" using HandleEvent_locks [OF assms(1,4)] by simp
  have refl: "DeepEqual_workload (workload_of ev) (workload_of ev)"
    using assms(3) by (simp add: DeepEqual_workload_def DeepEqual_gomap_refl)
  obtain u where u: "HandleAdded ch (workload_of ev) (s\<lparr>op_Locked := True\<rparr>) = (Ret (), u)" "t = u\<lparr>op_Locked := False\<rparr>"
    using assms by (auto simp: HandleEvent_alt accepted_status_def handle_by_type_def lock_ops elim!: andThen_RetE)
  have "ContainsElement DeepEqual_workload (ExternalWorkloadSecurityPolicies t) (workload_of ev)"
    using HandleAdded_policies [OF u(1)] refl u(2) by (auto simp: ContainsElement_iff split: if_splits)
  then have "handle_by_type ch' ev (t\<lparr>op_Locked := True\<rparr>) = (Ret (), t\<lparr>op_Locked := True\<rparr>)"
    using assms(2) by (simp add: handle_by_type_def HandleAdded_def prog_simps)
  with assms(5) free show ?thesis
    by (auto simp: HandleEvent_alt accepted_status_def lock_ops)
qed

definition demo_added :: "choices \<times> K8sKubeArmorExternalWorkloadPolicyEvent" where
  "demo_added = (demo_choices [5], demo_event ''ADDED'' ''vm1'' [(''env'', ''prod'')])"

theorem added_twice_witness:
  "HandleEvent (demo_choices [], demo_event ''ADDED'' ''vm1'' [(''env'', ''prod'')]) (snd (HandleEvent demo_added demo_start))
   = (Ret (), snd (HandleEvent demo_added demo_start))"
proof (rule added_twice [OF demo_start_connected(2)])
  have "fst (HandleEvent demo_added demo_start) = Ret ()" by code_simp
  then show "HandleEvent (demo_choices [5], demo_event ''ADDED'' ''vm1'' [(''env'', ''prod'')]) demo_start
      = (Ret (), snd (HandleEvent demo_added demo_start))"
    by (simp add: demo_added_def prod_eq_iff)
qed (simp_all add: demo_event_def accepted_status_def)

text \<open>
  The operator does not check that it has a client: if etcd could not be reached when the
  operator started, the first workload it is told about makes it panic.
\<close>

theorem nil_client_first_event_panics:
  assumes "fst (NewEtcdClient clientv3_New endpoint e) = Ret None"
    and "accepted_status ev" and "we_Type ev = ''ADDED''" and "ch_draws ch \<noteq> []"
  shows "fst (andThen (NewEtcdClient clientv3_New endpoint) (\<lambda>cli e'.
      case HandleEvent (ch, ev) (NewKVMSOperatorDaemon cli e') of (r, s) \<Rightarrow> (r, op_store s)) e)
    = Stop (Panic ''invalid memory address or nil pointer dereference'')"
proof -
  obtain e' where new: "NewEtcdClient clientv3_New endpoint e = (Ret None, e')"
    using assms(1) by (cases "NewEtcdClient clientv3_New endpoint e") auto
  obtain d ds where "ch_draws ch = d # ds" using assms(4) by (cases "ch_draws ch") auto
  with assms(2,3) new show ?thesis
    by (auto simp: HandleEvent_alt accepted_status_def handle_by_type_def HandleAdded_def NewKVMSOperatorDaemon_def
        lock_ops Let_def must_put_def op_etcd_def nil_deref_def prog_simps)
qed

theorem nil_client_first_event_panics_witness:
  "fst (andThen (NewEtcdClient (\<lambda>endpoint e. (Inl ''context deadline exceeded'', e)) ''http://etcd:2379'') (\<lambda>cli e'.
      case HandleEvent demo_added (NewKVMSOperatorDaemon cli e') of (r, s) \<Rightarrow> (r, op_store s))
      \<lparr>mem_data = [], mem_online = False\<rparr>)
    = Stop (Panic ''invalid memory address or nil pointer dereference'')"
  unfolding demo_added_def
  by (rule nil_client_first_event_panics)
    (simp_all add: NewEtcdClient_def api_call_def prog_simps demo_event_def accepted_status_def demo_choices_def)

text \<open>
  A \<open>MODIFIED\<close> event that changes the label of a workload puts its identity on the list of the
  new label, replaces the stored workload, and leaves the list of the old label as it is, in
  memory and in etcd: policies for the old label still go to the workload.
\<close>

theorem modified_keeps_old_label:
  assumes "etcd_server api kvs up" and "connected api up s" and "\<not> op_Locked s" and "op_inv (view kvs s)"
    and "we_Type ev = ''MODIFIED''" and "accepted_status ev"
    and "first_index (\<lambda>q. workload_name q = event_name ev) (ExternalWorkloadSecurityPolicies s) = Some idx"
    and "GetExternalWorkloadIdentities s old = Some ids" and "old \<noteq> event_label ch ev"
  shows "\<exists>t new. HandleEvent (ch, ev) s = (Ret (), t) \<and>
    ExternalWorkloadSecurityPolicies t = (ExternalWorkloadSecurityPolicies s)[idx := workload_of ev] \<and>
    GetExternalWorkloadIdentities t old = Some ids \<and>
    kvs (op_store t) (KvmOprLabelToIdentities @ old) = Some (MarshalU16s (Some ids)) \<and>
    GetExternalWorkloadIdentities t (event_label ch ev) = Some new \<and>
    GetEWIdentityFromName s (event_name ev) \<in> set new \<and>
    kvs (op_store t) (KvmOprLabelToIdentities @ event_label ch ev) = Some (MarshalU16s (Some new))"
proof -
  let ?i = "GetEWIdentityFromName s (event_name ev)"
  let ?v = "spec_label ?i (event_label ch ev) (view kvs s)"
  obtain t where t: "HandleEvent (ch, ev) s = (Ret (), t)"
      "ExternalWorkloadSecurityPolicies t = (ExternalWorkloadSecurityPolicies s)[idx := workload_of ev]"
      "view kvs t = ?v"
    using etcd_server.wp_event_modified [OF assms(1-3,6,5,7), of ch] by (auto simp: wp_def)
  have "mirror_ok (view kvs t)" using op_inv_label [OF assms(4)] t(3) by (simp add: op_inv_def)
  moreover have "v_label (view kvs t) old = Some ids"
    unfolding t(3) using assms(8,9) by (simp add: spec_label_def Let_def view_def GetExternalWorkloadIdentities_def)
  moreover obtain new where "v_label (view kvs t) (event_label ch ev) = Some new" "?i \<in> set new"
    unfolding t(3) using added_in_list by blast
  ultimately show ?thesis
    using t(1,2) by (auto simp: mirror_ok_def view_def GetExternalWorkloadIdentities_def)
qed

definition demo_labelled :: "mem_etcd KVMSOperator" where
  "demo_labelled = demo_start
     \<lparr>ExternalWorkloadSecurityPolicies := [workload_of (demo_event ''ADDED'' ''vm1'' [(''env'', ''prod'')])],
      MapEWNameToIdentity := [(''vm1'', 5)], MapIdentityToEWName := [(5, ''vm1'')],
      MapLabelToIdentities := [(''env=prod'', [5])],
      op_store := \<lparr>mem_data = [(KvmOprLabelToIdentities @ ''env=prod'', MarshalU16s (Some [5]))], mem_online = True\<rparr>\<rparr>"

lemma demo_labelled_facts:
  "connected mem_api mem_online demo_labelled" "\<not> op_Locked demo_labelled" "op_inv (view mem_kvs demo_labelled)"
  by (auto simp: demo_labelled_def demo_start_def demo_client_def NewKVMSOperatorDaemon_def connected_def op_inv_def
      names_ok_def lists_ok_def mirror_ok_def view_def mem_kvs_def split: if_splits)

theorem modified_keeps_old_label_witness:
  "\<exists>t. HandleEvent (demo_choices [], demo_event ''MODIFIED'' ''vm1'' [(''env'', ''test'')]) demo_labelled = (Ret (), t) \<and>
    GetExternalWorkloadIdentities t ''env=prod'' = Some [5] \<and>
    mem_kvs (op_store t) (KvmOprLabelToIdentities @ ''env=prod'') = Some (MarshalU16s (Some [5]))"
proof -
  let ?ev = "demo_event ''MODIFIED'' ''vm1'' [(''env'', ''test'')]"
  have "GetExternalWorkloadIdentities demo_labelled ''env=prod'' = Some [5]"
    "first_index (\<lambda>q. workload_name q = event_name ?ev) (ExternalWorkloadSecurityPolicies demo_labelled) = Some 0"
    "we_Type ?ev = ''MODIFIED''" "accepted_status ?ev" "''env=prod'' \<noteq> event_label (demo_choices []) ?ev"
    by (simp_all add: demo_labelled_def GetExternalWorkloadIdentities_def demo_event_def workload_of_def
        accepted_status_def event_label_def demo_choices_def convertLabelsToStr_def)
  from modified_keeps_old_label [OF mem.etcd_server_axioms demo_labelled_facts this(3,4,2,1,5)]
  show ?thesis by blast
qed

end
