(* ===== verification/Service.thy ===== *)
theory Service
  imports Common
begin

text \<open>
  The core of the service: the state of \<open>src/service/core/kvmService.go\<close> and the handling of host
  policies in \<open>src/service/core/kvmsUpdate.go\<close>. For each host policy event the service reads the
  labels and their identities from etcd, checks that it knows every label of the policy's
  selector, and sends the event once for each identity of each label to the policy channel.

  \<open>KVMS\<close> is the structure of the same name with \<open>sv_store\<close>, the etcd server behind its client,
  and \<open>sv_sent\<close>, the events the goroutine has sent to \<open>ks.PolicyChan\<close>, in order. (A send waits
  until a stream receives the event; which stream does is the subject of \<open>Policy_Stream\<close>.) The
  fields that no code reads are left out.
\<close>


section \<open>The state\<close>

record 'e KVMS =
  sv_EtcdClient :: "'e etcd_ptr"
  sv_store :: 'e
  EtcdEWLabels :: "string list option"
  sv_MapLabelToIdentities :: "(string, uint16 list option) gomap"
  ClusterPort :: uint16
  ClusteripAddress :: string
  PodIpAddress :: string
  sv_sent :: "K8sKubeArmorHostPolicyEventWithIdentity list"

type_synonym ('e, 'a) sv_prog = "('e KVMS, 'a) prog"

text \<open>
  \<open>NewKVMSDaemon\<close>: the port is an \<open>int\<close> flag and is cut to 16 bits. \<open>podIp\<close> is the local address
  of the UDP connection that is opened to learn it.
\<close>

definition NewKVMSDaemon :: "'e etcd_ptr \<Rightarrow> 'e \<Rightarrow> string \<Rightarrow> int \<Rightarrow> string \<Rightarrow> 'e KVMS" where
  "NewKVMSDaemon cli e podIp port ipAddress =
     \<lparr>sv_EtcdClient = cli, sv_store = e, EtcdEWLabels = Some [], sv_MapLabelToIdentities = [],
      ClusterPort = to_uint16 port, ClusteripAddress = ipAddress, PodIpAddress = podIp, sv_sent = []\<rparr>"

definition sv_etcd :: "('e etcd_ptr \<Rightarrow> ('e, 'a) prog) \<Rightarrow> ('e, 'a) sv_prog" where
  "sv_etcd call s = on_part sv_store (\<lambda>e s. s\<lparr>sv_store := e\<rparr>) (call (sv_EtcdClient s)) s"

text \<open>A slice of strings: reading nil gives no element, \<open>append\<close> makes it non-nil.\<close>

definition strings_of :: "string list option \<Rightarrow> string list" where
  "strings_of sl = (case sl of None \<Rightarrow> [] | Some l \<Rightarrow> l)"

definition append_string :: "string list option \<Rightarrow> string \<Rightarrow> string list option" where
  "append_string sl x = Some (strings_of sl @ [x])"


section \<open>Labels and identities from etcd\<close>

text \<open>The loop over the keys of the label map; the label is what follows the last slash.\<close>

definition collect_labels :: "kv_pair list \<Rightarrow> string list option \<Rightarrow> string list option" where
  "collect_labels kv labels =
     fold (\<lambda>(key, value) sl. append_string sl (last_field key (CHR ''/''))) kv labels"

text \<open>The loop over the keys of one response\<close>

definition store_identities :: "kv_pair list \<Rightarrow> ('e, unit) sv_prog" where
  "store_identities kv =
     for_each kv (\<lambda>(key, value).
       case UnmarshalU16s value of
         Inl err \<Rightarrow> stop_with (Fatal err)
       | Inr arr \<Rightarrow>
           modify (\<lambda>s. s\<lparr>sv_MapLabelToIdentities :=
             AList.update (last_field key (CHR ''/'')) arr (sv_MapLabelToIdentities s)\<rparr>))"

text \<open>The body of the loop over \<open>dm.EtcdEWLabels\<close>; a response without keys is nil and is not checked.\<close>

definition fetch_identities :: "string \<Rightarrow> ('e, unit) sv_prog" where
  "fetch_identities label =
     andThen (sv_etcd (\<lambda>cli. EtcdGetRaw cli (KvmOprLabelToIdentities @ label))) (\<lambda>data.
       case data of
         Inl err \<Rightarrow> stop_with (Fatal err)
       | Inr None \<Rightarrow> nil_deref
       | Inr (Some kv) \<Rightarrow> store_identities kv)"

definition GetAllEtcdEWLabels :: "iteration \<Rightarrow> ('e, unit) sv_prog" where
  "GetAllEtcdEWLabels it =
     andThen (sv_etcd (\<lambda>cli. EtcdGet cli KvmOprLabelToIdentities)) (\<lambda>r.
       case r of
         Inl err \<Rightarrow> stop_with (Fatal err)
       | Inr etcdLabels \<Rightarrow>
           andThen (modify (\<lambda>s. s\<lparr>EtcdEWLabels := collect_labels (it etcdLabels) (EtcdEWLabels s)\<rparr>)) (\<lambda>_.
           andThen (reads (\<lambda>s. strings_of (EtcdEWLabels s))) (\<lambda>labels.
             for_each labels fetch_identities)))"


section \<open>Host policies\<close>

definition PassOverToKVMSAgent :: "K8sKubeArmorHostPolicyEvent \<Rightarrow> uint16 list \<Rightarrow> ('e, unit) sv_prog" where
  "PassOverToKVMSAgent event identities =
     for_each identities (\<lambda>identity.
       modify (\<lambda>s. s\<lparr>sv_sent := sv_sent s @
         [\<lparr>wi_Event = event, wi_Identity = identity, wi_CloseConnection = False\<rparr>]\<rparr>))"

definition GetIdentityFromLabelPool :: "'e KVMS \<Rightarrow> string \<Rightarrow> uint16 list option" where
  "GetIdentityFromLabelPool s label = gm_read None (sv_MapLabelToIdentities s) label"

definition selector_labels :: "iteration \<Rightarrow> HostSecuritySpec \<Rightarrow> string list" where
  "selector_labels it spec = map (\<lambda>(k, v). k @ ''='' @ v) (it (labels_of (ns_MatchLabels (hs_NodeSelector spec))))"

text \<open>The body of the loop over the labels of the selector\<close>

definition send_to_label :: "K8sKubeArmorHostPolicyEvent \<Rightarrow> string \<Rightarrow> ('e, unit) sv_prog" where
  "send_to_label event label =
     andThen (reads (\<lambda>s. GetIdentityFromLabelPool s label)) (\<lambda>identities.
       case identities of
         None \<Rightarrow> ret ()
       | Some l \<Rightarrow> if 0 < length l then PassOverToKVMSAgent event l else ret ())"

definition UpdateHostSecurityPolicies ::
  "iteration \<Rightarrow> iteration \<Rightarrow> K8sKubeArmorHostPolicyEvent \<Rightarrow> ('e, unit) sv_prog" where
  "UpdateHostSecurityPolicies it1 it2 event =
     (case Clone (kh_Spec (he_Object event)) of
        Inl err \<Rightarrow> stop_with (Fatal ''Failed to clone a spec'')
      | Inr spec \<Rightarrow>
          (let labels = selector_labels it1 spec in
           andThen (GetAllEtcdEWLabels it2) (\<lambda>_.
           andThen (reads EtcdEWLabels) (\<lambda>known.
             if known = None then ret ()
             else if MatchIdentities labels (strings_of known) then
               for_each labels (send_to_label event)
             else ret ()))))"

text \<open>The body of the decoder loop, with the iteration orders of the two \<open>range\<close> loops over maps\<close>

definition HandleHostEvent ::
  "(iteration \<times> iteration) \<times> K8sKubeArmorHostPolicyEvent \<Rightarrow> ('e, unit) sv_prog" where
  "HandleHostEvent ie =
     (case ie of ((it1, it2), event) \<Rightarrow>
        if st_Status (kh_Status (he_Object event)) \<noteq> [] \<and> st_Status (kh_Status (he_Object event)) \<noteq> ''OK''
        then ret ()
        else UpdateHostSecurityPolicies it1 it2 event)"

text \<open>The outer loop, over the rounds that are observed: per round the events that are decoded,
  none where the resource definition is missing or the watch request fails\<close>

fun WatchHostSecurityPolicies ::
  "((iteration \<times> iteration) \<times> K8sKubeArmorHostPolicyEvent) list option list \<Rightarrow> ('e, unit) sv_prog" where
  "WatchHostSecurityPolicies [] = ret ()"
| "WatchHostSecurityPolicies (None # rounds) = WatchHostSecurityPolicies rounds"
| "WatchHostSecurityPolicies (Some events # rounds) =
     andThen (run_events HandleHostEvent events) (\<lambda>_. WatchHostSecurityPolicies rounds)"

text \<open>\<open>Find\<close> of \<open>kvmsUpdate.go\<close>, a copy of the one of the operator; only disabled code calls it\<close>

fun svc_Find_from :: "int \<Rightarrow> uint16 list \<Rightarrow> uint16 \<Rightarrow> int \<times> bool" where
  "svc_Find_from i [] val = (-1, False)"
| "svc_Find_from i (item # rest) val = (if item = val then (i, True) else svc_Find_from (i + 1) rest val)"

definition svc_Find :: "uint16 list \<Rightarrow> uint16 \<Rightarrow> int \<times> bool" where
  "svc_Find items val = svc_Find_from 0 items val"


section \<open>Correctness\<close>

text \<open>
  The content of the label map the service can read: every key is a label without a slash, and
  every value is the JSON of a list of identities.
\<close>

definition label_map_readable :: "(string \<rightharpoonup> string) \<Rightarrow> bool" where
  "label_map_readable M \<longleftrightarrow> (\<forall>label v. M (KvmOprLabelToIdentities @ label) = Some v \<longrightarrow>
     CHR ''/'' \<notin> set label \<and> (\<exists>arr. UnmarshalU16s v = Inr arr))"

text \<open>The identities etcd holds for a label\<close>

definition identities_in :: "(string \<rightharpoonup> string) \<Rightarrow> string \<Rightarrow> uint16 list option option" where
  "identities_in M label =
     (case M (KvmOprLabelToIdentities @ label) of None \<Rightarrow> None
      | Some v \<Rightarrow> (case UnmarshalU16s v of Inl err \<Rightarrow> None | Inr arr \<Rightarrow> Some arr))"

definition sv_connected :: "'e clientv3 \<Rightarrow> ('e \<Rightarrow> bool) \<Rightarrow> 'e KVMS \<Rightarrow> bool" where
  "sv_connected api up s \<longleftrightarrow>
     (\<exists>l. sv_EtcdClient s = Some \<lparr>etcdClient = api, leaseResponse = l\<rparr>) \<and> up (sv_store s)"

lemma sv_connected_updates [simp]:
  "sv_connected api up (s\<lparr>EtcdEWLabels := a\<rparr>) = sv_connected api up s"
  "sv_connected api up (s\<lparr>sv_MapLabelToIdentities := b\<rparr>) = sv_connected api up s"
  "sv_connected api up (s\<lparr>sv_sent := c\<rparr>) = sv_connected api up s"
  by (simp_all add: sv_connected_def)

lemma last_field_label:
  assumes "CHR ''/'' \<notin> set label"
  shows "last_field (KvmOprLabelToIdentities @ label) (CHR ''/'') = label"
proof -
  have "KvmOprLabelToIdentities @ label = butlast KvmOprLabelToIdentities @ CHR ''/'' # label"
    by (simp add: KvmOprLabelToIdentities_def)
  then show ?thesis using last_field_append [OF assms] by metis
qed

lemma label_key_last_field:
  assumes "label_map_readable M" and "prefix KvmOprLabelToIdentities k" and "M k = Some v"
  shows "k = KvmOprLabelToIdentities @ last_field k (CHR ''/'')" "\<exists>arr. UnmarshalU16s v = Inr arr"
proof -
  obtain label where k: "k = KvmOprLabelToIdentities @ label" using assms(2) by (auto elim: prefixE)
  with assms have "CHR ''/'' \<notin> set label" "\<exists>arr. UnmarshalU16s v = Inr arr"
    by (auto simp: label_map_readable_def)
  then show "k = KvmOprLabelToIdentities @ last_field k (CHR ''/'')" "\<exists>arr. UnmarshalU16s v = Inr arr"
    using k by (simp_all add: last_field_label)
qed

lemma strings_of_collect:
  "strings_of (collect_labels kv sl) = strings_of sl @ map (\<lambda>(k, v). last_field k (CHR ''/'')) kv"
  by (induction kv arbitrary: sl) (auto simp: collect_labels_def append_string_def strings_of_def)

lemma collect_labels_not_nil: "sl \<noteq> None \<Longrightarrow> collect_labels kv sl \<noteq> None"
  by (induction kv arbitrary: sl) (auto simp: collect_labels_def append_string_def)

text \<open>The identities an event is sent to, by the content of etcd and the labels of the selector\<close>

definition label_identities :: "(string \<rightharpoonup> string) \<Rightarrow> string \<Rightarrow> uint16 list" where
  "label_identities M label = (case identities_in M label of Some (Some l) \<Rightarrow> l | _ \<Rightarrow> [])"

definition policy_targets :: "(string \<rightharpoonup> string) \<Rightarrow> string list \<Rightarrow> uint16 list" where
  "policy_targets M labels =
     (if labels \<noteq> [] \<and> list_all (\<lambda>label. M (KvmOprLabelToIdentities @ label) \<noteq> None) labels
      then concat (map (label_identities M) labels) else [])"

definition addressed :: "K8sKubeArmorHostPolicyEvent \<Rightarrow> uint16 \<Rightarrow> K8sKubeArmorHostPolicyEventWithIdentity" where
  "addressed event i = \<lparr>wi_Event = event, wi_Identity = i, wi_CloseConnection = False\<rparr>"

lemma PassOver_eq:
  "PassOverToKVMSAgent event ids s = (Ret (), s\<lparr>sv_sent := sv_sent s @ map (addressed event) ids\<rparr>)"
  by (induction ids arbitrary: s) (simp_all add: PassOverToKVMSAgent_def addressed_def prog_simps)

lemma selector_labels_Clone:
  "Clone spec = Inr spec' \<Longrightarrow> selector_labels it spec' = selector_labels it spec"
  by (auto simp: Clone_eq selector_labels_def)

text \<open>Storing one response: the labels it names get their lists, the others keep theirs.\<close>

lemma wp_store_identities:
  assumes "\<And>k v. (k, v) \<in> set kv \<Longrightarrow> k = KvmOprLabelToIdentities @ last_field k (CHR ''/'') \<and>
      M k = Some v \<and> (\<exists>arr. UnmarshalU16s v = Inr arr)"
  shows "wp (store_identities kv) (\<lambda>_ t. \<exists>m. t = s\<lparr>sv_MapLabelToIdentities := m\<rparr> \<and>
    map_of m = (\<lambda>label. if KvmOprLabelToIdentities @ label \<in> fst ` set kv then identities_in M label
      else map_of (sv_MapLabelToIdentities s) label)) s"
  unfolding store_identities_def
proof (rule wp_for_each [where I = "\<lambda>done t. \<exists>m. t = s\<lparr>sv_MapLabelToIdentities := m\<rparr> \<and>
    map_of m = (\<lambda>label. if KvmOprLabelToIdentities @ label \<in> fst ` set done then identities_in M label
      else map_of (sv_MapLabelToIdentities s) label)"], goal_cases)
  case 1
  show ?case by (rule exI [of _ "sv_MapLabelToIdentities s"]) simp
next
  case (2 "done" x rest t)
  obtain k v where x: "x = (k, v)" by (cases x)
  let ?label = "last_field k (CHR ''/'')"
  from 2(1) x have mem: "(k, v) \<in> set kv" by simp
  from assms [OF mem] obtain arr where key: "k = KvmOprLabelToIdentities @ ?label"
    and M: "M k = Some v" and arr: "UnmarshalU16s v = Inr arr" by blast
  obtain m where t: "t = s\<lparr>sv_MapLabelToIdentities := m\<rparr>" and m: "map_of m =
      (\<lambda>label. if KvmOprLabelToIdentities @ label \<in> fst ` set done then identities_in M label
        else map_of (sv_MapLabelToIdentities s) label)" using 2(2) by blast
  have ids: "identities_in M ?label = Some arr"
    using M arr by (simp add: identities_in_def flip: key)
  have "map_of (AList.update ?label arr m) label =
      (if KvmOprLabelToIdentities @ label \<in> fst ` set (done @ [x]) then identities_in M label
       else map_of (sv_MapLabelToIdentities s) label)" for label
  proof (cases "label = ?label")
    case True
    with ids x key show ?thesis by (simp add: update_conv')
  next
    case False
    then have "KvmOprLabelToIdentities @ label \<noteq> k" using key by (metis same_append_eq)
    with False x m show ?thesis by (simp add: update_conv')
  qed
  then have "map_of (AList.update ?label arr m) =
      (\<lambda>label. if KvmOprLabelToIdentities @ label \<in> fst ` set (done @ [x]) then identities_in M label
       else map_of (sv_MapLabelToIdentities s) label)" by (rule ext)
  with x arr t show ?case by auto
qed

context etcd_server
begin

lemma wp_sv_get:
  assumes "sv_connected api up s"
    and "\<And>m e. sv_connected api up (s\<lparr>sv_store := e\<rparr>) \<Longrightarrow> kvs e = kvs (sv_store s) \<Longrightarrow> gomap_ok m \<Longrightarrow>
      map_of m = (\<lambda>k. if prefix p k then kvs (sv_store s) k else None) \<Longrightarrow>
      Q (Inr m) (s\<lparr>sv_store := e\<rparr>)"
  shows "wp (sv_etcd (\<lambda>cli. EtcdGet cli p)) Q s"
proof -
  from assms(1) obtain l where l: "sv_EtcdClient s = Some \<lparr>etcdClient = api, leaseResponse = l\<rparr>"
    and up: "up (sv_store s)" by (auto simp: sv_connected_def)
  from kv.get_spec [OF up] obtain m e where
    "EtcdGet (Some \<lparr>etcdClient = api, leaseResponse = l\<rparr>) p (sv_store s) = (Ret (Inr m), e)" "up e"
    "kvs e = kvs (sv_store s)" "gomap_ok m"
    "map_of m = (\<lambda>k. if prefix p k then kvs (sv_store s) k else None)" by blast
  with l assms(2) show ?thesis by (simp add: wp_def sv_etcd_def on_part_def sv_connected_def)
qed

lemma wp_sv_getRaw:
  assumes "sv_connected api up s" and "prefix p k" and "kvs (sv_store s) k \<noteq> None"
    and "\<And>kv e. sv_connected api up (s\<lparr>sv_store := e\<rparr>) \<Longrightarrow> kvs e = kvs (sv_store s) \<Longrightarrow>
      set kv = {(k, v). prefix p k \<and> kvs (sv_store s) k = Some v} \<Longrightarrow> Q (Inr (Some kv)) (s\<lparr>sv_store := e\<rparr>)"
  shows "wp (sv_etcd (\<lambda>cli. EtcdGetRaw cli p)) Q s"
proof -
  from assms(1) obtain l where l: "sv_EtcdClient s = Some \<lparr>etcdClient = api, leaseResponse = l\<rparr>"
    and up: "up (sv_store s)" by (auto simp: sv_connected_def)
  from kv.getRaw_spec [OF up] obtain g e where g:
    "EtcdGetRaw (Some \<lparr>etcdClient = api, leaseResponse = l\<rparr>) p (sv_store s) = (Ret (Inr g), e)" "up e"
    "kvs e = kvs (sv_store s)"
    "case g of None \<Rightarrow> \<forall>k. prefix p k \<longrightarrow> kvs (sv_store s) k = None
     | Some kv \<Rightarrow> kv \<noteq> [] \<and> distinct (map fst kv) \<and>
         set kv = {(k, v). prefix p k \<and> kvs (sv_store s) k = Some v}" by blast
  with assms(2,3) obtain kv where "g = Some kv" by (auto split: option.splits)
  with g l assms(4) show ?thesis by (simp add: wp_def sv_etcd_def on_part_def sv_connected_def)
qed

text \<open>Fetching the lists of some labels, each of which still begins some key of the map\<close>

lemma wp_fetch_all:
  assumes "sv_connected api up s" and "M = kvs (sv_store s)" and "label_map_readable M"
    and "\<And>label. label \<in> set labels \<Longrightarrow> \<exists>x. M (KvmOprLabelToIdentities @ label @ x) \<noteq> None"
  shows "wp (for_each labels fetch_identities) (\<lambda>_ t. sv_connected api up t \<and> kvs (sv_store t) = M \<and>
    EtcdEWLabels t = EtcdEWLabels s \<and> sv_sent t = sv_sent s \<and>
    map_of (sv_MapLabelToIdentities t) = (\<lambda>lab.
      if M (KvmOprLabelToIdentities @ lab) \<noteq> None \<and> (\<exists>p \<in> set labels. prefix p lab)
      then identities_in M lab else map_of (sv_MapLabelToIdentities s) lab)) s"
proof (rule wp_for_each [where I = "\<lambda>done t. sv_connected api up t \<and> kvs (sv_store t) = M \<and>
    EtcdEWLabels t = EtcdEWLabels s \<and> sv_sent t = sv_sent s \<and>
    map_of (sv_MapLabelToIdentities t) = (\<lambda>lab.
      if M (KvmOprLabelToIdentities @ lab) \<noteq> None \<and> (\<exists>p \<in> set done. prefix p lab)
      then identities_in M lab else map_of (sv_MapLabelToIdentities s) lab)"], goal_cases)
  case 1
  show ?case using assms by simp
next
  case (2 "done" label rest t)
  from assms(4) [of label] 2(1) obtain x where x: "M (KvmOprLabelToIdentities @ label @ x) \<noteq> None" by auto
  show ?case
    unfolding fetch_identities_def wp_andThen
  proof (rule wp_sv_getRaw [where k = "KvmOprLabelToIdentities @ label @ x"], goal_cases)
    case (4 kv e)
    have set_kv: "set kv = {(k, v). prefix (KvmOprLabelToIdentities @ label) k \<and> M k = Some v}"
      using 4(3) 2(2) by simp
    have entries: "k = KvmOprLabelToIdentities @ last_field k (CHR ''/'') \<and> M k = Some v \<and>
        (\<exists>arr. UnmarshalU16s v = Inr arr)" if "(k, v) \<in> set kv" for k v
      using that set_kv label_key_last_field [OF assms(3)] by (auto dest: append_prefixD)
    have keys: "KvmOprLabelToIdentities @ lab \<in> fst ` set kv \<longleftrightarrow>
        M (KvmOprLabelToIdentities @ lab) \<noteq> None \<and> prefix label lab" for lab
      using set_kv by force
    have "wp (store_identities kv) (\<lambda>_ u. \<exists>m. u = t\<lparr>sv_store := e, sv_MapLabelToIdentities := m\<rparr> \<and>
        map_of m = (\<lambda>lab. if KvmOprLabelToIdentities @ lab \<in> fst ` set kv then identities_in M lab
          else map_of (sv_MapLabelToIdentities (t\<lparr>sv_store := e\<rparr>)) lab)) (t\<lparr>sv_store := e\<rparr>)"
      using wp_store_identities [of kv M "t\<lparr>sv_store := e\<rparr>"] entries by simp
    then show ?case
      using 2(2) 4(1,2) by (auto elim!: wp_mono simp: keys fun_eq_iff)
  qed (use 2(2) x in auto)
qed

lemma wp_GetAllEtcdEWLabels:
  assumes conn: "sv_connected api up s" and M: "M = kvs (sv_store s)" and ok: "label_map_readable M"
    and it: "permuting it"
    and known: "\<And>label. label \<in> set (strings_of (EtcdEWLabels s)) \<Longrightarrow>
      M (KvmOprLabelToIdentities @ label) \<noteq> None"
  shows "wp (GetAllEtcdEWLabels it) (\<lambda>_ t. sv_connected api up t \<and> kvs (sv_store t) = M \<and>
    sv_sent t = sv_sent s \<and> (EtcdEWLabels s \<noteq> None \<longrightarrow> EtcdEWLabels t \<noteq> None) \<and>
    set (strings_of (EtcdEWLabels t)) = {label. M (KvmOprLabelToIdentities @ label) \<noteq> None} \<and>
    (\<forall>label. M (KvmOprLabelToIdentities @ label) \<noteq> None \<longrightarrow>
       map_of (sv_MapLabelToIdentities t) label = identities_in M label)) s"
  unfolding GetAllEtcdEWLabels_def wp_andThen
proof (rule wp_sv_get [OF conn], goal_cases)
  case (1 m e)
  let ?s = "s\<lparr>sv_store := e, EtcdEWLabels := collect_labels (it m) (EtcdEWLabels s)\<rparr>"
  have in_m: "(k, v) \<in> set (it m) \<longleftrightarrow> prefix KvmOprLabelToIdentities k \<and> M k = Some v" for k v
    using 1(3,4) M permuting_set [OF it, of m] by (auto simp flip: map_of_eq_Some_iff split: if_splits)
  have "(\<exists>k v. (k, v) \<in> set (it m) \<and> label = last_field k (CHR ''/'')) \<longleftrightarrow>
      M (KvmOprLabelToIdentities @ label) \<noteq> None" for label
    using label_key_last_field(1) [OF ok] in_m ok
    by (metis label_map_readable_def last_field_label not_Some_eq prefixI)
  then have labels: "set (strings_of (EtcdEWLabels ?s)) = {label. M (KvmOprLabelToIdentities @ label) \<noteq> None}"
    using known by (fastforce simp: strings_of_collect image_iff)
  have "wp (for_each (strings_of (EtcdEWLabels ?s)) fetch_identities) (\<lambda>_ t. sv_connected api up t \<and>
      kvs (sv_store t) = M \<and> EtcdEWLabels t = EtcdEWLabels ?s \<and> sv_sent t = sv_sent ?s \<and>
      map_of (sv_MapLabelToIdentities t) = (\<lambda>lab.
        if M (KvmOprLabelToIdentities @ lab) \<noteq> None \<and>
          (\<exists>p \<in> set (strings_of (EtcdEWLabels ?s)). prefix p lab)
        then identities_in M lab else map_of (sv_MapLabelToIdentities ?s) lab)) ?s"
  proof (rule wp_fetch_all)
    show "\<exists>x. M (KvmOprLabelToIdentities @ label @ x) \<noteq> None"
      if "label \<in> set (strings_of (EtcdEWLabels ?s))" for label
      using that labels by (intro exI [of _ "[]"]) simp
  qed (use 1(1,2) M ok in simp_all)
  moreover have "\<exists>p \<in> set (strings_of (EtcdEWLabels ?s)). prefix p label"
    if "M (KvmOprLabelToIdentities @ label) \<noteq> None" for label
    unfolding labels using that by (intro bexI [of _ label]) simp_all
  moreover have "EtcdEWLabels s \<noteq> None \<Longrightarrow> EtcdEWLabels ?s \<noteq> None"
    using collect_labels_not_nil by simp
  ultimately show ?case
    using labels by (simp del: not_None_eq) (erule wp_mono, simp del: not_None_eq)
qed

lemma wp_send_to_labels:
  assumes "\<And>label. label \<in> set labels \<Longrightarrow> map_of (sv_MapLabelToIdentities s) label = identities_in M label"
  shows "wp (for_each labels (send_to_label event))
    (\<lambda>_ t. t = s\<lparr>sv_sent := sv_sent s @ map (addressed event) (concat (map (label_identities M) labels))\<rparr>) s"
proof (rule wp_for_each [where I = "\<lambda>done t. t = s\<lparr>sv_sent := sv_sent s @
    map (addressed event) (concat (map (label_identities M) done))\<rparr>"], goal_cases)
  case 1
  show ?case by simp
next
  case (2 "done" label rest t)
  with assms [of label] have "map_of (sv_MapLabelToIdentities t) label = identities_in M label" by simp
  with 2(2) show ?case
    by (auto simp: send_to_label_def GetIdentityFromLabelPool_def gm_read_def label_identities_def wp_def PassOver_eq
        prog_simps split: option.splits)
qed

lemma wp_UpdateHostSecurityPolicies:
  assumes conn: "sv_connected api up s" and M: "M = kvs (sv_store s)" and ok: "label_map_readable M"
    and it: "permuting it2" and ne: "EtcdEWLabels s \<noteq> None"
    and known: "\<And>label. label \<in> set (strings_of (EtcdEWLabels s)) \<Longrightarrow>
      M (KvmOprLabelToIdentities @ label) \<noteq> None"
  shows "wp (UpdateHostSecurityPolicies it1 it2 event) (\<lambda>_ t. sv_connected api up t \<and>
    kvs (sv_store t) = M \<and> EtcdEWLabels t \<noteq> None \<and>
    (\<forall>label \<in> set (strings_of (EtcdEWLabels t)). M (KvmOprLabelToIdentities @ label) \<noteq> None) \<and>
    sv_sent t = sv_sent s @
      map (addressed event) (policy_targets M (selector_labels it1 (kh_Spec (he_Object event))))) s"
proof -
  obtain spec where spec: "Clone (kh_Spec (he_Object event)) = Inr spec" by (simp add: Clone_eq)
  note labels = selector_labels_Clone [OF spec]
  show ?thesis
    unfolding UpdateHostSecurityPolicies_def spec sum.case Let_def labels wp_andThen
  proof (rule wp_mono [OF wp_GetAllEtcdEWLabels [OF conn M ok it known]], assumption, goal_cases)
    case (1 x t)
    let ?labels = "selector_labels it1 (kh_Spec (he_Object event))"
    from 1 ne obtain ls where ls: "EtcdEWLabels t = Some ls" by auto
    show ?case
    proof (cases "MatchIdentities ?labels (strings_of (EtcdEWLabels t))")
      case True
      then have targets: "policy_targets M ?labels = concat (map (label_identities M) ?labels)"
        and mem: "\<And>label. label \<in> set ?labels \<Longrightarrow>
          map_of (sv_MapLabelToIdentities t) label = identities_in M label"
        using 1 by (auto simp: MatchIdentities_iff policy_targets_def list_all_iff)
      have "wp (for_each ?labels (send_to_label event)) (\<lambda>_ u. u = t\<lparr>sv_sent := sv_sent t @
          map (addressed event) (concat (map (label_identities M) ?labels))\<rparr>) t"
        using mem by (rule wp_send_to_labels)
      then show ?thesis
        using True 1 ls targets by (auto elim!: wp_mono)
    next
      case False
      then have "policy_targets M ?labels = []"
        using 1 by (auto simp: MatchIdentities_iff policy_targets_def list_all_iff)
      with False 1 ls show ?thesis by simp
    qed
  qed
qed

text \<open>A remembered label that begins no key any more stops the refresh.\<close>

lemma fetch_stale_stops:
  assumes "sv_connected api up s" and "\<And>x. kvs (sv_store s) (KvmOprLabelToIdentities @ label @ x) = None"
  shows "\<exists>t. fetch_identities label s =
    (Stop (Panic ''invalid memory address or nil pointer dereference''), t)"
proof -
  from assms(1) obtain l where l: "sv_EtcdClient s = Some \<lparr>etcdClient = api, leaseResponse = l\<rparr>"
    and up: "up (sv_store s)" by (auto simp: sv_connected_def)
  from kv.getRaw_spec [OF up] obtain g e where g:
    "EtcdGetRaw (Some \<lparr>etcdClient = api, leaseResponse = l\<rparr>) (KvmOprLabelToIdentities @ label) (sv_store s)
      = (Ret (Inr g), e)"
    "case g of None \<Rightarrow> \<forall>k. prefix (KvmOprLabelToIdentities @ label) k \<longrightarrow> kvs (sv_store s) k = None
     | Some kv \<Rightarrow> kv \<noteq> [] \<and> distinct (map fst kv) \<and>
         set kv = {(k, v). prefix (KvmOprLabelToIdentities @ label) k \<and> kvs (sv_store s) k = Some v}"
    by blast
  have "{(k, v). prefix (KvmOprLabelToIdentities @ label) k \<and> kvs (sv_store s) k = Some v} = {}"
    using assms(2) by (auto elim!: prefixE)
  with g(2) have "g = None" by (cases g) auto
  with g(1) l show ?thesis
    by (simp add: fetch_identities_def sv_etcd_def on_part_def nil_deref_def stop_with_def)
qed

end


section \<open>Properties\<close>

text \<open>
  C4. A host policy event, while etcd is up and its label map is readable: the service sends the
  event once for each identity of each label of the selector, label by label and in the order of
  the lists in etcd, if etcd knows every label of the selector and there is one; otherwise it
  sends nothing. Etcd is not changed, and the labels the service remembers are still in etcd.
\<close>

theorem policy_sent_to_targets:
  assumes "etcd_server api kvs up" and "sv_connected api up s" and "label_map_readable (kvs (sv_store s))"
    and "permuting it2" and "EtcdEWLabels s = Some known"
    and "\<forall>label \<in> set known. kvs (sv_store s) (KvmOprLabelToIdentities @ label) \<noteq> None"
  shows "\<exists>t. UpdateHostSecurityPolicies it1 it2 event s = (Ret (), t) \<and> sv_connected api up t \<and>
    kvs (sv_store t) = kvs (sv_store s) \<and>
    (\<forall>label \<in> set (strings_of (EtcdEWLabels t)). kvs (sv_store t) (KvmOprLabelToIdentities @ label) \<noteq> None) \<and>
    sv_sent t = sv_sent s @ map (addressed event)
      (policy_targets (kvs (sv_store s)) (selector_labels it1 (kh_Spec (he_Object event))))"
  using etcd_server.wp_UpdateHostSecurityPolicies [OF assms(1,2) refl assms(3,4), of it1 event] assms(5,6)
  by (auto simp: wp_def strings_of_def)

definition demo_policy :: "(string \<times> string) list \<Rightarrow> K8sKubeArmorHostPolicyEvent" where
  "demo_policy labels =
     zero_HostPolicyEvent\<lparr>he_Type := ''ADDED'', he_Object := (he_Object zero_HostPolicyEvent)\<lparr>kh_Spec :=
       zero_HostSecuritySpec\<lparr>hs_NodeSelector := \<lparr>ns_MatchLabels = Some labels, ns_Identities = None\<rparr>\<rparr>\<rparr>\<rparr>"

definition demo_service :: "kv_pair list \<Rightarrow> mem_etcd KVMS" where
  "demo_service data =
     NewKVMSDaemon (Some \<lparr>etcdClient = mem_api, leaseResponse = 1\<rparr>) \<lparr>mem_data = data, mem_online = True\<rparr>
       ''10.0.0.2'' 40400 ''10.0.0.1''"

definition demo_labels :: "kv_pair list" where
  "demo_labels =
     [(KvmOprLabelToIdentities @ ''env=prod'', MarshalU16s (Some [5, 7])),
      (KvmOprLabelToIdentities @ ''zone=eu'', MarshalU16s (Some [7]))]"

lemma demo_service_connected: "sv_connected mem_api mem_online (demo_service data)"
  by (simp add: sv_connected_def demo_service_def NewKVMSDaemon_def)

lemma demo_service_fields [simp]:
  "EtcdEWLabels (demo_service data) = Some []" "sv_sent (demo_service data) = []"
  "mem_kvs (sv_store (demo_service data)) = map_of data"
  by (simp_all add: demo_service_def NewKVMSDaemon_def mem_kvs_def)

lemma demo_labels_readable: "label_map_readable (map_of demo_labels)"
  by (auto simp: label_map_readable_def demo_labels_def identities_json.dec_enc split: if_splits)

theorem policy_sent_to_targets_witness:
  "\<exists>t. UpdateHostSecurityPolicies (\<lambda>m. m) (\<lambda>m. m) (demo_policy [(''env'', ''prod''), (''zone'', ''eu'')])
      (demo_service demo_labels) = (Ret (), t) \<and>
    map wi_Identity (sv_sent t) = [5, 7, 7]"
proof -
  have targets: "policy_targets (map_of demo_labels)
      (selector_labels (\<lambda>m. m) (kh_Spec (he_Object (demo_policy [(''env'', ''prod''), (''zone'', ''eu'')])))) = [5, 7, 7]"
    by (simp add: policy_targets_def selector_labels_def demo_policy_def demo_labels_def label_identities_def
        identities_in_def identities_json.dec_enc)
  show ?thesis
    using policy_sent_to_targets [OF mem.etcd_server_axioms demo_service_connected, of demo_labels "\<lambda>m. m" "[]" "\<lambda>m. m"
        "demo_policy [(''env'', ''prod''), (''zone'', ''eu'')]"] demo_labels_readable targets
    by (auto simp: addressed_def)
qed

text \<open>
  A refresh of the labels, while etcd is up and its label map is readable, returns, and then
  the service knows exactly the labels etcd has, each with the identities etcd lists for it.
\<close>

theorem labels_refreshed:
  assumes "etcd_server api kvs up" and "sv_connected api up s" and "label_map_readable (kvs (sv_store s))"
    and "permuting it"
    and "\<forall>label \<in> set (strings_of (EtcdEWLabels s)). kvs (sv_store s) (KvmOprLabelToIdentities @ label) \<noteq> None"
  shows "\<exists>t. GetAllEtcdEWLabels it s = (Ret (), t) \<and> sv_sent t = sv_sent s \<and>
    set (strings_of (EtcdEWLabels t)) = {label. kvs (sv_store s) (KvmOprLabelToIdentities @ label) \<noteq> None} \<and>
    (\<forall>label \<in> set (strings_of (EtcdEWLabels t)).
       Some (GetIdentityFromLabelPool t label) = identities_in (kvs (sv_store s)) label)"
proof -
  obtain t where t: "GetAllEtcdEWLabels it s = (Ret (), t)" "sv_sent t = sv_sent s"
      "set (strings_of (EtcdEWLabels t)) = {label. kvs (sv_store s) (KvmOprLabelToIdentities @ label) \<noteq> None}"
      "\<forall>label. kvs (sv_store s) (KvmOprLabelToIdentities @ label) \<noteq> None \<longrightarrow>
         map_of (sv_MapLabelToIdentities t) label = identities_in (kvs (sv_store s)) label"
    using etcd_server.wp_GetAllEtcdEWLabels [OF assms(1,2) refl assms(3,4)] assms(5) by (auto simp: wp_def)
  have "Some (GetIdentityFromLabelPool t label) = identities_in (kvs (sv_store s)) label"
    if there: "kvs (sv_store s) (KvmOprLabelToIdentities @ label) \<noteq> None" for label
  proof -
    obtain v where v: "kvs (sv_store s) (KvmOprLabelToIdentities @ label) = Some v" using there by blast
    with assms(3) obtain arr where "UnmarshalU16s v = Inr arr" by (auto simp: label_map_readable_def)
    with v t(4) show ?thesis by (simp add: GetIdentityFromLabelPool_def gm_read_def identities_in_def)
  qed
  with t(1-3) show ?thesis by simp
qed

theorem labels_refreshed_witness:
  "\<exists>t. GetAllEtcdEWLabels rev (demo_service demo_labels) = (Ret (), t) \<and>
    GetIdentityFromLabelPool t ''zone=eu'' = Some [7]"
proof -
  have "''zone=eu'' \<in> {label. map_of demo_labels (KvmOprLabelToIdentities @ label) \<noteq> None}"
    "identities_in (map_of demo_labels) ''zone=eu'' = Some (Some [7])"
    by (simp_all add: demo_labels_def identities_in_def identities_json.dec_enc)
  moreover obtain t where "GetAllEtcdEWLabels rev (demo_service demo_labels) = (Ret (), t)"
      "set (strings_of (EtcdEWLabels t)) = {label. map_of demo_labels (KvmOprLabelToIdentities @ label) \<noteq> None}"
      "\<forall>label \<in> set (strings_of (EtcdEWLabels t)).
         Some (GetIdentityFromLabelPool t label) = identities_in (map_of demo_labels) label"
    using labels_refreshed [OF mem.etcd_server_axioms demo_service_connected, of demo_labels rev] demo_labels_readable
    by (auto simp: strings_of_def [of "Some []"] simp del: not_None_eq)
  ultimately show ?thesis by (metis option.inject)
qed

end
