(* ===== verification/Genscript.thy ===== *)
theory Genscript
  imports Go_Stdlib
begin

text \<open>
  \<open>src/service/genscript/genscript.go\<close>: the installation script for one external workload. The
  package keeps its parameters and the text under construction in two global variables, the
  record \<open>genscript\<close>. The literal lines are those of the source, in its order.
\<close>

record genscript =
  gs_port :: uint16
  gs_ipAddress :: string
  ScriptData :: string

definition InitGenScript :: "uint16 \<Rightarrow> string \<Rightarrow> genscript \<Rightarrow> genscript" where
  "InitGenScript Port IpAddress p = p\<lparr>gs_port := Port, gs_ipAddress := IpAddress\<rparr>"

definition addContent :: "string \<Rightarrow> genscript \<Rightarrow> genscript" where
  "addContent content p = p\<lparr>ScriptData := ScriptData p @ content @ [CHR 0x0A]\<rparr>"

definition script_header :: "string list" where
  \<open>script_header = [''#!/bin/bash'', ''set -e'', ''set -x'', ''shopt -s extglob'', '''']\<close>

definition script_docker_check :: "string list" where
  \<open>script_docker_check =
     [''if ['' @ ''[ $(which docker) && $(docker --version) ]'' @ '']; then'',
      ''    echo "Docker is installed!!!"'',
      ''else'',
      ''  echo "Failed: Docker is not installed!!!"'',
      ''  exit -1'',
      ''fi'',
      '''']\<close>

definition script_launch :: "string list" where
  \<open>script_launch =
     [''DOCKER_OPTS=" -d -p 32767:32767 --log-driver syslog --restart always"'',
      ''DOCKER_OPTS+=" --privileged --add-host kvms.kubearmor.io:$CLUSTER_IP"'',
      ''DOCKER_OPTS+=" --env CLUSTER_PORT=$CLUSTER_PORT --env CLUSTER_IP=$CLUSTER_IP"'',
      ''DOCKER_OPTS+=" --env  WORKLOAD_IDENTITY=$WORKLOAD_IDENTITY"'',
      ''DOCKER_OPTS+=" --volume /var/run/docker.sock:/var/run/docker.sock"'',
      ''DOCKER_OPTS+=" --volume /usr/src:/usr/src"'',
      ''DOCKER_OPTS+=" --volume /lib/modules:/lib/modules"'',
      ''DOCKER_OPTS+=" --volume /sys/fs/bpf:/sys/fs/bpf"'',
      ''DOCKER_OPTS+=" --volume /sys/kernel/debug:/sys/kernel/debug"'',
      ''DOCKER_OPTS+=" --volume /etc/apparmor.d:/etc/apparmor.d"'',
      ''DOCKER_OPTS+=" --volume /etc/os-release:/media/root/etc/os-release"'',
      '''',
      ''KUBEARMOR_OPTS=" -enableKubeArmorvm=true -logPath=/tmp/kubearmor.log"'',
      '''',
      ''if [ -n "$(sudo docker ps -a -q -f name=kubearmor)" ]; then'',
      ''    echo "Shutting down running kubearmor agent"'',
      ''    sudo docker rm -f kubearmor || true'',
      ''fi'',
      '''',
      ''KUBEARMOR_IMAGE="kubearmor/kubearmor:latest"'',
      '''',
      ''echo "Launching kubearmor agent..."'',
      ''sudo docker run --name kubearmor $DOCKER_OPTS $KUBEARMOR_IMAGE kubearmor $KUBEARMOR_OPTS'',
      '''']\<close>

definition script_lines :: "uint16 \<Rightarrow> string \<Rightarrow> string \<Rightarrow> string list" where
  "script_lines port ipAddress identity =
     script_header @
     [''CLUSTER_PORT='' @ u16_str port, ''CLUSTER_IP='' @ ipAddress, ''''] @
     script_docker_check @
     [''WORKLOAD_IDENTITY='' @ identity, ''''] @
     script_launch"

text \<open>The name of the workload only goes into the log.\<close>

definition GenerateEWInstallationScript :: "string \<Rightarrow> string \<Rightarrow> genscript \<Rightarrow> string \<times> genscript" where
  "GenerateEWInstallationScript externalWorkload identity p =
     (let p0 = p\<lparr>ScriptData := ''''\<rparr>;
          p1 = fold addContent (script_lines (gs_port p0) (gs_ipAddress p0) identity) p0
      in (ScriptData p1, p1))"

lemma fold_addContent:
  "fold addContent ls p = p\<lparr>ScriptData := ScriptData p @ concat (map (\<lambda>l. l @ [CHR 0x0A]) ls)\<rparr>"
  by (induction ls arbitrary: p) (simp_all add: addContent_def)

lemma GenerateEWInstallationScript_eq:
  "fst (GenerateEWInstallationScript ew identity p) =
     concat (map (\<lambda>l. l @ [CHR 0x0A]) (script_lines (gs_port p) (gs_ipAddress p) identity))"
  by (simp add: GenerateEWInstallationScript_def Let_def fold_addContent)

lemma Split_lines:
  assumes "\<And>l. l \<in> set ls \<Longrightarrow> sep \<notin> set l"
  shows "Split (concat (map (\<lambda>l. l @ [sep]) ls)) sep = ls @ [[]]"
  using assms by (induction ls) (auto simp: Split_append Split_no_sep)

lemma literal_lines_no_newline:
  "l \<in> set (script_header @ script_docker_check @ script_launch) \<Longrightarrow> CHR 0x0A \<notin> set l"
  by (auto simp: script_header_def script_docker_check_def script_launch_def)

lemma script_lines_no_newline:
  assumes "CHR 0x0A \<notin> set ip" and "CHR 0x0A \<notin> set identity" and "l \<in> set (script_lines port ip identity)"
  shows "CHR 0x0A \<notin> set l"
proof -
  have "CHR 0x0A \<notin> set (u16_str port)" using u16_str_digits by (fastforce simp: is_digit_def)
  with assms literal_lines_no_newline show ?thesis by (auto simp: script_lines_def)
qed



section \<open>Properties\<close>

text \<open>
  The lines of the generated script are those of \<open>script_lines\<close>, with the port, the address and
  the identity in their places, whatever was generated before; no value can add a line as long as
  it has no line break.
\<close>

theorem script_is_lines:
  assumes "CHR 0x0A \<notin> set (gs_ipAddress p)" and "CHR 0x0A \<notin> set identity"
  shows "Split (fst (GenerateEWInstallationScript ew identity p)) (CHR 0x0A) =
      script_lines (gs_port p) (gs_ipAddress p) identity @ [[]] \<and>
    GenerateEWInstallationScript ew identity (snd (GenerateEWInstallationScript ew' identity' p)) =
      GenerateEWInstallationScript ew identity p"
proof -
  have "Split (fst (GenerateEWInstallationScript ew identity p)) (CHR 0x0A) =
      script_lines (gs_port p) (gs_ipAddress p) identity @ [[]]"
    unfolding GenerateEWInstallationScript_eq
    by (rule Split_lines) (rule script_lines_no_newline [OF assms])
  then show ?thesis by (simp add: GenerateEWInstallationScript_def Let_def fold_addContent)
qed

theorem script_is_lines_witness:
  "''WORKLOAD_IDENTITY=5'' \<in> set (Split (fst (GenerateEWInstallationScript ''vm1'' ''5''
     \<lparr>gs_port = 40400, gs_ipAddress = ''10.0.0.1'', ScriptData = ''old''\<rparr>)) (CHR 0x0A))"
  using script_is_lines [of "\<lparr>gs_port = 40400, gs_ipAddress = ''10.0.0.1'', ScriptData = ''old''\<rparr>" "''5''" "''vm1''"]
  by (simp add: script_lines_def)

end
