(* ===== verification/Server.thy ===== *)
theory Server
  imports Service Identity_List Genscript
begin

text \<open>
  The gRPC handlers of the service: \<open>src/service/server/kvmserver.go\<close> (registration of an agent,
  and what happens to etcd when its connection ends), \<open>clihandler.go\<close> (the request of the command
  line tool) and \<open>server.go\<close>. The streaming handler \<open>SendPolicy\<close> is in \<open>Policy_Stream\<close>.

  The package variables are set once, by \<open>NewServerInit\<close>, before a handler runs; the handlers take
  the ones they read as arguments (\<open>cli\<close>, the etcd client, and \<open>podIp\<close>), and the state they work
  on is the etcd server itself. Listening, serving and the generated protobuf code are not
  modelled; a request is the value of its fields.
\<close>


section \<open>Package variables\<close>

record 'e server_vars =
  srv_podIp :: string
  srv_Clusterport :: string
  srv_EtcdClient :: "'e etcd_ptr"
  srv_ClusterIp :: string

definition NewServerInit :: "string \<Rightarrow> string \<Rightarrow> string \<Rightarrow> 'e etcd_ptr \<Rightarrow> 'e server_vars" where
  "NewServerInit ipAddress ClusterIpAddress portVal Etcd =
     \<lparr>srv_podIp = ipAddress, srv_Clusterport = portVal, srv_EtcdClient = Etcd, srv_ClusterIp = ClusterIpAddress\<rparr>"

text \<open>The call of \<open>NewServerInit\<close> in \<open>NewKVMSDaemon\<close>\<close>

definition server_of_daemon :: "'e KVMS \<Rightarrow> 'e server_vars" where
  "server_of_daemon dm =
     NewServerInit (PodIpAddress dm) (ClusteripAddress dm) (u16_str (ClusterPort dm)) (sv_EtcdClient dm)"


section \<open>Agents\<close>

text \<open>
  \<open>GetIdentityFromContext\<close>: \<open>md\<close> is the list of values the incoming metadata has under the key
  \<open>identity\<close>, \<open>None\<close> if there is no metadata. The error of \<open>Atoi\<close> is ignored.
\<close>

definition GetIdentityFromContext :: "string list option \<Rightarrow> uint16" where
  "GetIdentityFromContext md =
     (let token = (case md of None \<Rightarrow> [] | Some values \<Rightarrow> if 0 < length values then values ! 0 else [])
      in to_uint16 (fst (Atoi token)))"

text \<open>
  The body of the loop over the keys of the label: the list is read, the identity is taken out,
  and the shortened list is written back, under the key of the label, whatever key it came from.
\<close>

definition rewrite_list :: "'e etcd_ptr \<Rightarrow> uint16 \<Rightarrow> string \<Rightarrow> kv_pair \<Rightarrow> ('e, unit) prog" where
  "rewrite_list cli identity label ev =
     (case UnmarshalU16s (snd ev) of
        Inl err \<Rightarrow> stop_with (Fatal err)
      | Inr None \<Rightarrow>
          andThen (EtcdPut cli (KvmOprLabelToIdentities @ label) (MarshalU16s None)) fatal_on
      | Inr (Some arr) \<Rightarrow>
          (case drop_identity identity arr of
             Stop c \<Rightarrow> stop_with c
           | Ret (arr', n) \<Rightarrow>
               andThen (EtcdPut cli (KvmOprLabelToIdentities @ label) (MarshalU16s (Some (take n arr'))))
                 fatal_on))"

definition UpdateETCDLabelToIdentitiesMaps :: "'e etcd_ptr \<Rightarrow> uint16 \<Rightarrow> ('e, unit) prog" where
  "UpdateETCDLabelToIdentitiesMaps cli identity =
     andThen (EtcdDelete cli (KvmSvcIdentitiToPodIps @ u16_str identity)) (\<lambda>err.
       case err of
         Some e \<Rightarrow> ret ()
       | None \<Rightarrow>
           andThen (EtcdGet cli (KvmOprIdentityToLabel @ u16_str identity)) (\<lambda>r.
             case r of
               Inl e \<Rightarrow> stop_with (Fatal e)
             | Inr labelKV \<Rightarrow>
                 (let label = gm_read [] labelKV (KvmOprIdentityToLabel @ u16_str identity) in
                  andThen (EtcdGetRaw cli (KvmOprLabelToIdentities @ label)) (\<lambda>g.
                    case g of
                      Inl e \<Rightarrow> stop_with (Fatal e)
                    | Inr None \<Rightarrow> nil_deref
                    | Inr (Some kv) \<Rightarrow> for_each kv (rewrite_list cli identity label)))))"

fun serving_loop :: "string \<Rightarrow> kv_pair list \<Rightarrow> int" where
  "serving_loop identity [] = 0"
| "serving_loop identity ((key, value) # rest) =
     (if last_field key (CHR ''/'') = identity then 1 else serving_loop identity rest)"

definition IsIdentityServing :: "'e etcd_ptr \<Rightarrow> iteration \<Rightarrow> string \<Rightarrow> ('e, int) prog" where
  "IsIdentityServing cli it identity =
     andThen (EtcdGet cli (KvmSvcIdentitiToPodIps @ identity)) (\<lambda>r.
       case r of
         Inl err \<Rightarrow> stop_with (Fatal err)
       | Inr kvPair \<Rightarrow>
           if 0 < length kvPair then ret 0
           else
             andThen (EtcdGet cli KvmOprIdentityToLabel) (\<lambda>r2.
               case r2 of
                 Inl err \<Rightarrow> stop_with (Fatal err)
               | Inr etcdLabels \<Rightarrow> ret (serving_loop identity (it etcdLabels))))"

text \<open>The answer is the status of the reply and the error of the call.\<close>

definition RegisterAgentIdentity ::
  "'e etcd_ptr \<Rightarrow> string \<Rightarrow> iteration \<Rightarrow> string \<Rightarrow> ('e, int \<times> go_error option) prog" where
  "RegisterAgentIdentity cli podIp it identity =
     andThen (IsIdentityServing cli it identity) (\<lambda>serving.
       if serving = 0 then ret (-1, None)
       else
         andThen (EtcdPutWithTTL cli (KvmSvcIdentitiToPodIps @ identity) podIp) (\<lambda>err.
           case err of Some e \<Rightarrow> ret (-1, Some e) | None \<Rightarrow> ret (0, None)))"


section \<open>The command line tool\<close>

record ResponseStatus =
  rs_ScriptData :: string
  rs_StatusMsg :: string
  rs_Status :: int

text \<open>The global variables of the script generator are the second part of the state.\<close>

definition HandleCliRequest ::
  "'e etcd_ptr \<Rightarrow> string \<Rightarrow> ('e \<times> genscript, ResponseStatus) prog" where
  "HandleCliRequest cli KvmName =
     andThen (on_part fst (\<lambda>e s. (e, snd s)) (EtcdGet cli (KvmOprEWNameToIdentity @ KvmName))) (\<lambda>r.
       case r of
         Inl err \<Rightarrow> stop_with (Fatal err)
       | Inr kvPair \<Rightarrow>
           (let identity = gm_read [] kvPair (KvmOprEWNameToIdentity @ KvmName) in
            if length identity = 0 then
              ret \<lparr>rs_ScriptData = [], rs_StatusMsg = ''Error: KVM Name is not present in DB'', rs_Status = -1\<rparr>
            else (\<lambda>(e, p).
              case GenerateEWInstallationScript KvmName identity p of (scriptData, p') \<Rightarrow>
                (Ret \<lparr>rs_ScriptData = scriptData, rs_StatusMsg = ''Success'', rs_Status = 0\<rparr>, (e, p')))))"


section \<open>Correctness\<close>

lemma serving_loop_iff: "serving_loop identity kv = 1 \<longleftrightarrow> (\<exists>(k, v) \<in> set kv. last_field k (CHR ''/'') = identity)"
  by (induction identity kv rule: serving_loop.induct) auto

lemma serving_loop_cases: "serving_loop identity kv = 0 \<or> serving_loop identity kv = 1"
  by (induction identity kv rule: serving_loop.induct) auto

text \<open>An identity is known when the operator has a label for it.\<close>

definition identity_known :: "(string \<rightharpoonup> string) \<Rightarrow> string \<Rightarrow> bool" where
  "identity_known M identity \<longleftrightarrow>
     (\<exists>k. prefix KvmOprIdentityToLabel k \<and> M k \<noteq> None \<and> last_field k (CHR ''/'') = identity)"

text \<open>An identity is taken when the service has an entry that begins with it.\<close>

definition identity_taken :: "(string \<rightharpoonup> string) \<Rightarrow> string \<Rightarrow> bool" where
  "identity_taken M identity \<longleftrightarrow> (\<exists>x. M (KvmSvcIdentitiToPodIps @ identity @ x) \<noteq> None)"

lemma length_map_of_pos: "0 < length m \<longleftrightarrow> (\<exists>k. map_of m k \<noteq> None)"
  by (cases m) auto

lemma distinct_one: "distinct xs \<Longrightarrow> set xs = {x} \<Longrightarrow> xs = [x]"
  by (cases xs rule: list.exhaust; cases "tl xs") auto

lemma only_key:
  assumes "M p = Some v" and "\<And>x. x \<noteq> [] \<Longrightarrow> M (p @ x) = None"
  shows "{(k, w). prefix p k \<and> M k = Some w} = {(p, v)}"
proof -
  have "k = p \<and> w = v" if "prefix p k" "M k = Some w" for k w
    using that assms by (metis append_Nil2 option.distinct(1) option.inject prefixE)
  with assms(1) show ?thesis by auto
qed

context etcd_server
begin

abbreviation client :: "int \<Rightarrow> 'e etcd_ptr" where
  "client l \<equiv> Some \<lparr>etcdClient = api, leaseResponse = l\<rparr>"

lemma wp_IsIdentityServing:
  assumes "up e" and "permuting it"
  shows "wp (IsIdentityServing (client l) it identity) (\<lambda>n e'. up e' \<and> kvs e' = kvs e \<and>
    n = (if \<not> identity_taken (kvs e) identity \<and> identity_known (kvs e) identity then 1 else 0)) e"
  unfolding IsIdentityServing_def wp_andThen
proof (rule kv.wp_get [OF assms(1)], goal_cases)
  case (1 m e')
  have taken: "0 < length m \<longleftrightarrow> identity_taken (kvs e) identity"
    unfolding length_map_of_pos 1(4) identity_taken_def
    by (auto simp: prefix_def split: if_splits)
  show ?case
  proof (cases "0 < length m")
    case True
    with taken 1 show ?thesis by simp
  next
    case False
    have "wp (EtcdGet (client l) KvmOprIdentityToLabel) (\<lambda>r e2. \<exists>m2. r = Inr m2 \<and> up e2 \<and>
        kvs e2 = kvs e \<and> (serving_loop identity (it m2) = 1 \<longleftrightarrow> identity_known (kvs e) identity)) e'"
    proof (rule kv.wp_get [OF 1(1)], goal_cases)
      case (1 m2 e2)
      have "(k, v) \<in> set (it m2) \<longleftrightarrow> prefix KvmOprIdentityToLabel k \<and> kvs e k = Some v" for k v
        using 1(3,4) \<open>kvs e' = kvs e\<close> permuting_set [OF assms(2), of m2]
        by (auto simp flip: map_of_eq_Some_iff split: if_splits)
      then have "serving_loop identity (it m2) = 1 \<longleftrightarrow> identity_known (kvs e) identity"
        by (auto simp: serving_loop_iff identity_known_def)
      with 1 \<open>kvs e' = kvs e\<close> show ?case by auto
    qed
    with False taken show ?thesis
      by (auto elim!: wp_mono) (metis serving_loop_cases)
  qed
qed

lemma wp_Register:
  assumes "up e" and "permuting it"
  shows "wp (RegisterAgentIdentity (client l) podIp it identity) (\<lambda>(status, err) e'. up e' \<and> err = None \<and>
    (if \<not> identity_taken (kvs e) identity \<and> identity_known (kvs e) identity
     then status = 0 \<and> kvs e' = (kvs e)(KvmSvcIdentitiToPodIps @ identity \<mapsto> podIp)
     else status = -1 \<and> kvs e' = kvs e)) e"
  unfolding RegisterAgentIdentity_def wp_andThen
proof (rule wp_mono [OF wp_IsIdentityServing [OF assms]], goal_cases)
  case (1 n e')
  show ?case
  proof (cases "n = 0")
    case True
    with 1 show ?thesis by (simp split: if_splits)
  next
    case False
    with 1 show ?thesis
      by (auto intro!: kv.wp_putTTL split: if_splits)
  qed
qed

text \<open>
  The end of a connection, for an identity the operator has a label for: the service entry goes
  away, and every list stored under a key that begins with the label is written back, without the
  identity, under the key of the label itself.
\<close>

lemma wp_rewrite_list:
  assumes "up e" and "UnmarshalU16s v = Inr (Some arr)" and "drop_identity identity arr = Ret (arr', n)"
    and "\<And>e'. up e' \<Longrightarrow>
      kvs e' = (kvs e)(KvmOprLabelToIdentities @ label \<mapsto> MarshalU16s (Some (take n arr'))) \<Longrightarrow> Q () e'"
  shows "wp (rewrite_list (client l) identity label (k, v)) Q e"
  using assms by (auto simp: rewrite_list_def intro!: kv.wp_put)

lemma wp_disconnect:
  assumes "up e"
    and label: "kvs e (KvmOprIdentityToLabel @ u16_str identity) = Some label"
    and list: "kvs e (KvmOprLabelToIdentities @ label) = Some (MarshalU16s (Some arr))"
    and alone: "\<And>x. x \<noteq> [] \<Longrightarrow> kvs e (KvmOprLabelToIdentities @ label @ x) = None"
    and drop: "drop_identity identity arr = Ret (arr', n)"
  shows "wp (UpdateETCDLabelToIdentitiesMaps (client l) identity) (\<lambda>_ e'. up e' \<and>
    kvs e' = (\<lambda>k. if prefix (KvmSvcIdentitiToPodIps @ u16_str identity) k then None else kvs e k)
      (KvmOprLabelToIdentities @ label \<mapsto> MarshalU16s (Some (take n arr')))) e"
  unfolding UpdateETCDLabelToIdentitiesMaps_def wp_andThen
proof (rule kv.wp_del [OF assms(1)], goal_cases)
  case (1 e1)
  have keys: "{(k, v). prefix (KvmOprLabelToIdentities @ label) k \<and> kvs e1 k = Some v} =
      {(KvmOprLabelToIdentities @ label, MarshalU16s (Some arr))}"
    by (rule only_key) (use 1(2) list alone in simp_all)
  have "wp (EtcdGet (client l) (KvmOprIdentityToLabel @ u16_str identity)) (\<lambda>r e2. \<exists>m. r = Inr m \<and> up e2 \<and>
      kvs e2 = kvs e1 \<and> gm_read [] m (KvmOprIdentityToLabel @ u16_str identity) = label) e1"
    by (rule kv.wp_get [OF 1(1)]) (use 1(2) label in \<open>simp add: gm_read_def\<close>)
  then show ?case
  proof (simp, elim wp_mono, elim exE conjE, simp, goal_cases)
    case (1 x e2 m)
    show ?case
    proof (rule kv.wp_getRaw [OF 1(2)], goal_cases)
      case (1 kv e3)
      have "set kv = {(KvmOprLabelToIdentities @ label, MarshalU16s (Some arr))}"
        using 1(5) \<open>kvs e2 = kvs e1\<close> keys by simp
      then have kv: "kv = [(KvmOprLabelToIdentities @ label, MarshalU16s (Some arr))]"
        using 1(4) by (simp add: distinct_map distinct_one)
      show ?case
        by (simp add: kv, rule wp_rewrite_list [OF 1(1) _ drop])
          (use 1 \<open>kvs e2 = kvs e1\<close> \<open>kvs e1 = _\<close> in \<open>simp_all add: identities_json.dec_enc\<close>)
    next
      case (2 e3)
      then show ?case
        using 2(3) [of "KvmOprLabelToIdentities @ label"] \<open>kvs e2 = kvs e1\<close> \<open>kvs e1 = _\<close> list by simp
    qed
  qed
qed

lemma wp_Cli:
  assumes "up e"
  shows "wp (HandleCliRequest (client l) name) (\<lambda>r (e', p'). up e' \<and> kvs e' = kvs e \<and>
    (case kvs e (KvmOprEWNameToIdentity @ name) of
       Some identity \<Rightarrow>
         if identity \<noteq> [] then rs_Status r = 0 \<and> (rs_ScriptData r, p') = GenerateEWInstallationScript name identity p
         else rs_Status r = -1 \<and> p' = p
     | None \<Rightarrow> rs_Status r = -1 \<and> p' = p)) (e, p)"
proof -
  obtain m e' where get: "EtcdGet (client l) (KvmOprEWNameToIdentity @ name) e = (Ret (Inr m), e')"
      and e': "up e'" "kvs e' = kvs e"
      and m: "map_of m = (\<lambda>k. if prefix (KvmOprEWNameToIdentity @ name) k then kvs e k else None)"
    using kv.get_spec [OF assms] by blast
  have "gm_read [] m (KvmOprEWNameToIdentity @ name) =
      (case kvs e (KvmOprEWNameToIdentity @ name) of None \<Rightarrow> [] | Some v \<Rightarrow> v)"
    by (simp add: gm_read_def m)
  with get e' show ?thesis
    by (auto simp: HandleCliRequest_def wp_def andThen_def on_part_def ret_def
        split: option.splits prod.splits)
qed

end

lemma GetIdentityFromContext_u16_str [simp]: "GetIdentityFromContext (Some (u16_str i # values)) = i"
  by (simp add: GetIdentityFromContext_def)


section \<open>Properties\<close>


definition demo_connected :: mem_etcd where
  "demo_connected =
     \<lparr>mem_data =
        [(KvmOprIdentityToLabel @ u16_str 5, ''env=prod''), (KvmOprIdentityToLabel @ u16_str 7, ''env=prod''),
         (KvmOprLabelToIdentities @ ''env=prod'', MarshalU16s (Some [7, 5])),
         (KvmSvcIdentitiToPodIps @ u16_str 5, ''10.0.0.2'')],
      mem_online = True\<rparr>"




text \<open>
  The identity an agent sends in its metadata as a decimal is the one its stream has; an agent
  that sends none, or something that is not a number, has the identity 0.
\<close>

theorem identity_from_context:
  "GetIdentityFromContext (Some (u16_str i # values)) = i \<and> GetIdentityFromContext None = 0 \<and>
   GetIdentityFromContext (Some []) = 0 \<and> GetIdentityFromContext (Some [''vm1'']) = 0"
proof -
  have "Atoi [] = (0, Some ErrSyntax)" "Atoi ''vm1'' = (0, Some ErrSyntax)" by code_simp+
  then show ?thesis by (simp add: GetIdentityFromContext_def to_uint16_def)
qed

end
