(* ===== verification/Policy_Stream.thy ===== *)
theory Policy_Stream
  imports Server
begin

text \<open>
  The streaming handler \<open>SendPolicy\<close> of \<open>src/service/server/kvmserver.go\<close>, with the goroutines
  around it as a step relation. All streams and the watcher of host policies share one unbuffered
  channel, \<open>PolicyChan\<close>: a send and a receive happen together, in one step, and any stream that
  polls the channel may be the one that receives. Each stream has two goroutines: the handler,
  which polls, hands a policy to the agent and waits for its answer, and the closer, which waits
  for the end of the connection, cleans up etcd and then sends a close event.

  \<open>w_watcher\<close> are the events the watcher still has to send (the goroutine waits with the first
  of them). \<open>w_offered\<close> and \<open>w_dropped\<close> are history: what the watcher was given so far, and what
  streams received and ignored. A process that has stopped (\<open>w_crash\<close>) makes no step.
\<close>


section \<open>State\<close>

datatype handler = Polling | Awaiting | Returned

datatype closer = Watching | Sending | Finished

record stream =
  st_identity :: uint16
  st_done :: bool
  st_handler :: handler
  st_closer :: closer
  st_sent :: "K8sKubeArmorHostPolicyEvent list"

record 'e world =
  w_cli :: "'e etcd_ptr"
  w_store :: 'e
  w_watcher :: "K8sKubeArmorHostPolicyEventWithIdentity list"
  w_streams :: "stream list"
  w_offered :: "K8sKubeArmorHostPolicyEventWithIdentity list"
  w_dropped :: "K8sKubeArmorHostPolicyEventWithIdentity list"
  w_crash :: "stop option"

definition initial_world :: "'e etcd_ptr \<Rightarrow> 'e \<Rightarrow> 'e world" where
  "initial_world cli e =
     \<lparr>w_cli = cli, w_store = e, w_watcher = [], w_streams = [], w_offered = [], w_dropped = [], w_crash = None\<rparr>"

text \<open>The state of a call of \<open>SendPolicy\<close> when its loop starts; \<open>md\<close> is the metadata of the call.\<close>

definition open_stream :: "string list option \<Rightarrow> stream" where
  "open_stream md =
     \<lparr>st_identity = GetIdentityFromContext md, st_done = False, st_handler = Polling,
      st_closer = Watching, st_sent = []\<rparr>"

text \<open>The close event of a stream; the event in it is the zero value of its type.\<close>

definition close_event :: "stream \<Rightarrow> K8sKubeArmorHostPolicyEventWithIdentity" where
  "close_event st =
     \<lparr>wi_Event = zero_HostPolicyEvent, wi_Identity = st_identity st, wi_CloseConnection = True\<rparr>"

text \<open>
  The body of \<open>case event := <-PolicyChan\<close>. A policy is encoded (which cannot fail for this type)
  and handed to \<open>stream.Send\<close>, whose error is only logged; then the handler waits in
  \<open>stream.Recv\<close>. An event for another identity is ignored.
\<close>

definition receive :: "K8sKubeArmorHostPolicyEventWithIdentity \<Rightarrow> stream \<Rightarrow> stream" where
  "receive event st =
     (if wi_Identity event = st_identity st then
        (if \<not> wi_CloseConnection event
         then st\<lparr>st_handler := Awaiting, st_sent := st_sent st @ [wi_Event event]\<rparr>
         else st\<lparr>st_handler := Returned\<rparr>)
      else st)"

text \<open>Stream \<open>i\<close> receives an event; one it ignores is lost.\<close>

definition hand_over :: "nat \<Rightarrow> K8sKubeArmorHostPolicyEventWithIdentity \<Rightarrow> 'e world \<Rightarrow> 'e world" where
  "hand_over i event w =
     w\<lparr>w_streams := (w_streams w)[i := receive event (w_streams w ! i)],
       w_dropped := w_dropped w @
         (if wi_Identity event = st_identity (w_streams w ! i) then [] else [event])\<rparr>"

abbreviation upd_stream :: "nat \<Rightarrow> (stream \<Rightarrow> stream) \<Rightarrow> 'e world \<Rightarrow> 'e world" where
  "upd_stream i f w \<equiv> w\<lparr>w_streams := (w_streams w)[i := f (w_streams w ! i)]\<rparr>"

text \<open>
  What the closer of stream \<open>i\<close> does between the end of the connection and its send: the clean-up
  may end the process.
\<close>

definition close_stream :: "nat \<Rightarrow> 'e world \<Rightarrow> 'e world" where
  "close_stream i w =
     (case UpdateETCDLabelToIdentitiesMaps (w_cli w) (st_identity (w_streams w ! i)) (w_store w) of
        (Ret _, e) \<Rightarrow> upd_stream i (\<lambda>st. st\<lparr>st_closer := Sending\<rparr>) (w\<lparr>w_store := e\<rparr>)
      | (Stop c, e) \<Rightarrow> w\<lparr>w_store := e, w_crash := Some c\<rparr>)"


section \<open>Steps\<close>

inductive stream_step :: "'e world \<Rightarrow> 'e world \<Rightarrow> bool" where
  offer: "w_crash w = None \<Longrightarrow>
    stream_step w (w\<lparr>w_watcher := w_watcher w @ map (addressed event) identities,
      w_offered := w_offered w @ map (addressed event) identities\<rparr>)"
| accept: "w_crash w = None \<Longrightarrow> stream_step w (w\<lparr>w_streams := w_streams w @ [open_stream md]\<rparr>)"
| take_policy: "w_crash w = None \<Longrightarrow> w_watcher w = event # rest \<Longrightarrow> i < length (w_streams w) \<Longrightarrow>
    st_handler (w_streams w ! i) = Polling \<Longrightarrow>
    stream_step w (hand_over i event (w\<lparr>w_watcher := rest\<rparr>))"
| take_close: "w_crash w = None \<Longrightarrow> i < length (w_streams w) \<Longrightarrow> st_handler (w_streams w ! i) = Polling \<Longrightarrow>
    j < length (w_streams w) \<Longrightarrow> st_closer (w_streams w ! j) = Sending \<Longrightarrow>
    stream_step w (hand_over i (close_event (w_streams w ! j))
      (upd_stream j (\<lambda>st. st\<lparr>st_closer := Finished\<rparr>) w))"
| answer: "w_crash w = None \<Longrightarrow> i < length (w_streams w) \<Longrightarrow> st_handler (w_streams w ! i) = Awaiting \<Longrightarrow>
    stream_step w (upd_stream i (\<lambda>st. st\<lparr>st_handler := Polling\<rparr>) w)"
| recv_error: "w_crash w = None \<Longrightarrow> i < length (w_streams w) \<Longrightarrow> st_handler (w_streams w ! i) = Awaiting \<Longrightarrow>
    stream_step w (w\<lparr>w_crash := Some (Panic ''invalid memory address or nil pointer dereference'')\<rparr>)"
| disconnect: "w_crash w = None \<Longrightarrow> i < length (w_streams w) \<Longrightarrow>
    stream_step w (upd_stream i (\<lambda>st. st\<lparr>st_done := True\<rparr>) w)"
| run_closer: "w_crash w = None \<Longrightarrow> i < length (w_streams w) \<Longrightarrow> st_done (w_streams w ! i) \<Longrightarrow>
    st_closer (w_streams w ! i) = Watching \<Longrightarrow> stream_step w (close_stream i w)"

inductive_cases stream_stepE: "stream_step w w'"

inductive stream_steps :: "'e world \<Rightarrow> 'e world \<Rightarrow> bool" where
  steps_refl: "stream_steps w w"
| steps_step: "stream_steps w w' \<Longrightarrow> stream_step w' w'' \<Longrightarrow> stream_steps w w''"

definition reachable :: "'e etcd_ptr \<Rightarrow> 'e \<Rightarrow> 'e world \<Rightarrow> bool" where
  "reachable cli e w \<longleftrightarrow> stream_steps (initial_world cli e) w"

lemma stream_steps_invariant:
  assumes "\<And>w w'. I w \<Longrightarrow> stream_step w w' \<Longrightarrow> I w'" and "stream_steps w w'" and "I w"
  shows "I w'"
  using assms(2,3) by (induction rule: stream_steps.induct) (auto intro: assms(1))

lemma reachable_invariant:
  assumes "reachable cli e w" and "I (initial_world cli e)" and "\<And>w w'. I w \<Longrightarrow> stream_step w w' \<Longrightarrow> I w'"
  shows "I w"
  using stream_steps_invariant [of I, OF assms(3)] assms(1,2) by (simp add: reachable_def)

lemma crash_is_final: "w_crash w \<noteq> None \<Longrightarrow> \<not> stream_step w w'"
  by (auto elim: stream_stepE)


section \<open>What the streams have done with the events\<close>

text \<open>The policies a stream has handed to its agent, as the events they arrived in\<close>

definition delivered :: "stream \<Rightarrow> K8sKubeArmorHostPolicyEventWithIdentity list" where
  "delivered st = map (\<lambda>event. addressed event (st_identity st)) (st_sent st)"

definition is_policy :: "K8sKubeArmorHostPolicyEventWithIdentity \<Rightarrow> bool" where
  "is_policy event \<longleftrightarrow> \<not> wi_CloseConnection event"

text \<open>Every policy the watcher was given is still with it, was handed over by a stream, or was lost.\<close>

definition accounted :: "'e world \<Rightarrow> bool" where
  "accounted w \<longleftrightarrow> mset (w_offered w) =
     mset (w_watcher w) + mset (concat (map delivered (w_streams w))) + filter_mset is_policy (mset (w_dropped w))"

definition offers_policies :: "'e world \<Rightarrow> bool" where
  "offers_policies w \<longleftrightarrow> list_all is_policy (w_watcher w)"

lemma delivered_updates [simp]:
  "delivered (st\<lparr>st_handler := h\<rparr>) = delivered st" "delivered (st\<lparr>st_closer := c\<rparr>) = delivered st"
  "delivered (st\<lparr>st_done := d\<rparr>) = delivered st" "delivered (open_stream md) = []"
  by (simp_all add: delivered_def open_stream_def)

lemma delivered_receive:
  "delivered (receive event st) =
     delivered st @ (if wi_Identity event = st_identity st \<and> is_policy event then [event] else [])"
  by (auto simp: delivered_def receive_def is_policy_def addressed_def)

lemma mset_concat_update:
  assumes "i < length xs" and "mset (f y) = mset (f (xs ! i)) + d"
  shows "mset (concat (map f (xs[i := y]))) = mset (concat (map f xs)) + d"
proof -
  have "xs = take i xs @ xs ! i # drop (Suc i) xs" using assms(1) by (rule id_take_nth_drop)
  then have "mset (concat (map f xs)) =
      mset (concat (map f (take i xs @ xs ! i # drop (Suc i) xs)))" by simp
  with assms show ?thesis by (simp add: upd_conv_take_nth_drop del: append_take_drop_id)
qed

lemma hand_over_delivered:
  assumes "i < length (w_streams w)"
  shows "mset (concat (map delivered (w_streams (hand_over i event w)))) +
      filter_mset is_policy (mset (w_dropped (hand_over i event w))) =
    mset (concat (map delivered (w_streams w))) + filter_mset is_policy (mset (w_dropped w)) +
      (if is_policy event then {#event#} else {#})"
proof -
  have "mset (concat (map delivered (w_streams (hand_over i event w)))) =
      mset (concat (map delivered (w_streams w))) +
      (if wi_Identity event = st_identity (w_streams w ! i) \<and> is_policy event then {#event#} else {#})"
    using mset_concat_update [OF assms, of delivered "receive event (w_streams w ! i)"]
    by (simp add: hand_over_def delivered_receive)
  then show ?thesis by (simp add: hand_over_def)
qed

lemma upd_stream_delivered:
  assumes "i < length xs" and "delivered (f (xs ! i)) = delivered (xs ! i)"
  shows "mset (concat (map delivered (xs[i := f (xs ! i)]))) = mset (concat (map delivered xs))"
  using mset_concat_update [OF assms(1), of delivered "f (xs ! i)" "{#}"] assms(2) by simp

lemma accounted_step:
  assumes "accounted w \<and> offers_policies w" and "stream_step w w'"
  shows "accounted w' \<and> offers_policies w'"
  using assms(2)
proof cases
  case (take_policy event rest i)
  then have "is_policy event" using assms(1) by (simp add: offers_policies_def)
  moreover have "w_watcher w' = rest" "w_offered w' = w_offered w"
    unfolding take_policy(1) by (simp_all add: hand_over_def)
  ultimately show ?thesis
    using assms(1) take_policy hand_over_delivered [of i "w\<lparr>w_watcher := rest\<rparr>" event]
    by (simp add: accounted_def offers_policies_def add.assoc)
next
  case (take_close i j)
  let ?w = "upd_stream j (\<lambda>st. st\<lparr>st_closer := Finished\<rparr>) w"
  have "mset (concat (map delivered (w_streams ?w))) = mset (concat (map delivered (w_streams w)))"
    using take_close by (simp add: upd_stream_delivered)
  moreover have "w_watcher w' = w_watcher w" "w_offered w' = w_offered w" "w_dropped ?w = w_dropped w"
    unfolding take_close(1) by (simp_all add: hand_over_def)
  moreover have "\<not> is_policy (close_event (w_streams w ! j))" by (simp add: close_event_def is_policy_def)
  ultimately show ?thesis
    using assms(1) take_close hand_over_delivered [of i ?w "close_event (w_streams w ! j)"]
    by (simp add: accounted_def offers_policies_def add.assoc)
next
  case (run_closer i)
  then show ?thesis
    using assms(1) by (auto simp: close_stream_def accounted_def offers_policies_def upd_stream_delivered
        split: prod.splits outcome.splits)
qed (use assms(1) in \<open>auto simp: accounted_def offers_policies_def upd_stream_delivered is_policy_def
  addressed_def list_all_iff\<close>)

text \<open>A policy reaches no agent but the one it is addressed to.\<close>

lemma delivered_offered:
  assumes "accounted w" and "st \<in> set (w_streams w)" and "event \<in> set (st_sent st)"
  shows "addressed event (st_identity st) \<in> set (w_offered w)"
proof -
  have "addressed event (st_identity st) \<in> set (delivered st)" using assms(3) by (simp add: delivered_def)
  then have "addressed event (st_identity st) \<in># mset (concat (map delivered (w_streams w)))"
    using assms(2) by auto
  with assms(1) have "addressed event (st_identity st) \<in># mset (w_offered w)"
    unfolding accounted_def by auto
  then show ?thesis by simp
qed


section \<open>Streams end only when a connection has ended\<close>

definition closed_identities :: "'e world \<Rightarrow> uint16 set" where
  "closed_identities w = {st_identity (w_streams w ! i) | i.
     i < length (w_streams w) \<and> st_done (w_streams w ! i) \<and> st_closer (w_streams w ! i) = Finished}"

definition closers_ok :: "'e world \<Rightarrow> bool" where
  "closers_ok w \<longleftrightarrow> (\<forall>i < length (w_streams w).
     st_closer (w_streams w ! i) \<noteq> Watching \<longrightarrow> st_done (w_streams w ! i))"

definition ended_by_close :: "'e world \<Rightarrow> bool" where
  "ended_by_close w \<longleftrightarrow> (\<forall>i < length (w_streams w). st_handler (w_streams w ! i) = Returned \<longrightarrow>
     st_identity (w_streams w ! i) \<in> closed_identities w)"

text \<open>What no step undoes\<close>

definition progressed :: "'e world \<Rightarrow> 'e world \<Rightarrow> bool" where
  "progressed w w' \<longleftrightarrow> length (w_streams w) \<le> length (w_streams w') \<and> (\<forall>i < length (w_streams w).
     st_identity (w_streams w' ! i) = st_identity (w_streams w ! i) \<and>
     (st_done (w_streams w ! i) \<longrightarrow> st_done (w_streams w' ! i)) \<and>
     (st_closer (w_streams w ! i) = Finished \<longrightarrow> st_closer (w_streams w' ! i) = Finished) \<and>
     (st_handler (w_streams w ! i) = Returned \<longrightarrow> st_handler (w_streams w' ! i) = Returned))"

lemma receive_simps [simp]:
  "st_identity (receive event st) = st_identity st" "st_done (receive event st) = st_done st"
  "st_closer (receive event st) = st_closer st"
  "st_handler (receive event st) = Returned \<longleftrightarrow>
     st_handler st = Returned \<and> wi_Identity event \<noteq> st_identity st \<or>
     wi_Identity event = st_identity st \<and> wi_CloseConnection event"
  by (auto simp: receive_def)

lemma hand_over_streams [simp]:
  "w_streams (hand_over i event w) = (w_streams w)[i := receive event (w_streams w ! i)]"
  by (simp add: hand_over_def)

lemma close_stream_streams:
  "w_streams (close_stream i w) = w_streams w \<or>
   w_streams (close_stream i w) = (w_streams w)[i := (w_streams w ! i)\<lparr>st_closer := Sending\<rparr>]"
  by (auto simp: close_stream_def split: prod.splits outcome.splits)

lemma step_progressed: "stream_step w w' \<Longrightarrow> progressed w w'"
proof (erule stream_step.cases, goal_cases)
  case (8 w i)
  then show ?case using close_stream_streams [of i w] by (auto simp: progressed_def nth_list_update)
qed (auto simp: progressed_def nth_list_update nth_append open_stream_def)

lemma steps_progressed: "stream_steps w w' \<Longrightarrow> progressed w w'"
proof (induction rule: stream_steps.induct)
  case (steps_step w w' w'')
  from steps_step(3) step_progressed [OF steps_step(2)] show ?case
    unfolding progressed_def by (metis order_less_le_trans order_trans)
qed (simp add: progressed_def)

lemma progressed_closed: "progressed w w' \<Longrightarrow> closed_identities w \<subseteq> closed_identities w'"
  unfolding progressed_def closed_identities_def by (smt (verit) Collect_mono order_less_le_trans)

lemma closers_ok_step: "closers_ok w \<Longrightarrow> stream_step w w' \<Longrightarrow> closers_ok w'"
proof (erule stream_step.cases, goal_cases)
  case (8 w i)
  then show ?case
    using close_stream_streams [of i w] by (auto simp: closers_ok_def nth_list_update split: if_splits)
qed (auto simp: closers_ok_def nth_list_update nth_append open_stream_def split: if_splits)

lemma new_return:
  assumes "closers_ok w" and "offers_policies w" and "stream_step w w'"
    and "i < length (w_streams w')" and "st_handler (w_streams w' ! i) = Returned"
  shows "i < length (w_streams w) \<and> st_handler (w_streams w ! i) = Returned \<or>
    st_identity (w_streams w' ! i) \<in> closed_identities w'"
  using assms(3)
proof cases
  case (take_policy event rest j)
  then show ?thesis
    using assms by (auto simp: offers_policies_def is_policy_def nth_list_update split: if_splits)
next
  case (take_close k j)
  have j: "st_done (w_streams w' ! j)" "st_closer (w_streams w' ! j) = Finished" "j < length (w_streams w')"
      "st_identity (w_streams w' ! j) = st_identity (w_streams w ! j)"
    using take_close assms(1) by (auto simp: closers_ok_def nth_list_update)
  then have "st_identity (w_streams w ! j) \<in> closed_identities w'" by (force simp: closed_identities_def)
  with take_close assms(4,5) show ?thesis
    by (auto simp: close_event_def nth_list_update split: if_splits)
next
  case (run_closer j)
  then show ?thesis
    using assms(4,5) close_stream_streams [of j w] by (auto simp: nth_list_update split: if_splits)
qed (use assms(4,5) in \<open>auto simp: nth_list_update nth_append open_stream_def split: if_splits\<close>)

lemma ended_by_close_step:
  assumes "ended_by_close w" and "closers_ok w" and "offers_policies w" and "stream_step w w'"
  shows "ended_by_close w'"
  unfolding ended_by_close_def
proof (intro allI impI)
  fix i assume i: "i < length (w_streams w')" "st_handler (w_streams w' ! i) = Returned"
  from new_return [OF assms(2,3,4) i]
  show "st_identity (w_streams w' ! i) \<in> closed_identities w'"
    using assms(1) step_progressed [OF assms(4)] progressed_closed [OF step_progressed [OF assms(4)]]
    unfolding ended_by_close_def progressed_def by (metis subsetD)
qed

definition streams_inv :: "'e world \<Rightarrow> bool" where
  "streams_inv w \<longleftrightarrow> accounted w \<and> offers_policies w \<and> closers_ok w \<and> ended_by_close w"

lemma streams_inv_step: "streams_inv w \<Longrightarrow> stream_step w w' \<Longrightarrow> streams_inv w'"
  by (auto simp: streams_inv_def intro: closers_ok_step ended_by_close_step dest: accounted_step [OF conjI])

lemma streams_inv_initial: "streams_inv (initial_world cli e)"
  by (simp add: streams_inv_def accounted_def offers_policies_def closers_ok_def ended_by_close_def
      initial_world_def)

lemma reachable_inv: "reachable cli e w \<Longrightarrow> streams_inv w"
  by (erule reachable_invariant) (auto intro: streams_inv_initial streams_inv_step)


section \<open>One stream\<close>

text \<open>
  As long as there is a single stream and all policies are meant for it, none is lost, and they
  are handed over in the order in which the watcher was given them.
\<close>

definition in_order :: "'e world \<Rightarrow> bool" where
  "in_order w \<longleftrightarrow> w_dropped w = [] \<and> w_offered w = concat (map delivered (w_streams w)) @ w_watcher w"

definition lone_ok :: "'e world \<Rightarrow> bool" where
  "lone_ok w \<longleftrightarrow> (length (w_streams w) \<le> 1 \<longrightarrow>
     (\<forall>event \<in> set (w_offered w). \<forall>st \<in> set (w_streams w). wi_Identity event = st_identity st) \<longrightarrow> in_order w)"

lemma lone_ok_step:
  assumes "offers_policies w" and "lone_ok w" and "stream_step w w'"
  shows "lone_ok w'"
  unfolding lone_ok_def
proof (intro impI)
  assume few: "length (w_streams w') \<le> 1"
    and ids: "\<forall>event \<in> set (w_offered w'). \<forall>st \<in> set (w_streams w'). wi_Identity event = st_identity st"
  have "length (w_streams w) \<le> 1"
    using few step_progressed [OF assms(3)] by (simp add: progressed_def)
  then have lone: "w_streams w = [] \<or> (\<exists>st. w_streams w = [st])"
    by (cases "w_streams w") auto
  show "in_order w'"
    using assms(3)
  proof cases
    case (accept md)
    with few have "w_streams w = []" by simp
    with accept assms(2) show ?thesis by (simp add: lone_ok_def in_order_def)
  next
    case (offer event identities)
    then have "in_order w" using assms(2) few ids by (simp add: lone_ok_def)
    with offer show ?thesis by (simp add: in_order_def)
  next
    case (take_policy event rest i)
    with lone obtain st where st: "w_streams w = [st]" "i = 0" by auto
    with take_policy ids assms(2) have ord: "in_order w" by (simp add: lone_ok_def hand_over_def)
    with take_policy st ids have "wi_Identity event = st_identity st" by (simp add: in_order_def hand_over_def)
    moreover have "is_policy event" using assms(1) take_policy by (simp add: offers_policies_def)
    ultimately show ?thesis
      using ord take_policy st by (simp add: in_order_def hand_over_def delivered_receive)
  next
    case (take_close i j)
    with lone obtain st where st: "w_streams w = [st]" "i = 0" "j = 0" by auto
    with take_close ids assms(2) have "in_order w" by (simp add: lone_ok_def hand_over_def)
    with take_close st show ?thesis
      by (simp add: in_order_def hand_over_def delivered_receive close_event_def is_policy_def)
  next
    case (run_closer i)
    with lone obtain st where st: "w_streams w = [st]" "i = 0" by auto
    with run_closer ids assms(2) show ?thesis
      by (auto simp: lone_ok_def in_order_def close_stream_def split: prod.splits outcome.splits)
  qed (use lone ids assms(2) in \<open>auto simp: lone_ok_def in_order_def\<close>)
qed

lemma streams_inv_offers: "streams_inv w \<Longrightarrow> offers_policies w"
  by (simp add: streams_inv_def)

lemma lone_ok_initial: "lone_ok (initial_world cli e)"
  by (simp add: lone_ok_def in_order_def initial_world_def)

lemma reachable_lone_ok:
  assumes "reachable cli e w"
  shows "lone_ok w"
proof -
  have "streams_inv w \<and> lone_ok w"
    by (rule reachable_invariant [OF assms, where I = "\<lambda>w. streams_inv w \<and> lone_ok w"])
      (auto intro: streams_inv_initial lone_ok_initial streams_inv_step lone_ok_step streams_inv_offers)
  then show ?thesis by simp
qed


section \<open>Runs\<close>

lemma steps_first:
  assumes "stream_steps w' w''" and "stream_step w w'"
  shows "stream_steps w w''"
  using assms by (induction rule: stream_steps.induct) (auto intro: stream_steps.intros)

lemma steps_trans:
  assumes "stream_steps w' w''" and "stream_steps w w'"
  shows "stream_steps w w''"
  using assms by (induction rule: stream_steps.induct) (auto intro: steps_step)

lemma reachable_step: "reachable cli e w \<Longrightarrow> stream_step w w' \<Longrightarrow> reachable cli e w'"
  unfolding reachable_def by (rule steps_step)

text \<open>With two streams, each may receive the policies of the other.\<close>

lemma two_streams_run:
  fixes cli :: "'e etcd_ptr"
  shows "reachable cli e (initial_world cli e\<lparr>w_streams := [open_stream md1, open_stream md2]\<rparr>)"
proof -
  let ?w = "initial_world cli e"
  have "stream_step ?w (?w\<lparr>w_streams := [open_stream md1]\<rparr>)"
    using accept [of ?w md1] by (simp add: initial_world_def)
  moreover have "stream_step (?w\<lparr>w_streams := [open_stream md1]\<rparr>)
      (?w\<lparr>w_streams := [open_stream md1, open_stream md2]\<rparr>)"
    using accept [of "?w\<lparr>w_streams := [open_stream md1]\<rparr>" md2] by (simp add: initial_world_def)
  ultimately show ?thesis
    unfolding reachable_def by (blast intro: stream_steps.intros)
qed

lemma lost_policy_run:
  assumes "GetIdentityFromContext md1 \<noteq> GetIdentityFromContext md2"
  shows "reachable cli e (initial_world cli e\<lparr>w_streams := [open_stream md1, open_stream md2],
    w_offered := [addressed event (GetIdentityFromContext md1)],
    w_dropped := [addressed event (GetIdentityFromContext md1)]\<rparr>)"
proof -
  let ?id = "GetIdentityFromContext md1"
  let ?w = "initial_world cli e\<lparr>w_streams := [open_stream md1, open_stream md2]\<rparr>"
  let ?w1 = "?w\<lparr>w_watcher := [addressed event ?id], w_offered := [addressed event ?id]\<rparr>"
  have "stream_step ?w ?w1" using offer [of ?w event "[?id]"] by (simp add: initial_world_def)
  moreover have "stream_step ?w1 (hand_over 1 (addressed event ?id) (?w1\<lparr>w_watcher := []\<rparr>))"
    by (rule take_policy) (simp_all add: initial_world_def open_stream_def)
  ultimately have "reachable cli e (hand_over 1 (addressed event ?id) (?w1\<lparr>w_watcher := []\<rparr>))"
    by (rule reachable_step [OF reachable_step [OF two_streams_run]])
  then show ?thesis
    using assms by (simp add: hand_over_def receive_def open_stream_def addressed_def initial_world_def)
qed

text \<open>
  A connection that ends: the handler goes on polling if another stream receives the close event,
  and returns if it receives it itself.
\<close>

lemma lost_close_run:
  assumes "GetIdentityFromContext md1 \<noteq> GetIdentityFromContext md2"
    and "UpdateETCDLabelToIdentitiesMaps cli (GetIdentityFromContext md1) e = (Ret (), e')"
  shows "reachable cli e (initial_world cli e'\<lparr>w_streams :=
      [(open_stream md1)\<lparr>st_done := True, st_closer := Finished\<rparr>, open_stream md2],
    w_dropped := [close_event (open_stream md1)]\<rparr>)"
proof -
  let ?w = "initial_world cli e\<lparr>w_streams := [open_stream md1, open_stream md2]\<rparr>"
  let ?w1 = "upd_stream 0 (\<lambda>st. st\<lparr>st_done := True\<rparr>) ?w"
  let ?w2 = "initial_world cli e'\<lparr>w_streams :=
      [(open_stream md1)\<lparr>st_done := True, st_closer := Sending\<rparr>, open_stream md2]\<rparr>"
  let ?w3 = "hand_over 1 (close_event (w_streams ?w2 ! 0)) (upd_stream 0 (\<lambda>st. st\<lparr>st_closer := Finished\<rparr>) ?w2)"
  have s1: "stream_step ?w ?w1" by (rule disconnect) (simp_all add: initial_world_def)
  have w2: "close_stream 0 ?w1 = ?w2"
    using assms(2) by (simp add: close_stream_def initial_world_def open_stream_def)
  have s2: "stream_step ?w1 (close_stream 0 ?w1)"
    by (rule run_closer) (simp_all add: initial_world_def open_stream_def)
  have s3: "stream_step ?w2 ?w3"
    by (rule take_close) (simp_all add: initial_world_def open_stream_def)
  have "reachable cli e ?w3"
    by (rule reachable_step [OF _ s3], fold w2, rule reachable_step [OF reachable_step [OF two_streams_run s1] s2])
  then show ?thesis
    using assms(1) by (simp add: hand_over_def receive_def open_stream_def close_event_def initial_world_def)
qed

lemma lone_stream_returns:
  assumes "w_crash w = None" and "w_streams w = [st]" and "st_done st" and "st_handler st = Polling"
    and "st_closer st = Watching"
    and "UpdateETCDLabelToIdentitiesMaps (w_cli w) (st_identity st) (w_store w) = (Ret (), e')"
  shows "stream_steps w (w\<lparr>w_store := e', w_streams := [st\<lparr>st_closer := Finished, st_handler := Returned\<rparr>]\<rparr>)"
proof -
  let ?w1 = "w\<lparr>w_store := e', w_streams := [st\<lparr>st_closer := Sending\<rparr>]\<rparr>"
  have "stream_step w ?w1"
    using run_closer [of w 0] assms by (simp add: close_stream_def)
  moreover have "stream_step ?w1
      (w\<lparr>w_store := e', w_streams := [st\<lparr>st_closer := Finished, st_handler := Returned\<rparr>]\<rparr>)"
    using take_close [of ?w1 0 0] assms by (simp add: hand_over_def receive_def close_event_def)
  ultimately show ?thesis by (blast intro: stream_steps.intros)
qed


section \<open>Properties\<close>

abbreviation demo_cli :: "mem_etcd etcd_ptr" where
  "demo_cli \<equiv> Some \<lparr>etcdClient = mem_api, leaseResponse = 1\<rparr>"

definition demo_cleaned :: mem_etcd where
  "demo_cleaned = snd (UpdateETCDLabelToIdentitiesMaps demo_cli 5 demo_connected)"

lemma demo_cleanup: "UpdateETCDLabelToIdentitiesMaps demo_cli 5 demo_connected = (Ret (), demo_cleaned)"
proof -
  have "drop_identity 5 [7, 5] = Ret ([7, 0], 1)" by code_simp
  from mem.wp_disconnect [OF _ _ _ _ this, of demo_connected "''env=prod''" 1]
  have "fst (UpdateETCDLabelToIdentitiesMaps demo_cli 5 demo_connected) = Ret ()"
    by (auto simp: demo_connected_def mem_kvs_def wp_def)
  then show ?thesis by (simp add: demo_cleaned_def prod_eq_iff)
qed

text \<open>A run with one stream: it is given a policy, hands it over, and ends with its connection.\<close>

definition demo_stream :: stream where
  "demo_stream = \<lparr>st_identity = 5, st_done = False, st_handler = Polling, st_closer = Watching,
     st_sent = [zero_HostPolicyEvent]\<rparr>"

lemma demo_stream_run:
  "reachable demo_cli demo_connected (initial_world demo_cli demo_connected
     \<lparr>w_streams := [demo_stream], w_offered := [addressed zero_HostPolicyEvent 5]\<rparr>)"
proof -
  let ?w0 = "initial_world demo_cli demo_connected"
  let ?w1 = "?w0\<lparr>w_streams := [open_stream (Some [u16_str 5])]\<rparr>"
  let ?w2 = "?w1\<lparr>w_watcher := [addressed zero_HostPolicyEvent 5], w_offered := [addressed zero_HostPolicyEvent 5]\<rparr>"
  let ?w3 = "hand_over 0 (addressed zero_HostPolicyEvent 5) (?w2\<lparr>w_watcher := []\<rparr>)"
  have "reachable demo_cli demo_connected ?w0" by (simp add: reachable_def steps_refl)
  from reachable_step [OF this accept [of ?w0 "Some [u16_str 5]"]]
  have "reachable demo_cli demo_connected ?w1" by (simp add: initial_world_def)
  from reachable_step [OF this offer [of ?w1 zero_HostPolicyEvent "[5]"]]
  have w2: "reachable demo_cli demo_connected ?w2" by (simp add: initial_world_def)
  have "stream_step ?w2 ?w3" by (rule take_policy) (simp_all add: initial_world_def open_stream_def)
  from reachable_step [OF w2 this] have w3: "reachable demo_cli demo_connected ?w3" .
  have "stream_step ?w3 (upd_stream 0 (\<lambda>st. st\<lparr>st_handler := Polling\<rparr>) ?w3)"
    by (rule answer) (simp_all add: hand_over_def receive_def initial_world_def open_stream_def addressed_def)
  from reachable_step [OF w3 this]
  have "reachable demo_cli demo_connected (upd_stream 0 (\<lambda>st. st\<lparr>st_handler := Polling\<rparr>) ?w3)" .
  then show ?thesis
    by (simp add: hand_over_def receive_def initial_world_def open_stream_def addressed_def demo_stream_def)
qed

definition demo_closed :: "mem_etcd world" where
  "demo_closed = initial_world demo_cli demo_cleaned
     \<lparr>w_streams := [demo_stream\<lparr>st_done := True, st_closer := Finished, st_handler := Returned\<rparr>],
      w_offered := [addressed zero_HostPolicyEvent 5]\<rparr>"

lemma demo_done_run:
  "reachable demo_cli demo_connected (initial_world demo_cli demo_connected
     \<lparr>w_streams := [demo_stream\<lparr>st_done := True\<rparr>], w_offered := [addressed zero_HostPolicyEvent 5]\<rparr>)"
  using reachable_step [OF demo_stream_run disconnect [of _ 0]] by (simp add: initial_world_def)

lemma demo_closed_run: "reachable demo_cli demo_connected demo_closed"
proof -
  let ?w = "initial_world demo_cli demo_connected
     \<lparr>w_streams := [demo_stream\<lparr>st_done := True\<rparr>], w_offered := [addressed zero_HostPolicyEvent 5]\<rparr>"
  have "stream_steps ?w demo_closed"
    using lone_stream_returns [of ?w "demo_stream\<lparr>st_done := True\<rparr>" demo_cleaned] demo_cleanup
    by (simp add: initial_world_def demo_stream_def demo_closed_def)
  with demo_done_run show ?thesis unfolding reachable_def by (rule steps_trans [rotated])
qed

text \<open>
  C5. In every reachable state, each policy the watcher was given is in exactly one place: still
  with the watcher, handed to an agent, or dropped by a stream; and what a stream handed to its
  agent was addressed to that agent's identity.
\<close>

theorem policies_accounted:
  assumes "reachable cli e w"
  shows "mset (w_offered w) = mset (w_watcher w) + mset (concat (map delivered (w_streams w))) +
      filter_mset is_policy (mset (w_dropped w)) \<and>
    (st \<in> set (w_streams w) \<longrightarrow> event \<in> set (st_sent st) \<longrightarrow> addressed event (st_identity st) \<in> set (w_offered w))"
proof -
  have "accounted w" using reachable_inv [OF assms] by (simp add: streams_inv_def)
  then show ?thesis using delivered_offered [of w st event] by (simp add: accounted_def)
qed

theorem policies_accounted_witness:
  "addressed zero_HostPolicyEvent 5 \<in> set (w_offered demo_closed) \<and> mset (w_offered demo_closed) =
     mset (w_watcher demo_closed) + mset (concat (map delivered (w_streams demo_closed))) +
     filter_mset is_policy (mset (w_dropped demo_closed))"
  using policies_accounted [OF demo_closed_run, of "w_streams demo_closed ! 0" zero_HostPolicyEvent]
  by (simp add: demo_closed_def demo_stream_def)

text \<open>
  A stream ends only after a connection with its identity has ended: in every reachable state
  in which the handler of a stream has returned, the closer of a stream of the same identity has
  seen the end of its connection, and its close event was received.
\<close>

theorem stream_ends_after_close:
  assumes "reachable cli e w" and "i < length (w_streams w)" and "st_handler (w_streams w ! i) = Returned"
  shows "\<exists>j < length (w_streams w). st_identity (w_streams w ! j) = st_identity (w_streams w ! i) \<and>
    st_done (w_streams w ! j) \<and> st_closer (w_streams w ! j) = Finished"
  using reachable_inv [OF assms(1)] assms(2,3)
  by (fastforce simp: streams_inv_def ended_by_close_def closed_identities_def)

theorem stream_ends_after_close_witness:
  "\<exists>j < length (w_streams demo_closed). st_identity (w_streams demo_closed ! j) = 5 \<and> st_done (w_streams demo_closed ! j)"
  using stream_ends_after_close [OF demo_closed_run, of 0] by (auto simp: demo_closed_def demo_stream_def)



text \<open>
  A lone stream whose connection has ended can end: if the clean-up of etcd returns, two steps
  lead to a state in which its handler has returned.
\<close>

theorem lone_stream_can_end:
  assumes "w_crash w = None" and "w_streams w = [st]" and "st_done st" and "st_handler st = Polling"
    and "st_closer st = Watching"
    and "UpdateETCDLabelToIdentitiesMaps (w_cli w) (st_identity st) (w_store w) = (Ret (), e')"
  shows "\<exists>w' st'. stream_steps w w' \<and> w_store w' = e' \<and> w_streams w' = [st'] \<and> st_handler st' = Returned \<and>
    st_sent st' = st_sent st \<and> w_dropped w' = w_dropped w"
  using lone_stream_returns [OF assms]
  by (intro exI [of _ "w\<lparr>w_store := e', w_streams := [st\<lparr>st_closer := Finished, st_handler := Returned\<rparr>]\<rparr>"]
      exI [of _ "st\<lparr>st_closer := Finished, st_handler := Returned\<rparr>"]) simp

theorem lone_stream_can_end_witness:
  "\<exists>w' st'. stream_steps (initial_world demo_cli demo_connected\<lparr>w_streams := [demo_stream\<lparr>st_done := True\<rparr>]\<rparr>) w' \<and>
     w_streams w' = [st'] \<and> st_handler st' = Returned"
  using lone_stream_can_end [of "initial_world demo_cli demo_connected\<lparr>w_streams := [demo_stream\<lparr>st_done := True\<rparr>]\<rparr>"
      "demo_stream\<lparr>st_done := True\<rparr>" demo_cleaned] demo_cleanup
  by (fastforce simp: initial_world_def demo_stream_def)

text \<open>
  C31. Policies get lost as soon as two agents are connected: for any two streams of different
  identities there is a run in which a policy for the first is received and dropped by the second,
  while both are connected and wait for policies, and is never handed over.
\<close>

theorem policy_lost_between_streams:
  assumes "GetIdentityFromContext md1 \<noteq> GetIdentityFromContext md2"
  shows "\<exists>w. reachable cli e w \<and> w_streams w = [open_stream md1, open_stream md2] \<and> w_watcher w = [] \<and>
    w_offered w = [addressed event (st_identity (open_stream md1))] \<and>
    w_dropped w = [addressed event (st_identity (open_stream md1))]"
  using lost_policy_run [OF assms, of cli e event]
  by (intro exI conjI) (assumption, simp_all add: initial_world_def open_stream_def)

theorem policy_lost_between_streams_witness:
  "\<exists>w. reachable demo_cli demo_connected w \<and> w_dropped w = [addressed zero_HostPolicyEvent 5] \<and> w_watcher w = []"
  using policy_lost_between_streams [of "Some [u16_str 5]" "Some [u16_str 7]" demo_cli demo_connected zero_HostPolicyEvent]
  by (auto simp: open_stream_def)

text \<open>
  The same holds for close events: there is a run in which the connection of the first agent
  has ended, its closer has finished, and its handler goes on polling the channel, where it can
  still take policies.
\<close>

theorem close_lost_between_streams:
  assumes "GetIdentityFromContext md1 \<noteq> GetIdentityFromContext md2"
    and "UpdateETCDLabelToIdentitiesMaps cli (GetIdentityFromContext md1) e = (Ret (), e')"
  shows "\<exists>w st. reachable cli e w \<and> w_streams w = [st, open_stream md2] \<and> st_done st \<and>
    st_closer st = Finished \<and> st_handler st = Polling"
  using lost_close_run [OF assms]
  by (intro exI [of _ "initial_world cli e'\<lparr>w_streams :=
        [(open_stream md1)\<lparr>st_done := True, st_closer := Finished\<rparr>, open_stream md2],
        w_dropped := [close_event (open_stream md1)]\<rparr>"]
      exI [of _ "(open_stream md1)\<lparr>st_done := True, st_closer := Finished\<rparr>"]) (simp add: open_stream_def)

theorem close_lost_between_streams_witness:
  "\<exists>w st. reachable demo_cli demo_connected w \<and> w_streams w = [st, open_stream (Some [u16_str 7])] \<and> st_done st \<and>
     st_closer st = Finished \<and> st_handler st = Polling"
  by (rule close_lost_between_streams [of "Some [u16_str 5]" _ _ _ demo_cleaned]) (simp_all add: demo_cleanup)

end
