(* ===== verification/K8s_Handler.thy ===== *)
theory K8s_Handler
  imports Common
begin

text \<open>
  The Kubernetes client of the service, \<open>src/service/core/k8sHandler.go\<close>; the operator has its own copy, see \<open>Watch_Rounds\<close>
  (the two files differ only in the resource that is watched): where the API server is found, how
  a request is built, and the search for the custom resource definition.

  The environment is an argument. The HTTP client, the Kubernetes client library and the JSON
  readers of its API types are the parameter \<open>k8s_net\<close>: \<open>'n\<close> is the state of the network and \<open>'c\<close>
  the type of a client set. The time-out and TLS settings of the HTTP clients are not modelled.
\<close>


section \<open>The handler\<close>

record 'c K8sHandler =
  K8sClient :: "'c option"
  K8sToken :: string
  K8sHost :: string
  K8sPort :: string

definition LookupEnv_or :: "os_env \<Rightarrow> string \<Rightarrow> string \<Rightarrow> string" where
  "LookupEnv_or os v d = (case env_vars os v of Some val \<Rightarrow> val | None \<Rightarrow> d)"

definition NewK8sHandler :: "os_env \<Rightarrow> 'c K8sHandler" where
  "NewK8sHandler os =
     \<lparr>K8sClient = None, K8sToken = [],
      K8sHost = LookupEnv_or os ''KUBERNETES_SERVICE_HOST'' LocalHostIPAddress,
      K8sPort = LookupEnv_or os ''KUBERNETES_PORT_443_TCP_PORT'' KubeProxyK8sPort\<rparr>"

text \<open>An HTTP request with the headers the code sets\<close>

record http_request =
  rq_Method :: string
  rq_URL :: string
  rq_Body :: string
  rq_Header :: "(string \<times> string) list"

text \<open>
  \<open>nReadFile\<close> is \<open>ioutil.ReadFile\<close>; \<open>nBuildConfig\<close> is \<open>clientcmd.BuildConfigFromFlags\<close> followed by
  \<open>kubernetes.NewForConfig\<close>, on the path of the kubeconfig file; \<open>nNewForConfig\<close> is the latter on a
  host and a token; \<open>nNewRequest\<close> is the error of \<open>http.NewRequest\<close>, by method and URL; \<open>nDo\<close> is
  \<open>http.Client.Do\<close> with the reading of the body; \<open>nOpen\<close> is \<open>Do\<close> (or \<open>http.Get\<close>) alone, for a
  response that is then read as a stream; \<open>nGroups\<close> and \<open>nResources\<close> are \<open>json.Unmarshal\<close> into
  \<open>APIGroupList\<close> (the names of the groups with their preferred versions) and \<open>APIResourceList\<close>
  (the names of the resources).
\<close>

record ('c, 'n) k8s_net =
  nReadFile :: "string \<Rightarrow> go_error + string"
  nBuildConfig :: "string \<Rightarrow> go_error + 'c"
  nNewForConfig :: "string \<Rightarrow> string \<Rightarrow> go_error + 'c"
  nNewRequest :: "string \<Rightarrow> string \<Rightarrow> go_error option"
  nDo :: "http_request \<Rightarrow> 'n \<Rightarrow> (go_error + string) \<times> 'n"
  nOpen :: "http_request \<Rightarrow> 'n \<Rightarrow> go_error option \<times> 'n"
  nGroups :: "string \<Rightarrow> go_error + (string \<times> string) list"
  nResources :: "string \<Rightarrow> go_error + string list"


section \<open>The client\<close>

text \<open>\<open>filepath.Join(home, ".kube", "config")\<close>\<close>

definition InitLocalAPIClient :: "('c, 'n) k8s_net \<Rightarrow> os_env \<Rightarrow> 'c K8sHandler \<Rightarrow> bool \<times> 'c K8sHandler" where
  "InitLocalAPIClient net os kh =
     (let home = Getenv os ''HOME'';
          kubeconfig = (if home \<noteq> [] then Clean (home @ ''/.kube/config'') else [])
      in case nBuildConfig net kubeconfig of
           Inl err \<Rightarrow> (False, kh)
         | Inr client \<Rightarrow> (True, kh\<lparr>K8sClient := Some client\<rparr>))"

definition InitInclusterAPIClient :: "('c, 'n) k8s_net \<Rightarrow> 'c K8sHandler \<Rightarrow> bool \<times> 'c K8sHandler" where
  "InitInclusterAPIClient net kh =
     (case nReadFile net ''/var/run/secrets/kubernetes.io/serviceaccount/token'' of
        Inl err \<Rightarrow> (False, kh)
      | Inr read \<Rightarrow>
          (let kh1 = kh\<lparr>K8sToken := read\<rparr> in
           case nNewForConfig net (''https://'' @ K8sHost kh1 @ '':'' @ K8sPort kh1) (K8sToken kh1) of
             Inl err \<Rightarrow> (False, kh1)
           | Inr client \<Rightarrow> (True, kh1\<lparr>K8sClient := Some client\<rparr>)))"

definition InitK8sClient :: "('c, 'n) k8s_net \<Rightarrow> os_env \<Rightarrow> 'c K8sHandler \<Rightarrow> bool \<times> 'c K8sHandler" where
  "InitK8sClient net os kh =
     (if \<not> IsK8sEnv os then (False, kh)
      else if K8sClient kh = None then
        (if IsInK8sCluster os then InitInclusterAPIClient net kh
         else if IsK8sLocal os then InitLocalAPIClient net os kh
         else (False, kh))
      else (True, kh))"


section \<open>Requests\<close>

definition base_url :: "os_env \<Rightarrow> 'c K8sHandler \<Rightarrow> string" where
  "base_url os kh = (if IsInK8sCluster os then ''https://'' else ''http://'') @ K8sHost kh @ '':'' @ K8sPort kh"

definition auth_headers :: "os_env \<Rightarrow> 'c K8sHandler \<Rightarrow> (string \<times> string) list" where
  "auth_headers os kh =
     (if IsInK8sCluster os
      then [(''Content-Type'', ''application/json''), (''Authorization'', ''Bearer '' @ K8sToken kh)]
      else [])"

text \<open>Every caller passes nil as \<open>data\<close>, whose JSON is \<open>null\<close>.\<close>

definition DoRequest ::
  "('c, 'n) k8s_net \<Rightarrow> os_env \<Rightarrow> 'c K8sHandler \<Rightarrow> string \<Rightarrow> string \<Rightarrow> 'n \<Rightarrow> (go_error + string) \<times> 'n" where
  "DoRequest net os kh cmd path n =
     (let URL = base_url os kh in
      case nNewRequest net cmd (URL @ path) of
        Some err \<Rightarrow> (Inl err, n)
      | None \<Rightarrow>
          nDo net \<lparr>rq_Method = cmd, rq_URL = URL @ path, rq_Body = ''null'', rq_Header = auth_headers os kh\<rparr> n)"

text \<open>The loop over the groups, which stops at the first of the name\<close>

fun find_group :: "(string \<times> string) list \<Rightarrow> string option" where
  "find_group [] = None"
| "find_group ((name, groupVersion) # groups) =
     (if name = ''security.kubearmor.com'' then Some groupVersion else find_group groups)"

fun find_resource :: "string \<Rightarrow> string list \<Rightarrow> bool" where
  "find_resource resourceName [] = False"
| "find_resource resourceName (name # names) =
     (if name = resourceName then True else find_resource resourceName names)"

definition CheckCustomResourceDefinition ::
  "('c, 'n) k8s_net \<Rightarrow> os_env \<Rightarrow> 'c K8sHandler \<Rightarrow> string \<Rightarrow> 'n \<Rightarrow> bool \<times> 'n" where
  "CheckCustomResourceDefinition net os kh resourceName n =
     (if \<not> IsK8sEnv os then (False, n)
      else
        (case DoRequest net os kh ''GET'' ''/apis'' n of (r1, n1) \<Rightarrow>
           (let group = (case r1 of Inl errOut \<Rightarrow> None
                         | Inr resBody \<Rightarrow> (case nGroups net resBody of Inl errIn \<Rightarrow> None | Inr groups \<Rightarrow> find_group groups))
            in case group of
                 None \<Rightarrow> (False, n1)
               | Some groupVersion \<Rightarrow>
                   (case DoRequest net os kh ''GET'' (''/apis/'' @ groupVersion) n1 of (r2, n2) \<Rightarrow>
                      (case r2 of Inl errOut \<Rightarrow> False
                       | Inr resBody \<Rightarrow> (case nResources net resBody of Inl errIn \<Rightarrow> False
                           | Inr names \<Rightarrow> find_resource resourceName names), n2)))))"

text \<open>
  The watch request of both programs, by the path of the resource; the result says whether there
  is a response. In the cluster it carries the token.
\<close>

definition watch_path :: "string \<Rightarrow> string" where
  "watch_path resources = ''/apis/security.kubearmor.com/v1/'' @ resources @ ''?watch=true''"

definition watch_request ::
  "('c, 'n) k8s_net \<Rightarrow> os_env \<Rightarrow> 'c K8sHandler \<Rightarrow> string \<Rightarrow> 'n \<Rightarrow> bool \<times> 'n" where
  "watch_request net os kh resources n =
     (if \<not> IsK8sEnv os then (False, n)
      else
        (let URL = base_url os kh @ watch_path resources in
         if IsInK8sCluster os \<and> nNewRequest net ''GET'' URL \<noteq> None then (False, n)
         else
           (case nOpen net \<lparr>rq_Method = ''GET'', rq_URL = URL, rq_Body = [], rq_Header = auth_headers os kh\<rparr> n of
              (err, n') \<Rightarrow> (err = None, n'))))"

definition WatchK8sHostSecurityPolicies where
  "WatchK8sHostSecurityPolicies net os kh = watch_request net os kh ''kubearmorhostpolicies''"

definition WatchK8sExternalWorkloadSecurityPolicies where
  "WatchK8sExternalWorkloadSecurityPolicies net os kh = watch_request net os kh ''kubearmorexternalworkloads''"


section \<open>Correctness\<close>

lemma find_resource_iff: "find_resource r names \<longleftrightarrow> r \<in> set names"
  by (induction names) auto

lemma find_group_map_of: "find_group groups = map_of groups ''security.kubearmor.com''"
  by (induction groups) auto

text \<open>What the API server lists, as seen through the two requests\<close>

definition lists_resource :: "('c, 'n) k8s_net \<Rightarrow> os_env \<Rightarrow> 'c K8sHandler \<Rightarrow> string \<Rightarrow> 'n \<Rightarrow> bool" where
  "lists_resource net os kh resourceName n \<longleftrightarrow>
     (\<exists>body n1 groups gv body2 n2 names.
        DoRequest net os kh ''GET'' ''/apis'' n = (Inr body, n1) \<and> nGroups net body = Inr groups \<and>
        map_of groups ''security.kubearmor.com'' = Some gv \<and>
        DoRequest net os kh ''GET'' (''/apis/'' @ gv) n1 = (Inr body2, n2) \<and>
        nResources net body2 = Inr names \<and> resourceName \<in> set names)"

lemma CheckCRD_iff:
  "fst (CheckCustomResourceDefinition net os kh r n) \<longleftrightarrow> IsK8sEnv os \<and> lists_resource net os kh r n"
  unfolding CheckCustomResourceDefinition_def lists_resource_def Let_def
  by (auto simp: find_group_map_of find_resource_iff split: prod.splits sum.splits option.splits)
    (metis sum.exhaust)

text \<open>After a successful initialisation there is a client, and it is kept.\<close>

lemma InitK8sClient_client:
  "fst (InitK8sClient net os kh) \<Longrightarrow> K8sClient (snd (InitK8sClient net os kh)) \<noteq> None"
  by (auto simp: InitK8sClient_def InitInclusterAPIClient_def InitLocalAPIClient_def Let_def
      split: if_splits sum.splits)

lemma InitK8sClient_again:
  assumes "fst (InitK8sClient net os kh)"
  shows "InitK8sClient net os (snd (InitK8sClient net os kh)) = (True, snd (InitK8sClient net os kh))"
  using InitK8sClient_client [OF assms] assms by (simp add: InitK8sClient_def split: if_splits)

text \<open>No request leaves the cluster with the token outside of https.\<close>

lemma token_only_https:
  assumes "(h, v) \<in> set (auth_headers os kh)"
  shows "prefix ''https://'' (base_url os kh)"
  using assms by (simp add: auth_headers_def base_url_def split: if_splits)



section \<open>Properties\<close>

text \<open>
  \<open>CheckCustomResourceDefinition\<close> says yes exactly when the program runs in a Kubernetes
  environment and the preferred version of the group \<open>security.kubearmor.com\<close>, as the API server
  lists it, has the resource.
\<close>

theorem crd_check_exact:
  "fst (CheckCustomResourceDefinition net os kh r n) \<longleftrightarrow> IsK8sEnv os \<and> lists_resource net os kh r n"
  by (rule CheckCRD_iff)

text \<open>
  A request that carries the token goes to an https address: neither \<open>DoRequest\<close> nor a watch
  ever sends the token in the clear. (The network records the requests it is given.)
\<close>

theorem token_only_over_https:
  assumes "rq \<in> set (snd (DoRequest (net\<lparr>nDo := \<lambda>rq log. (answer rq, log @ [rq])\<rparr>) os kh cmd path [])) \<or>
      rq \<in> set (snd (watch_request (net\<lparr>nOpen := \<lambda>rq log. (failure rq, log @ [rq])\<rparr>) os kh resources []))"
    and "''Authorization'' \<in> fst ` set (rq_Header rq)"
  shows "prefix (''https://'' @ K8sHost kh @ '':'' @ K8sPort kh) (rq_URL rq)"
  using assms
  by (auto simp: DoRequest_def watch_request_def auth_headers_def base_url_def Let_def
      split: option.splits if_splits)

definition demo_net :: "(unit, http_request list) k8s_net" where
  "demo_net =
     \<lparr>nReadFile = (\<lambda>_. Inr ''token''), nBuildConfig = (\<lambda>_. Inr ()), nNewForConfig = (\<lambda>_ _. Inr ()),
      nNewRequest = (\<lambda>_ _. None), nDo = (\<lambda>rq log. (Inr [], log @ [rq])), nOpen = (\<lambda>rq log. (None, log @ [rq])),
      nGroups = (\<lambda>_. Inr []), nResources = (\<lambda>_. Inr [])\<rparr>"

definition demo_cluster :: os_env where
  "demo_cluster = \<lparr>env_vars = (\<lambda>v. if v = ''KUBERNETES_PORT'' then Some ''443'' else None), env_stat = (\<lambda>_. False)\<rparr>"

definition demo_request :: http_request where
  "demo_request = \<lparr>rq_Method = ''GET'', rq_URL = ''https://127.0.0.1:8001/apis'', rq_Body = ''null'',
     rq_Header = [(''Content-Type'', ''application/json''), (''Authorization'', ''Bearer '')]\<rparr>"

theorem token_only_over_https_witness: "prefix ''https://127.0.0.1:8001'' (rq_URL demo_request)"
proof -
  let ?kh = "NewK8sHandler demo_cluster :: unit K8sHandler"
  have "demo_request \<in> set (snd (DoRequest (demo_net\<lparr>nDo := \<lambda>rq log. (Inr [], log @ [rq])\<rparr>) demo_cluster ?kh ''GET'' ''/apis'' []))"
    by (simp add: DoRequest_def demo_net_def demo_cluster_def demo_request_def base_url_def auth_headers_def
        IsInK8sCluster_def NewK8sHandler_def LookupEnv_or_def LocalHostIPAddress_def KubeProxyK8sPort_def Let_def)
  from token_only_over_https [OF disjI1 [OF this]] show ?thesis
    by (simp add: demo_request_def demo_cluster_def NewK8sHandler_def LookupEnv_or_def LocalHostIPAddress_def KubeProxyK8sPort_def)
qed

end
