(* ===== verification/Daemon.thy ===== *)
theory Daemon
  imports Server Operator K8s_Handler
begin

text \<open>
  How the two programs start: \<open>src/service/main.go\<close> with \<open>KVMSDaemon\<close> of
  \<open>src/service/core/kvmService.go\<close>, and \<open>src/operator/main.go\<close>. The service learns its external
  address, builds its state, the state of the script generator and that of the gRPC server from
  it, and then starts its goroutines. What follows, up to the signal that ends the process, is in
  \<open>Lifecycle\<close>.
\<close>

datatype routine = HostPolicyWatcher | EtcdKeepAlive | GrpcServer

record 'e daemon =
  d_kvms :: "'e KVMS"
  d_server :: "'e server_vars"
  d_script :: genscript
  d_routines :: "routine list"

text \<open>
  \<open>setup_err\<close> and \<open>answers\<close> are those of \<open>GetExternalIP\<close>; \<open>dial\<close> is the result of the UDP
  connection that \<open>NewKVMSDaemon\<close> opens to learn its own address; \<open>initialized\<close> is the result of
  \<open>K8s.InitK8sClient\<close>. \<open>Ret None\<close>: the daemon returns before it has started anything.
\<close>

definition KVMSDaemon ::
  "go_error option \<Rightarrow> (go_error + string list) list \<Rightarrow> 'e etcd_ptr \<Rightarrow> 'e \<Rightarrow> (go_error + string) \<Rightarrow> bool \<Rightarrow>
   genscript \<Rightarrow> int \<Rightarrow> 'e daemon option outcome" where
  "KVMSDaemon setup_err answers cli e dial initialized p portPtr =
     (case GetExternalIP setup_err answers of
        Stop c \<Rightarrow> Stop c
      | Ret (externalIp, Some err) \<Rightarrow> Ret None
      | Ret (externalIp, None) \<Rightarrow>
          (case dial of
             Inl err \<Rightarrow> Stop (Fatal err)
           | Inr podIp \<Rightarrow>
               (let dm = NewKVMSDaemon cli e podIp portPtr externalIp in
                Ret (Some
                  \<lparr>d_kvms = dm, d_server = server_of_daemon dm,
                   d_script = InitGenScript (ClusterPort dm) (ClusteripAddress dm) p,
                   d_routines = (if initialized then [HostPolicyWatcher, EtcdKeepAlive, GrpcServer] else [])\<rparr>))))"

text \<open>
  The checks of both \<open>main\<close> functions; \<open>absdir\<close> and \<open>chdir\<close> are the results of \<open>filepath.Abs\<close> and
  \<open>os.Chdir\<close>. The result says whether the daemon is run.
\<close>

definition main_checks :: "nat \<Rightarrow> (go_error + string) \<Rightarrow> (string \<Rightarrow> go_error option) \<Rightarrow> bool" where
  "main_checks euid absdir chdir =
     (if euid \<noteq> 0 then False
      else case absdir of Inl err \<Rightarrow> False
        | Inr dir \<Rightarrow> (case chdir dir of Some err \<Rightarrow> False | None \<Rightarrow> True))"

definition service_main ::
  "nat \<Rightarrow> (go_error + string) \<Rightarrow> (string \<Rightarrow> go_error option) \<Rightarrow> int option \<Rightarrow> (int \<Rightarrow> 'd) \<Rightarrow> 'd option" where
  "service_main euid absdir chdir port_flag daemon =
     (if main_checks euid absdir chdir
      then Some (daemon (case port_flag of Some n \<Rightarrow> n | None \<Rightarrow> 40400)) else None)"

definition operator_main ::
  "nat \<Rightarrow> (go_error + string) \<Rightarrow> (string \<Rightarrow> go_error option) \<Rightarrow> bool \<Rightarrow>
   (choices \<times> K8sKubeArmorExternalWorkloadPolicyEvent) watch_round list \<Rightarrow> ('e, unit) op_prog" where
  "operator_main euid absdir chdir initialized rounds =
     (if main_checks euid absdir chdir then KVMSOperatorDaemon initialized rounds else ret ())"

text \<open>
  The script and the server agree: the port in the script is the port the server listens on, and
  it is the requested one if that fits into 16 bits.
\<close>

lemma daemon_port:
  assumes "KVMSDaemon setup_err answers cli e dial initialized p port = Ret (Some d)"
  shows "''CLUSTER_PORT='' @ srv_Clusterport (d_server d) \<in>
      set (script_lines (gs_port (d_script d)) (gs_ipAddress (d_script d)) identity)"
    and "''CLUSTER_IP='' @ srv_ClusterIp (d_server d) \<in>
      set (script_lines (gs_port (d_script d)) (gs_ipAddress (d_script d)) identity)"
    and "srv_Clusterport (d_server d) = u16_str (to_uint16 port)"
  using assms
  by (auto simp: KVMSDaemon_def server_of_daemon_def NewServerInit_def NewKVMSDaemon_def InitGenScript_def
      script_lines_def Let_def split: outcome.splits option.splits sum.splits)

text \<open>An error of the API while the address is polled is not noticed: the service starts with an
  empty address.\<close>

lemma daemon_without_address:
  assumes "list_all no_address waits"
  shows "KVMSDaemon None (waits @ Inl err # rest) cli e (Inr podIp) initialized p port \<noteq> Ret None"
    and "KVMSDaemon None (waits @ Inl err # rest) cli e (Inr podIp) initialized p port = Ret (Some d) \<Longrightarrow>
      ClusteripAddress (d_kvms d) = []"
  using GetExternalIP_loop_wait [OF assms, of "Inl err # rest"]
  by (auto simp: KVMSDaemon_def GetExternalIP_def NewKVMSDaemon_def Let_def)



section \<open>Properties\<close>

text \<open>
  C40. The script an agent is installed with names the port the gRPC server listens on and the
  address of the cluster, and for a port that fits into 16 bits it is the requested port.
\<close>

theorem script_names_server:
  assumes "KVMSDaemon setup_err answers cli e dial initialized p port = Ret (Some d)"
    and "0 \<le> port" and "port < 65536"
  shows "srv_Clusterport (d_server d) = FormatUint (nat port) \<and>
    ''CLUSTER_PORT='' @ srv_Clusterport (d_server d) \<in>
      set (script_lines (gs_port (d_script d)) (gs_ipAddress (d_script d)) identity) \<and>
    ''CLUSTER_IP='' @ srv_ClusterIp (d_server d) \<in>
      set (script_lines (gs_port (d_script d)) (gs_ipAddress (d_script d)) identity)"
proof -
  have "unat (to_uint16 port) = nat port"
    using assms(2,3) by (simp add: to_uint16_def unat_eq_nat_uint uint_word_of_int)
  with daemon_port [OF assms(1)] show ?thesis by (simp add: u16_str_def)
qed

theorem script_names_server_witness:
  "\<exists>d. KVMSDaemon None [Inr [''10.0.0.1'']] (None :: mem_etcd etcd_ptr) \<lparr>mem_data = [], mem_online = True\<rparr> (Inr ''10.0.0.2'') True
      \<lparr>gs_port = 0, gs_ipAddress = [], ScriptData = []\<rparr> 40400 = Ret (Some d) \<and>
    srv_Clusterport (d_server d) = FormatUint 40400"
proof -
  obtain d where d: "KVMSDaemon None [Inr [''10.0.0.1'']] (None :: mem_etcd etcd_ptr) \<lparr>mem_data = [], mem_online = True\<rparr> (Inr ''10.0.0.2'') True
      \<lparr>gs_port = 0, gs_ipAddress = [], ScriptData = []\<rparr> 40400 = Ret (Some d)"
    by (simp add: KVMSDaemon_def GetExternalIP_def Let_def)
  with script_names_server [OF d] show ?thesis by simp
qed

end
