(* ===== verification/Host_Policy.thy ===== *)
theory Host_Policy
  imports KVM_Prelude
begin

text \<open>
  The controller of the custom resource \<open>KubeArmorHostPolicy\<close>: the API types of
  \<open>pkg/KubeArmorHostPolicy/api/v1/kubearmorhostpolicy_types.go\<close> and the validation and the
  reconciler of \<open>pkg/KubeArmorHostPolicy/controllers/kubearmorhostpolicy_controller.go\<close>; further
  the reconciler of \<open>pkg/KubeArmorExternalWorkload\<close>, which only looks the resource up.

  Optional slices and maps are lists: nil and empty are not told apart by the code below. The
  Kubernetes client of the reconcilers is a parameter, as the two calls they make.
\<close>


section \<open>API types\<close>

record MatchSourceType_v1 =
  ms1_Path :: string
  ms1_Directory :: string
  ms1_Recursive :: bool

record ProcessPathType_v1 =
  pp1_Path :: string
  pp1_OwnerOnly :: bool
  pp1_FromSource :: "MatchSourceType_v1 list"
  pp1_Severity :: int
  pp1_Tags :: "string list"
  pp1_Message :: string
  pp1_Action :: string

record ProcessDirectoryType_v1 =
  pd1_Directory :: string
  pd1_Recursive :: bool
  pd1_OwnerOnly :: bool
  pd1_FromSource :: "MatchSourceType_v1 list"
  pd1_Severity :: int
  pd1_Tags :: "string list"
  pd1_Message :: string
  pd1_Action :: string

record ProcessPatternType_v1 =
  pt1_Pattern :: string
  pt1_OwnerOnly :: bool
  pt1_Severity :: int
  pt1_Tags :: "string list"
  pt1_Message :: string
  pt1_Action :: string

record ProcessType_v1 =
  pr1_MatchPaths :: "ProcessPathType_v1 list"
  pr1_MatchDirectories :: "ProcessDirectoryType_v1 list"
  pr1_MatchPatterns :: "ProcessPatternType_v1 list"
  pr1_Severity :: int
  pr1_Tags :: "string list"
  pr1_Message :: string
  pr1_Action :: string

record FilePathType_v1 =
  fp1_Path :: string
  fp1_ReadOnly :: bool
  fp1_OwnerOnly :: bool
  fp1_FromSource :: "MatchSourceType_v1 list"
  fp1_Severity :: int
  fp1_Tags :: "string list"
  fp1_Message :: string
  fp1_Action :: string

record FileDirectoryType_v1 =
  fd1_Directory :: string
  fd1_Recursive :: bool
  fd1_ReadOnly :: bool
  fd1_OwnerOnly :: bool
  fd1_FromSource :: "MatchSourceType_v1 list"
  fd1_Severity :: int
  fd1_Tags :: "string list"
  fd1_Message :: string
  fd1_Action :: string

record FilePatternType_v1 =
  ft1_Pattern :: string
  ft1_ReadOnly :: bool
  ft1_OwnerOnly :: bool
  ft1_Severity :: int
  ft1_Tags :: "string list"
  ft1_Message :: string
  ft1_Action :: string

record FileType_v1 =
  fi1_MatchPaths :: "FilePathType_v1 list"
  fi1_MatchDirectories :: "FileDirectoryType_v1 list"
  fi1_MatchPatterns :: "FilePatternType_v1 list"
  fi1_Severity :: int
  fi1_Tags :: "string list"
  fi1_Message :: string
  fi1_Action :: string

record MatchNetworkProtocolType_v1 =
  np1_Protocol :: string
  np1_FromSource :: "MatchSourceType_v1 list"
  np1_Severity :: int
  np1_Tags :: "string list"
  np1_Message :: string
  np1_Action :: string

record NetworkType_v1 =
  nt1_MatchProtocols :: "MatchNetworkProtocolType_v1 list"
  nt1_Severity :: int
  nt1_Tags :: "string list"
  nt1_Message :: string
  nt1_Action :: string

record MatchCapabilitiesType_v1 =
  mc1_Capability :: string
  mc1_FromSource :: "MatchSourceType_v1 list"
  mc1_Severity :: int
  mc1_Tags :: "string list"
  mc1_Message :: string
  mc1_Action :: string

record CapabilitiesType_v1 =
  ca1_MatchCapabilities :: "MatchCapabilitiesType_v1 list"
  ca1_Severity :: int
  ca1_Tags :: "string list"
  ca1_Message :: string
  ca1_Action :: string

record KubeArmorHostPolicySpec =
  hp1_NodeSelector :: "(string \<times> string) list"
  hp1_Process :: ProcessType_v1
  hp1_File :: FileType_v1
  hp1_Network :: NetworkType_v1
  hp1_Capabilities :: CapabilitiesType_v1
  hp1_AppArmor :: string
  hp1_Severity :: int
  hp1_Tags :: "string list"
  hp1_Message :: string
  hp1_Action :: string

record KubeArmorHostPolicyStatus =
  PolicyStatus :: string

record KubeArmorHostPolicy =
  kp_Name :: string
  kp_Spec :: KubeArmorHostPolicySpec
  kp_Status :: KubeArmorHostPolicyStatus


section \<open>Validation\<close>

text \<open>A loop that returns the first error its body finds\<close>

fun first_error :: "('a \<Rightarrow> go_error option) \<Rightarrow> 'a list \<Rightarrow> go_error option" where
  "first_error check [] = None"
| "first_error check (x # xs) = (case check x of Some err \<Rightarrow> Some err | None \<Rightarrow> first_error check xs)"

definition owner_error :: "string \<Rightarrow> go_error" where
  "owner_error req = ''ownerOnly works with the Allow action '' @ req"

definition recursive_error :: "string \<Rightarrow> go_error" where
  "recursive_error req = ''recursive is only effective with directories, not paths '' @ req"

text \<open>\<open>if policy.Spec.Action != "Allow" { if ownerOnly { \<dots> } }\<close>\<close>

definition check_owner :: "KubeArmorHostPolicy \<Rightarrow> string \<Rightarrow> bool \<Rightarrow> go_error option" where
  "check_owner policy req ownerOnly =
     (if hp1_Action (kp_Spec policy) \<noteq> ''Allow'' then (if ownerOnly then Some (owner_error req) else None)
      else None)"

text \<open>The check of one source: everywhere but for file paths the condition on the flag
  \<open>fromSource.Recursive || !fromSource.Recursive\<close> is always true.\<close>

definition check_source :: "string \<Rightarrow> MatchSourceType_v1 \<Rightarrow> go_error option" where
  "check_source req fromSource =
     (if ms1_Path fromSource \<noteq> [] then
        (if ms1_Recursive fromSource \<or> \<not> ms1_Recursive fromSource then Some (recursive_error req) else None)
      else None)"

definition check_file_source :: "string \<Rightarrow> MatchSourceType_v1 \<Rightarrow> go_error option" where
  "check_file_source req fromSource =
     (if ms1_Path fromSource \<noteq> [] then
        (if ms1_Recursive fromSource then Some (recursive_error req) else None)
      else None)"

text \<open>One check after another, until one of them finds an error\<close>

definition or_else :: "go_error option \<Rightarrow> go_error option \<Rightarrow> go_error option" where
  "or_else a b = (case a of Some err \<Rightarrow> Some err | None \<Rightarrow> b)"

definition validateProcessSchema :: "KubeArmorHostPolicy \<Rightarrow> string \<Rightarrow> go_error option" where
  "validateProcessSchema policy req =
     (let process = hp1_Process (kp_Spec policy) in
      or_else
        (first_error (\<lambda>matchPaths.
           or_else (check_owner policy req (pp1_OwnerOnly matchPaths))
             (first_error (check_source req) (pp1_FromSource matchPaths))) (pr1_MatchPaths process))
        (or_else
          (first_error (\<lambda>matchDirectories. check_owner policy req (pd1_OwnerOnly matchDirectories))
             (pr1_MatchDirectories process))
          (first_error (\<lambda>matchPatterns. check_owner policy req (pt1_OwnerOnly matchPatterns))
             (pr1_MatchPatterns process))))"

definition validateFileSchema :: "KubeArmorHostPolicy \<Rightarrow> string \<Rightarrow> go_error option" where
  "validateFileSchema policy req =
     (let file = hp1_File (kp_Spec policy) in
      or_else
        (first_error (\<lambda>matchPaths.
           or_else (check_owner policy req (fp1_OwnerOnly matchPaths))
             (first_error (check_file_source req) (fp1_FromSource matchPaths))) (fi1_MatchPaths file))
        (or_else
          (first_error (\<lambda>matchDirectories. check_owner policy req (fd1_OwnerOnly matchDirectories))
             (fi1_MatchDirectories file))
          (first_error (\<lambda>matchPatterns. check_owner policy req (ft1_OwnerOnly matchPatterns))
             (fi1_MatchPatterns file))))"

definition validateNetworkSchema :: "KubeArmorHostPolicy \<Rightarrow> string \<Rightarrow> go_error option" where
  "validateNetworkSchema policy req =
     first_error (\<lambda>matchProtocols. first_error (check_source req) (np1_FromSource matchProtocols))
       (nt1_MatchProtocols (hp1_Network (kp_Spec policy)))"

definition validateCapabilitiesSchema :: "KubeArmorHostPolicy \<Rightarrow> string \<Rightarrow> go_error option" where
  "validateCapabilitiesSchema policy req =
     first_error (\<lambda>matchCapabilities. first_error (check_source req) (mc1_FromSource matchCapabilities))
       (ca1_MatchCapabilities (hp1_Capabilities (kp_Spec policy)))"


section \<open>The reconcilers\<close>

text \<open>
  The controller-runtime client, on a cluster state \<open>'c\<close>. An error of \<open>Get\<close> says whether it is a
  not-found error; \<open>client.IgnoreNotFound\<close> turns such an error into nil.
\<close>

datatype api_error = NotFound go_error | OtherError go_error

record ('p, 'c) ctrl_client =
  ctrl_Get :: "string \<Rightarrow> 'c \<Rightarrow> (api_error + 'p) \<times> 'c"
  ctrl_StatusUpdate :: "'p \<Rightarrow> 'c \<Rightarrow> api_error option \<times> 'c"

definition IgnoreNotFound :: "api_error \<Rightarrow> api_error option" where
  "IgnoreNotFound err = (case err of NotFound _ \<Rightarrow> None | OtherError e \<Rightarrow> Some (OtherError e))"

definition policy_error :: "KubeArmorHostPolicy \<Rightarrow> string \<Rightarrow> go_error option" where
  "policy_error policy req =
     or_else (validateProcessSchema policy req)
       (or_else (validateFileSchema policy req)
         (or_else (validateNetworkSchema policy req) (validateCapabilitiesSchema policy req)))"

definition with_status :: "string \<Rightarrow> KubeArmorHostPolicy \<Rightarrow> KubeArmorHostPolicy" where
  "with_status st policy = policy\<lparr>kp_Status := (kp_Status policy)\<lparr>PolicyStatus := st\<rparr>\<rparr>"

text \<open>The result is the error; \<open>ctrl.Result\<close> is always the zero value.\<close>

definition Reconcile ::
  "(KubeArmorHostPolicy, 'c) ctrl_client \<Rightarrow> string \<Rightarrow> 'c \<Rightarrow> api_error option \<times> 'c" where
  "Reconcile r req c =
     (case ctrl_Get r req c of
        (Inl err, c') \<Rightarrow>
          (case err of NotFound _ \<Rightarrow> (IgnoreNotFound err, c') | OtherError _ \<Rightarrow> (Some err, c'))
      | (Inr policy, c') \<Rightarrow>
          if policy_error policy req \<noteq> None
          then ctrl_StatusUpdate r (with_status ''Not OK'' policy) c'
          else (case ctrl_StatusUpdate r (with_status ''OK'' policy) c' of (_, c'') \<Rightarrow> (None, c'')))"

definition Reconcile_workload :: "('p, 'c) ctrl_client \<Rightarrow> string \<Rightarrow> 'c \<Rightarrow> api_error option \<times> 'c" where
  "Reconcile_workload r req c =
     (case ctrl_Get r req c of
        (Inl err, c') \<Rightarrow>
          (case err of NotFound _ \<Rightarrow> (IgnoreNotFound err, c') | OtherError _ \<Rightarrow> (Some err, c'))
      | (Inr policy, c') \<Rightarrow> (None, c'))"


section \<open>Correctness\<close>

lemma first_error_None [simp]: "first_error check xs = None \<longleftrightarrow> (\<forall>x \<in> set xs. check x = None)"
  by (induction xs) (auto split: option.splits)

lemma or_else_None [simp]: "or_else a b = None \<longleftrightarrow> a = None \<and> b = None"
  by (simp add: or_else_def split: option.splits)

lemma check_owner_None [simp]:
  "check_owner policy req b = None \<longleftrightarrow> hp1_Action (kp_Spec policy) = ''Allow'' \<or> \<not> b"
  by (simp add: check_owner_def)

lemma check_source_None [simp]:
  "check_source req src = None \<longleftrightarrow> ms1_Path src = []"
  "check_file_source req src = None \<longleftrightarrow> (ms1_Path src = [] \<or> \<not> ms1_Recursive src)"
  by (simp_all add: check_source_def check_file_source_def)

text \<open>The conditions on a policy, by what they forbid\<close>

definition owner_flags :: "KubeArmorHostPolicySpec \<Rightarrow> bool list" where
  "owner_flags spec =
     map pp1_OwnerOnly (pr1_MatchPaths (hp1_Process spec)) @
     map pd1_OwnerOnly (pr1_MatchDirectories (hp1_Process spec)) @
     map pt1_OwnerOnly (pr1_MatchPatterns (hp1_Process spec)) @
     map fp1_OwnerOnly (fi1_MatchPaths (hp1_File spec)) @
     map fd1_OwnerOnly (fi1_MatchDirectories (hp1_File spec)) @
     map ft1_OwnerOnly (fi1_MatchPatterns (hp1_File spec))"

definition strict_sources :: "KubeArmorHostPolicySpec \<Rightarrow> MatchSourceType_v1 list" where
  "strict_sources spec =
     concat (map pp1_FromSource (pr1_MatchPaths (hp1_Process spec))) @
     concat (map np1_FromSource (nt1_MatchProtocols (hp1_Network spec))) @
     concat (map mc1_FromSource (ca1_MatchCapabilities (hp1_Capabilities spec)))"

definition file_sources :: "KubeArmorHostPolicySpec \<Rightarrow> MatchSourceType_v1 list" where
  "file_sources spec = concat (map fp1_FromSource (fi1_MatchPaths (hp1_File spec)))"

definition policy_valid :: "KubeArmorHostPolicySpec \<Rightarrow> bool" where
  "policy_valid spec \<longleftrightarrow>
     (hp1_Action spec = ''Allow'' \<or> True \<notin> set (owner_flags spec)) \<and>
     list_all (\<lambda>src. ms1_Path src = []) (strict_sources spec) \<and>
     list_all (\<lambda>src. ms1_Path src = [] \<or> \<not> ms1_Recursive src) (file_sources spec)"

lemma policy_error_iff: "policy_error policy req = None \<longleftrightarrow> policy_valid (kp_Spec policy)"
  by (auto simp: policy_error_def validateProcessSchema_def validateFileSchema_def validateNetworkSchema_def
      validateCapabilitiesSchema_def policy_valid_def owner_flags_def strict_sources_def file_sources_def
      Let_def list_all_iff)

text \<open>Which error is reported\<close>

lemma first_error_Some: "first_error check xs = Some err \<Longrightarrow> \<exists>x \<in> set xs. check x = Some err"
  by (induction xs) (auto split: option.splits)

lemma or_else_Some: "or_else a b = Some err \<Longrightarrow> a = Some err \<or> b = Some err"
  by (auto simp: or_else_def split: option.splits)

lemma check_errors:
  "check_owner policy req b = Some err \<Longrightarrow> err = owner_error req"
  "check_source req src = Some err \<Longrightarrow> err = recursive_error req"
  "check_file_source req src = Some err \<Longrightarrow> err = recursive_error req"
  by (auto simp: check_owner_def check_source_def check_file_source_def split: if_splits)

lemma policy_error_kinds:
  "policy_error policy req = Some err \<Longrightarrow> err = owner_error req \<or> err = recursive_error req"
  unfolding policy_error_def validateProcessSchema_def validateFileSchema_def validateNetworkSchema_def
    validateCapabilitiesSchema_def Let_def
  by (auto dest!: or_else_Some first_error_Some check_errors)


lemma with_status_eq: "with_status st policy = policy\<lparr>kp_Status := \<lparr>PolicyStatus = st\<rparr>\<rparr>"
  by (cases "kp_Status policy") (simp add: with_status_def)


section \<open>Properties\<close>


text \<open>
  The validation finds an error exactly in the policies that are not valid: those with an
  action other than \<open>Allow\<close> and an \<open>ownerOnly\<close> flag, those with a path as the source of a process
  path, a protocol or a capability, recursive or not, and those with a recursive path as the
  source of a file path. The error is one of two.
\<close>

theorem validation_exact:
  "(policy_error policy req = None \<longleftrightarrow> policy_valid (kp_Spec policy)) \<and>
   policy_error policy req \<in> {None, Some (owner_error req), Some (recursive_error req)}"
  using policy_error_iff [of policy req] policy_error_kinds [of policy req]
  by (cases "policy_error policy req") auto

end
