(* ===== verification/System.thy ===== *)
theory System
  imports Operator_Theorems Policy_Stream Daemon Host_Policy
begin

text \<open>
  Lemmas that connect the operator with the service: what the operator has written to etcd, as the
  handlers of the service read it.
\<close>


section \<open>What an added workload leaves in etcd\<close>

lemma added_view_inv:
  assumes "op_inv v" and "identity_free v i" and "name \<noteq> []"
  shows "op_inv (spec_label i label (spec_assign i name v))"
  by (rule op_inv_label [OF op_inv_assign [OF assms]])

lemma added_name_key:
  "v_kvs (spec_label i label (spec_assign i name v)) (KvmOprEWNameToIdentity @ name) = Some (u16_str i)"
  by (simp add: spec_label_def spec_assign_def Let_def)

lemma added_label_key:
  "v_kvs (spec_label i label v) (KvmOprIdentityToLabel @ u16_str i) = Some label"
  by (simp add: spec_label_def Let_def)

lemma added_service_keys:
  "v_kvs (spec_label i label (spec_assign i name v)) (KvmSvcIdentitiToPodIps @ x) = v_kvs v (KvmSvcIdentitiToPodIps @ x)"
  by (simp add: spec_label_def spec_assign_def Let_def)

lemma added_readable:
  assumes "label_map_readable (v_kvs v)" and "CHR ''/'' \<notin> set label"
  shows "label_map_readable (v_kvs (spec_label i label (spec_assign i name v)))"
  using assms
  by (auto simp: label_map_readable_def spec_label_def spec_assign_def Let_def identities_json.dec_enc split: if_splits)

lemma identity_known_key:
  assumes "M (KvmOprIdentityToLabel @ u16_str i) \<noteq> None"
  shows "identity_known M (u16_str i)"
proof -
  have "KvmOprIdentityToLabel @ u16_str i = butlast KvmOprIdentityToLabel @ CHR ''/'' # u16_str i"
    by (simp add: KvmOprIdentityToLabel_def)
  then have "last_field (KvmOprIdentityToLabel @ u16_str i) (CHR ''/'') = u16_str i"
    using last_field_append [OF u16_str_no_slash] by metis
  with assms show ?thesis
    unfolding identity_known_def by (intro exI [of _ "KvmOprIdentityToLabel @ u16_str i"]) simp
qed

lemma identity_known_entry:
  "identity_known (M(KvmSvcIdentitiToPodIps @ x \<mapsto> ip)) identity = identity_known M identity"
  unfolding identity_known_def by (intro ex_cong1) auto


section \<open>The service after the operator\<close>

text \<open>Every list in the label map can be read, whatever its label.\<close>

definition lists_decodable :: "(string \<rightharpoonup> string) \<Rightarrow> bool" where
  "lists_decodable M \<longleftrightarrow> (\<forall>label v. M (KvmOprLabelToIdentities @ label) = Some v \<longrightarrow> (\<exists>arr. UnmarshalU16s v = Inr arr))"

lemma added_decodable:
  assumes "lists_decodable (v_kvs v)"
  shows "lists_decodable (v_kvs (spec_label i label (spec_assign i name v)))"
  using assms
  by (auto simp: lists_decodable_def spec_label_def spec_assign_def Let_def identities_json.dec_enc split: if_splits)

lemma added_other_lists:
  "lab \<noteq> label \<Longrightarrow> v_kvs (spec_label i label (spec_assign i name v)) (KvmOprLabelToIdentities @ lab) =
     v_kvs v (KvmOprLabelToIdentities @ lab)"
  by (simp add: spec_label_def spec_assign_def Let_def)

lemma store_identities_returns:
  assumes "\<forall>(k, v) \<in> set kv. \<exists>arr. UnmarshalU16s v = Inr arr"
  shows "\<exists>m. store_identities kv s = (Ret (), s\<lparr>sv_MapLabelToIdentities := m\<rparr>)"
  using assms
proof (induction kv arbitrary: s)
  case Nil
  show ?case by (rule exI [of _ "sv_MapLabelToIdentities s"]) (simp add: store_identities_def ret_def)
next
  case (Cons p kv)
  obtain k v arr where p: "p = (k, v)" "UnmarshalU16s v = Inr arr" using Cons.prems by auto
  let ?s = "s\<lparr>sv_MapLabelToIdentities := AList.update (last_field k (CHR ''/'')) arr (sv_MapLabelToIdentities s)\<rparr>"
  obtain m where "store_identities kv ?s = (Ret (), ?s\<lparr>sv_MapLabelToIdentities := m\<rparr>)"
    using Cons.IH [of ?s] Cons.prems by auto
  then show ?case unfolding store_identities_def by (intro exI [of _ m]) (simp add: p prog_simps)
qed

context etcd_server
begin

lemma daemon_connected: "up e \<Longrightarrow> sv_connected api up (NewKVMSDaemon (client l) e podIp port ip)"
  by (simp add: sv_connected_def NewKVMSDaemon_def)

text \<open>A fresh service that is given a policy with a single label\<close>

lemma wp_fresh_policy:
  assumes "up e" and "label_map_readable (kvs e)" and "permuting it2"
    and "st_Status (kh_Status (he_Object event)) \<in> {[], ''OK''}"
  shows "wp (HandleHostEvent ((it1, it2), event)) (\<lambda>_ t. sv_sent t =
      map (addressed event) (policy_targets (kvs e) (selector_labels it1 (kh_Spec (he_Object event)))))
    (NewKVMSDaemon (client l) e podIp port ip)"
proof -
  let ?s = "NewKVMSDaemon (client l) e podIp port ip"
  have s: "sv_store ?s = e" "EtcdEWLabels ?s = Some []" "sv_sent ?s = []" by (simp_all add: NewKVMSDaemon_def)
  have "wp (UpdateHostSecurityPolicies it1 it2 event) (\<lambda>_ t. sv_sent t =
      map (addressed event) (policy_targets (kvs e) (selector_labels it1 (kh_Spec (he_Object event))))) ?s"
    by (rule wp_mono [OF wp_UpdateHostSecurityPolicies [OF daemon_connected [OF assms(1)] refl]])
      (use assms s in \<open>auto simp: strings_of_def\<close>)
  with assms(4) show ?thesis by (auto simp: HandleHostEvent_def)
qed

lemma targets_one:
  assumes "M (KvmOprLabelToIdentities @ label) = Some (MarshalU16s (Some l))"
  shows "policy_targets M [label] = l"
  using assms by (simp add: policy_targets_def label_identities_def identities_in_def identities_json.dec_enc)

text \<open>Shutting the operator down empties the label map.\<close>

lemma wp_Destroy:
  assumes "connected api up s"
  shows "wp DestroyKVMSOperator (\<lambda>_ t. connected api up t \<and>
    (\<forall>label. kvs (op_store t) (KvmOprLabelToIdentities @ label) = None)) s"
proof -
  from assms obtain l where l: "op_EtcdClient s = client l" and up: "up (op_store s)"
    by (auto simp: connected_def)
  from kv.del_spec [OF up] obtain e where
    "EtcdDelete (client l) KvmOprLabelToIdentities (op_store s) = (Ret None, e)" "up e"
    "kvs e = (\<lambda>k. if prefix KvmOprLabelToIdentities k then None else kvs (op_store s) k)" by blast
  with l show ?thesis
    by (simp add: DestroyKVMSOperator_def op_etcd_def on_part_def wp_def connected_def ret_def andThen_def)
qed

lemma fetch_or_panics:
  assumes "sv_connected api up s" and "lists_decodable (kvs (sv_store s))"
  shows "(\<exists>t. fetch_identities label s = (Ret (), t) \<and> sv_connected api up t \<and> kvs (sv_store t) = kvs (sv_store s)) \<or>
    (\<exists>t. fetch_identities label s = (Stop (Panic ''invalid memory address or nil pointer dereference''), t))"
proof -
  from assms(1) obtain l where l: "sv_EtcdClient s = client l" and up: "up (sv_store s)"
    by (auto simp: sv_connected_def)
  from kv.getRaw_spec [OF up] obtain g e where g:
    "EtcdGetRaw (client l) (KvmOprLabelToIdentities @ label) (sv_store s) = (Ret (Inr g), e)" "up e" "kvs e = kvs (sv_store s)"
    "case g of None \<Rightarrow> \<forall>k. prefix (KvmOprLabelToIdentities @ label) k \<longrightarrow> kvs (sv_store s) k = None
     | Some kv \<Rightarrow> kv \<noteq> [] \<and> distinct (map fst kv) \<and>
         set kv = {(k, v). prefix (KvmOprLabelToIdentities @ label) k \<and> kvs (sv_store s) k = Some v}"
    by blast
  show ?thesis
  proof (cases g)
    case None
    with g(1) l show ?thesis
      by (simp add: fetch_identities_def sv_etcd_def on_part_def nil_deref_def stop_with_def)
  next
    case (Some kv)
    then have "\<forall>(k, v) \<in> set kv. \<exists>arr. UnmarshalU16s v = Inr arr"
      using g(4) assms(2) by (auto simp: lists_decodable_def elim!: prefixE)
    then obtain m where "store_identities kv (s\<lparr>sv_store := e\<rparr>) = (Ret (), s\<lparr>sv_store := e, sv_MapLabelToIdentities := m\<rparr>)"
      using store_identities_returns [of kv "s\<lparr>sv_store := e\<rparr>"] by auto
    with Some g(1-3) l show ?thesis
      by (simp add: fetch_identities_def sv_etcd_def on_part_def sv_connected_def)
  qed
qed

lemma fetch_list_panics:
  assumes "sv_connected api up s" and "lists_decodable (kvs (sv_store s))" and "label \<in> set labels"
    and "\<And>x. kvs (sv_store s) (KvmOprLabelToIdentities @ label @ x) = None"
  shows "\<exists>t. for_each labels fetch_identities s = (Stop (Panic ''invalid memory address or nil pointer dereference''), t)"
  using assms
proof (induction labels arbitrary: s)
  case (Cons first labels)
  show ?case
  proof (cases "label = first")
    case True
    with fetch_stale_stops [of s label] Cons.prems show ?thesis by auto
  next
    case False
    with fetch_or_panics [of s first] Cons show ?thesis by fastforce
  qed
qed simp

text \<open>
  A label that begins no key stops the next policy, whether the service remembers it or cuts it out
  of a key.
\<close>

lemma missing_label_panics:
  assumes "sv_connected api up s" and "lists_decodable (kvs (sv_store s))" and "permuting it2"
    and "label \<in> set (strings_of (EtcdEWLabels s)) \<or>
      (\<exists>k v. prefix KvmOprLabelToIdentities k \<and> kvs (sv_store s) k = Some v \<and> label = last_field k (CHR ''/''))"
    and "\<And>x. kvs (sv_store s) (KvmOprLabelToIdentities @ label @ x) = None"
  shows "fst (UpdateHostSecurityPolicies it1 it2 event s) =
    Stop (Panic ''invalid memory address or nil pointer dereference'')"
proof -
  from assms(1) obtain l where l: "sv_EtcdClient s = client l" and up: "up (sv_store s)"
    by (auto simp: sv_connected_def)
  from kv.get_spec [OF up] obtain m e where get: "EtcdGet (client l) KvmOprLabelToIdentities (sv_store s) = (Ret (Inr m), e)"
      "up e" "kvs e = kvs (sv_store s)" "gomap_ok m"
      "map_of m = (\<lambda>k. if prefix KvmOprLabelToIdentities k then kvs (sv_store s) k else None)" by blast
  have "(k, v) \<in> set (it2 m) \<longleftrightarrow> prefix KvmOprLabelToIdentities k \<and> kvs (sv_store s) k = Some v" for k v
    using get(4,5) permuting_set [OF assms(3), of m] by (auto simp flip: map_of_eq_Some_iff split: if_splits)
  with assms(4) have mem: "label \<in> set (strings_of (collect_labels (it2 m) (EtcdEWLabels s)))"
    by (force simp: strings_of_collect)
  let ?s = "s\<lparr>sv_store := e, EtcdEWLabels := collect_labels (it2 m) (EtcdEWLabels s)\<rparr>"
  have "\<exists>t. for_each (strings_of (EtcdEWLabels ?s)) fetch_identities ?s =
      (Stop (Panic ''invalid memory address or nil pointer dereference''), t)"
    by (rule fetch_list_panics [where label = label]) (use l get(2,3) assms(2,5) mem in \<open>simp_all add: sv_connected_def\<close>)
  with l get(1) show ?thesis
    by (auto simp: UpdateHostSecurityPolicies_def GetAllEtcdEWLabels_def Clone_eq sv_etcd_def on_part_def Let_def prog_simps)
qed

lemma stale_label_panics:
  assumes "sv_connected api up s" and "permuting it2" and "EtcdEWLabels s = Some (label # labels)"
    and "\<And>x. kvs (sv_store s) (KvmOprLabelToIdentities @ x) = None"
  shows "fst (UpdateHostSecurityPolicies it1 it2 event s) =
    Stop (Panic ''invalid memory address or nil pointer dereference'')"
  by (rule missing_label_panics [where label = label, OF assms(1) _ assms(2)])
    (use assms(3,4) in \<open>simp_all add: lists_decodable_def strings_of_def\<close>)

end

end
