(* ===== verification/Interleaving.thy ===== *)
theory Interleaving
  imports Etcd_Threads System
begin

text \<open>
  The handlers of \<open>src/service/server/kvmserver.go\<close> and \<open>clihandler.go\<close> and the labelling step of
  \<open>src/operator/core/crdHandler.go\<close> as threads that give way to each other between two calls of
  etcd. For each of them it is shown that the thread, run alone, is the program of the sequential
  theories; the other properties are about arbitrary interleavings.
\<close>


section \<open>The handlers as threads\<close>

definition rewrite_list_thread :: "uint16 \<Rightarrow> string \<Rightarrow> kv_pair \<Rightarrow> unit thread" where
  "rewrite_list_thread identity label ev =
     (case UnmarshalU16s (snd ev) of
        Inl err \<Rightarrow> Finish (Stop (Fatal err))
      | Inr None \<Rightarrow> PutCall (KvmOprLabelToIdentities @ label) (MarshalU16s None) fatal_thread
      | Inr (Some arr) \<Rightarrow>
          (case drop_identity identity arr of
             Stop c \<Rightarrow> Finish (Stop c)
           | Ret (arr', n) \<Rightarrow>
               PutCall (KvmOprLabelToIdentities @ label) (MarshalU16s (Some (take n arr'))) fatal_thread))"

definition UpdateETCDLabelToIdentitiesMaps_thread :: "uint16 \<Rightarrow> unit thread" where
  "UpdateETCDLabelToIdentitiesMaps_thread identity =
     DeleteCall (KvmSvcIdentitiToPodIps @ u16_str identity) (\<lambda>err.
       case err of
         Some e \<Rightarrow> done_with ()
       | None \<Rightarrow>
           GetCall (KvmOprIdentityToLabel @ u16_str identity) (\<lambda>r.
             case r of
               Inl e \<Rightarrow> Finish (Stop (Fatal e))
             | Inr labelKV \<Rightarrow>
                 (let label = gm_read [] labelKV (KvmOprIdentityToLabel @ u16_str identity) in
                  GetRawCall (KvmOprLabelToIdentities @ label) (\<lambda>g.
                    case g of
                      Inl e \<Rightarrow> Finish (Stop (Fatal e))
                    | Inr None \<Rightarrow> Finish (Stop (Panic ''invalid memory address or nil pointer dereference''))
                    | Inr (Some kv) \<Rightarrow> each_thread kv (rewrite_list_thread identity label)))))"

definition IsIdentityServing_thread :: "iteration \<Rightarrow> string \<Rightarrow> int thread" where
  "IsIdentityServing_thread it identity =
     GetCall (KvmSvcIdentitiToPodIps @ identity) (\<lambda>r.
       case r of
         Inl err \<Rightarrow> Finish (Stop (Fatal err))
       | Inr kvPair \<Rightarrow>
           if 0 < length kvPair then done_with 0
           else
             GetCall KvmOprIdentityToLabel (\<lambda>r2.
               case r2 of
                 Inl err \<Rightarrow> Finish (Stop (Fatal err))
               | Inr etcdLabels \<Rightarrow> done_with (serving_loop identity (it etcdLabels))))"

definition RegisterAgentIdentity_thread ::
  "string \<Rightarrow> iteration \<Rightarrow> string \<Rightarrow> (int \<times> go_error option) thread" where
  "RegisterAgentIdentity_thread podIp it identity =
     bind_thread (IsIdentityServing_thread it identity) (\<lambda>serving.
       if serving = 0 then done_with (-1, None)
       else
         PutTTLCall (KvmSvcIdentitiToPodIps @ identity) podIp (\<lambda>err.
           case err of Some e \<Rightarrow> done_with (-1, Some e) | None \<Rightarrow> done_with (0, None)))"

text \<open>The request of the command line tool reads etcd once; \<open>p\<close> are the variables of the generator.\<close>

definition HandleCliRequest_thread :: "genscript \<Rightarrow> string \<Rightarrow> (ResponseStatus \<times> genscript) thread" where
  "HandleCliRequest_thread p KvmName =
     GetCall (KvmOprEWNameToIdentity @ KvmName) (\<lambda>r.
       case r of
         Inl err \<Rightarrow> Finish (Stop (Fatal err))
       | Inr kvPair \<Rightarrow>
           (let identity = gm_read [] kvPair (KvmOprEWNameToIdentity @ KvmName) in
            if length identity = 0 then
              done_with (\<lparr>rs_ScriptData = [], rs_StatusMsg = ''Error: KVM Name is not present in DB'', rs_Status = -1\<rparr>, p)
            else
              (case GenerateEWInstallationScript KvmName identity p of (scriptData, p') \<Rightarrow>
                 done_with (\<lparr>rs_ScriptData = scriptData, rs_StatusMsg = ''Success'', rs_Status = 0\<rparr>, p'))))"

text \<open>
  The operator's labelling step. The maps in memory belong to the operator alone; \<open>ids\<close> is its
  map of labels to identities when the step begins.
\<close>

definition UpdateIdentityLabelsMap_thread ::
  "(string, uint16 list) gomap \<Rightarrow> uint16 \<Rightarrow> string \<Rightarrow> unit thread" where
  "UpdateIdentityLabelsMap_thread ids identity label =
     PutCall (KvmOprIdentityToLabel @ u16_str identity) label (\<lambda>err.
       bind_thread (fatal_thread err) (\<lambda>_.
         if \<not> snd (Find (gm_read [] ids label) identity) then
           PutCall (KvmOprLabelToIdentities @ label)
             (MarshalU16s (Some (gm_read [] ids label @ [identity]))) fatal_thread
         else done_with ()))"

lemmas thread_defs = rewrite_list_thread_def UpdateETCDLabelToIdentitiesMaps_thread_def
  IsIdentityServing_thread_def RegisterAgentIdentity_thread_def HandleCliRequest_thread_def
  UpdateIdentityLabelsMap_thread_def


section \<open>A thread that runs alone is the handler\<close>

lemma exec_nil_deref: "exec cli (Finish (Stop (Panic ''invalid memory address or nil pointer dereference''))) = nil_deref"
  by (simp add: nil_deref_def)

lemma exec_rewrite_list: "exec cli (rewrite_list_thread identity label ev) = rewrite_list cli identity label ev"
  by (simp add: rewrite_list_thread_def rewrite_list_def split: sum.splits option.splits outcome.splits)

lemma exec_disconnect:
  "exec cli (UpdateETCDLabelToIdentitiesMaps_thread identity) = UpdateETCDLabelToIdentitiesMaps cli identity"
  unfolding UpdateETCDLabelToIdentitiesMaps_thread_def UpdateETCDLabelToIdentitiesMaps_def
  by (auto simp: fun_eq_iff andThen_def Let_def exec_rewrite_list nil_deref_def
      split: prod.splits outcome.splits option.splits sum.splits)

lemma exec_serving: "exec cli (IsIdentityServing_thread it identity) = IsIdentityServing cli it identity"
  unfolding IsIdentityServing_thread_def IsIdentityServing_def
  by (auto simp: fun_eq_iff andThen_def split: prod.splits outcome.splits sum.splits)

lemma exec_register:
  "exec cli (RegisterAgentIdentity_thread podIp it identity) = RegisterAgentIdentity cli podIp it identity"
  unfolding RegisterAgentIdentity_thread_def RegisterAgentIdentity_def exec_bind exec_serving
  by (rule arg_cong [of _ _ "andThen (IsIdentityServing cli it identity)"])
    (auto simp: fun_eq_iff andThen_def split: prod.splits outcome.splits option.splits)

lemma exec_update_labels:
  "op_store (snd (UpdateIdentityLabelsMap identity label s)) =
     snd (exec (op_EtcdClient s) (UpdateIdentityLabelsMap_thread (MapLabelToIdentities s) identity label) (op_store s)) \<and>
   fst (UpdateIdentityLabelsMap identity label s) =
     fst (exec (op_EtcdClient s) (UpdateIdentityLabelsMap_thread (MapLabelToIdentities s) identity label) (op_store s))"
  unfolding UpdateIdentityLabelsMap_thread_def UpdateIdentityLabelsMap_def
  by (auto simp: andThen_def must_put_def op_etcd_def append_identity_def fatal_on_def update_conv' prog_simps
      split: prod.splits outcome.splits option.splits)


section \<open>Requests to the service\<close>

datatype service_request =
    Register string iteration string
  | Disconnect uint16
  | CliRequest genscript string

datatype service_reply = Registered int "go_error option" | Disconnected | Script ResponseStatus

primrec service_thread :: "service_request \<Rightarrow> service_reply thread" where
  "service_thread (Register podIp it identity) =
     bind_thread (RegisterAgentIdentity_thread podIp it identity) (\<lambda>(status, err). done_with (Registered status err))"
| "service_thread (Disconnect identity) =
     bind_thread (UpdateETCDLabelToIdentitiesMaps_thread identity) (\<lambda>_. done_with Disconnected)"
| "service_thread (CliRequest p name) =
     bind_thread (HandleCliRequest_thread p name) (\<lambda>(r, p'). done_with (Script r))"

text \<open>The keys the service may write: its own, and the lists of identities\<close>

definition service_key :: "string \<Rightarrow> bool" where
  "service_key k \<longleftrightarrow> prefix KvmSvcIdentitiToPodIps k \<or> prefix KvmOprLabelToIdentities k"

lemma service_key_simps [simp]:
  "service_key (KvmSvcIdentitiToPodIps @ x)" "service_key (KvmOprLabelToIdentities @ x)"
  "\<not> service_key (KvmOprEWNameToIdentity @ x)" "\<not> service_key (KvmOprIdentityToEWName @ x)"
  "\<not> service_key (KvmOprIdentityToLabel @ x)"
  by (simp_all add: service_key_def)

lemma service_key_prefix: "prefix (KvmSvcIdentitiToPodIps @ x) k \<Longrightarrow> service_key k"
  by (auto simp: service_key_def dest: append_prefixD)

lemma writes_rewrite_list: "writes_in service_key (rewrite_list_thread identity label ev)"
  by (simp add: rewrite_list_thread_def split: sum.splits option.splits outcome.splits)

lemma writes_disconnect: "writes_in service_key (UpdateETCDLabelToIdentitiesMaps_thread identity)"
  by (auto simp: UpdateETCDLabelToIdentitiesMaps_thread_def Let_def intro: service_key_prefix writes_in_each writes_rewrite_list
      split: sum.splits option.splits)

lemma writes_register: "writes_in service_key (RegisterAgentIdentity_thread podIp it identity)"
  unfolding RegisterAgentIdentity_thread_def
  by (rule writes_in_bind) (simp_all add: IsIdentityServing_thread_def split: sum.splits option.splits)

lemma writes_service: "writes_in service_key (service_thread q)"
proof (cases q)
  case (CliRequest p name)
  then show ?thesis
    by (auto simp: HandleCliRequest_thread_def Let_def split: sum.splits prod.splits)
qed (auto intro!: writes_in_bind writes_register writes_disconnect split: prod.splits)


section \<open>Registrations, call by call\<close>

text \<open>What is left of a registration after its first and after its second read\<close>

definition register_put :: "string \<Rightarrow> string \<Rightarrow> (int \<times> go_error option) thread" where
  "register_put podIp identity =
     PutTTLCall (KvmSvcIdentitiToPodIps @ identity) podIp (\<lambda>err.
       case err of Some e \<Rightarrow> done_with (-1, Some e) | None \<Rightarrow> done_with (0, None))"

definition register_lookup :: "string \<Rightarrow> iteration \<Rightarrow> string \<Rightarrow> (int \<times> go_error option) thread" where
  "register_lookup podIp it identity =
     GetCall KvmOprIdentityToLabel (\<lambda>r2.
       case r2 of
         Inl err \<Rightarrow> Finish (Stop (Fatal err))
       | Inr etcdLabels \<Rightarrow>
           if serving_loop identity (it etcdLabels) = 0 then done_with (-1, None)
           else register_put podIp identity)"

lemma register_unfold:
  "RegisterAgentIdentity_thread podIp it identity =
     GetCall (KvmSvcIdentitiToPodIps @ identity) (\<lambda>r.
       case r of
         Inl err \<Rightarrow> Finish (Stop (Fatal err))
       | Inr kvPair \<Rightarrow> if 0 < length kvPair then done_with (-1, None) else register_lookup podIp it identity)"
  by (auto simp: RegisterAgentIdentity_thread_def IsIdentityServing_thread_def register_lookup_def register_put_def
      fun_eq_iff split: sum.splits)

lemma register_phases_distinct [simp]:
  "RegisterAgentIdentity_thread podIp it identity \<noteq> Finish r" "register_lookup podIp it identity \<noteq> Finish r"
  "register_put podIp identity \<noteq> Finish r"
  by (simp_all add: register_unfold register_lookup_def register_put_def)

text \<open>What is left of the clean-up after the delete, after the label is read, and after the list is\<close>

definition disconnect_read :: "uint16 \<Rightarrow> string \<Rightarrow> unit thread" where
  "disconnect_read i label =
     GetRawCall (KvmOprLabelToIdentities @ label) (\<lambda>g.
       case g of
         Inl e \<Rightarrow> Finish (Stop (Fatal e))
       | Inr None \<Rightarrow> Finish (Stop (Panic ''invalid memory address or nil pointer dereference''))
       | Inr (Some kv) \<Rightarrow> each_thread kv (rewrite_list_thread i label))"

definition disconnect_find :: "uint16 \<Rightarrow> unit thread" where
  "disconnect_find i =
     GetCall (KvmOprIdentityToLabel @ u16_str i) (\<lambda>r.
       case r of
         Inl e \<Rightarrow> Finish (Stop (Fatal e))
       | Inr labelKV \<Rightarrow> disconnect_read i (gm_read [] labelKV (KvmOprIdentityToLabel @ u16_str i)))"

definition disconnect_write :: "string \<Rightarrow> uint16 list \<Rightarrow> unit thread" where
  "disconnect_write label rest =
     PutCall (KvmOprLabelToIdentities @ label) (MarshalU16s (Some rest)) (\<lambda>r. bind_thread (fatal_thread r) (\<lambda>_. done_with ()))"

lemma disconnect_unfold:
  "UpdateETCDLabelToIdentitiesMaps_thread i =
     DeleteCall (KvmSvcIdentitiToPodIps @ u16_str i) (\<lambda>err.
       case err of Some e \<Rightarrow> done_with () | None \<Rightarrow> disconnect_find i)"
  unfolding UpdateETCDLabelToIdentitiesMaps_thread_def disconnect_find_def disconnect_read_def Let_def ..

lemma rewrite_once:
  assumes "i \<noteq> 0" and "i \<notin> set xs" and "i \<notin> set ys"
  shows "each_thread [(k, MarshalU16s (Some (xs @ i # ys)))] (rewrite_list_thread i label) =
    disconnect_write label (close_gap xs ys)"
  by (simp add: rewrite_list_thread_def identities_json.dec_enc drop_identity_once [OF assms] disconnect_write_def)

text \<open>No identity of a list begins with another one.\<close>

definition apart :: "string list \<Rightarrow> bool" where
  "apart ids \<longleftrightarrow> (\<forall>m < length ids. \<forall>n < length ids. m \<noteq> n \<longrightarrow> \<not> prefix (ids ! m) (ids ! n))"

context etcd_server
begin

lemma call_register:
  assumes "up e" and "\<not> identity_taken (kvs e) identity"
    and "call (client l) (RegisterAgentIdentity_thread podIp it identity) e t e'"
  shows "t = register_lookup podIp it identity \<and> up e' \<and> kvs e' = kvs e"
proof -
  obtain m e1 where get: "EtcdGet (client l) (KvmSvcIdentitiToPodIps @ identity) e = (Ret (Inr m), e1)" "up e1"
      "kvs e1 = kvs e" "map_of m = (\<lambda>k. if prefix (KvmSvcIdentitiToPodIps @ identity) k then kvs e k else None)"
    using kv.get_spec [OF assms(1)] by blast
  have "length m = 0"
    using assms(2) length_map_of_pos [of m] unfolding get(4) identity_taken_def
    by (auto simp: prefix_def split: if_splits)
  with get assms(3) show ?thesis
    unfolding register_unfold by (auto elim: call_elims)
qed

lemma call_lookup:
  assumes "up e" and "identity_known (kvs e) identity" and "permuting it"
    and "call (client l) (register_lookup podIp it identity) e t e'"
  shows "t = register_put podIp identity \<and> up e' \<and> kvs e' = kvs e"
proof -
  obtain m e1 where get: "EtcdGet (client l) KvmOprIdentityToLabel e = (Ret (Inr m), e1)" "up e1"
      "kvs e1 = kvs e" "gomap_ok m" "map_of m = (\<lambda>k. if prefix KvmOprIdentityToLabel k then kvs e k else None)"
    using kv.get_spec [OF assms(1)] by blast
  have "(k, v) \<in> set (it m) \<longleftrightarrow> prefix KvmOprIdentityToLabel k \<and> kvs e k = Some v" for k v
    using get(4,5) permuting_set [OF assms(3), of m] by (auto simp flip: map_of_eq_Some_iff split: if_splits)
  with assms(2) have "serving_loop identity (it m) = 1"
    by (auto simp: serving_loop_iff identity_known_def)
  with get assms(4) show ?thesis
    unfolding register_lookup_def by (auto elim: call_elims)
qed

lemma call_put_entry:
  assumes "up e" and "call (client l) (register_put podIp identity) e t e'"
  shows "t = done_with (0, None) \<and> up e' \<and> kvs e' = (kvs e)(KvmSvcIdentitiToPodIps @ identity \<mapsto> podIp)"
  using kv.putTTL_spec [OF assms(1), of l "KvmSvcIdentitiToPodIps @ identity" podIp] assms(2)
  unfolding register_put_def by (auto elim: call_elims)

text \<open>Single calls, with the answer of a server that is up\<close>

lemma turn_put:
  assumes "up e"
  obtains e' where "call (client l) (PutCall k v f) e (f None) e'" "up e'" "kvs e' = (kvs e)(k \<mapsto> v)"
  using kv.put_spec [OF assms, of l k v] call_put [of "client l" k v e _ _ f] by (metis resume_simps(1))

lemma turn_put_last:
  assumes "up e" and "f None = done_with ()"
  obtains e' where "call (client l) (PutCall k v f) e (done_with ()) e'" "up e'" "kvs e' = (kvs e)(k \<mapsto> v)"
  by (rule turn_put [OF assms(1), of l k v f]) (use that assms(2) in simp)

lemma turn_delete:
  assumes "up e"
  obtains e' where "call (client l) (DeleteCall p f) e (f None) e'" "up e'"
    "kvs e' = (\<lambda>k. if prefix p k then None else kvs e k)"
  using kv.del_spec [OF assms, of l p] call_delete [of "client l" p e _ _ f] by (metis resume_simps(1))

lemma turn_get:
  assumes "up e"
  obtains m e' where "call (client l) (GetCall p f) e (f (Inr m)) e'" "up e'" "kvs e' = kvs e"
    "map_of m = (\<lambda>k. if prefix p k then kvs e k else None)"
  using kv.get_spec [OF assms, of l p] call_get [of "client l" p e _ _ f] by (metis resume_simps(1))

lemma turn_getRaw_one:
  assumes "up e" and "kvs e p = Some v" and "\<And>x. x \<noteq> [] \<Longrightarrow> kvs e (p @ x) = None"
  obtains e' where "call (client l) (GetRawCall p f) e (f (Inr (Some [(p, v)]))) e'" "up e'" "kvs e' = kvs e"
proof -
  obtain g e' where g: "EtcdGetRaw (client l) p e = (Ret (Inr g), e')" "up e'" "kvs e' = kvs e"
      "case g of None \<Rightarrow> \<forall>k. prefix p k \<longrightarrow> kvs e k = None
       | Some kv \<Rightarrow> kv \<noteq> [] \<and> distinct (map fst kv) \<and> set kv = {(k, v). prefix p k \<and> kvs e k = Some v}"
    using kv.getRaw_spec [OF assms(1)] by blast
  have "g = Some [(p, v)]"
    using g(4) assms(2) only_key [of "kvs e", OF assms(2,3)]
    by (auto simp: distinct_map distinct_one split: option.splits)
  with g call_getRaw [of "client l" p e "Ret (Inr g)" e' f] that show ?thesis by simp
qed

lemma turn_disconnect:
  assumes "up e"
  obtains e' where "call (client l) (UpdateETCDLabelToIdentitiesMaps_thread i) e (disconnect_find i) e'" "up e'"
    "kvs e' = (\<lambda>k. if prefix (KvmSvcIdentitiToPodIps @ u16_str i) k then None else kvs e k)"
  using turn_delete [OF assms, of l "KvmSvcIdentitiToPodIps @ u16_str i"
      "\<lambda>err. case err of Some e \<Rightarrow> done_with () | None \<Rightarrow> disconnect_find i"] that
  unfolding disconnect_unfold by auto

lemma turn_find:
  assumes "up e" and "kvs e (KvmOprIdentityToLabel @ u16_str i) = Some label"
  obtains e' where "call (client l) (disconnect_find i) e (disconnect_read i label) e'" "up e'" "kvs e' = kvs e"
proof (rule turn_get [OF assms(1), of l "KvmOprIdentityToLabel @ u16_str i"
      "\<lambda>r. case r of Inl e \<Rightarrow> Finish (Stop (Fatal e))
         | Inr labelKV \<Rightarrow> disconnect_read i (gm_read [] labelKV (KvmOprIdentityToLabel @ u16_str i))"], goal_cases)
  case (1 m e')
  then show ?case using that assms(2) by (auto simp: disconnect_find_def gm_read_def)
qed

lemma turn_write:
  assumes "up e"
  obtains e' where "call (client l) (disconnect_write label rest) e (done_with ()) e'" "up e'"
    "kvs e' = (kvs e)(KvmOprLabelToIdentities @ label \<mapsto> MarshalU16s (Some rest))"
proof -
  let ?f = "\<lambda>r. bind_thread (fatal_thread r) (\<lambda>_. done_with ())"
  have "?f None = done_with ()" by simp
  from turn_put_last [where f = ?f, OF assms this, of l "KvmOprLabelToIdentities @ label" "MarshalU16s (Some rest)"] that
  show ?thesis unfolding disconnect_write_def by blast
qed

lemma turn_read:
  assumes "up e" and "kvs e (KvmOprLabelToIdentities @ label) = Some (MarshalU16s (Some (xs @ i # ys)))"
    and "\<And>x. x \<noteq> [] \<Longrightarrow> kvs e (KvmOprLabelToIdentities @ label @ x) = None"
    and "i \<noteq> 0" and "i \<notin> set xs" and "i \<notin> set ys"
  obtains e' where "call (client l) (disconnect_read i label) e (disconnect_write label (close_gap xs ys)) e'" "up e'" "kvs e' = kvs e"
proof (rule turn_getRaw_one [OF assms(1,2), of l "\<lambda>g. case g of Inl e \<Rightarrow> Finish (Stop (Fatal e))
       | Inr None \<Rightarrow> Finish (Stop (Panic ''invalid memory address or nil pointer dereference''))
       | Inr (Some kv) \<Rightarrow> each_thread kv (rewrite_list_thread i label)"], goal_cases)
  case (1 x)
  then show ?case using assms(3) by simp
next
  case (2 e')
  then show ?case using that by (simp add: disconnect_read_def rewrite_once [OF assms(4-6)] del: each_thread.simps)
qed

lemma turn_label:
  assumes "up e" and "j \<notin> set (gm_read [] ids label)"
  obtains e' where "call (client l) (UpdateIdentityLabelsMap_thread ids j label) e
      (PutCall (KvmOprLabelToIdentities @ label) (MarshalU16s (Some (gm_read [] ids label @ [j]))) fatal_thread) e'" "up e'"
    "kvs e' = (kvs e)(KvmOprIdentityToLabel @ u16_str j \<mapsto> label)"
proof (rule turn_put [OF assms(1), of l "KvmOprIdentityToLabel @ u16_str j" label
      "\<lambda>err. bind_thread (fatal_thread err) (\<lambda>_. if \<not> snd (Find (gm_read [] ids label) j) then
           PutCall (KvmOprLabelToIdentities @ label) (MarshalU16s (Some (gm_read [] ids label @ [j]))) fatal_thread
         else done_with ())"], goal_cases)
  case (1 e')
  then show ?case using that assms(2) by (simp add: UpdateIdentityLabelsMap_thread_def)
qed

text \<open>Each of the calls can be made, with the expected answer.\<close>

lemma turn_register:
  assumes "up e" and "\<not> identity_taken (kvs e) identity"
  obtains e' where "call (client l) (RegisterAgentIdentity_thread podIp it identity) e (register_lookup podIp it identity) e'"
    "up e'" "kvs e' = kvs e"
  using call_register [OF assms] call_enabled [of "RegisterAgentIdentity_thread podIp it identity" "client l" e]
  by (auto simp: finished_iff)

lemma turn_lookup:
  assumes "up e" and "identity_known (kvs e) identity" and "permuting it"
  obtains e' where "call (client l) (register_lookup podIp it identity) e (register_put podIp identity) e'"
    "up e'" "kvs e' = kvs e"
  using call_lookup [OF assms] call_enabled [of "register_lookup podIp it identity" "client l" e]
  by (auto simp: finished_iff)

lemma turn_put_entry:
  assumes "up e"
  obtains e' where "call (client l) (register_put podIp identity) e (done_with (0, None)) e'"
    "up e'" "kvs e' = (kvs e)(KvmSvcIdentitiToPodIps @ identity \<mapsto> podIp)"
  using call_put_entry [OF assms] call_enabled [of "register_put podIp identity" "client l" e]
  by (auto simp: finished_iff)

text \<open>A registration of the pool: lease of the client, address of the pod, iteration order, identity\<close>

definition registration :: "int \<times> string \<times> iteration \<times> string \<Rightarrow> 'e etcd_ptr \<times> (int \<times> go_error option) thread" where
  "registration q = (case q of (l, podIp, it, identity) \<Rightarrow> (client l, RegisterAgentIdentity_thread podIp it identity))"

definition underway :: "(string \<rightharpoonup> string) \<Rightarrow> int \<times> string \<times> iteration \<times> string \<Rightarrow>
    'e etcd_ptr \<times> (int \<times> go_error option) thread \<Rightarrow> bool" where
  "underway M q ct = (case q of (l, podIp, it, identity) \<Rightarrow> fst ct = client l \<and>
     (snd ct = done_with (0, None) \<and> M (KvmSvcIdentitiToPodIps @ identity) = Some podIp \<or>
      snd ct \<in> {RegisterAgentIdentity_thread podIp it identity, register_lookup podIp it identity, register_put podIp identity} \<and>
        \<not> identity_taken M identity))"

lemma underway_step:
  assumes "underway (kvs e) (l, podIp, it, identity) (cli, t)" and "up e" and "identity_known (kvs e) identity"
    and "permuting it" and "call cli t e t' e'"
  shows "up e' \<and> (kvs e' = kvs e \<or> kvs e' = (kvs e)(KvmSvcIdentitiToPodIps @ identity \<mapsto> podIp)) \<and>
    underway (kvs e') (l, podIp, it, identity) (cli, t')"
proof -
  from assms(1,5) have cli: "cli = client l" and free: "\<not> identity_taken (kvs e) identity"
    and t: "t \<in> {RegisterAgentIdentity_thread podIp it identity, register_lookup podIp it identity, register_put podIp identity}"
    by (auto simp: underway_def)
  from t consider "t = RegisterAgentIdentity_thread podIp it identity" | "t = register_lookup podIp it identity"
    | "t = register_put podIp identity" by blast
  then show ?thesis
  proof cases
    case 1
    with call_register [OF assms(2) free] assms(5) cli have "t' = register_lookup podIp it identity" "up e'" "kvs e' = kvs e"
      by blast+
    with cli free show ?thesis by (simp add: underway_def)
  next
    case 2
    with call_lookup [OF assms(2-4)] assms(5) cli have "t' = register_put podIp identity" "up e'" "kvs e' = kvs e"
      by blast+
    with cli free show ?thesis by (simp add: underway_def)
  next
    case 3
    with call_put_entry [OF assms(2)] assms(5) cli have "t' = done_with (0, None)" "up e'"
        "kvs e' = (kvs e)(KvmSvcIdentitiToPodIps @ identity \<mapsto> podIp)"
      by blast+
    with cli show ?thesis by (simp add: underway_def)
  qed
qed

text \<open>The entry of one identity does not matter to another that it does not begin with.\<close>

lemma underway_other:
  assumes "underway M (l, podIp, it, identity) ct" and "\<not> prefix identity other" and "\<not> prefix other identity"
    and "M' = M \<or> M' = M(KvmSvcIdentitiToPodIps @ other \<mapsto> ip)"
  shows "underway M' (l, podIp, it, identity) ct"
proof -
  have "M' (KvmSvcIdentitiToPodIps @ identity @ x) = M (KvmSvcIdentitiToPodIps @ identity @ x)" for x
    using assms(2,4) by auto
  then have "identity_taken M' identity = identity_taken M identity" by (simp add: identity_taken_def)
  moreover have "M' (KvmSvcIdentitiToPodIps @ identity) = M (KvmSvcIdentitiToPodIps @ identity)"
    using assms(2,4) by auto
  ultimately show ?thesis using assms(1) by (simp add: underway_def)
qed

definition admitted :: "'e \<Rightarrow> (int \<times> string \<times> iteration \<times> string) list \<Rightarrow> bool" where
  "admitted e qs \<longleftrightarrow> (\<forall>(l, podIp, it, identity) \<in> set qs. identity_known (kvs e) identity \<and> permuting it)"

lemma register_pool:
  assumes "pool_runs (map registration qs, e) (ts, e')" and "up e" and "apart (map (snd \<circ> snd \<circ> snd) qs)" and "admitted e qs"
    and "\<forall>(l, podIp, it, identity) \<in> set qs. \<not> identity_taken (kvs e) identity"
  shows "up e' \<and> admitted e' qs \<and> list_all2 (underway (kvs e')) qs ts"
  using assms(1)
proof (induction rule: rtranclp_induct2)
  case refl
  then show ?case using assms(2,4,5) by (auto simp: list_all2_conv_all_nth underway_def registration_def split: prod.splits) (metis nth_mem)
next
  case (step ts1 e1 ts2 e2)
  from step(2) obtain n cli t t' where n: "n < length ts1" "ts1 ! n = (cli, t)"
      and c: "call cli t e1 t' e2" and ts2: "ts2 = ts1[n := (cli, t')]"
    by (auto elim: pool_stepE)
  obtain l podIp it identity where q: "qs ! n = (l, podIp, it, identity)" by (metis prod_cases4)
  have len: "length ts1 = length qs" and all: "\<And>m. m < length qs \<Longrightarrow> underway (kvs e1) (qs ! m) (ts1 ! m)"
    using step.IH by (auto simp: list_all2_conv_all_nth)
  have "(l, podIp, it, identity) \<in> set qs" using q n len by (metis nth_mem)
  then have ok: "identity_known (kvs e1) identity" "permuting it" using step.IH by (auto simp: admitted_def)
  have s: "up e2" "kvs e2 = kvs e1 \<or> kvs e2 = (kvs e1)(KvmSvcIdentitiToPodIps @ identity \<mapsto> podIp)"
      "underway (kvs e2) (l, podIp, it, identity) (cli, t')"
    using underway_step [OF _ _ ok c] all [of n] n len q step.IH by auto
  have "underway (kvs e2) (qs ! m) (ts2 ! m)" if m: "m < length qs" for m
  proof (cases "m = n")
    case True
    with s(3) n q ts2 show ?thesis by simp
  next
    case False
    obtain l' ip' it' identity' where q': "qs ! m = (l', ip', it', identity')" by (metis prod_cases4)
    have "\<not> prefix identity' identity" "\<not> prefix identity identity'"
      using assms(3) m n len False q q' by (force simp: apart_def)+
    with underway_other all [OF m] q' s(2) have "underway (kvs e2) (qs ! m) (ts1 ! m)" by metis
    with False ts2 show ?thesis by simp
  qed
  moreover have "admitted e2 qs" using step.IH s(2) by (auto simp: admitted_def identity_known_entry)
  ultimately show ?case using s(1) len ts2 by (simp add: list_all2_conv_all_nth)
qed

end


section \<open>Properties\<close>


text \<open>
  Whatever requests the service is handling, and in whatever order their calls reach etcd,
  nothing the operator keeps there changes but the lists of identities.
\<close>

theorem service_keeps_operator_keys:
  assumes "etcd_server api kvs up" and "up e"
    and "pool_runs (map (\<lambda>(l, q). (Some \<lparr>etcdClient = api, leaseResponse = l\<rparr>, service_thread q)) qs, e) (ts, e')"
  shows "up e' \<and> kvs e' (KvmOprEWNameToIdentity @ x) = kvs e (KvmOprEWNameToIdentity @ x) \<and>
    kvs e' (KvmOprIdentityToEWName @ x) = kvs e (KvmOprIdentityToEWName @ x) \<and>
    kvs e' (KvmOprIdentityToLabel @ x) = kvs e (KvmOprIdentityToLabel @ x)"
proof -
  have "up e' \<and> (\<forall>k. \<not> service_key k \<longrightarrow> kvs e' k = kvs e k)"
    by (rule etcd_server.pool_frame [OF assms(1,3,2)])
      (auto simp: etcd_server.served_def [OF assms(1)] writes_service)
  then show ?thesis by simp
qed

definition demo_known :: mem_etcd where
  "demo_known =
     \<lparr>mem_data = [(KvmOprIdentityToLabel @ u16_str 5, ''env=prod''), (KvmOprIdentityToLabel @ u16_str 7, ''env=prod''),
        (KvmOprLabelToIdentities @ ''env=prod'', MarshalU16s (Some [7, 5]))],
      mem_online = True\<rparr>"

lemma demo_known_facts:
  "mem_online demo_known" "identity_known (mem_kvs demo_known) (u16_str 5)" "identity_known (mem_kvs demo_known) (u16_str 7)"
  "\<not> identity_taken (mem_kvs demo_known) identity"
  by (auto simp: identity_taken_def demo_known_def mem_kvs_def intro!: identity_known_key)

theorem service_keeps_operator_keys_witness:
  "\<exists>ts e'. pool_runs
      ([(Some \<lparr>etcdClient = mem_api, leaseResponse = 1\<rparr>, service_thread (Disconnect 5)),
        (Some \<lparr>etcdClient = mem_api, leaseResponse = 2\<rparr>, service_thread (Register ''10.0.0.3'' rev (u16_str 7)))], demo_known) (ts, e') \<and>
     mem_online e' \<and> mem_kvs e' (KvmOprIdentityToLabel @ u16_str 5) = Some ''env=prod''"
proof -
  let ?qs = "[(1, Disconnect 5), (2, Register ''10.0.0.3'' rev (u16_str 7))]"
  let ?p = "map (\<lambda>(l, q). (Some \<lparr>etcdClient = mem_api, leaseResponse = l\<rparr>, service_thread q)) ?qs"
  obtain ts e' where run: "pool_runs (?p, demo_known) (ts, e')" "\<forall>(cli, t) \<in> set ts. finished t"
    using pool_can_finish [of "(?p, demo_known)"] by auto
  have "mem_kvs demo_known (KvmOprIdentityToLabel @ u16_str 5) = Some ''env=prod''"
    by (simp add: demo_known_def mem_kvs_def)
  with service_keeps_operator_keys [OF mem.etcd_server_axioms demo_known_facts(1) run(1), of "u16_str 5"] run
  show ?thesis by (intro exI [of _ ts] exI [of _ e']) simp
qed


text \<open>
  C9. Registrations that run at the same time do not disturb each other: if the operator knows all
  the identities, none is taken, and none begins with another one, then each of them is accepted,
  in every interleaving, and its entry names its pod.
\<close>

theorem concurrent_registrations:
  assumes "etcd_server api kvs up" and "up e" and "apart (map (snd \<circ> snd \<circ> snd) qs)"
    and "\<forall>(l, podIp, it, identity) \<in> set qs.
      identity_known (kvs e) identity \<and> \<not> identity_taken (kvs e) identity \<and> permuting it"
    and "pool_runs (map (\<lambda>(l, podIp, it, identity).
      (Some \<lparr>etcdClient = api, leaseResponse = l\<rparr>, RegisterAgentIdentity_thread podIp it identity)) qs, e) (ts, e')"
    and "\<forall>(cli, t) \<in> set ts. finished t"
  shows "map snd ts = replicate (length qs) (done_with (0, None)) \<and>
    (\<forall>(l, podIp, it, identity) \<in> set qs. kvs e' (KvmSvcIdentitiToPodIps @ identity) = Some podIp)"
proof -
  have reg: "etcd_server.registration api =
      (\<lambda>(l, podIp, it, identity). (Some \<lparr>etcdClient = api, leaseResponse = l\<rparr>, RegisterAgentIdentity_thread podIp it identity))"
    by (auto simp: fun_eq_iff etcd_server.registration_def [OF assms(1)])
  have "etcd_server.admitted kvs e qs" "\<forall>(l, podIp, it, identity) \<in> set qs. \<not> identity_taken (kvs e) identity"
    using assms(4) by (auto simp: etcd_server.admitted_def [OF assms(1)])
  then have "list_all2 (etcd_server.underway api (kvs e')) qs ts"
    using etcd_server.register_pool [OF assms(1) assms(5) [folded reg] assms(2,3)] by blast
  have each: "snd (ts ! n) = done_with (0, None) \<and> kvs e' (KvmSvcIdentitiToPodIps @ snd (snd (snd (qs ! n)))) = Some (fst (snd (qs ! n)))"
    if "n < length qs" for n
  proof -
    have "etcd_server.underway api (kvs e') (qs ! n) (ts ! n)" and "ts ! n \<in> set ts"
      using \<open>list_all2 _ qs ts\<close> that by (auto simp: list_all2_conv_all_nth)
    moreover from this(2) have "finished (snd (ts ! n))" using assms(6) by (metis case_prod_unfold)
    ultimately show ?thesis
      by (cases "qs ! n") (auto simp: etcd_server.underway_def [OF assms(1)] finished_iff)
  qed
  have "length ts = length qs" using \<open>list_all2 _ qs ts\<close> by (simp add: list_all2_lengthD)
  then show ?thesis
    using each by (fastforce simp: list_eq_iff_nth_eq in_set_conv_nth)
qed

theorem concurrent_registrations_witness:
  "\<exists>ts e'. pool_runs ([(Some \<lparr>etcdClient = mem_api, leaseResponse = 1\<rparr>, RegisterAgentIdentity_thread ''10.0.0.2'' rev (u16_str 5)),
        (Some \<lparr>etcdClient = mem_api, leaseResponse = 2\<rparr>, RegisterAgentIdentity_thread ''10.0.0.3'' rev (u16_str 7))], demo_known) (ts, e') \<and>
     map snd ts = [done_with (0, None), done_with (0, None)] \<and>
     mem_kvs e' (KvmSvcIdentitiToPodIps @ u16_str 7) = Some ''10.0.0.3''"
proof -
  let ?qs = "[(1 :: int, ''10.0.0.2'', rev :: iteration, u16_str 5), (2, ''10.0.0.3'', rev, u16_str 7)]"
  let ?p = "map (\<lambda>(l, podIp, it, identity). (Some \<lparr>etcdClient = mem_api, leaseResponse = l\<rparr>,
    RegisterAgentIdentity_thread podIp it identity)) ?qs"
  obtain ts e' where run: "pool_runs (?p, demo_known) (ts, e')" "\<forall>(cli, t) \<in> set ts. finished t"
    using pool_can_finish [of "(?p, demo_known)"] by auto
  have "u16_str 7 = ''7''" "u16_str 5 = ''5''" by code_simp+
  then have "apart (map (snd \<circ> snd \<circ> snd) ?qs)"
    by (auto simp: apart_def less_Suc_eq nth_Cons')
  then have "map snd ts = replicate (length ?qs) (done_with (0, None)) \<and>
    (\<forall>(l, podIp, it, identity) \<in> set ?qs. mem_kvs e' (KvmSvcIdentitiToPodIps @ identity) = Some podIp)"
    by (rule concurrent_registrations [OF mem.etcd_server_axioms demo_known_facts(1) _ _ run])
      (use demo_known_facts in auto)
  then have "map snd ts = [done_with (0, None), done_with (0, None)]"
      "mem_kvs e' (KvmSvcIdentitiToPodIps @ u16_str 7) = Some ''10.0.0.3''" by (simp_all add: numeral_2_eq_2)
  with run(1) show ?thesis by (intro exI [of _ ts] exI [of _ e']) simp
qed

text \<open>
  C11. The check and the write of a registration are two calls, and an agent can register twice:
  when two registrations of the same identity run at the same time, both can be accepted, and the
  entry names the pod that wrote last. One after the other, the second is refused.
\<close>

theorem registered_twice:
  assumes "etcd_server api kvs up" and "up e" and "permuting it1" and "permuting it2"
    and "identity_known (kvs e) identity" and "\<not> identity_taken (kvs e) identity"
  shows "\<exists>e'. pool_runs
      ([(Some \<lparr>etcdClient = api, leaseResponse = l1\<rparr>, RegisterAgentIdentity_thread pod1 it1 identity),
        (Some \<lparr>etcdClient = api, leaseResponse = l2\<rparr>, RegisterAgentIdentity_thread pod2 it2 identity)], e)
      ([(Some \<lparr>etcdClient = api, leaseResponse = l1\<rparr>, done_with (0, None)),
        (Some \<lparr>etcdClient = api, leaseResponse = l2\<rparr>, done_with (0, None))], e') \<and>
    kvs e' (KvmSvcIdentitiToPodIps @ identity) = Some pod2"
proof -
  let ?c1 = "Some \<lparr>etcdClient = api, leaseResponse = l1\<rparr>" and ?c2 = "Some \<lparr>etcdClient = api, leaseResponse = l2\<rparr>"
  obtain e1 where 1: "call ?c1 (RegisterAgentIdentity_thread pod1 it1 identity) e (register_lookup pod1 it1 identity) e1" "up e1" "kvs e1 = kvs e"
    using etcd_server.turn_register [OF assms(1,2,6)] by metis
  obtain e2 where 2: "call ?c2 (RegisterAgentIdentity_thread pod2 it2 identity) e1 (register_lookup pod2 it2 identity) e2" "up e2" "kvs e2 = kvs e"
    using etcd_server.turn_register [OF assms(1) 1(2)] 1(3) assms(6) by metis
  obtain e3 where 3: "call ?c1 (register_lookup pod1 it1 identity) e2 (register_put pod1 identity) e3" "up e3" "kvs e3 = kvs e"
    using etcd_server.turn_lookup [OF assms(1) 2(2) _ assms(3)] 2(3) assms(5) by metis
  obtain e4 where 4: "call ?c2 (register_lookup pod2 it2 identity) e3 (register_put pod2 identity) e4" "up e4"
    using etcd_server.turn_lookup [OF assms(1) 3(2) _ assms(4)] 3(3) assms(5) by metis
  obtain e5 where 5: "call ?c1 (register_put pod1 identity) e4 (done_with (0, None)) e5" "up e5"
    using etcd_server.turn_put_entry [OF assms(1) 4(2)] by metis
  obtain e6 where 6: "call ?c2 (register_put pod2 identity) e5 (done_with (0, None)) e6"
      "kvs e6 = (kvs e5)(KvmSvcIdentitiToPodIps @ identity \<mapsto> pod2)"
    using etcd_server.turn_put_entry [OF assms(1) 5(2)] by metis
  show ?thesis
    by (intro exI [of _ e6] conjI, rule run_first [OF 1(1)], rule run_second [OF 2(1)], rule run_first [OF 3(1)],
        rule run_second [OF 4(1)], rule run_first [OF 5(1)], rule run_second [OF 6(1)], rule rtranclp.rtrancl_refl)
      (simp add: 6(2))
qed

theorem registered_twice_witness:
  "\<exists>e'. pool_runs
      ([(Some \<lparr>etcdClient = mem_api, leaseResponse = 1\<rparr>, RegisterAgentIdentity_thread ''10.0.0.2'' rev (u16_str 5)),
        (Some \<lparr>etcdClient = mem_api, leaseResponse = 2\<rparr>, RegisterAgentIdentity_thread ''10.0.0.3'' rev (u16_str 5))], demo_known)
      ([(Some \<lparr>etcdClient = mem_api, leaseResponse = 1\<rparr>, done_with (0, None)),
        (Some \<lparr>etcdClient = mem_api, leaseResponse = 2\<rparr>, done_with (0, None))], e') \<and>
    mem_kvs e' (KvmSvcIdentitiToPodIps @ u16_str 5) = Some ''10.0.0.3''"
  by (rule registered_twice [OF mem.etcd_server_axioms demo_known_facts(1) permuting_rev permuting_rev demo_known_facts(2,4)])

text \<open>
  C14. A label update of the operator can be lost. The clean-up after a connection reads the list
  of a label and writes it back without its identity; if the operator puts a new workload on the
  list between the two, the write of the clean-up takes it off again. In the end etcd has a label
  for the new workload and a list of that label without it.
\<close>

theorem label_update_lost:
  assumes "etcd_server api kvs up" and "up e"
    and "kvs e (KvmOprIdentityToLabel @ u16_str i) = Some label"
    and "kvs e (KvmOprLabelToIdentities @ label) = Some (MarshalU16s (Some (xs @ i # ys)))"
    and "\<And>x. x \<noteq> [] \<Longrightarrow> kvs e (KvmOprLabelToIdentities @ label @ x) = None"
    and "gm_read [] ids label = xs @ i # ys"
    and "i \<noteq> 0" and "i \<notin> set xs" and "i \<notin> set ys" and "j \<notin> set (xs @ i # ys)"
  shows "\<exists>e' l'. pool_runs
      ([(Some \<lparr>etcdClient = api, leaseResponse = l1\<rparr>, UpdateETCDLabelToIdentitiesMaps_thread i),
        (Some \<lparr>etcdClient = api, leaseResponse = l2\<rparr>, UpdateIdentityLabelsMap_thread ids j label)], e)
      ([(Some \<lparr>etcdClient = api, leaseResponse = l1\<rparr>, done_with ()),
        (Some \<lparr>etcdClient = api, leaseResponse = l2\<rparr>, done_with ())], e') \<and>
    kvs e' (KvmOprIdentityToLabel @ u16_str j) = Some label \<and>
    kvs e' (KvmOprLabelToIdentities @ label) = Some (MarshalU16s (Some l')) \<and> j \<notin> set l'"
proof -
  let ?c1 = "Some \<lparr>etcdClient = api, leaseResponse = l1\<rparr>" and ?c2 = "Some \<lparr>etcdClient = api, leaseResponse = l2\<rparr>"
  let ?append = "PutCall (KvmOprLabelToIdentities @ label) (MarshalU16s (Some (xs @ i # ys @ [j]))) fatal_thread"
  note srv = assms(1)
  obtain e1 where 1: "call ?c1 (UpdateETCDLabelToIdentitiesMaps_thread i) e (disconnect_find i) e1" "up e1"
      "kvs e1 = (\<lambda>k. if prefix (KvmSvcIdentitiToPodIps @ u16_str i) k then None else kvs e k)"
    by (rule etcd_server.turn_disconnect [OF srv assms(2)])
  obtain e2 where 2: "call ?c1 (disconnect_find i) e1 (disconnect_read i label) e2" "up e2" "kvs e2 = kvs e1"
    by (rule etcd_server.turn_find [OF srv 1(2)]) (use assms(3) 1(3) in auto)
  obtain e3 where 3: "call ?c1 (disconnect_read i label) e2 (disconnect_write label (close_gap xs ys)) e3" "up e3"
    by (rule etcd_server.turn_read [OF srv 2(2) _ _ assms(7-9)]) (use assms(4,5) 1(3) 2(3) in auto)
  obtain e4 where 4: "call ?c2 (UpdateIdentityLabelsMap_thread ids j label) e3 ?append e4" "up e4"
      "kvs e4 = (kvs e3)(KvmOprIdentityToLabel @ u16_str j \<mapsto> label)"
    using etcd_server.turn_label [OF srv 3(2), of j ids label l2] assms(6,10) by auto
  obtain e5 where 5: "call ?c2 ?append e4 (done_with ()) e5" "up e5"
      "kvs e5 = (kvs e4)(KvmOprLabelToIdentities @ label \<mapsto> MarshalU16s (Some (xs @ i # ys @ [j])))"
    by (rule etcd_server.turn_put_last [where f = fatal_thread, OF srv 4(2) fatal_thread_simps(1)])
  obtain e6 where 6: "call ?c1 (disconnect_write label (close_gap xs ys)) e5 (done_with ()) e6"
      "kvs e6 = (kvs e5)(KvmOprLabelToIdentities @ label \<mapsto> MarshalU16s (Some (close_gap xs ys)))"
    by (rule etcd_server.turn_write [OF srv 5(2)])
  have "pool_runs ([(?c1, UpdateETCDLabelToIdentitiesMaps_thread i), (?c2, UpdateIdentityLabelsMap_thread ids j label)], e)
      ([(?c1, done_with ()), (?c2, done_with ())], e6)"
    by (rule run_first [OF 1(1)], rule run_first [OF 2(1)], rule run_first [OF 3(1)], rule run_second [OF 4(1)],
        rule run_second [OF 5(1)], rule run_first [OF 6(1)], rule rtranclp.rtrancl_refl)
  then show ?thesis
    using assms(10) 4(3) 5(3) 6(2) by (intro exI [of _ e6] exI [of _ "close_gap xs ys"]) simp
qed

theorem label_update_lost_witness:
  "\<exists>e' l'. pool_runs
      ([(Some \<lparr>etcdClient = mem_api, leaseResponse = 1\<rparr>, UpdateETCDLabelToIdentitiesMaps_thread 5),
        (Some \<lparr>etcdClient = mem_api, leaseResponse = 2\<rparr>, UpdateIdentityLabelsMap_thread [(''env=prod'', [7, 5])] 9 ''env=prod'')], demo_known)
      ([(Some \<lparr>etcdClient = mem_api, leaseResponse = 1\<rparr>, done_with ()),
        (Some \<lparr>etcdClient = mem_api, leaseResponse = 2\<rparr>, done_with ())], e') \<and>
    mem_kvs e' (KvmOprIdentityToLabel @ u16_str 9) = Some ''env=prod'' \<and>
    mem_kvs e' (KvmOprLabelToIdentities @ ''env=prod'') = Some (MarshalU16s (Some l')) \<and> 9 \<notin> set l'"
  by (rule label_update_lost [where xs = "[7]" and ys = "[]", OF mem.etcd_server_axioms demo_known_facts(1)])
    (simp_all add: demo_known_def mem_kvs_def gm_read_def)

end
