(* ===== verification/Operator_Threads.thy ===== *)
theory Operator_Threads
  imports Memory_Threads Interleaving Operator_Theorems
begin

text \<open>
  The event handlers of the operator (\<open>src/operator/core/crdHandler.go\<close>) cut at their calls of etcd, as
  threads that carry the maps of the operator along; they are shown to implement the handlers. The
  theorem on pools of the operator and the service is at the end: the operator only writes to etcd, so
  that nothing the service does can influence it.
\<close>

interpretation opm: process_memory op_store "\<lambda>e s. s\<lparr>op_store := e\<rparr>" op_EtcdClient
  by unfold_locales simp_all

lemma must_on_server:
  "must_put k v = andThen (opm.on_server (\<lambda>c. EtcdPut c k v)) fatal_on"
  "must_delete k = andThen (opm.on_server (\<lambda>c. EtcdDelete c k)) fatal_on"
  by (simp_all add: must_put_def must_delete_def opm.on_server_def op_etcd_def fun_eq_iff andThen_def)

lemma implements_must [implements_intros]:
  "opm.implements (mt_put k v) (must_put k v)" "opm.implements (mt_delete k) (must_delete k)"
  unfolding must_on_server by (rule opm.implements_put opm.implements_delete)+


section \<open>The handlers\<close>

fun GenerateExternalWorkloadIdentity_thread :: "uint32 list \<Rightarrow> string \<Rightarrow> ('e KVMSOperator, uint16) mthread" where
  "GenerateExternalWorkloadIdentity_thread [] name = mt_local (stop_with Starved)"
| "GenerateExternalWorkloadIdentity_thread (d # draws) name =
     (let identity = ucast d in
      mt_andThen (mt_local (reads (\<lambda>s. gm_read [] (MapIdentityToEWName s) identity))) (\<lambda>owner.
        if owner = [] then
          mt_andThen (mt_local (modify (\<lambda>s. s\<lparr>MapIdentityToEWName := AList.update identity name (MapIdentityToEWName s)\<rparr>))) (\<lambda>_.
          mt_andThen (mt_local (modify (\<lambda>s. s\<lparr>MapEWNameToIdentity := AList.update name identity (MapEWNameToIdentity s)\<rparr>))) (\<lambda>_.
          mt_andThen (mt_put (KvmOprIdentityToEWName @ u16_str identity) name) (\<lambda>_.
          mt_andThen (mt_put (KvmOprEWNameToIdentity @ name) (u16_str identity)) (\<lambda>_.
            mt_local (ret identity)))))
        else GenerateExternalWorkloadIdentity_thread draws name))"

definition UpdateIdentityLabelsMap_op_thread :: "uint16 \<Rightarrow> string \<Rightarrow> ('e KVMSOperator, unit) mthread" where
  "UpdateIdentityLabelsMap_op_thread identity label =
     mt_andThen (mt_local (modify (\<lambda>s. s\<lparr>MapIdentityToLabel := AList.update identity label (MapIdentityToLabel s)\<rparr>))) (\<lambda>_.
     mt_andThen (mt_put (KvmOprIdentityToLabel @ u16_str identity) label) (\<lambda>_.
     mt_andThen (mt_local (reads (\<lambda>s. snd (Find (gm_read [] (MapLabelToIdentities s) label) identity)))) (\<lambda>found.
       if \<not> found then
         mt_andThen (mt_local (modify (append_identity label identity))) (\<lambda>_.
         mt_andThen (mt_local (reads (\<lambda>s. MarshalU16s (map_of (MapLabelToIdentities s) label)))) (\<lambda>mapStr.
           mt_put (KvmOprLabelToIdentities @ label) mapStr))
       else mt_local (ret ()))))"

definition UnMapLabelIdentity_thread :: "uint16 \<Rightarrow> string \<Rightarrow> string \<Rightarrow> ('e KVMSOperator, unit) mthread" where
  "UnMapLabelIdentity_thread identity ewName label =
     mt_andThen
      (mt_andThen (mt_local (modify (\<lambda>s. s\<lparr>MapIdentityToEWName := AList.delete identity (MapIdentityToEWName s)\<rparr>))) (\<lambda>_.
       mt_andThen (mt_local (modify (\<lambda>s. s\<lparr>MapEWNameToIdentity := AList.delete ewName (MapEWNameToIdentity s)\<rparr>))) (\<lambda>_.
       mt_andThen (mt_local (modify (\<lambda>s. s\<lparr>MapIdentityToLabel := AList.delete identity (MapIdentityToLabel s)\<rparr>))) (\<lambda>_.
       mt_andThen (mt_delete (KvmOprIdentityToEWName @ u16_str identity)) (\<lambda>_.
       mt_andThen (mt_delete (KvmOprEWNameToIdentity @ ewName)) (\<lambda>_.
         mt_delete (KvmOprIdentityToLabel @ u16_str identity)))))))
      (\<lambda>_.
       mt_andThen (mt_local (drop_from_label identity label)) (\<lambda>_.
       mt_andThen (mt_local (reads (\<lambda>s. MarshalU16s (map_of (MapLabelToIdentities s) label)))) (\<lambda>mapStr.
         mt_put (KvmOprLabelToIdentities @ label) mapStr)))"

definition HandleAdded_thread :: "choices \<Rightarrow> ExternalWorkloadSecurityPolicy \<Rightarrow> ('e KVMSOperator, unit) mthread" where
  "HandleAdded_thread ch secPolicy =
     mt_andThen (mt_local (reads ExternalWorkloadSecurityPolicies)) (\<lambda>policies.
       if \<not> ContainsElement DeepEqual_workload policies secPolicy then
         mt_andThen (mt_local (modify (\<lambda>s. s\<lparr>ExternalWorkloadSecurityPolicies :=
           ExternalWorkloadSecurityPolicies s @ [secPolicy]\<rparr>))) (\<lambda>_.
         mt_andThen (GenerateExternalWorkloadIdentity_thread (ch_draws ch) (workload_name secPolicy)) (\<lambda>identity.
           UpdateIdentityLabelsMap_op_thread identity (convertLabelsToStr (ch_iteration ch) (workload_labels secPolicy))))
       else mt_local (ret ()))"

definition HandleModified_thread :: "choices \<Rightarrow> ExternalWorkloadSecurityPolicy \<Rightarrow> ('e KVMSOperator, unit) mthread" where
  "HandleModified_thread ch secPolicy =
     mt_andThen (mt_local (reads ExternalWorkloadSecurityPolicies)) (\<lambda>policies.
       case first_index (\<lambda>policy. workload_name policy = workload_name secPolicy) policies of
         None \<Rightarrow> mt_local (ret ())
       | Some idx \<Rightarrow>
           mt_andThen (mt_local (modify (\<lambda>s. s\<lparr>ExternalWorkloadSecurityPolicies :=
             (ExternalWorkloadSecurityPolicies s)[idx := secPolicy]\<rparr>))) (\<lambda>_.
           mt_andThen (mt_local (reads (\<lambda>s. GetEWIdentityFromName s (workload_name secPolicy)))) (\<lambda>identity.
             UpdateIdentityLabelsMap_op_thread identity
               (convertLabelsToStr (ch_iteration ch) (workload_labels secPolicy)))))"

definition HandleDeleted_thread :: "choices \<Rightarrow> ExternalWorkloadSecurityPolicy \<Rightarrow> ('e KVMSOperator, unit) mthread" where
  "HandleDeleted_thread ch secPolicy =
     mt_andThen (mt_local (reads ExternalWorkloadSecurityPolicies)) (\<lambda>policies.
       case first_index (\<lambda>policy. DeepEqual_workload secPolicy policy) policies of
         None \<Rightarrow> mt_local (ret ())
       | Some idx \<Rightarrow>
           mt_andThen (mt_local (modify (\<lambda>s. s\<lparr>ExternalWorkloadSecurityPolicies :=
             take idx (ExternalWorkloadSecurityPolicies s) @
             drop (idx + 1) (ExternalWorkloadSecurityPolicies s)\<rparr>))) (\<lambda>_.
           mt_andThen (mt_local (reads (\<lambda>s. GetEWIdentityFromName s (workload_name secPolicy)))) (\<lambda>identity.
             UnMapLabelIdentity_thread identity (workload_name secPolicy)
               (convertLabelsToStr (ch_iteration ch) (workload_labels secPolicy)))))"

definition HandleEvent_thread :: "choices \<times> K8sKubeArmorExternalWorkloadPolicyEvent \<Rightarrow> ('e KVMSOperator, unit) mthread" where
  "HandleEvent_thread ce =
     (case ce of (ch, event) \<Rightarrow>
        if ws_Status (ke_Status (we_Object event)) \<noteq> [] \<and> ws_Status (ke_Status (we_Object event)) \<noteq> ''OK''
        then mt_local (ret ())
        else
          mt_andThen (mt_local op_Lock) (\<lambda>_.
          mt_andThen
            (let secPolicy = workload_of event in
             if we_Type event = ''ADDED'' then HandleAdded_thread ch secPolicy
             else if we_Type event = ''MODIFIED'' then HandleModified_thread ch secPolicy
             else if we_Type event = ''DELETED'' then HandleDeleted_thread ch secPolicy
             else mt_local (ret ())) (\<lambda>_.
          mt_andThen (mt_local op_Unlock) (\<lambda>_.
            mt_local UpdateExternalWorkloadSecurityPolicies))))"

fun events_thread :: "(choices \<times> K8sKubeArmorExternalWorkloadPolicyEvent) list \<Rightarrow> ('e KVMSOperator, unit) mthread" where
  "events_thread [] = mt_local (ret ())"
| "events_thread (ev # evs) = mt_andThen (HandleEvent_thread ev) (\<lambda>_. events_thread evs)"


section \<open>They are the handlers\<close>

lemma in_memory_drop [implements_intros]: "opm.in_memory (drop_from_label identity label)"
  by (auto simp: opm.in_memory_def drop_from_label_def split: option.splits outcome.splits)

lemma in_memory_lock [implements_intros]: "opm.in_memory op_Lock" "opm.in_memory op_Unlock"
    "opm.in_memory UpdateExternalWorkloadSecurityPolicies"
  unfolding op_Lock_def op_Unlock_def UpdateExternalWorkloadSecurityPolicies_def
  by (auto intro!: implements_intros)

lemma implements_Generate [implements_intros]:
  "opm.implements (GenerateExternalWorkloadIdentity_thread draws name) (GenerateExternalWorkloadIdentity draws name)"
  by (induction draws) (auto simp: Let_def intro!: implements_intros)

lemma implements_Update [implements_intros]:
  "opm.implements (UpdateIdentityLabelsMap_op_thread identity label) (UpdateIdentityLabelsMap identity label)"
  unfolding UpdateIdentityLabelsMap_op_thread_def UpdateIdentityLabelsMap_def
  by (intro implements_intros) (simp_all add: append_identity_def)

lemma implements_UnMap [implements_intros]:
  "opm.implements (UnMapLabelIdentity_thread identity ewName label) (UnMapLabelIdentity identity ewName label)"
  unfolding UnMapLabelIdentity_thread_def UnMapLabelIdentity_def UnMap_names_def UnMap_label_def
  by (intro implements_intros) simp_all

lemma implements_Added [implements_intros]: "opm.implements (HandleAdded_thread ch p) (HandleAdded ch p)"
  unfolding HandleAdded_thread_def HandleAdded_def
  by (intro implements_intros) simp_all

lemma implements_Modified [implements_intros]: "opm.implements (HandleModified_thread ch p) (HandleModified ch p)"
  unfolding HandleModified_thread_def HandleModified_def
  by (intro implements_intros) (auto simp: GetEWIdentityFromName_def split: option.splits intro!: implements_intros)

lemma implements_Deleted [implements_intros]: "opm.implements (HandleDeleted_thread ch p) (HandleDeleted ch p)"
  unfolding HandleDeleted_thread_def HandleDeleted_def
  by (intro implements_intros) (auto simp: GetEWIdentityFromName_def split: option.splits intro!: implements_intros)

lemma implements_Event [implements_intros]: "opm.implements (HandleEvent_thread ce) (HandleEvent ce)"
  unfolding HandleEvent_thread_def HandleEvent_def Let_def split_beta
  by (intro implements_intros)

lemma implements_events: "opm.implements (events_thread evs) (run_events HandleEvent evs)"
  by (induction evs) (auto intro!: implements_intros)


section \<open>Threads that only write\<close>

text \<open>The operator never asks etcd for anything: its threads go by the success of their writes alone.\<close>

primrec blind :: "'a thread \<Rightarrow> bool" where
  "blind (Finish r) \<longleftrightarrow> True"
| "blind (PutCall k v f) \<longleftrightarrow> (\<forall>r. blind (f r))"
| "blind (PutTTLCall k v f) \<longleftrightarrow> (\<forall>r. blind (f r))"
| "blind (GetRawCall k f) \<longleftrightarrow> False"
| "blind (GetCall k f) \<longleftrightarrow> False"
| "blind (DeleteCall k f) \<longleftrightarrow> (\<forall>r. blind (f r))"

named_theorems blind_intros \<open>threads of the operator that only write\<close>

lemma blind_bind [blind_intros]: "blind t \<Longrightarrow> (\<And>x. blind (f x)) \<Longrightarrow> blind (bind_thread t f)"
proof (induction t)
  case (Finish r)
  then show ?case by (cases r) simp_all
qed simp_all

lemma blind_andThen [blind_intros]: "(\<And>s. blind (th s)) \<Longrightarrow> (\<And>x s. blind (g x s)) \<Longrightarrow> blind (mt_andThen th g s)"
  by (auto simp: mt_andThen_def intro!: blind_bind)

lemma blind_local [blind_intros]: "blind (mt_local m s)"
  by (auto simp: mt_local_def split: prod.splits outcome.splits)

lemma blind_write [blind_intros]: "blind (mt_put k v s)" "blind (mt_delete k s)"
  by (auto simp: mt_put_def mt_delete_def fatal_thread_def split: option.splits)

lemma blind_if [blind_intros]: "blind (th s) \<Longrightarrow> blind (th' s) \<Longrightarrow> blind ((if b then th else th') s)"
  by simp

lemma blind_case_option [blind_intros]:
  "blind (th s) \<Longrightarrow> (\<And>x. blind (f x s)) \<Longrightarrow> blind ((case opt of None \<Rightarrow> th | Some x \<Rightarrow> f x) s)"
  by (cases opt) simp_all

lemma blind_Generate [blind_intros]: "blind (GenerateExternalWorkloadIdentity_thread draws name s)"
  by (induction draws arbitrary: s) (simp_all only: GenerateExternalWorkloadIdentity_thread.simps Let_def, (intro blind_intros; assumption?)+)

lemma blind_steps [blind_intros]:
  "blind (UpdateIdentityLabelsMap_op_thread identity label s)" "blind (UnMapLabelIdentity_thread identity name label s)"
  unfolding UpdateIdentityLabelsMap_op_thread_def UnMapLabelIdentity_thread_def by (intro blind_intros)+

lemma blind_handlers [blind_intros]:
  "blind (HandleAdded_thread ch p s)" "blind (HandleModified_thread ch p s)" "blind (HandleDeleted_thread ch p s)"
  unfolding HandleAdded_thread_def HandleModified_thread_def HandleDeleted_thread_def by (intro blind_intros)+

lemma blind_event [blind_intros]: "blind (HandleEvent_thread ce s)"
  unfolding HandleEvent_thread_def Let_def split_beta by (intro blind_intros)

lemma blind_events [blind_intros]: "blind (events_thread evs s)"
  by (induction evs arbitrary: s) (simp_all only: events_thread.simps, (intro blind_intros; assumption?)+)

lemma exec_call: "call cli t e t' e' \<Longrightarrow> exec cli t e = exec cli t' e'"
  by (induction rule: call.induct) (auto simp: andThen_def prog_simps split: outcome.splits)

lemma blind_call: "call cli t e t' e' \<Longrightarrow> blind t \<Longrightarrow> blind t'"
  by (induction rule: call.induct) (auto simp: resume_def split: outcome.splits)


section \<open>A thread that only writes, among others\<close>

context etcd_server
begin

definition same_outside :: "(string \<Rightarrow> bool) \<Rightarrow> 'e \<Rightarrow> 'e \<Rightarrow> bool" where
  "same_outside W e e' \<longleftrightarrow> (\<forall>k. \<not> W k \<longrightarrow> kvs e k = kvs e' k)"

text \<open>The same call on another server that is up: the same answer, and the same change.\<close>

lemma blind_call_elsewhere:
  assumes "call (etcd_client l) t e t' e'" and "blind t" and "up e" and "up ea" and "same_outside W e ea"
  shows "up e' \<and> (\<exists>ea'. call (etcd_client l) t ea t' ea' \<and> up ea' \<and> same_outside W e' ea')"
  using assms
proof (induction rule: call.induct)
  case (call_put k v e r e' f)
  then show ?case
    using kv.put_spec [of e l k v] kv.put_spec [of ea l k v] call.call_put [of "etcd_client l" k v ea]
    by (fastforce simp: same_outside_def)
next
  case (call_putTTL k v e r e' f)
  then show ?case
    using kv.putTTL_spec [of e l k v] kv.putTTL_spec [of ea l k v] call.call_putTTL [of "etcd_client l" k v ea]
    by (fastforce simp: same_outside_def)
next
  case (call_delete k e r e' f)
  then show ?case
    using kv.del_spec [of e l k] kv.del_spec [of ea l k] call.call_delete [of "etcd_client l" k ea]
    by (fastforce simp: same_outside_def)
qed simp_all

text \<open>
  The first thread of a pool only writes; the others may write keys in \<open>W\<close>. Then the first one goes
  through the states of its run alone, and so does the server outside \<open>W\<close>.
\<close>

definition alone :: "(string \<Rightarrow> bool) \<Rightarrow> ('e etcd_ptr \<times> 'a thread) \<times> 'e \<Rightarrow> ('e, 'a) pool \<Rightarrow> bool" where
  "alone W p q = (case (p, q) of (((cli, t), e), (ts, e')) \<Rightarrow>
     \<exists>t' ts' ea. ts = (cli, t') # ts' \<and> blind t' \<and> exec cli t e = exec cli t' ea \<and>
       up e' \<and> up ea \<and> same_outside W e' ea \<and> served ts \<and> (\<forall>(c, t) \<in> set ts'. writes_in W t))"

lemma alone_step:
  assumes "alone W ((cli, t), e) (ts1, e1)" and "pool_step (ts1, e1) (ts2, e2)"
  shows "alone W ((cli, t), e) (ts2, e2)"
proof -
  from assms(1) obtain t1 us ea where ts1: "ts1 = (cli, t1) # us" and b: "blind t1"
      and x: "exec cli t e = exec cli t1 ea" and u: "up e1" "up ea" and same: "same_outside W e1 ea"
      and srv: "served ts1" and w: "\<forall>(c, t) \<in> set us. writes_in W t"
    by (auto simp: alone_def)
  from assms(2) obtain n c t2 t2' where n: "n < length ts1" "ts1 ! n = (c, t2)"
      and call: "call c t2 e1 t2' e2" and ts2: "ts2 = ts1[n := (c, t2')]"
    by (auto elim: pool_stepE)
  have srv2: "served ts2" using served_update srv n ts2 by blast
  from n srv obtain l where l: "c = etcd_client l" by (fastforce simp: served_def dest: nth_mem)
  show ?thesis
  proof (cases n)
    case 0
    with n ts1 have eq: "c = cli" "t2 = t1" by simp_all
    from blind_call_elsewhere [OF call [unfolded l eq(2)] b u same] obtain ea' where
        "up e2" "call c t1 ea t2' ea'" "up ea'" "same_outside W e2 ea'" unfolding l by blast
    moreover have "blind t2'" using blind_call [OF call] b eq by simp
    ultimately show ?thesis
      using 0 ts1 ts2 eq w x srv2 exec_call [of c t1 ea t2' ea'] by (fastforce simp: alone_def)
  next
    case (Suc m)
    have mem: "(c, t2) \<in> set us" using Suc n ts1 by (auto simp: in_set_conv_nth)
    then have wt: "writes_in W t2" using w by blast
    have "up e2" "\<forall>k. \<not> W k \<longrightarrow> kvs e2 k = kvs e1 k"
      using call_frame [OF call [unfolded l] u(1) wt] by blast+
    moreover have "\<forall>(c, t) \<in> set (us[m := (c, t2')]). writes_in W t"
      using w writes_in_call [OF call wt] by (auto dest!: set_update_subset_insert [THEN subsetD])
    ultimately show ?thesis
      using Suc ts1 ts2 b x u same srv2 by (auto simp: alone_def same_outside_def)
  qed
qed

lemma alone_runs:
  "pool_runs (ts1, e1) (ts2, e2) \<Longrightarrow> alone W ((cli, t), e) (ts1, e1) \<Longrightarrow> alone W ((cli, t), e) (ts2, e2)"
  by (induction rule: rtranclp_induct2) (auto intro: alone_step)

lemma alone_start:
  assumes "up e" and "blind t" and "\<forall>(c, t) \<in> set ts. writes_in W t" and "served ((cli, t) # ts)"
  shows "alone W ((cli, t), e) ((cli, t) # ts, e)"
  using assms by (auto simp: alone_def same_outside_def)

end


text \<open>A run of a pool keeps the clients.\<close>

lemma pool_runs_clients: "pool_runs (ts, e) (ts', e') \<Longrightarrow> map fst ts' = map fst ts"
proof (induction rule: rtranclp_induct2)
  case (step ts1 e1 ts2 e2)
  then show ?case by (auto elim!: pool_stepE simp: map_update) (metis fst_conv length_map list_update_id nth_map)
qed simp


section \<open>Properties\<close>

text \<open>
  C15. The service cannot influence the operator. While the operator handles events, the service may
  handle any requests, and the calls of the two may reach etcd in any order: when the operator is
  done, its outcome and its maps are those of a run alone, and so is everything it keeps in etcd but
  the lists of identities, which the service writes, too.
\<close>

theorem operator_undisturbed:
  assumes "etcd_server api kvs up" and "up e" and "op_EtcdClient s = Some \<lparr>etcdClient = api, leaseResponse = l\<rparr>"
    and "pool_runs
      ((op_EtcdClient s, bind_thread (events_thread evs s) (\<lambda>(_, s'). done_with (Inl s'))) #
       map (\<lambda>(l, q). (Some \<lparr>etcdClient = api, leaseResponse = l\<rparr>, bind_thread (service_thread q) (\<lambda>r. done_with (Inr r)))) qs, e)
      ((cli, Finish r) # ts, e')"
  shows "case r of
      Ret x \<Rightarrow> \<exists>s' ea. x = Inl s' \<and> run_events HandleEvent evs (s\<lparr>op_store := e\<rparr>) = (Ret (), s'\<lparr>op_store := ea\<rparr>) \<and>
        (\<forall>k. \<not> service_key k \<longrightarrow> kvs e' k = kvs ea k)
    | Stop c \<Rightarrow> \<exists>t. run_events HandleEvent evs (s\<lparr>op_store := e\<rparr>) = (Stop c, t) \<and>
        (\<forall>k. \<not> service_key k \<longrightarrow> kvs e' k = kvs (op_store t) k)"
proof -
  let ?t = "bind_thread (events_thread evs s) (\<lambda>(_, s'). done_with (Inl s' :: 'a KVMSOperator + service_reply))"
  let ?others = "map (\<lambda>(l, q). (Some \<lparr>etcdClient = api, leaseResponse = l\<rparr>,
    bind_thread (service_thread q) (\<lambda>r. done_with (Inr r :: 'a KVMSOperator + service_reply)))) qs"
  have "etcd_server.alone api kvs up service_key ((op_EtcdClient s, ?t), e) ((op_EtcdClient s, ?t) # ?others, e)"
    by (rule etcd_server.alone_start [OF assms(1,2)])
      (auto simp: etcd_server.served_def [OF assms(1)] assms(3) writes_service intro!: blind_intros split: prod.splits)
  from etcd_server.alone_runs [OF assms(1,4) this]
  obtain ea where x: "exec (op_EtcdClient s) ?t e = exec (op_EtcdClient s) (Finish r) ea"
      and same: "\<forall>k. \<not> service_key k \<longrightarrow> kvs e' k = kvs ea k"
    by (auto simp: etcd_server.alone_def [OF assms(1)] etcd_server.same_outside_def [OF assms(1)])
  obtain r1 e1 where run: "exec (op_EtcdClient s) (events_thread evs s) e = (r1, e1)" by fastforce
  have spec: "case (r1, e1) of
       (Ret (y, s'), e1) \<Rightarrow> run_events HandleEvent evs (s\<lparr>op_store := e\<rparr>) = (Ret y, s'\<lparr>op_store := e1\<rparr>) \<and> op_EtcdClient s' = op_EtcdClient s
     | (Stop c, e1) \<Rightarrow> (case run_events HandleEvent evs (s\<lparr>op_store := e\<rparr>) of (r, t) \<Rightarrow> r = Stop c \<and> op_store t = e1)"
    unfolding run [symmetric] by (rule implements_events [of evs, unfolded opm.implements_def, THEN spec, THEN spec])
  show ?thesis
  proof (cases r1)
    case (Ret z)
    obtain s' where z: "z = ((), s')" by (cases z) simp
    have "r = Ret (Inl s')" "ea = e1" using x run Ret z by (simp_all add: exec.simps(1) ret_def)
    with spec same Ret z show ?thesis by auto
  next
    case (Stop c)
    have "r = Stop c" "ea = e1" using x run Stop by (simp_all add: exec.simps(1) stop_with_def)
    with spec same Stop show ?thesis by (auto split: prod.splits)
  qed
qed

theorem operator_undisturbed_witness:
  "\<exists>s' ts e'. pool_runs
      ([(demo_client, bind_thread (events_thread [demo_added] demo_start) (\<lambda>(_, s'). done_with (Inl s'))),
        (Some \<lparr>etcdClient = mem_api, leaseResponse = 2\<rparr>, bind_thread (service_thread (Disconnect 7)) (\<lambda>r. done_with (Inr r)))], demo_known)
      ((demo_client, done_with (Inl s')) # ts, e') \<and>
     map_of (MapEWNameToIdentity s') ''vm1'' = Some 5 \<and> mem_kvs e' (KvmOprEWNameToIdentity @ ''vm1'') = Some ''5''"
proof -
  let ?op = "(demo_client, bind_thread (events_thread [demo_added] demo_start) (\<lambda>(_, s'). done_with (Inl s')))"
  let ?qs = "[(2, Disconnect 7)]"
  let ?others = "map (\<lambda>(l, q). (Some \<lparr>etcdClient = mem_api, leaseResponse = l\<rparr>, bind_thread (service_thread q) (\<lambda>r. done_with (Inr r)))) ?qs"
  obtain ts0 e' where run0: "pool_runs (?op # ?others, demo_known) (ts0, e')" "\<forall>(cli, t) \<in> set ts0. finished t"
    using pool_can_finish [of "(?op # ?others, demo_known)"] by auto
  from pool_runs_clients [OF run0(1)] run0(2) obtain r ts where ts0: "ts0 = (demo_client, Finish r) # ts"
    by (cases ts0) (auto simp: finished_iff)
  have cli: "op_EtcdClient demo_start = demo_client" by (simp add: demo_start_def NewKVMSOperatorDaemon_def)
  have run1: "fst (run_events HandleEvent [demo_added] (demo_start\<lparr>op_store := demo_known\<rparr>)) = Ret ()"
    "map_of (MapEWNameToIdentity (snd (run_events HandleEvent [demo_added] (demo_start\<lparr>op_store := demo_known\<rparr>)))) ''vm1'' = Some 5"
    "mem_kvs (op_store (snd (run_events HandleEvent [demo_added] (demo_start\<lparr>op_store := demo_known\<rparr>)))) (KvmOprEWNameToIdentity @ ''vm1'') = Some ''5''"
    by code_simp+
  have "case r of
      Ret x \<Rightarrow> \<exists>s' ea. x = Inl s' \<and>
        run_events HandleEvent [demo_added] (demo_start\<lparr>op_store := demo_known\<rparr>) = (Ret (), s'\<lparr>op_store := ea\<rparr>) \<and>
        (\<forall>k. \<not> service_key k \<longrightarrow> mem_kvs e' k = mem_kvs ea k)
    | Stop c \<Rightarrow> \<exists>t. run_events HandleEvent [demo_added] (demo_start\<lparr>op_store := demo_known\<rparr>) = (Stop c, t) \<and>
        (\<forall>k. \<not> service_key k \<longrightarrow> mem_kvs e' k = mem_kvs (op_store t) k)"
    by (rule operator_undisturbed [OF mem.etcd_server_axioms demo_known_facts(1) cli [unfolded demo_client_def]
          run0(1) [unfolded ts0, folded cli]])
  then obtain s' ea where "r = Ret (Inl s')"
      "run_events HandleEvent [demo_added] (demo_start\<lparr>op_store := demo_known\<rparr>) = (Ret (), s'\<lparr>op_store := ea\<rparr>)"
      "mem_kvs e' (KvmOprEWNameToIdentity @ ''vm1'') = mem_kvs ea (KvmOprEWNameToIdentity @ ''vm1'')"
    using run1(1) by (auto split: outcome.splits)
  with run0(1) run1(2,3) show ?thesis by (intro exI [of _ s'] exI [of _ ts] exI [of _ e']) (simp add: ts0)
qed

end
