(* ===== verification/Rely_Guarantee.thy ===== *)
theory Rely_Guarantee
  imports Etcd_Threads
begin

text \<open>
  Reasoning about one thread of a pool. \<open>guarded cli R Q t e\<close> says of a thread that is about to go on at
  the server \<open>e\<close>: if the others change the server only as \<open>R\<close> allows, then each call of the thread
  changes it as \<open>R\<close> allows, too, and when the thread has finished \<open>Q\<close> holds of its result, and goes on
  to hold. A pool in which all threads are guarded keeps to \<open>R\<close> as a whole, and every thread that has
  finished has its \<open>Q\<close>.
\<close>

inductive guarded :: "'e etcd_ptr \<Rightarrow> ('e \<Rightarrow> 'e \<Rightarrow> bool) \<Rightarrow> ('a outcome \<Rightarrow> 'e \<Rightarrow> bool) \<Rightarrow> 'a thread \<Rightarrow> 'e \<Rightarrow> bool"
  for cli R Q where
  guarded_finish: "(\<And>e1. R e e1 \<Longrightarrow> Q r e1) \<Longrightarrow> guarded cli R Q (Finish r) e"
| guarded_call: "\<not> finished t \<Longrightarrow> (\<And>e1 t' e2. R e e1 \<Longrightarrow> call cli t e1 t' e2 \<Longrightarrow> R e1 e2) \<Longrightarrow>
    (\<And>e1 t' e2. R e e1 \<Longrightarrow> call cli t e1 t' e2 \<Longrightarrow> guarded cli R Q t' e2) \<Longrightarrow> guarded cli R Q t e"

inductive_cases guarded_FinishE: "guarded cli R Q (Finish r) e"

lemma guarded_result: "guarded cli R Q (Finish r) e \<Longrightarrow> reflp R \<Longrightarrow> Q r e"
  by (erule guarded_FinishE) (auto dest: reflpD)

lemma guarded_mono:
  assumes "guarded cli R Q t e" and "\<And>r e. Q r e \<Longrightarrow> Q' r e"
  shows "guarded cli R Q' t e"
  using assms(1) by (induction rule: guarded.induct) (auto intro: guarded.intros assms(2))

text \<open>What the others do does not take the guarantee away.\<close>

lemma guarded_env:
  assumes "guarded cli R Q t e" and "transp R" and "R e e'"
  shows "guarded cli R Q t e'"
  using assms(1)
proof (cases rule: guarded.cases)
  case (guarded_finish r)
  then show ?thesis using assms(2,3) by (metis guarded.guarded_finish transpD)
next
  case guarded_call
  have before: "R e e1" if "R e' e1" for e1 using transpD [OF assms(2,3) that] .
  show ?thesis
    by (rule guarded.guarded_call) (use guarded_call before in blast)+
qed

lemma guarded_step:
  assumes "guarded cli R Q t e" and "reflp R" and "call cli t e t' e'"
  shows "R e e' \<and> guarded cli R Q t' e'"
  using assms(1)
proof (cases rule: guarded.cases)
  case guarded_call
  then show ?thesis using assms(2,3) reflpD [OF assms(2), of e] by blast
qed (use assms(3) in simp)

lemma finished_bind [simp]: "finished (bind_thread t f) \<longleftrightarrow> (case t of Finish (Ret x) \<Rightarrow> finished (f x) | _ \<Rightarrow> finished t)"
  by (cases t) (auto split: outcome.splits)

lemma call_bind:
  assumes "call cli (bind_thread t f) e t' e'" and "\<not> finished t"
  shows "\<exists>t1. call cli t e t1 e' \<and> t' = bind_thread t1 f"
proof -
  have resume: "resume r (\<lambda>x. bind_thread (g x) f) = bind_thread (resume r g) f" for r g by (cases r) simp_all
  from assms show ?thesis
    by (cases t) (auto elim!: call_elims simp: resume intro: call.intros)
qed

lemma guarded_bind:
  assumes "guarded cli R P t e" and "reflp R"
    and "\<And>x e. P (Ret x) e \<Longrightarrow> guarded cli R Q (f x) e" and "\<And>c e. P (Stop c) e \<Longrightarrow> Q (Stop c) e"
  shows "guarded cli R Q (bind_thread t f) e"
  using assms(1)
proof (induction rule: guarded.induct)
  case (guarded_finish e r)
  then have "P r e" using assms(2) by (auto dest: reflpD)
  then show ?case using guarded_finish assms(3,4) by (cases r) (auto intro: guarded.intros)
next
  case (guarded_call t e)
  show ?case
  proof (rule guarded.guarded_call)
    show "\<not> finished (bind_thread t f)" using guarded_call(1) by (cases t) simp_all
    fix e1 t' e2 assume env: "R e e1" and c: "call cli (bind_thread t f) e1 t' e2"
    from call_bind [OF c guarded_call(1)] obtain t1 where t1: "call cli t e1 t1 e2" "t' = bind_thread t1 f" by blast
    show "R e1 e2" using guarded_call(2) env t1(1) by blast
    show "guarded cli R Q t' e2" using guarded_call(4) env t1 by blast
  qed
qed

text \<open>A pool of guarded threads, each with a condition on its result\<close>

definition guarded_pool :: "('e \<Rightarrow> 'e \<Rightarrow> bool) \<Rightarrow> (nat \<Rightarrow> 'a outcome \<Rightarrow> 'e \<Rightarrow> bool) \<Rightarrow> ('e, 'a) pool \<Rightarrow> bool" where
  "guarded_pool R Q p = (case p of (ts, e) \<Rightarrow>
     \<forall>n < length ts. guarded (fst (ts ! n)) R (Q n) (snd (ts ! n)) e)"

lemma guarded_pool_step:
  assumes "guarded_pool R Q (ts, e)" and "reflp R" and "transp R" and "pool_step (ts, e) (ts', e')"
  shows "R e e' \<and> guarded_pool R Q (ts', e')"
  using assms(4)
proof (cases rule: pool_step.cases)
  case (turn n cli t t')
  then have "guarded cli R (Q n) t e" using assms(1) by (auto simp: guarded_pool_def)
  with guarded_step [OF this assms(2)] turn have step: "R e e'" "guarded cli R (Q n) t' e'" by blast+
  have "guarded (fst (ts' ! m)) R (Q m) (snd (ts' ! m)) e'" if "m < length ts'" for m
    using that step turn guarded_env [OF _ assms(3) step(1)] assms(1)
    by (cases "m = n") (auto simp: guarded_pool_def)
  with step(1) show ?thesis by (simp add: guarded_pool_def)
qed

lemma guarded_pool_runs:
  assumes "pool_runs (ts, e) (ts', e')" and "guarded_pool R Q (ts, e)" and "reflp R" and "transp R"
  shows "R e e' \<and> guarded_pool R Q (ts', e')"
  using assms(1)
proof (induction rule: rtranclp_induct2)
  case refl
  then show ?case using assms(2,3) by (auto dest: reflpD)
next
  case (step ts1 e1 ts2 e2)
  with guarded_pool_step [OF _ assms(3,4)] assms(4) show ?case by (meson transpD)
qed

lemma guarded_pool_result:
  assumes "guarded_pool R Q (ts, e)" and "reflp R" and "n < length ts" and "ts ! n = (cli, Finish r)"
  shows "Q n r e"
  using assms guarded_result [of cli R "Q n" r e] by (force simp: guarded_pool_def)

end
