(* ===== verification/Policy_Watch.thy ===== *)
theory Policy_Watch
  imports Operator_Threads Rely_Guarantee
begin

text \<open>
  The handling of host policies (\<open>src/service/core/kvmsUpdate.go\<close>) as a thread beside the operator and
  the requests to the service. A policy is handled in several calls: the labels are read first, then
  the list of each label, and a list that is missing in between ends the process. The operator and
  the clean-up of the service write these lists all the time. What they promise each other is
  \<open>label_env\<close>: a label that has a list keeps one, and all lists can be read.
\<close>


section \<open>The handler as a thread\<close>

interpretation svm: process_memory sv_store "\<lambda>e s. s\<lparr>sv_store := e\<rparr>" sv_EtcdClient
  by unfold_locales simp_all

lemma sv_etcd_on_server: "sv_etcd = svm.on_server"
  by (simp add: fun_eq_iff sv_etcd_def svm.on_server_def)

definition fetch_identities_thread :: "string \<Rightarrow> ('e KVMS, unit) mthread" where
  "fetch_identities_thread label =
     mt_andThen (mt_getRaw (KvmOprLabelToIdentities @ label)) (\<lambda>data.
       case data of
         Inl err \<Rightarrow> mt_local (stop_with (Fatal err))
       | Inr None \<Rightarrow> mt_local nil_deref
       | Inr (Some kv) \<Rightarrow> mt_local (store_identities kv))"

definition GetAllEtcdEWLabels_thread :: "iteration \<Rightarrow> ('e KVMS, unit) mthread" where
  "GetAllEtcdEWLabels_thread it =
     mt_andThen (mt_get KvmOprLabelToIdentities) (\<lambda>r.
       case r of
         Inl err \<Rightarrow> mt_local (stop_with (Fatal err))
       | Inr etcdLabels \<Rightarrow>
           mt_andThen (mt_local (modify (\<lambda>s. s\<lparr>EtcdEWLabels := collect_labels (it etcdLabels) (EtcdEWLabels s)\<rparr>))) (\<lambda>_.
           mt_andThen (mt_local (reads (\<lambda>s. strings_of (EtcdEWLabels s)))) (\<lambda>labels.
             mt_each labels fetch_identities_thread)))"

definition UpdateHostSecurityPolicies_thread ::
  "iteration \<Rightarrow> iteration \<Rightarrow> K8sKubeArmorHostPolicyEvent \<Rightarrow> ('e KVMS, unit) mthread" where
  "UpdateHostSecurityPolicies_thread it1 it2 event =
     (case Clone (kh_Spec (he_Object event)) of
        Inl err \<Rightarrow> mt_local (stop_with (Fatal ''Failed to clone a spec''))
      | Inr spec \<Rightarrow>
          (let labels = selector_labels it1 spec in
           mt_andThen (GetAllEtcdEWLabels_thread it2) (\<lambda>_.
           mt_andThen (mt_local (reads EtcdEWLabels)) (\<lambda>known.
             if known = None then mt_local (ret ())
             else if MatchIdentities labels (strings_of known) then
               mt_local (for_each labels (send_to_label event))
             else mt_local (ret ())))))"

definition HandleHostEvent_thread ::
  "(iteration \<times> iteration) \<times> K8sKubeArmorHostPolicyEvent \<Rightarrow> ('e KVMS, unit) mthread" where
  "HandleHostEvent_thread ie =
     (case ie of ((it1, it2), event) \<Rightarrow>
        if st_Status (kh_Status (he_Object event)) \<noteq> [] \<and> st_Status (kh_Status (he_Object event)) \<noteq> ''OK''
        then mt_local (ret ())
        else UpdateHostSecurityPolicies_thread it1 it2 event)"

fun host_events_thread :: "((iteration \<times> iteration) \<times> K8sKubeArmorHostPolicyEvent) list \<Rightarrow> ('e KVMS, unit) mthread" where
  "host_events_thread [] = mt_local (ret ())"
| "host_events_thread (ev # evs) = mt_andThen (HandleHostEvent_thread ev) (\<lambda>_. host_events_thread evs)"


section \<open>It is the handler\<close>

lemma in_memory_store [implements_intros]: "svm.in_memory (store_identities kv)"
  unfolding store_identities_def
  by (rule svm.in_memory_each) (auto intro!: implements_intros split: prod.splits sum.splits)

lemma in_memory_nil_deref [implements_intros]: "svm.in_memory nil_deref"
  unfolding nil_deref_def by (intro implements_intros)

lemma in_memory_send [implements_intros]: "svm.in_memory (send_to_label event label)"
  unfolding send_to_label_def PassOverToKVMSAgent_def
  by (auto intro!: implements_intros svm.in_memory_each simp: GetIdentityFromLabelPool_def split: option.splits)

lemma implements_fetch [implements_intros]: "svm.implements (fetch_identities_thread label) (fetch_identities label)"
  unfolding fetch_identities_thread_def fetch_identities_def sv_etcd_on_server
  by (auto intro!: implements_intros split: sum.splits option.splits)

lemma implements_labels [implements_intros]: "svm.implements (GetAllEtcdEWLabels_thread it) (GetAllEtcdEWLabels it)"
  unfolding GetAllEtcdEWLabels_thread_def GetAllEtcdEWLabels_def sv_etcd_on_server
  by (intro implements_intros) (auto intro!: implements_intros split: sum.splits)

lemma implements_policies [implements_intros]:
  "svm.implements (UpdateHostSecurityPolicies_thread it1 it2 event) (UpdateHostSecurityPolicies it1 it2 event)"
  unfolding UpdateHostSecurityPolicies_thread_def UpdateHostSecurityPolicies_def Let_def Clone_eq sum.case
  by (intro implements_intros svm.in_memory_each) simp_all

lemma implements_host_event [implements_intros]: "svm.implements (HandleHostEvent_thread ie) (HandleHostEvent ie)"
  unfolding HandleHostEvent_thread_def HandleHostEvent_def split_beta
  by (intro implements_intros)

lemma implements_host_events: "svm.implements (host_events_thread evs) (run_events HandleHostEvent evs)"
  by (induction evs) (auto intro!: implements_intros)


section \<open>What the parts promise each other\<close>

named_theorems harmless_intros \<open>threads that keep the promise on labels\<close>

text \<open>Every list can be read, and no label has a slash.\<close>

definition labels_sane :: "(string \<rightharpoonup> string) \<Rightarrow> bool" where
  "labels_sane M \<longleftrightarrow> label_map_readable M \<and> (\<forall>i v. M (KvmOprIdentityToLabel @ i) = Some v \<longrightarrow> CHR ''/'' \<notin> set v)"

definition labels_in :: "(string \<rightharpoonup> string) \<Rightarrow> string set" where
  "labels_in M = {label. M (KvmOprLabelToIdentities @ label) \<noteq> None}"

text \<open>The writes and deletes that keep it so\<close>

definition sane_put :: "string \<Rightarrow> string \<Rightarrow> bool" where
  "sane_put k v \<longleftrightarrow>
     (\<forall>label. k = KvmOprLabelToIdentities @ label \<longrightarrow> CHR ''/'' \<notin> set label \<and> (\<exists>arr. UnmarshalU16s v = Inr arr)) \<and>
     (\<forall>i. k = KvmOprIdentityToLabel @ i \<longrightarrow> CHR ''/'' \<notin> set v)"

definition sane_delete :: "string \<Rightarrow> bool" where
  "sane_delete p \<longleftrightarrow> (\<forall>label. \<not> prefix p (KvmOprLabelToIdentities @ label))"

lemma sane_put_list [simp]: "CHR ''/'' \<notin> set label \<Longrightarrow> sane_put (KvmOprLabelToIdentities @ label) (MarshalU16s ids)"
  by (simp add: sane_put_def Unmarshal_Marshal)

lemma sane_put_others [simp]:
  "CHR ''/'' \<notin> set label \<Longrightarrow> sane_put (KvmOprIdentityToLabel @ i) label"
  "sane_put (KvmOprIdentityToEWName @ i) v" "sane_put (KvmOprEWNameToIdentity @ name) v" "sane_put (KvmSvcIdentitiToPodIps @ i) v"
  by (simp_all add: sane_put_def)

lemma sane_deletes [simp]:
  "sane_delete (KvmOprIdentityToEWName @ i)" "sane_delete (KvmOprEWNameToIdentity @ name)"
  "sane_delete (KvmOprIdentityToLabel @ i)" "sane_delete (KvmSvcIdentitiToPodIps @ i)"
  by (simp_all add: sane_delete_def)

lemma labels_sane_put: "labels_sane M \<Longrightarrow> sane_put k v \<Longrightarrow> labels_sane (M(k \<mapsto> v)) \<and> labels_in M \<subseteq> labels_in (M(k \<mapsto> v))"
  by (auto simp: labels_sane_def label_map_readable_def sane_put_def labels_in_def)

lemma labels_sane_delete:
  "labels_sane M \<Longrightarrow> sane_delete p \<Longrightarrow> labels_sane (\<lambda>k. if prefix p k then None else M k) \<and>
     labels_in M \<subseteq> labels_in (\<lambda>k. if prefix p k then None else M k)"
  by (auto simp: labels_sane_def label_map_readable_def sane_delete_def labels_in_def)

context etcd_server
begin

definition healthy :: "'e \<Rightarrow> bool" where
  "healthy e \<longleftrightarrow> up e \<and> labels_sane (kvs e)"

definition label_env :: "'e \<Rightarrow> 'e \<Rightarrow> bool" where
  "label_env e e' \<longleftrightarrow> (healthy e \<longrightarrow> healthy e' \<and> labels_in (kvs e) \<subseteq> labels_in (kvs e'))"

lemma label_env_refl: "reflp label_env"
  by (simp add: reflp_def label_env_def)

lemma label_env_trans: "transp label_env"
  by (auto simp: transp_def label_env_def)

abbreviation guarded_by_labels :: "int \<Rightarrow> ('a outcome \<Rightarrow> 'e \<Rightarrow> bool) \<Rightarrow> 'a thread \<Rightarrow> 'e \<Rightarrow> bool" where
  "guarded_by_labels l Q \<equiv> guarded (client l) label_env Q"

text \<open>One rule per call: the server may have changed before, and answers as one that is up.\<close>

lemma guarded_Finish:
  "healthy e \<Longrightarrow> (\<And>e1. healthy e1 \<Longrightarrow> labels_in (kvs e) \<subseteq> labels_in (kvs e1) \<Longrightarrow> Q r e1) \<Longrightarrow> guarded_by_labels l Q (Finish r) e"
  by (rule guarded_finish) (simp add: label_env_def)

lemma guarded_one_call:
  assumes "healthy e" and "\<not> finished t"
    and "\<And>e1 t' e2. healthy e1 \<Longrightarrow> labels_in (kvs e) \<subseteq> labels_in (kvs e1) \<Longrightarrow> call (client l) t e1 t' e2 \<Longrightarrow>
      healthy e2 \<and> labels_in (kvs e1) \<subseteq> labels_in (kvs e2) \<and> guarded_by_labels l Q t' e2"
  shows "guarded_by_labels l Q t e"
  by (rule guarded_call) (use assms in \<open>auto simp: label_env_def\<close>)

lemma guarded_Put:
  assumes "healthy e" and "sane_put k v"
    and "\<And>e1. healthy e1 \<Longrightarrow> labels_in (kvs e) \<subseteq> labels_in (kvs e1) \<Longrightarrow> guarded_by_labels l Q (f None) e1"
  shows "guarded_by_labels l Q (PutCall k v f) e"
proof (rule guarded_one_call [OF assms(1)])
  fix e1 t' e2 assume h: "healthy e1" "labels_in (kvs e) \<subseteq> labels_in (kvs e1)" and c: "call (client l) (PutCall k v f) e1 t' e2"
  from h(1) kv.put_spec [of e1 l k v] c have "t' = f None" "up e2" "kvs e2 = (kvs e1)(k \<mapsto> v)"
    by (auto simp: healthy_def elim!: call_elims)
  with h labels_sane_put [OF _ assms(2), of "kvs e1"] assms(3) [of e2]
  show "healthy e2 \<and> labels_in (kvs e1) \<subseteq> labels_in (kvs e2) \<and> guarded_by_labels l Q t' e2" by (auto simp: healthy_def)
qed simp

lemma guarded_PutTTL:
  assumes "healthy e" and "sane_put k v"
    and "\<And>e1. healthy e1 \<Longrightarrow> labels_in (kvs e) \<subseteq> labels_in (kvs e1) \<Longrightarrow> guarded_by_labels l Q (f None) e1"
  shows "guarded_by_labels l Q (PutTTLCall k v f) e"
proof (rule guarded_one_call [OF assms(1)])
  fix e1 t' e2 assume h: "healthy e1" "labels_in (kvs e) \<subseteq> labels_in (kvs e1)" and c: "call (client l) (PutTTLCall k v f) e1 t' e2"
  from h(1) kv.putTTL_spec [of e1 l k v] c have "t' = f None" "up e2" "kvs e2 = (kvs e1)(k \<mapsto> v)"
    by (auto simp: healthy_def elim!: call_elims)
  with h labels_sane_put [OF _ assms(2), of "kvs e1"] assms(3) [of e2]
  show "healthy e2 \<and> labels_in (kvs e1) \<subseteq> labels_in (kvs e2) \<and> guarded_by_labels l Q t' e2" by (auto simp: healthy_def)
qed simp

lemma guarded_Delete:
  assumes "healthy e" and "sane_delete p"
    and "\<And>e1. healthy e1 \<Longrightarrow> labels_in (kvs e) \<subseteq> labels_in (kvs e1) \<Longrightarrow> guarded_by_labels l Q (f None) e1"
  shows "guarded_by_labels l Q (DeleteCall p f) e"
proof (rule guarded_one_call [OF assms(1)])
  fix e1 t' e2 assume h: "healthy e1" "labels_in (kvs e) \<subseteq> labels_in (kvs e1)" and c: "call (client l) (DeleteCall p f) e1 t' e2"
  from h(1) kv.del_spec [of e1 l p] c
  have "t' = f None" "up e2" "kvs e2 = (\<lambda>k. if prefix p k then None else kvs e1 k)"
    by (auto simp: healthy_def elim!: call_elims)
  with h labels_sane_delete [OF _ assms(2), of "kvs e1"] assms(3) [of e2]
  show "healthy e2 \<and> labels_in (kvs e1) \<subseteq> labels_in (kvs e2) \<and> guarded_by_labels l Q t' e2" by (auto simp: healthy_def)
qed simp

lemma guarded_Get:
  assumes "healthy e"
    and "\<And>m e1. healthy e1 \<Longrightarrow> labels_in (kvs e) \<subseteq> labels_in (kvs e1) \<Longrightarrow> gomap_ok m \<Longrightarrow>
      map_of m = (\<lambda>k. if prefix p k then kvs e1 k else None) \<Longrightarrow> guarded_by_labels l Q (f (Inr m)) e1"
  shows "guarded_by_labels l Q (GetCall p f) e"
proof (rule guarded_one_call [OF assms(1)])
  fix e1 t' e2 assume h: "healthy e1" "labels_in (kvs e) \<subseteq> labels_in (kvs e1)" and c: "call (client l) (GetCall p f) e1 t' e2"
  from h(1) kv.get_spec [of e1 l p] c obtain m where g: "t' = f (Inr m)" "up e2" "kvs e2 = kvs e1" "gomap_ok m"
      "map_of m = (\<lambda>k. if prefix p k then kvs e1 k else None)"
    by (auto simp: healthy_def elim!: call_elims)
  with h assms(2) [of e2 m, unfolded g(3)] show "healthy e2 \<and> labels_in (kvs e1) \<subseteq> labels_in (kvs e2) \<and> guarded_by_labels l Q t' e2"
    by (simp add: healthy_def)
qed simp

lemma guarded_GetRaw:
  assumes "healthy e"
    and "\<And>g e1. healthy e1 \<Longrightarrow> labels_in (kvs e) \<subseteq> labels_in (kvs e1) \<Longrightarrow>
      (case g of None \<Rightarrow> \<forall>k. prefix p k \<longrightarrow> kvs e1 k = None
       | Some kv \<Rightarrow> set kv = {(k, v). prefix p k \<and> kvs e1 k = Some v}) \<Longrightarrow> guarded_by_labels l Q (f (Inr g)) e1"
  shows "guarded_by_labels l Q (GetRawCall p f) e"
proof (rule guarded_one_call [OF assms(1)])
  fix e1 t' e2 assume h: "healthy e1" "labels_in (kvs e) \<subseteq> labels_in (kvs e1)" and c: "call (client l) (GetRawCall p f) e1 t' e2"
  from h(1) kv.getRaw_spec [of e1 l p] obtain g e2' where r: "EtcdGetRaw (client l) p e1 = (Ret (Inr g), e2')" "up e2'" "kvs e2' = kvs e1"
      "case g of None \<Rightarrow> \<forall>k. prefix p k \<longrightarrow> kvs e1 k = None
       | Some kv \<Rightarrow> set kv = {(k, v). prefix p k \<and> kvs e1 k = Some v}"
    by (auto simp: healthy_def split: option.splits)
  from r(1) c have "t' = f (Inr g)" "e2 = e2'" by (auto elim!: call_elims)
  with h r assms(2) [of e2' g, unfolded r(3)]
  show "healthy e2 \<and> labels_in (kvs e1) \<subseteq> labels_in (kvs e2) \<and> guarded_by_labels l Q t' e2" by (simp add: healthy_def)
qed simp

text \<open>A thread that keeps the promise, whatever becomes of it\<close>

definition harmless :: "'a thread \<Rightarrow> bool" where
  "harmless t \<longleftrightarrow> (\<forall>l e. healthy e \<longrightarrow> guarded_by_labels l (\<lambda>_ e. healthy e) t e)"

lemma harmless_Finish [harmless_intros]: "harmless (Finish r)"
  by (auto simp: harmless_def intro!: guarded_Finish)

lemma harmless_calls [harmless_intros]:
  "sane_put k v \<Longrightarrow> harmless (f None) \<Longrightarrow> harmless (PutCall k v f)"
  "sane_put k v \<Longrightarrow> harmless (f None) \<Longrightarrow> harmless (PutTTLCall k v f)"
  "sane_delete p \<Longrightarrow> harmless (f None) \<Longrightarrow> harmless (DeleteCall p f)"
  "(\<And>m. harmless (g (Inr m))) \<Longrightarrow> harmless (GetCall p g)"
  "(\<And>m. harmless (h (Inr m))) \<Longrightarrow> harmless (GetRawCall p h)"
  by (auto simp: harmless_def intro: guarded_Put guarded_PutTTL guarded_Delete guarded_Get guarded_GetRaw)

lemma harmless_bind [harmless_intros]:
  assumes "harmless t" and "\<And>x. harmless (f x)"
  shows "harmless (bind_thread t f)"
  unfolding harmless_def
proof (intro allI impI)
  fix l e assume "healthy e"
  with assms(1) have "guarded_by_labels l (\<lambda>_ e. healthy e) t e" by (simp add: harmless_def)
  then show "guarded_by_labels l (\<lambda>_ e. healthy e) (bind_thread t f) e"
    by (rule guarded_bind [OF _ label_env_refl]) (use assms(2) in \<open>simp_all add: harmless_def\<close>)
qed

lemma harmless_each [harmless_intros]: "(\<And>x. harmless (f x)) \<Longrightarrow> harmless (each_thread xs f)"
  by (induction xs) (auto intro: harmless_intros)

text \<open>The requests to the service\<close>

lemma harmless_rewrite: "CHR ''/'' \<notin> set label \<Longrightarrow> harmless (rewrite_list_thread i label ev)"
  by (auto simp: rewrite_list_thread_def fatal_thread_def intro!: harmless_intros split: sum.splits option.splits outcome.splits)

lemma harmless_disconnect_read: "CHR ''/'' \<notin> set label \<Longrightarrow> harmless (disconnect_read i label)"
  unfolding disconnect_read_def
  by (auto intro!: harmless_intros harmless_rewrite split: option.splits)

text \<open>The clean-up finds the label in etcd.\<close>

lemma harmless_disconnect_find: "harmless (disconnect_find i)"
  unfolding disconnect_find_def harmless_def
proof (intro allI impI guarded_Get)
  fix l e m e1
  assume h: "healthy e1" and m: "map_of m = (\<lambda>k. if prefix (KvmOprIdentityToLabel @ u16_str i) k then kvs e1 k else None)"
  have "CHR ''/'' \<notin> set (gm_read [] m (KvmOprIdentityToLabel @ u16_str i))"
    using h m by (auto simp: gm_read_def healthy_def labels_sane_def split: option.splits)
  from harmless_disconnect_read [OF this, of i] h
  show "guarded_by_labels l (\<lambda>_ e. healthy e) (case Inr m of Inl e \<Rightarrow> Finish (Stop (Fatal e))
       | Inr labelKV \<Rightarrow> disconnect_read i (gm_read [] labelKV (KvmOprIdentityToLabel @ u16_str i))) e1"
    by (simp add: harmless_def)
qed

lemma harmless_service: "harmless (service_thread q)"
proof (cases q)
  case (Register podIp it identity)
  then show ?thesis
    by (auto simp: RegisterAgentIdentity_thread_def IsIdentityServing_thread_def intro!: harmless_intros split: prod.splits)
next
  case (Disconnect i)
  then show ?thesis by (auto simp: disconnect_unfold intro!: harmless_intros harmless_disconnect_find)
next
  case (CliRequest p name)
  then show ?thesis by (auto simp: HandleCliRequest_thread_def Let_def intro!: harmless_intros split: prod.splits)
qed

text \<open>The operator, as long as no label has a slash\<close>

lemma harmless_andThen [harmless_intros]:
  "(\<And>s. harmless (th s)) \<Longrightarrow> (\<And>x s. harmless (g x s)) \<Longrightarrow> harmless (mt_andThen th g s)"
  by (auto simp: mt_andThen_def intro!: harmless_intros split: prod.splits)

lemma harmless_local [harmless_intros]: "harmless (mt_local m s)"
  by (auto simp: mt_local_def intro: harmless_intros split: prod.splits outcome.splits)

lemma harmless_writes [harmless_intros]:
  "sane_put k v \<Longrightarrow> harmless (mt_put k v s)" "sane_delete p \<Longrightarrow> harmless (mt_delete p s)"
  by (auto simp: mt_put_def mt_delete_def intro!: harmless_intros)

lemma harmless_read: "harmless (g (f s) s) \<Longrightarrow> harmless (mt_andThen (mt_local (reads f)) g s)"
  by (simp add: mt_andThen_def mt_local_def reads_def)

lemma harmless_if [harmless_intros]: "harmless (th s) \<Longrightarrow> harmless (th' s) \<Longrightarrow> harmless ((if b then th else th') s)"
  by simp

lemma harmless_option [harmless_intros]:
  "harmless (th s) \<Longrightarrow> (\<And>x. harmless (f x s)) \<Longrightarrow> harmless ((case opt of None \<Rightarrow> th | Some x \<Rightarrow> f x) s)"
  by (cases opt) simp_all

lemma harmless_Generate [harmless_intros]: "harmless (GenerateExternalWorkloadIdentity_thread draws name s)"
proof (induction draws arbitrary: s)
  case (Cons d draws)
  then show ?case
    unfolding GenerateExternalWorkloadIdentity_thread.simps Let_def by (intro harmless_intros) simp_all
qed (simp add: harmless_local)

lemma harmless_put_list:
  "CHR ''/'' \<notin> set label \<Longrightarrow> harmless (mt_andThen (mt_local (reads (\<lambda>s. MarshalU16s (map_of (MapLabelToIdentities s) label))))
     (\<lambda>mapStr. mt_put (KvmOprLabelToIdentities @ label) mapStr) s)"
  by (intro harmless_read harmless_writes) simp

lemma harmless_Update: "CHR ''/'' \<notin> set label \<Longrightarrow> harmless (UpdateIdentityLabelsMap_op_thread identity label s)"
  unfolding UpdateIdentityLabelsMap_op_thread_def
  by (rule harmless_andThen harmless_local harmless_if harmless_put_list harmless_writes | simp)+

lemma harmless_UnMap: "CHR ''/'' \<notin> set label \<Longrightarrow> harmless (UnMapLabelIdentity_thread identity name label s)"
  unfolding UnMapLabelIdentity_thread_def
  by (rule harmless_put_list harmless_andThen harmless_local harmless_writes | simp)+

lemma harmless_event:
  assumes "CHR ''/'' \<notin> set (event_label ch ev)"
  shows "harmless (HandleEvent_thread (ch, ev) s)"
proof -
  have label: "convertLabelsToStr (ch_iteration ch) (workload_labels (workload_of ev)) = event_label ch ev"
    by (simp add: event_label_def workload_of_def)
  show ?thesis
    unfolding HandleEvent_thread_def HandleAdded_thread_def HandleModified_thread_def HandleDeleted_thread_def split Let_def label
    by (intro harmless_intros harmless_Update harmless_UnMap assms)
qed

lemma harmless_events: "\<forall>(ch, ev) \<in> set evs. CHR ''/'' \<notin> set (event_label ch ev) \<Longrightarrow> harmless (events_thread evs s)"
  by (induction evs arbitrary: s) (auto intro!: harmless_local harmless_andThen harmless_event)

end


section \<open>Handling policies among the others\<close>

lemma send_returns: "\<exists>new. for_each labels (send_to_label event) s = (Ret (), s\<lparr>sv_sent := sv_sent s @ map (addressed event) new\<rparr>)"
proof (induction labels arbitrary: s)
  case Nil
  show ?case by (rule exI [of _ "[]"]) (simp add: ret_def)
next
  case (Cons label labels)
  have "\<exists>ids. send_to_label event label s = (Ret (), s\<lparr>sv_sent := sv_sent s @ map (addressed event) ids\<rparr>)"
    by (auto simp: send_to_label_def PassOver_eq prog_simps split: option.splits intro: exI [of _ "[]"])
  then obtain ids where "send_to_label event label s = (Ret (), s\<lparr>sv_sent := sv_sent s @ map (addressed event) ids\<rparr>)" by blast
  moreover obtain new where "for_each labels (send_to_label event) (s\<lparr>sv_sent := sv_sent s @ map (addressed event) ids\<rparr>) =
      (Ret (), s\<lparr>sv_sent := sv_sent s @ map (addressed event) ids @ map (addressed event) new\<rparr>)"
    using Cons [of "s\<lparr>sv_sent := sv_sent s @ map (addressed event) ids\<rparr>"] by auto
  ultimately show ?case by (intro exI [of _ "ids @ new"]) simp
qed

text \<open>All these are policies from a set, each addressed to some identity.\<close>

definition only_policies :: "K8sKubeArmorHostPolicyEvent set \<Rightarrow> K8sKubeArmorHostPolicyEventWithIdentity list \<Rightarrow> bool" where
  "only_policies E new \<longleftrightarrow> (\<forall>p \<in> set new. \<exists>event \<in> E. \<exists>i. p = addressed event i)"

lemma only_policies_Nil [simp]: "only_policies E []"
  by (simp add: only_policies_def)

lemma only_policies_Cons: "only_policies E new \<Longrightarrow> only_policies (insert event E) (map (addressed event) ids @ new)"
  by (fastforce simp: only_policies_def)

text \<open>The labels the watcher remembers have lists.\<close>

definition remembers :: "(string \<rightharpoonup> string) \<Rightarrow> 'e KVMS \<Rightarrow> bool" where
  "remembers M s \<longleftrightarrow> EtcdEWLabels s \<noteq> None \<and> set (strings_of (EtcdEWLabels s)) \<subseteq> labels_in M"

context etcd_server
begin

lemma guarded_fetch:
  assumes "healthy e" and "label \<in> labels_in (kvs e)"
  shows "guarded_by_labels l (\<lambda>r e1. \<exists>m. r = Ret ((), s\<lparr>sv_MapLabelToIdentities := m\<rparr>) \<and> healthy e1 \<and>
      labels_in (kvs e) \<subseteq> labels_in (kvs e1)) (fetch_identities_thread label s) e"
  unfolding fetch_identities_thread_def mt_andThen_def mt_getRaw_def bind_thread.simps
proof (rule guarded_GetRaw [OF assms(1)], goal_cases)
  case (1 g e1)
  have there: "kvs e1 (KvmOprLabelToIdentities @ label) \<noteq> None" using assms(2) 1(2) by (auto simp: labels_in_def)
  then obtain kv where g: "g = Some kv" "set kv = {(k, v). prefix (KvmOprLabelToIdentities @ label) k \<and> kvs e1 k = Some v}"
    using 1(3) by (cases g) auto
  then have "\<forall>(k, v) \<in> set kv. \<exists>arr. UnmarshalU16s v = Inr arr"
    using 1(1) by (auto simp: healthy_def labels_sane_def label_map_readable_def elim!: prefixE)
  then obtain m where "store_identities kv s = (Ret (), s\<lparr>sv_MapLabelToIdentities := m\<rparr>)"
    using store_identities_returns by blast
  then show ?case
    using 1(1,2) g(1) by (auto simp: mt_local_def intro!: guarded_Finish)
qed

lemma guarded_fetch_all:
  assumes "healthy e" and "set labels \<subseteq> labels_in (kvs e)"
  shows "guarded_by_labels l (\<lambda>r e1. \<exists>m. r = Ret ((), s\<lparr>sv_MapLabelToIdentities := m\<rparr>) \<and> healthy e1 \<and>
      labels_in (kvs e) \<subseteq> labels_in (kvs e1)) (mt_each labels fetch_identities_thread s) e"
  using assms
proof (induction labels arbitrary: s e)
  case Nil
  have "s = s\<lparr>sv_MapLabelToIdentities := sv_MapLabelToIdentities s\<rparr>" by simp
  with Nil show ?case
    by (auto simp: mt_local_def ret_def intro!: guarded_Finish exI [of _ "sv_MapLabelToIdentities s"])
next
  case (Cons label labels)
  show ?case
    unfolding mt_each.simps mt_andThen_def
  proof (rule guarded_bind [OF guarded_fetch [OF Cons.prems(1)] label_env_refl], goal_cases)
    case (2 x e1)
    then obtain m where m: "x = ((), s\<lparr>sv_MapLabelToIdentities := m\<rparr>)" "healthy e1" "labels_in (kvs e) \<subseteq> labels_in (kvs e1)" by auto
    have "set labels \<subseteq> labels_in (kvs e1)" using m(3) Cons.prems(2) by auto
    from Cons.IH [OF m(2) this, of "s\<lparr>sv_MapLabelToIdentities := m\<rparr>"] show ?case
      unfolding m(1) split by (rule guarded_mono) (use m(3) in auto)
  qed (use Cons.prems in auto)
qed

lemma guarded_labels:
  assumes "healthy e" and "remembers (kvs e) s" and "permuting it"
  shows "guarded_by_labels l (\<lambda>r e1. \<exists>s'. r = Ret ((), s') \<and> healthy e1 \<and> remembers (kvs e1) s' \<and> sv_sent s' = sv_sent s)
    (GetAllEtcdEWLabels_thread it s) e"
  unfolding GetAllEtcdEWLabels_thread_def mt_andThen_def mt_get_def bind_thread.simps
proof (rule guarded_Get [OF assms(1)], goal_cases)
  case (1 m e1)
  let ?s = "s\<lparr>EtcdEWLabels := collect_labels (it m) (EtcdEWLabels s)\<rparr>"
  have in_m: "(k, v) \<in> set (it m) \<longleftrightarrow> prefix KvmOprLabelToIdentities k \<and> kvs e1 k = Some v" for k v
    using 1(3,4) permuting_set [OF assms(3), of m] by (auto simp flip: map_of_eq_Some_iff split: if_splits)
  have ok: "label_map_readable (kvs e1)" using 1(1) by (simp add: healthy_def labels_sane_def)
  have "last_field k (CHR ''/'') \<in> labels_in (kvs e1)" if "(k, v) \<in> set (it m)" for k v
  proof -
    have k: "k = KvmOprLabelToIdentities @ last_field k (CHR ''/'')" "kvs e1 k = Some v"
      using that in_m label_key_last_field(1) [OF ok] by auto
    from k(2) have "kvs e1 (KvmOprLabelToIdentities @ last_field k (CHR ''/'')) = Some v" by (subst (asm) k(1))
    then show ?thesis by (simp add: labels_in_def)
  qed
  then have labels: "set (strings_of (EtcdEWLabels ?s)) \<subseteq> labels_in (kvs e1)"
    using assms(2) 1(2) by (auto simp: strings_of_collect remembers_def)
  have "EtcdEWLabels ?s \<noteq> None" using assms(2) collect_labels_not_nil by (simp add: remembers_def)
  with guarded_fetch_all [OF 1(1) labels, of l ?s] labels show ?case
    by (auto simp: mt_local_def modify_def reads_def remembers_def elim!: guarded_mono)
qed

lemma guarded_policy:
  assumes "healthy e" and "remembers (kvs e) s" and "permuting it2"
  shows "guarded_by_labels l (\<lambda>r e1. \<exists>s' new. r = Ret ((), s') \<and> healthy e1 \<and> remembers (kvs e1) s' \<and>
      sv_sent s' = sv_sent s @ map (addressed event) new) (HandleHostEvent_thread ((it1, it2), event) s) e"
proof -
  let ?Q = "\<lambda>r e1. \<exists>s' new. r = Ret ((), s') \<and> healthy e1 \<and> remembers (kvs e1) s' \<and>
      sv_sent s' = sv_sent s @ map (addressed event) new"
  have finish: "guarded_by_labels l ?Q (done_with ((), t)) e1"
    if "healthy e1" "remembers (kvs e1) t" "sv_sent t = sv_sent s @ map (addressed event) new" for t new e1
    using that by (intro guarded_Finish) (auto simp: remembers_def)
  have "guarded_by_labels l ?Q (UpdateHostSecurityPolicies_thread it1 it2 event s) e"
    unfolding UpdateHostSecurityPolicies_thread_def Clone_eq sum.case Let_def mt_andThen_def
  proof (rule guarded_bind [OF guarded_labels [OF assms] label_env_refl], goal_cases)
    case (1 x e1)
    then obtain t where t: "x = ((), t)" "healthy e1" "remembers (kvs e1) t" "sv_sent t = sv_sent s" by auto
    let ?labels = "selector_labels it1 ((kh_Spec (he_Object event))\<lparr>hs_NodeSelector := norm_selector (hs_NodeSelector (kh_Spec (he_Object event)))\<rparr>)"
    obtain new where send: "for_each ?labels (send_to_label event) t = (Ret (), t\<lparr>sv_sent := sv_sent t @ map (addressed event) new\<rparr>)"
      using send_returns by blast
    have "remembers (kvs e1) (t\<lparr>sv_sent := sv_sent t @ map (addressed event) new\<rparr>)" using t(3) by (simp add: remembers_def)
    with t finish [of e1 t "[]"] finish [of e1 "t\<lparr>sv_sent := sv_sent t @ map (addressed event) new\<rparr>" new] send show ?case
      by (simp add: mt_local_def reads_def ret_def)
  qed auto
  with finish [OF assms(1,2), of "[]"] show ?thesis
    by (simp add: HandleHostEvent_thread_def mt_local_def ret_def)
qed

text \<open>Several policies, one after the other\<close>

lemma guarded_policies:
  assumes "healthy e" and "remembers (kvs e) s" and "\<forall>((it1, it2), event) \<in> set evs. permuting it2"
  shows "guarded_by_labels l (\<lambda>r e1. \<exists>s' new. r = Ret ((), s') \<and> healthy e1 \<and> remembers (kvs e1) s' \<and>
      sv_sent s' = sv_sent s @ new \<and> only_policies (snd ` set evs) new)
    (host_events_thread evs s) e"
  using assms
proof (induction evs arbitrary: s e)
  case Nil
  then show ?case
    by (auto simp: mt_local_def ret_def remembers_def intro!: guarded_Finish)
next
  case (Cons ev evs)
  obtain it1 it2 event where ev: "ev = ((it1, it2), event)" by (metis prod.collapse)
  have it: "permuting it2" "\<forall>((it1, it2), event) \<in> set evs. permuting it2" using Cons.prems(3) ev by auto
  show ?case
    unfolding host_events_thread.simps mt_andThen_def ev
  proof (rule guarded_bind [OF guarded_policy [OF Cons.prems(1,2) it(1)] label_env_refl], goal_cases)
    case (1 x e1)
    then obtain t new where t: "x = ((), t)" "healthy e1" "remembers (kvs e1) t" "sv_sent t = sv_sent s @ map (addressed event) new" by auto
    from Cons.IH [OF t(2,3) it(2)] show ?case
      unfolding t(1) split by (rule guarded_mono) (auto simp: t(4) intro: only_policies_Cons)
  qed auto
qed

end


section \<open>Properties\<close>



end
