(* ===== verification/Lifecycle.thy ===== *)
theory Lifecycle
  imports Daemon
begin

text \<open>
  The life of the service process around its policy channel: the last part of \<open>KVMSDaemon\<close> and
  \<open>DestroyKVMS\<close> of \<open>src/service/core/kvmService.go\<close>, and \<open>InitServer\<close> of \<open>src/service/server/server.go\<close>.

  \<open>PolicyChan\<close> is a package variable that is nil until \<open>InitServer\<close> assigns it, and \<open>InitServer\<close> runs in a
  goroutine that is started after the goroutine of the watcher, and only if the Kubernetes client
  could be initialised. A signal makes the main goroutine close the channel. In Go a send on a nil
  channel waits for ever (the channel is evaluated once, when the send begins), a send on a closed
  channel panics, also when the send has begun before, and closing a nil channel panics.
\<close>


section \<open>State\<close>

datatype channel = NilChan | OpenChan | ClosedChan

datatype watcher_phase =
    WatcherOff      \<comment> \<open>never started\<close>
  | WatcherIdle     \<comment> \<open>between two policies\<close>
  | WatcherSending  \<comment> \<open>in a send on the open channel\<close>
  | WatcherStuck    \<comment> \<open>in a send on the nil channel\<close>

datatype server_phase = ServerOff | ServerStarted | ServerMade | Serving | ServeFailed

datatype main_phase = AwaitingSignal | Destroying | MainReturned

record service_life =
  l_PolicyChan :: channel
  l_watcher :: watcher_phase
  l_server :: server_phase
  l_main :: main_phase
  l_polling :: nat   \<comment> \<open>streams that poll the channel\<close>
  l_closing :: nat   \<comment> \<open>closers of streams that are in the send of their close event\<close>
  l_crash :: "stop option"

text \<open>What \<open>KVMSDaemon\<close> has started when it begins to wait for a signal\<close>

definition life_start :: "routine list \<Rightarrow> service_life" where
  "life_start routines =
     \<lparr>l_PolicyChan = NilChan,
      l_watcher = (if HostPolicyWatcher \<in> set routines then WatcherIdle else WatcherOff),
      l_server = (if GrpcServer \<in> set routines then ServerStarted else ServerOff),
      l_main = AwaitingSignal, l_polling = 0, l_closing = 0, l_crash = None\<rparr>"


section \<open>Operations\<close>

definition send_closed :: stop where "send_closed = Panic ''send on closed channel''"
definition close_nil :: stop where "close_nil = Panic ''close of nil channel''"

text \<open>\<open>ks.PolicyChan <- eventWithIdentity\<close>, as the watcher begins it\<close>

definition begin_send :: "service_life \<Rightarrow> service_life" where
  "begin_send s =
     (case l_PolicyChan s of
        NilChan \<Rightarrow> s\<lparr>l_watcher := WatcherStuck\<rparr>
      | OpenChan \<Rightarrow> s\<lparr>l_watcher := WatcherSending\<rparr>
      | ClosedChan \<Rightarrow> s\<lparr>l_crash := Some send_closed\<rparr>)"

text \<open>\<open>PolicyChan <- closeEvent\<close>, as the closer of a stream begins it\<close>

definition begin_close_event :: "service_life \<Rightarrow> service_life" where
  "begin_close_event s =
     (case l_PolicyChan s of
        ClosedChan \<Rightarrow> s\<lparr>l_crash := Some send_closed\<rparr>
      | _ \<Rightarrow> s\<lparr>l_closing := Suc (l_closing s)\<rparr>)"

text \<open>\<open>close(ks.PolicyChan)\<close> after the signal\<close>

definition close_policies :: "service_life \<Rightarrow> service_life" where
  "close_policies s =
     (case l_PolicyChan s of
        NilChan \<Rightarrow> s\<lparr>l_crash := Some close_nil\<rparr>
      | OpenChan \<Rightarrow>
          s\<lparr>l_PolicyChan := ClosedChan, l_main := Destroying,
            l_crash := (if l_watcher s = WatcherSending \<or> 0 < l_closing s then Some send_closed else None)\<rparr>
      | ClosedChan \<Rightarrow> s\<lparr>l_crash := Some (Panic ''close of closed channel'')\<rparr>)"

text \<open>
  \<open>InitServer\<close>: the channel is made first. An error of \<open>net.Listen\<close> is only logged, and the server is
  then given no listener; no stream is ever accepted.
\<close>

definition InitServer_make :: "service_life \<Rightarrow> service_life" where
  "InitServer_make s = s\<lparr>l_PolicyChan := OpenChan, l_server := ServerMade\<rparr>"

definition InitServer_listen :: "go_error option \<Rightarrow> service_life \<Rightarrow> service_life" where
  "InitServer_listen err s = s\<lparr>l_server := (case err of None \<Rightarrow> Serving | Some e \<Rightarrow> ServeFailed)\<rparr>"

text \<open>
  \<open>DestroyKVMS\<close> pauses and waits for the wait group, to which nothing is ever added.
\<close>

definition DestroyKVMS :: "service_life \<Rightarrow> service_life" where
  "DestroyKVMS s = s\<lparr>l_main := MainReturned\<rparr>"

inductive life_step :: "service_life \<Rightarrow> service_life \<Rightarrow> bool" where
  server_make: "l_crash s = None \<Longrightarrow> l_main s \<noteq> MainReturned \<Longrightarrow> l_server s = ServerStarted \<Longrightarrow>
    life_step s (InitServer_make s)"
| server_listen: "l_crash s = None \<Longrightarrow> l_main s \<noteq> MainReturned \<Longrightarrow> l_server s = ServerMade \<Longrightarrow>
    life_step s (InitServer_listen err s)"
| stream_opens: "l_crash s = None \<Longrightarrow> l_main s \<noteq> MainReturned \<Longrightarrow> l_server s = Serving \<Longrightarrow>
    life_step s (s\<lparr>l_polling := Suc (l_polling s)\<rparr>)"
| stream_ends: "l_crash s = None \<Longrightarrow> l_main s \<noteq> MainReturned \<Longrightarrow>
    life_step s (s\<lparr>l_polling := l_polling s - 1\<rparr>)"
| policy_event: "l_crash s = None \<Longrightarrow> l_main s \<noteq> MainReturned \<Longrightarrow> l_watcher s = WatcherIdle \<Longrightarrow>
    life_step s (begin_send s)"
| policy_taken: "l_crash s = None \<Longrightarrow> l_main s \<noteq> MainReturned \<Longrightarrow> l_watcher s = WatcherSending \<Longrightarrow> 0 < l_polling s \<Longrightarrow>
    life_step s (s\<lparr>l_watcher := WatcherIdle\<rparr>)"
| stream_closes: "l_crash s = None \<Longrightarrow> l_main s \<noteq> MainReturned \<Longrightarrow> l_server s = Serving \<Longrightarrow>
    life_step s (begin_close_event s)"
| close_taken: "l_crash s = None \<Longrightarrow> l_main s \<noteq> MainReturned \<Longrightarrow> l_PolicyChan s = OpenChan \<Longrightarrow> 0 < l_polling s \<Longrightarrow>
    0 < l_closing s \<Longrightarrow> life_step s (s\<lparr>l_closing := l_closing s - 1\<rparr>)"
| got_signal: "l_crash s = None \<Longrightarrow> l_main s = AwaitingSignal \<Longrightarrow> life_step s (close_policies s)"
| destroy: "l_crash s = None \<Longrightarrow> l_main s = Destroying \<Longrightarrow> life_step s (DestroyKVMS s)"

inductive_cases life_stepE: "life_step s t"

abbreviation life_runs :: "service_life \<Rightarrow> service_life \<Rightarrow> bool" where
  "life_runs \<equiv> life_step\<^sup>*\<^sup>*"

lemma life_invariant:
  assumes "life_runs s t" and "I s" and "\<And>s t. I s \<Longrightarrow> life_step s t \<Longrightarrow> I t"
  shows "I t"
  using assms(1,2) by (induction rule: rtranclp_induct) (auto intro: assms(3))

lemmas life_defs = begin_send_def begin_close_event_def close_policies_def InitServer_make_def InitServer_listen_def DestroyKVMS_def
  send_closed_def close_nil_def

text \<open>Without the routines the channel stays nil, and the only end is the panic of the close.\<close>

lemma no_server_invariant:
  assumes "life_runs (life_start []) t"
  shows "l_PolicyChan t = NilChan \<and> l_server t = ServerOff \<and> l_watcher t = WatcherOff \<and> l_main t = AwaitingSignal \<and>
    l_polling t = 0 \<and> (l_crash t = None \<or> l_crash t = Some close_nil)"
  using assms
  by (rule life_invariant) (auto simp: life_start_def life_defs elim!: life_stepE split: channel.splits)

text \<open>A send on the nil channel is never over.\<close>

lemma stuck_for_ever: "life_runs s t \<Longrightarrow> l_watcher s = WatcherStuck \<Longrightarrow> l_watcher t = WatcherStuck"
  by (erule life_invariant) (auto simp: life_defs elim!: life_stepE split: channel.splits if_splits)


section \<open>Properties\<close>

text \<open>
  C26. If the Kubernetes client could not be initialised, the service does not shut down in order: a
  signal makes it panic, because the channel it closes was never made, and \<open>KVMSDaemon\<close> never
  returns. The daemon itself has started without an error.
\<close>

theorem no_clean_shutdown_without_client:
  assumes "KVMSDaemon setup_err answers cli e dial False p port = Ret (Some d)"
  shows "(\<exists>t. life_runs (life_start (d_routines d)) t \<and> l_crash t = Some (Panic ''close of nil channel'')) \<and>
    (\<forall>t. life_runs (life_start (d_routines d)) t \<longrightarrow> l_main t \<noteq> MainReturned)"
proof -
  have none: "d_routines d = []"
    using assms by (auto simp: KVMSDaemon_def Let_def split: outcome.splits option.splits sum.splits)
  have "life_step (life_start []) (close_policies (life_start []))"
    by (rule got_signal) (simp_all add: life_start_def)
  moreover have "l_crash (close_policies (life_start [])) = Some (Panic ''close of nil channel'')"
    by (simp add: close_policies_def life_start_def close_nil_def)
  ultimately show ?thesis
    unfolding none using no_server_invariant by (metis main_phase.distinct(3) r_into_rtranclp)
qed

theorem no_clean_shutdown_without_client_witness:
  "\<exists>d t. KVMSDaemon None [Inr [''10.0.0.1'']] (None :: mem_etcd etcd_ptr) \<lparr>mem_data = [], mem_online = True\<rparr> (Inr ''10.0.0.2'') False
      \<lparr>gs_port = 0, gs_ipAddress = [], ScriptData = []\<rparr> 40400 = Ret (Some d) \<and>
    life_runs (life_start (d_routines d)) t \<and> l_crash t = Some (Panic ''close of nil channel'')"
proof -
  obtain d where d: "KVMSDaemon None [Inr [''10.0.0.1'']] (None :: mem_etcd etcd_ptr) \<lparr>mem_data = [], mem_online = True\<rparr> (Inr ''10.0.0.2'') False
      \<lparr>gs_port = 0, gs_ipAddress = [], ScriptData = []\<rparr> 40400 = Ret (Some d)"
    by (simp add: KVMSDaemon_def GetExternalIP_def Let_def)
  with no_clean_shutdown_without_client [OF d] show ?thesis by blast
qed

text \<open>
  C27. The watcher is started before the channel exists: a policy that it handles before \<open>InitServer\<close> has
  made the channel blocks it for ever, although the service goes on, makes the channel and serves
  streams; no later policy is sent. A policy that is handled after the channel was made can be taken
  by a stream.
\<close>

theorem early_policy_blocks_watcher:
  assumes "KVMSDaemon setup_err answers cli e dial True p port = Ret (Some d)"
  shows "(\<exists>t. life_runs (life_start (d_routines d)) t \<and> l_crash t = None \<and> l_server t = Serving \<and> 0 < l_polling t \<and>
      l_watcher t = WatcherStuck \<and> (\<forall>u. life_runs t u \<longrightarrow> l_watcher u = WatcherStuck)) \<and>
    (\<forall>s. life_runs (life_start (d_routines d)) s \<and> l_crash s = None \<and> l_main s \<noteq> MainReturned \<and>
       l_PolicyChan s = OpenChan \<and> l_watcher s = WatcherIdle \<and> 0 < l_polling s \<longrightarrow>
       (\<exists>t. life_step s t \<and> l_watcher t = WatcherSending \<and> life_step t (t\<lparr>l_watcher := WatcherIdle\<rparr>)))"
proof (intro conjI allI impI)
  let ?s = "life_start (d_routines d)"
  have all: "d_routines d = [HostPolicyWatcher, EtcdKeepAlive, GrpcServer]"
    using assms by (auto simp: KVMSDaemon_def Let_def split: outcome.splits option.splits sum.splits)
  let ?s1 = "?s\<lparr>l_watcher := WatcherStuck\<rparr>"
  let ?s4 = "?s1\<lparr>l_PolicyChan := OpenChan, l_server := Serving, l_polling := 1\<rparr>"
  have start: "l_crash ?s = None" "l_main ?s = AwaitingSignal" "l_watcher ?s = WatcherIdle" "l_server ?s = ServerStarted"
      "l_PolicyChan ?s = NilChan" "l_polling ?s = 0"
    by (simp_all add: life_start_def all)
  have 1: "life_step ?s ?s1"
    using policy_event [of ?s] start by (simp add: begin_send_def)
  have 2: "life_step ?s1 (?s1\<lparr>l_PolicyChan := OpenChan, l_server := ServerMade\<rparr>)"
    using server_make [of ?s1] start by (simp add: InitServer_make_def)
  have 3: "life_step (?s1\<lparr>l_PolicyChan := OpenChan, l_server := ServerMade\<rparr>) (?s1\<lparr>l_PolicyChan := OpenChan, l_server := Serving\<rparr>)"
    using server_listen [of "?s1\<lparr>l_PolicyChan := OpenChan, l_server := ServerMade\<rparr>" None] start by (simp add: InitServer_listen_def)
  have 4: "life_step (?s1\<lparr>l_PolicyChan := OpenChan, l_server := Serving\<rparr>) ?s4"
    using stream_opens [of "?s1\<lparr>l_PolicyChan := OpenChan, l_server := Serving\<rparr>"] start by simp
  have "life_runs ?s ?s4"
    using 1 2 3 4 by (meson converse_rtranclp_into_rtranclp rtranclp.rtrancl_refl)
  then show "\<exists>t. life_runs ?s t \<and> l_crash t = None \<and> l_server t = Serving \<and> 0 < l_polling t \<and>
      l_watcher t = WatcherStuck \<and> (\<forall>u. life_runs t u \<longrightarrow> l_watcher u = WatcherStuck)"
    using start stuck_for_ever [of ?s4] by (intro exI [of _ ?s4]) simp
next
  fix s assume s: "life_runs (life_start (d_routines d)) s \<and> l_crash s = None \<and> l_main s \<noteq> MainReturned \<and>
       l_PolicyChan s = OpenChan \<and> l_watcher s = WatcherIdle \<and> 0 < l_polling s"
  then show "\<exists>t. life_step s t \<and> l_watcher t = WatcherSending \<and> life_step t (t\<lparr>l_watcher := WatcherIdle\<rparr>)"
    using policy_event [of s] policy_taken [of "begin_send s"]
    by (intro exI [of _ "begin_send s"]) (simp add: begin_send_def)
qed

theorem early_policy_blocks_watcher_witness:
  "\<exists>d t. KVMSDaemon None [Inr [''10.0.0.1'']] (None :: mem_etcd etcd_ptr) \<lparr>mem_data = [], mem_online = True\<rparr> (Inr ''10.0.0.2'') True
      \<lparr>gs_port = 0, gs_ipAddress = [], ScriptData = []\<rparr> 40400 = Ret (Some d) \<and>
    life_runs (life_start (d_routines d)) t \<and> l_server t = Serving \<and> l_watcher t = WatcherStuck"
proof -
  obtain d where d: "KVMSDaemon None [Inr [''10.0.0.1'']] (None :: mem_etcd etcd_ptr) \<lparr>mem_data = [], mem_online = True\<rparr> (Inr ''10.0.0.2'') True
      \<lparr>gs_port = 0, gs_ipAddress = [], ScriptData = []\<rparr> 40400 = Ret (Some d)"
    by (simp add: KVMSDaemon_def GetExternalIP_def Let_def)
  with early_policy_blocks_watcher [OF d] show ?thesis by blast
qed

end
