(* ===== verification/Service_Process.thy ===== *)
theory Service_Process
  imports Policy_Stream Lifecycle
begin

text \<open>
  The whole service process: the streams of \<open>Policy_Stream\<close> and the channel, the watcher, the server and
  the main goroutine of \<open>Lifecycle\<close> in one step relation. The watcher handles one policy at a time and
  sends it identity by identity; each send evaluates the variable \<open>PolicyChan\<close> when it begins. After a
  signal the channel is closed: a goroutine that sends, or is in a send, panics, and a receive no
  longer waits but gives the zero value of the type, until the main goroutine has slept and returns.

  The two smaller models are shown to be projections of this one, so that what they say holds of
  the process.
\<close>


section \<open>State\<close>

datatype send_phase =
    NotSending
  | InSend     \<comment> \<open>in a send of the next event on the open channel\<close>
  | InNilSend  \<comment> \<open>in a send on the nil channel\<close>

record 'e process =
  p_world :: "'e world"
  p_PolicyChan :: channel
  p_watching :: bool
  p_send :: send_phase
  p_server :: server_phase
  p_main :: main_phase
  p_crash :: "stop option"  \<comment> \<open>a panic on the channel; the others are \<open>w_crash\<close>\<close>

definition process_start :: "routine list \<Rightarrow> 'e etcd_ptr \<Rightarrow> 'e \<Rightarrow> 'e process" where
  "process_start routines cli e =
     \<lparr>p_world = initial_world cli e, p_PolicyChan = NilChan, p_watching = (HostPolicyWatcher \<in> set routines),
      p_send = NotSending, p_server = (if GrpcServer \<in> set routines then ServerStarted else ServerOff),
      p_main = AwaitingSignal, p_crash = None\<rparr>"

definition alive :: "'e process \<Rightarrow> bool" where
  "alive p \<longleftrightarrow> p_crash p = None \<and> w_crash (p_world p) = None \<and> p_main p \<noteq> MainReturned"

text \<open>What a receive from the closed channel gives\<close>

definition zero_EventWithIdentity :: K8sKubeArmorHostPolicyEventWithIdentity where
  "zero_EventWithIdentity = \<lparr>wi_Event = zero_HostPolicyEvent, wi_Identity = 0, wi_CloseConnection = False\<rparr>"


section \<open>Steps\<close>

text \<open>\<open>ks.PolicyChan <- eventWithIdentity\<close> begins.\<close>

definition watcher_sends :: "'e process \<Rightarrow> 'e process" where
  "watcher_sends p =
     (case p_PolicyChan p of
        NilChan \<Rightarrow> p\<lparr>p_send := InNilSend\<rparr>
      | OpenChan \<Rightarrow> p\<lparr>p_send := InSend\<rparr>
      | ClosedChan \<Rightarrow> p\<lparr>p_crash := Some send_closed\<rparr>)"

text \<open>The closer of a stream cleans up and begins the send of its close event.\<close>

definition closer_runs :: "nat \<Rightarrow> 'e process \<Rightarrow> 'e process" where
  "closer_runs i p =
     (let w = close_stream i (p_world p) in
      if w_crash w = None \<and> p_PolicyChan p = ClosedChan
      then p\<lparr>p_world := (p_world p)\<lparr>w_store := w_store w\<rparr>, p_crash := Some send_closed\<rparr>
      else p\<lparr>p_world := w\<rparr>)"

definition sending_closer :: "stream \<Rightarrow> bool" where
  "sending_closer st \<longleftrightarrow> st_closer st = Sending"

text \<open>\<open>close(ks.PolicyChan)\<close>\<close>

definition signal_closes :: "'e process \<Rightarrow> 'e process" where
  "signal_closes p =
     (case p_PolicyChan p of
        NilChan \<Rightarrow> p\<lparr>p_crash := Some close_nil\<rparr>
      | OpenChan \<Rightarrow>
          p\<lparr>p_PolicyChan := ClosedChan, p_main := Destroying,
            p_crash := (if p_send p = InSend \<or> list_ex sending_closer (w_streams (p_world p)) then Some send_closed else None)\<rparr>
      | ClosedChan \<Rightarrow> p\<lparr>p_crash := Some (Panic ''close of closed channel'')\<rparr>)"

inductive process_step :: "'e process \<Rightarrow> 'e process \<Rightarrow> bool" where
  p_make: "alive p \<Longrightarrow> p_server p = ServerStarted \<Longrightarrow>
    process_step p (p\<lparr>p_PolicyChan := OpenChan, p_server := ServerMade\<rparr>)"
| p_listen: "alive p \<Longrightarrow> p_server p = ServerMade \<Longrightarrow>
    process_step p (p\<lparr>p_server := (case (err :: go_error option) of None \<Rightarrow> Serving | Some e \<Rightarrow> ServeFailed)\<rparr>)"
| p_policy: "alive p \<Longrightarrow> p_watching p \<Longrightarrow> p_send p = NotSending \<Longrightarrow> w_watcher (p_world p) = [] \<Longrightarrow>
    process_step p (p\<lparr>p_world := (p_world p)\<lparr>w_watcher := map (addressed event) identities,
      w_offered := w_offered (p_world p) @ map (addressed event) identities\<rparr>\<rparr>)"
| p_begin_send: "alive p \<Longrightarrow> p_send p = NotSending \<Longrightarrow> w_watcher (p_world p) \<noteq> [] \<Longrightarrow> process_step p (watcher_sends p)"
| p_take_policy: "alive p \<Longrightarrow> p_PolicyChan p = OpenChan \<Longrightarrow> p_send p = InSend \<Longrightarrow> w_watcher (p_world p) = event # rest \<Longrightarrow>
    i < length (w_streams (p_world p)) \<Longrightarrow> st_handler (w_streams (p_world p) ! i) = Polling \<Longrightarrow>
    process_step p (p\<lparr>p_world := hand_over i event ((p_world p)\<lparr>w_watcher := rest\<rparr>), p_send := NotSending\<rparr>)"
| p_accept: "alive p \<Longrightarrow> p_server p = Serving \<Longrightarrow>
    process_step p (p\<lparr>p_world := (p_world p)\<lparr>w_streams := w_streams (p_world p) @ [open_stream md]\<rparr>\<rparr>)"
| p_take_close: "alive p \<Longrightarrow> p_PolicyChan p = OpenChan \<Longrightarrow> i < length (w_streams (p_world p)) \<Longrightarrow>
    st_handler (w_streams (p_world p) ! i) = Polling \<Longrightarrow> j < length (w_streams (p_world p)) \<Longrightarrow>
    st_closer (w_streams (p_world p) ! j) = Sending \<Longrightarrow>
    process_step p (p\<lparr>p_world := hand_over i (close_event (w_streams (p_world p) ! j))
      (upd_stream j (\<lambda>st. st\<lparr>st_closer := Finished\<rparr>) (p_world p))\<rparr>)"
| p_drain: "alive p \<Longrightarrow> p_PolicyChan p = ClosedChan \<Longrightarrow> i < length (w_streams (p_world p)) \<Longrightarrow>
    st_handler (w_streams (p_world p) ! i) = Polling \<Longrightarrow>
    process_step p (p\<lparr>p_world := hand_over i zero_EventWithIdentity (p_world p)\<rparr>)"
| p_answer: "alive p \<Longrightarrow> i < length (w_streams (p_world p)) \<Longrightarrow> st_handler (w_streams (p_world p) ! i) = Awaiting \<Longrightarrow>
    process_step p (p\<lparr>p_world := upd_stream i (\<lambda>st. st\<lparr>st_handler := Polling\<rparr>) (p_world p)\<rparr>)"
| p_recv_error: "alive p \<Longrightarrow> i < length (w_streams (p_world p)) \<Longrightarrow> st_handler (w_streams (p_world p) ! i) = Awaiting \<Longrightarrow>
    process_step p (p\<lparr>p_world := (p_world p)\<lparr>w_crash := Some (Panic ''invalid memory address or nil pointer dereference'')\<rparr>\<rparr>)"
| p_disconnect: "alive p \<Longrightarrow> i < length (w_streams (p_world p)) \<Longrightarrow>
    process_step p (p\<lparr>p_world := upd_stream i (\<lambda>st. st\<lparr>st_done := True\<rparr>) (p_world p)\<rparr>)"
| p_run_closer: "alive p \<Longrightarrow> i < length (w_streams (p_world p)) \<Longrightarrow> st_done (w_streams (p_world p) ! i) \<Longrightarrow>
    st_closer (w_streams (p_world p) ! i) = Watching \<Longrightarrow> process_step p (closer_runs i p)"
| p_signal: "alive p \<Longrightarrow> p_main p = AwaitingSignal \<Longrightarrow> process_step p (signal_closes p)"
| p_destroy: "alive p \<Longrightarrow> p_main p = Destroying \<Longrightarrow> process_step p (p\<lparr>p_main := MainReturned\<rparr>)"

inductive_cases process_stepE: "process_step p q"

abbreviation process_runs :: "'e process \<Rightarrow> 'e process \<Rightarrow> bool" where
  "process_runs \<equiv> process_step\<^sup>*\<^sup>*"

lemma process_invariant:
  assumes "process_runs p q" and "I p" and "\<And>p q. I p \<Longrightarrow> process_step p q \<Longrightarrow> I q"
  shows "I q"
  using assms(1,2) by (induction rule: rtranclp_induct) (auto intro: assms(3))


section \<open>The streams are a projection\<close>

text \<open>The channel is there as soon as the server has made it, and streams only once it serves.\<close>

definition phases_ok :: "'e process \<Rightarrow> bool" where
  "phases_ok p \<longleftrightarrow>
     (p_PolicyChan p = NilChan \<longleftrightarrow> p_server p \<in> {ServerOff, ServerStarted}) \<and>
     (p_PolicyChan p = ClosedChan \<longleftrightarrow> p_main p \<noteq> AwaitingSignal) \<and>
     (w_streams (p_world p) \<noteq> [] \<longrightarrow> p_server p = Serving) \<and>
     (p_send p \<noteq> NotSending \<or> w_watcher (p_world p) \<noteq> [] \<longrightarrow> p_watching p) \<and>
     (p_send p \<noteq> NotSending \<longrightarrow> w_watcher (p_world p) \<noteq> []) \<and>
     (p_send p = InSend \<longrightarrow> p_PolicyChan p \<noteq> NilChan)"

lemma phases_ok_start: "phases_ok (process_start routines cli e)"
  by (simp add: phases_ok_def process_start_def initial_world_def)

lemma close_stream_watcher [simp]: "w_watcher (close_stream i w) = w_watcher w" "w_offered (close_stream i w) = w_offered w"
  by (auto simp: close_stream_def split: prod.splits outcome.splits)

lemma close_stream_none: "w_streams (close_stream i w) = [] \<longleftrightarrow> w_streams w = []"
  using close_stream_streams [of i w] by (metis list_update_nonempty)

lemma hand_over_watcher [simp]: "w_watcher (hand_over i event w) = w_watcher w" "w_offered (hand_over i event w) = w_offered w"
  by (simp_all add: hand_over_def)

lemma phases_ok_step: "phases_ok p \<Longrightarrow> process_step p q \<Longrightarrow> phases_ok q"
  by (erule process_stepE)
    (auto simp: phases_ok_def watcher_sends_def closer_runs_def signal_closes_def Let_def close_stream_none split: option.splits channel.splits)


lemma closed_for_good: "phases_ok p \<Longrightarrow> process_step p q \<Longrightarrow> p_PolicyChan p = ClosedChan \<Longrightarrow> p_PolicyChan q = ClosedChan"
  by (erule process_stepE)
    (auto simp: phases_ok_def watcher_sends_def closer_runs_def signal_closes_def Let_def split: if_splits)

text \<open>While the channel is not closed, a step of the process is a step of the streams or does not touch them.\<close>

lemma step_of_streams:
  assumes "process_step p q" and "p_PolicyChan p \<noteq> ClosedChan"
  shows "p_world q = p_world p \<or> stream_step (p_world p) (p_world q)"
  using assms
proof (cases rule: process_step.cases)
  case (p_policy event identities)
  then show ?thesis using offer [of "p_world p" event identities] by (simp add: alive_def)
next
  case (p_take_policy event rest i)
  then show ?thesis using take_policy [of "p_world p" event rest i] by (simp add: alive_def)
next
  case (p_accept md)
  then show ?thesis using accept [of "p_world p" md] by (simp add: alive_def)
next
  case (p_take_close i j)
  then show ?thesis using take_close [of "p_world p" i j] by (simp add: alive_def)
next
  case (p_answer i)
  then show ?thesis using answer [of "p_world p" i] by (simp add: alive_def)
next
  case (p_recv_error i)
  then show ?thesis using recv_error [of "p_world p" i] by (simp add: alive_def)
next
  case (p_disconnect i)
  then show ?thesis using disconnect [of "p_world p" i] by (simp add: alive_def)
next
  case (p_run_closer i)
  then show ?thesis using run_closer [of "p_world p" i] assms(2) by (simp add: alive_def closer_runs_def Let_def)
qed (auto simp: watcher_sends_def signal_closes_def split: channel.splits)

lemma streams_projection:
  assumes "process_runs (process_start routines cli e) p"
  shows "phases_ok p \<and> (p_PolicyChan p \<noteq> ClosedChan \<longrightarrow> reachable cli e (p_world p))"
  using assms
proof (rule process_invariant)
  show "phases_ok (process_start routines cli e) \<and>
      (p_PolicyChan (process_start routines cli e) \<noteq> ClosedChan \<longrightarrow> reachable cli e (p_world (process_start routines cli e)))"
    by (rule conjI [OF phases_ok_start]) (simp add: process_start_def reachable_def steps_refl)
next
  fix p q :: "'a process"
  assume "phases_ok p \<and> (p_PolicyChan p \<noteq> ClosedChan \<longrightarrow> reachable cli e (p_world p))" and s: "process_step p q"
  then show "phases_ok q \<and> (p_PolicyChan q \<noteq> ClosedChan \<longrightarrow> reachable cli e (p_world q))"
    using phases_ok_step closed_for_good step_of_streams [OF s] by (metis reachable_step)
qed


section \<open>The life of the process is a projection\<close>

definition watcher_phase_of :: "'e process \<Rightarrow> watcher_phase" where
  "watcher_phase_of p =
     (if \<not> p_watching p then WatcherOff
      else case p_send p of NotSending \<Rightarrow> WatcherIdle | InSend \<Rightarrow> WatcherSending | InNilSend \<Rightarrow> WatcherStuck)"

definition polling_stream :: "stream \<Rightarrow> bool" where
  "polling_stream st \<longleftrightarrow> st_handler st = Polling"

definition life_of :: "'e process \<Rightarrow> service_life" where
  "life_of p =
     \<lparr>l_PolicyChan = p_PolicyChan p, l_watcher = watcher_phase_of p, l_server = p_server p, l_main = p_main p,
      l_polling = length (filter polling_stream (w_streams (p_world p))),
      l_closing = length (filter sending_closer (w_streams (p_world p))), l_crash = p_crash p\<rparr>"

text \<open>Counting the elements of a list with a property when one of them changes\<close>

lemma length_filter_update:
  assumes "i < length xs"
  shows "length (filter P (xs[i := y])) + (if P (xs ! i) then 1 else 0) = length (filter P xs) + (if P y then 1 else 0)"
proof -
  have "length (filter P xs) = length (filter P (take i xs @ xs ! i # drop (Suc i) xs))"
    using id_take_nth_drop [OF assms] by simp
  then show ?thesis using assms by (simp add: upd_conv_take_nth_drop)
qed

lemma count_update:
  assumes "i < length xs"
  shows "P y = P (xs ! i) \<Longrightarrow> length (filter P (xs[i := y])) = length (filter P xs)"
    and "\<not> P y \<Longrightarrow> P (xs ! i) \<Longrightarrow> length (filter P (xs[i := y])) = length (filter P xs) - 1"
    and "P y \<Longrightarrow> \<not> P (xs ! i) \<Longrightarrow> length (filter P (xs[i := y])) = Suc (length (filter P xs))"
  using length_filter_update [OF assms, of P y] by auto

lemma stream_counts [simp]:
  "polling_stream (st\<lparr>st_handler := h\<rparr>) \<longleftrightarrow> h = Polling" "polling_stream (st\<lparr>st_closer := c\<rparr>) = polling_stream st"
  "polling_stream (st\<lparr>st_done := d\<rparr>) = polling_stream st" "polling_stream (open_stream md)"
  "sending_closer (st\<lparr>st_handler := h\<rparr>) = sending_closer st" "sending_closer (st\<lparr>st_closer := c\<rparr>) \<longleftrightarrow> c = Sending"
  "sending_closer (st\<lparr>st_done := d\<rparr>) = sending_closer st" "\<not> sending_closer (open_stream md)"
  "sending_closer (receive event st) = sending_closer st"
  by (simp_all add: polling_stream_def sending_closer_def open_stream_def)

lemma counts_receive:
  assumes "i < length xs" and "st_handler (xs ! i) = Polling"
  shows "length (filter polling_stream (xs[i := receive event (xs ! i)])) \<in>
      {length (filter polling_stream xs), length (filter polling_stream xs) - 1}"
  using assms count_update [OF assms(1), of polling_stream "receive event (xs ! i)"]
  by (cases "polling_stream (receive event (xs ! i))") (auto simp: polling_stream_def)

lemma counted:
  assumes "i < length xs"
  shows "polling_stream (xs ! i) \<Longrightarrow> 0 < length (filter polling_stream xs)"
    and "sending_closer (xs ! i) \<Longrightarrow> 0 < length (filter sending_closer xs)"
  using nth_mem [OF assms] by (auto simp: filter_empty_conv)

text \<open>A stream may stop polling.\<close>

lemma fewer_polling:
  assumes "l_crash s = None" and "l_main s \<noteq> MainReturned" and "n \<in> {l_polling s, l_polling s - 1}"
  shows "life_runs s (s\<lparr>l_polling := n\<rparr>)"
  using assms stream_ends [OF assms(1,2)] by auto

lemma fewer_polling_after:
  assumes "life_step s t" and "l_crash t = None" and "l_main t \<noteq> MainReturned" and "n \<in> {l_polling t, l_polling t - 1}"
  shows "life_runs s (t\<lparr>l_polling := n\<rparr>)"
  using assms(1) fewer_polling [OF assms(2-4)] by (rule converse_rtranclp_into_rtranclp)

lemma one_step: "life_step s t \<Longrightarrow> u = t \<Longrightarrow> life_runs s u"
  by auto

lemma watcher_phase_others [simp]:
  "watcher_phase_of (p\<lparr>p_world := w\<rparr>) = watcher_phase_of p" "watcher_phase_of (p\<lparr>p_PolicyChan := c\<rparr>) = watcher_phase_of p"
  "watcher_phase_of (p\<lparr>p_server := sv\<rparr>) = watcher_phase_of p" "watcher_phase_of (p\<lparr>p_main := mn\<rparr>) = watcher_phase_of p"
  "watcher_phase_of (p\<lparr>p_crash := cr\<rparr>) = watcher_phase_of p"
  by (simp_all add: watcher_phase_of_def)

lemma life_of_fields [simp]:
  "l_PolicyChan (life_of p) = p_PolicyChan p" "l_watcher (life_of p) = watcher_phase_of p" "l_server (life_of p) = p_server p"
  "l_main (life_of p) = p_main p" "l_polling (life_of p) = length (filter polling_stream (w_streams (p_world p)))"
  "l_closing (life_of p) = length (filter sending_closer (w_streams (p_world p)))" "l_crash (life_of p) = p_crash p"
  by (simp_all add: life_of_def)

lemma life_eqI:
  "l_PolicyChan s = l_PolicyChan t \<Longrightarrow> l_watcher s = l_watcher t \<Longrightarrow> l_server s = l_server t \<Longrightarrow> l_main s = l_main t \<Longrightarrow>
   l_polling s = l_polling t \<Longrightarrow> l_closing s = l_closing t \<Longrightarrow> l_crash s = l_crash t \<Longrightarrow> s = (t :: service_life)"
  by simp

lemma step_of_life:
  assumes "process_step p q" and "phases_ok p"
  shows "life_runs (life_of p) (life_of q)"
proof -
  let ?xs = "w_streams (p_world p)"
  have a: "l_crash (life_of p) = None" "l_main (life_of p) \<noteq> MainReturned"
    using assms(1) by (auto elim!: process_stepE simp: alive_def)
  show ?thesis
    using assms(1)
  proof (cases rule: process_step.cases)
    case p_make
    then show ?thesis by (intro one_step [OF server_make [OF a]] life_eqI) (simp_all add: InitServer_make_def)
  next
    case (p_listen err)
    then show ?thesis by (intro one_step [OF server_listen [OF a, of err]] life_eqI) (simp_all add: InitServer_listen_def)
  next
    case (p_policy event identities)
    then have "life_of q = life_of p" by (intro life_eqI) simp_all
    then show ?thesis by simp
  next
    case p_begin_send
    then have "watcher_phase_of p = WatcherIdle" using assms(2) by (simp add: phases_ok_def watcher_phase_of_def)
    with p_begin_send assms(2) show ?thesis
      by (intro one_step [OF policy_event [OF a]] life_eqI)
        (auto simp: begin_send_def watcher_sends_def watcher_phase_of_def phases_ok_def split: channel.splits)
  next
    case (p_take_policy event rest i)
    then have w: "watcher_phase_of p = WatcherSending" "p_watching p"
      using assms(2) by (simp_all add: phases_ok_def watcher_phase_of_def)
    have "life_step (life_of p) ((life_of p)\<lparr>l_watcher := WatcherIdle\<rparr>)"
      using p_take_policy w counted(1) [of i ?xs] by (intro policy_taken [OF a]) (simp_all add: polling_stream_def)
    from fewer_polling_after [OF this] counts_receive [of i ?xs event] p_take_policy a
    have "life_runs (life_of p) ((life_of p)\<lparr>l_watcher := WatcherIdle, l_polling := length (filter polling_stream (w_streams (p_world q)))\<rparr>)"
      by simp
    also have "\<dots> = life_of q"
      using p_take_policy w by (intro life_eqI) (simp_all add: count_update(1) watcher_phase_of_def)
    finally show ?thesis .
  next
    case (p_accept md)
    then show ?thesis by (intro one_step [OF stream_opens [OF a]] life_eqI) simp_all
  next
    case (p_drain i)
    then have "life_runs (life_of p) ((life_of p)\<lparr>l_polling := length (filter polling_stream (w_streams (p_world q)))\<rparr>)"
      using counts_receive [of i ?xs zero_EventWithIdentity] by (intro fewer_polling [OF a]) simp
    also have "\<dots> = life_of q" using p_drain by (intro life_eqI) (simp_all add: count_update(1))
    finally show ?thesis .
  next
    case (p_answer i)
    then have "p_server p = Serving" using assms(2) by (auto simp: phases_ok_def)
    with p_answer show ?thesis
      by (intro one_step [OF stream_opens [OF a]] life_eqI) (simp_all add: count_update(1,3) polling_stream_def)
  next
    case (p_recv_error i)
    then have "life_of q = life_of p" by (intro life_eqI) simp_all
    then show ?thesis by simp
  next
    case (p_disconnect i)
    then have "life_of q = life_of p" by (intro life_eqI) (simp_all add: count_update(1))
    then show ?thesis by simp
  next
    case p_destroy
    then show ?thesis by (intro one_step [OF destroy [OF a(1)]] life_eqI) (simp_all add: DestroyKVMS_def)
  next
    case p_signal
    have "watcher_phase_of p = WatcherSending \<longleftrightarrow> p_send p = InSend"
      using assms(2) by (auto simp: phases_ok_def watcher_phase_of_def split: send_phase.splits)
    moreover have "0 < length (filter sending_closer ?xs) \<longleftrightarrow> list_ex sending_closer ?xs"
      by (auto simp: list_ex_iff filter_empty_conv)
    ultimately show ?thesis
      using p_signal by (intro one_step [OF got_signal [OF a(1)]] life_eqI)
        (auto simp: close_policies_def signal_closes_def split: channel.splits)
  next
    case (p_run_closer i)
    then have sv: "p_server p = Serving" "p_PolicyChan p \<noteq> NilChan" using assms(2) by (auto simp: phases_ok_def)
    obtain r e where up: "UpdateETCDLabelToIdentitiesMaps (w_cli (p_world p)) (st_identity (?xs ! i)) (w_store (p_world p)) = (r, e)"
      by fastforce
    show ?thesis
    proof (cases r)
      case (Ret x)
      have "w_crash (close_stream i (p_world p)) = None"
        using p_run_closer up Ret by (simp add: close_stream_def alive_def)
      with p_run_closer up Ret sv show ?thesis
        by (intro one_step [OF stream_closes [OF a]] life_eqI)
          (auto simp: begin_close_event_def closer_runs_def close_stream_def count_update(1,3) sending_closer_def split: channel.splits)
    next
      case (Stop c)
      then have "life_of q = life_of p"
        using p_run_closer up by (intro life_eqI) (simp_all add: closer_runs_def close_stream_def)
      then show ?thesis by simp
    qed
  next
    case (p_take_close i j)
    let ?ys = "?xs[j := (?xs ! j)\<lparr>st_closer := Finished\<rparr>]" and ?n = "length (filter sending_closer ?xs) - 1"
    have polling: "st_handler (?ys ! i) = Polling" using p_take_close by (simp add: nth_list_update)
    have ys: "length (filter sending_closer ?ys) = ?n" "length (filter polling_stream ?ys) = length (filter polling_stream ?xs)"
      using p_take_close by (simp_all add: count_update(1,2) sending_closer_def)
    have "life_step (life_of p) ((life_of p)\<lparr>l_closing := l_closing (life_of p) - 1\<rparr>)"
      using p_take_close counted(1) [of i ?xs] counted(2) [of j ?xs]
      by (intro close_taken [OF a]) (simp_all add: polling_stream_def sending_closer_def)
    from fewer_polling_after [OF this] counts_receive [of i ?ys "close_event (?xs ! j)"] polling ys(2) p_take_close a
    have "life_runs (life_of p) ((life_of p)\<lparr>l_closing := ?n, l_polling := length (filter polling_stream (w_streams (p_world q)))\<rparr>)"
      by simp
    also have "\<dots> = life_of q"
      using p_take_close ys by (intro life_eqI) (simp_all add: count_update(1))
    finally show ?thesis .
  qed
qed

lemma life_projection:
  assumes "process_runs (process_start routines cli e) p"
  shows "life_runs (life_start routines) (life_of p)"
proof -
  have start: "life_of (process_start routines cli e) = life_start routines"
    by (intro life_eqI) (simp_all add: process_start_def life_start_def watcher_phase_of_def initial_world_def)
  have "phases_ok p \<and> life_runs (life_start routines) (life_of p)"
    using assms
    by (rule process_invariant)
      (auto simp: start phases_ok_start dest: phases_ok_step step_of_life intro: rtranclp_trans)
  then show ?thesis by blast
qed


section \<open>What the agents are given\<close>

text \<open>
  What a stream hands over was given to the watcher for its identity, but for the empty policies of
  the closed channel, which are for the identity 0.
\<close>

definition rightly_sent :: "'e process \<Rightarrow> stream \<Rightarrow> bool" where
  "rightly_sent p st \<longleftrightarrow> (\<forall>event \<in> set (st_sent st).
     addressed event (st_identity st) \<in> set (w_offered (p_world p)) \<or>
     p_PolicyChan p = ClosedChan \<and> st_identity st = 0 \<and> event = zero_HostPolicyEvent)"

definition sent_ok :: "'e process \<Rightarrow> bool" where
  "sent_ok p \<longleftrightarrow> (\<forall>st \<in> set (w_streams (p_world p)). rightly_sent p st) \<and>
     set (w_watcher (p_world p)) \<subseteq> set (w_offered (p_world p)) \<and> (\<forall>event \<in> set (w_watcher (p_world p)). is_policy event)"

lemma policy_is_addressed: "is_policy event \<Longrightarrow> event = addressed (wi_Event event) (wi_Identity event)"
  by (cases event) (simp add: is_policy_def addressed_def)

lemma rightly_sent_receive:
  assumes "rightly_sent p st"
    and "is_policy event \<Longrightarrow> event \<in> set (w_offered (p_world p)) \<or> p_PolicyChan p = ClosedChan \<and> event = zero_EventWithIdentity"
  shows "rightly_sent p (receive event st)"
proof (cases "wi_Identity event = st_identity st \<and> is_policy event")
  case True
  then have "addressed (wi_Event event) (st_identity st) \<in> set (w_offered (p_world p)) \<or>
      p_PolicyChan p = ClosedChan \<and> st_identity st = 0 \<and> wi_Event event = zero_HostPolicyEvent"
  proof (cases "event \<in> set (w_offered (p_world p))")
    case offered: True
    have "event = addressed (wi_Event event) (st_identity st)" using True policy_is_addressed [of event] by simp
    with offered show ?thesis by metis
  next
    case False
    with True assms(2) show ?thesis by (auto simp: zero_EventWithIdentity_def)
  qed
  with assms(1) True show ?thesis by (auto simp: rightly_sent_def receive_def is_policy_def)
next
  case False
  with assms(1) show ?thesis by (auto simp: rightly_sent_def receive_def is_policy_def)
qed

lemma rightly_sent_mono:
  assumes "rightly_sent p st" and "set (w_offered (p_world p)) \<subseteq> set (w_offered (p_world q))"
    and "p_PolicyChan p = ClosedChan \<Longrightarrow> p_PolicyChan q = ClosedChan"
    and "st_sent st' = st_sent st" and "st_identity st' = st_identity st"
  shows "rightly_sent q st'"
  using assms by (auto simp: rightly_sent_def)

lemma all_update: "\<forall>x \<in> set xs. P x \<Longrightarrow> P y \<Longrightarrow> \<forall>x \<in> set (xs[i := y]). P x"
  by (auto dest: set_update_subset_insert [THEN subsetD])

lemma sent_ok_step:
  assumes "sent_ok p" and "phases_ok p" and "process_step p q"
  shows "sent_ok q"
proof -
  let ?xs = "w_streams (p_world p)"
  have mono: "rightly_sent q st'" if "rightly_sent p st" "st_sent st' = st_sent st" "st_identity st' = st_identity st"
    "set (w_offered (p_world p)) \<subseteq> set (w_offered (p_world q))" for st st'
    using rightly_sent_mono [OF that(1,4) _ that(2,3)] closed_for_good [OF assms(2,3)] by blast
  have same: "sent_ok q" if "w_watcher (p_world q) = w_watcher (p_world p)" "w_offered (p_world q) = w_offered (p_world p)"
    "\<forall>st' \<in> set (w_streams (p_world q)). \<exists>st \<in> set ?xs. st_sent st' = st_sent st \<and> st_identity st' = st_identity st"
    using assms(1) that mono by (fastforce simp: sent_ok_def)
  have unchanged: "sent_ok q" if "w_watcher (p_world q) = w_watcher (p_world p)" "w_offered (p_world q) = w_offered (p_world p)"
    "w_streams (p_world q) = ?xs"
    by (rule same) (use that in auto)
  show ?thesis
    using assms(3)
  proof (cases rule: process_step.cases)
    case (p_policy event identities)
    with assms(1) mono show ?thesis by (auto simp: sent_ok_def is_policy_def addressed_def)
  next
    case (p_take_policy event rest i)
    have all: "\<forall>st \<in> set ?xs. rightly_sent q st" using p_take_policy assms(1) mono by (auto simp: sent_ok_def)
    have "rightly_sent q (receive event (?xs ! i))"
      using all p_take_policy assms(1) by (intro rightly_sent_receive) (auto simp: sent_ok_def)
    from all_update [OF all this, of i] p_take_policy assms(1) show ?thesis by (simp add: sent_ok_def)
  next
    case (p_take_close i j)
    let ?ys = "?xs[j := (?xs ! j)\<lparr>st_closer := Finished\<rparr>]"
    have off: "w_offered (p_world q) = w_offered (p_world p)" using p_take_close by simp
    have "rightly_sent p (?xs ! j)" using p_take_close assms(1) by (simp add: sent_ok_def)
    then have "rightly_sent q ((?xs ! j)\<lparr>st_closer := Finished\<rparr>)" by (rule mono) (simp_all add: off)
    then have ys: "\<forall>st \<in> set ?ys. rightly_sent q st"
      by (intro all_update) (use assms(1) mono off in \<open>auto simp: sent_ok_def\<close>)
    with p_take_close have "rightly_sent q (receive (close_event (?xs ! j)) (?ys ! i))"
      by (intro rightly_sent_receive) (auto simp: is_policy_def close_event_def)
    from all_update [OF ys this, of i] p_take_close assms(1) show ?thesis by (simp add: sent_ok_def)
  next
    case (p_drain i)
    have all: "\<forall>st \<in> set ?xs. rightly_sent q st" using p_drain assms(1) mono by (auto simp: sent_ok_def)
    have "rightly_sent q (receive zero_EventWithIdentity (?xs ! i))"
      using all p_drain by (intro rightly_sent_receive) auto
    from all_update [OF all this, of i] p_drain assms(1) show ?thesis by (simp add: sent_ok_def)
  next
    case (p_accept md)
    with assms(1) mono show ?thesis by (auto simp: sent_ok_def rightly_sent_def open_stream_def)
  next
    case (p_run_closer i)
    have "\<forall>st' \<in> set (w_streams (close_stream i (p_world p))). \<exists>st \<in> set ?xs. st_sent st' = st_sent st \<and> st_identity st' = st_identity st"
      using close_stream_streams [of i "p_world p"] p_run_closer
      by (auto dest!: set_update_subset_insert [THEN subsetD]) (metis nth_mem)+
    with p_run_closer show ?thesis by (intro same) (auto simp: closer_runs_def Let_def)
  next
    case (p_answer i)
    then show ?thesis by (intro same) (auto dest!: set_update_subset_insert [THEN subsetD])
  next
    case (p_disconnect i)
    then show ?thesis by (intro same) (auto dest!: set_update_subset_insert [THEN subsetD])
  qed (rule unchanged; auto simp: watcher_sends_def signal_closes_def split: channel.splits)+
qed

lemma sent_ok_start: "sent_ok (process_start routines cli e)"
  by (simp add: sent_ok_def process_start_def initial_world_def)

lemma sent_ok_runs: "process_runs (process_start routines cli e) p \<Longrightarrow> phases_ok p \<and> sent_ok p"
  by (erule process_invariant) (auto intro: phases_ok_start sent_ok_start phases_ok_step sent_ok_step)


section \<open>Properties\<close>


text \<open>A run that serves a stream, is given a signal and goes on until the stream has been handed a policy\<close>

definition demo_shutdown :: "string list option \<Rightarrow> mem_etcd process" where
  "demo_shutdown md =
     (process_start [HostPolicyWatcher, EtcdKeepAlive, GrpcServer] demo_cli demo_connected)
       \<lparr>p_world := (initial_world demo_cli demo_connected)\<lparr>w_streams := [open_stream md]\<rparr>,
        p_PolicyChan := ClosedChan, p_server := Serving, p_main := Destroying\<rparr>"

lemma shutdown_run:
  assumes "GrpcServer \<in> set routines"
  shows "process_runs (process_start routines cli e) ((process_start routines cli e)
       \<lparr>p_world := (initial_world cli e)\<lparr>w_streams := [open_stream md]\<rparr>,
        p_PolicyChan := ClosedChan, p_server := Serving, p_main := Destroying\<rparr>)"
proof -
  let ?p0 = "process_start routines cli e"
  let ?p1 = "?p0\<lparr>p_PolicyChan := OpenChan, p_server := ServerMade\<rparr>"
  let ?p2 = "?p1\<lparr>p_server := Serving\<rparr>"
  let ?p3 = "?p2\<lparr>p_world := (initial_world cli e)\<lparr>w_streams := [open_stream md]\<rparr>\<rparr>"
  have 1: "process_step ?p0 ?p1"
    by (rule p_make) (simp_all add: assms process_start_def alive_def initial_world_def)
  have 2: "process_step ?p1 ?p2"
    using p_listen [of ?p1 None] by (simp add: process_start_def alive_def initial_world_def)
  have 3: "process_step ?p2 ?p3"
    using p_accept [of ?p2 md] by (simp add: process_start_def alive_def initial_world_def)
  have 4: "process_step ?p3 (signal_closes ?p3)"
    by (rule p_signal) (simp_all add: process_start_def alive_def initial_world_def)
  have "process_runs ?p0 (signal_closes ?p3)"
    using 1 2 3 4 by (meson converse_rtranclp_into_rtranclp rtranclp.rtrancl_refl)
  then show ?thesis
    by (simp add: signal_closes_def process_start_def sending_closer_def open_stream_def)
qed


text \<open>
  C30. In every state of the process, from its start to its end, a policy that a stream has handed to
  its agent was given to the watcher for the identity of that agent; the only exception are the
  empty policies that streams without an identity receive from the closed channel.
\<close>

theorem agents_get_their_policies:
  assumes "process_runs (process_start routines cli e) p" and "st \<in> set (w_streams (p_world p))" and "event \<in> set (st_sent st)"
  shows "addressed event (st_identity st) \<in> set (w_offered (p_world p)) \<or>
    p_PolicyChan p = ClosedChan \<and> st_identity st = 0 \<and> event = zero_HostPolicyEvent"
  using sent_ok_runs [OF assms(1)] assms(2,3) by (auto simp: sent_ok_def rightly_sent_def)

text \<open>The exception is real: between the signal and its end the service hands out a policy nobody made.\<close>

theorem shutdown_sends_empty_policy:
  assumes "GrpcServer \<in> set routines" and "GetIdentityFromContext md = 0"
  shows "\<exists>p st. process_runs (process_start routines cli e) p \<and> w_streams (p_world p) = [st] \<and>
    st_sent st = [zero_HostPolicyEvent] \<and> w_offered (p_world p) = []"
proof -
  let ?p = "(process_start routines cli e)\<lparr>p_world := (initial_world cli e)\<lparr>w_streams := [open_stream md]\<rparr>,
        p_PolicyChan := ClosedChan, p_server := Serving, p_main := Destroying\<rparr>"
  have "process_step ?p (?p\<lparr>p_world := hand_over 0 zero_EventWithIdentity (p_world ?p)\<rparr>)"
    by (rule p_drain) (simp_all add: process_start_def alive_def initial_world_def open_stream_def)
  with shutdown_run [OF assms(1), of cli e md]
  have "process_runs (process_start routines cli e) (?p\<lparr>p_world := hand_over 0 zero_EventWithIdentity (p_world ?p)\<rparr>)"
    by (rule rtranclp.rtrancl_into_rtrancl)
  moreover have "w_streams (hand_over 0 zero_EventWithIdentity (p_world ?p)) = [(open_stream md)\<lparr>st_handler := Awaiting, st_sent := [zero_HostPolicyEvent]\<rparr>]"
    using assms(2) by (simp add: open_stream_def receive_def zero_EventWithIdentity_def)
  ultimately show ?thesis
    by (intro exI [of _ "?p\<lparr>p_world := hand_over 0 zero_EventWithIdentity (p_world ?p)\<rparr>"]
        exI [of _ "(open_stream md)\<lparr>st_handler := Awaiting, st_sent := [zero_HostPolicyEvent]\<rparr>"]) (simp add: initial_world_def)
qed

theorem agents_get_their_policies_witness:
  "\<exists>p st. process_runs (process_start [HostPolicyWatcher, EtcdKeepAlive, GrpcServer] demo_cli demo_connected) p \<and>
     st \<in> set (w_streams (p_world p)) \<and> st_sent st = [zero_HostPolicyEvent] \<and> p_PolicyChan p = ClosedChan \<and> st_identity st = 0"
proof -
  have no_id: "GetIdentityFromContext None = 0" by code_simp
  obtain p st where p: "process_runs (process_start [HostPolicyWatcher, EtcdKeepAlive, GrpcServer] demo_cli demo_connected) p"
      "w_streams (p_world p) = [st]" "st_sent st = [zero_HostPolicyEvent]" "w_offered (p_world p) = []"
    using shutdown_sends_empty_policy [of "[HostPolicyWatcher, EtcdKeepAlive, GrpcServer]" None demo_cli demo_connected] no_id
    by auto
  from agents_get_their_policies [OF p(1), of st zero_HostPolicyEvent] p(2-4)
  have "p_PolicyChan p = ClosedChan" "st_identity st = 0" by simp_all
  with p show ?thesis by auto
qed

end
