(* ===== verification/Lease.thy ===== *)
theory Lease
  imports System
begin

text \<open>
  The lease of an etcd client. \<open>NewEtcdClient\<close> asks for a lease of \<open>EtcdClientTTL\<close> seconds,
  \<open>EtcdPutWithTTL\<close> attaches its keys to it, and \<open>KeepAliveEtcdConnection\<close> extends it while the process
  lives. When a pod of the service dies, nobody runs the clean-up of its connections, and the lease is
  what frees the identities its agents have registered.

  The locale \<open>lease_server\<close> adds to \<open>etcd_server\<close> what etcd documents about leases: \<open>lease_of e k\<close> is the
  lease the key is attached to, a write without a lease detaches it, and the expiry of a lease removes
  exactly the keys attached to it.
\<close>

locale lease_server = etcd_server api kvs up
  for api :: "'e clientv3" and kvs :: "'e \<Rightarrow> string \<Rightarrow> string option" and up :: "'e \<Rightarrow> bool" +
  fixes lease_of :: "'e \<Rightarrow> string \<Rightarrow> int option" and expire :: "int \<Rightarrow> 'e \<Rightarrow> 'e"
  assumes put_detaches: "cPut api k v e = (None, e') \<Longrightarrow> lease_of e' = (lease_of e)(k := None)"
    and put_attaches: "cPutWithLease api k v l e = (None, e') \<Longrightarrow> lease_of e' = (lease_of e)(k := Some l)"
    and get_leases: "cGetWithPrefix api p e = (g, e') \<Longrightarrow> lease_of e' = lease_of e"
    and delete_leases: "cDeleteWithPrefix api p e = (None, e') \<Longrightarrow>
      lease_of e' = (\<lambda>k. if prefix p k then None else lease_of e k)"
    and expire_kvs: "kvs (expire l e) = (\<lambda>k. if lease_of e k = Some l then None else kvs e k)"
    and expire_leases: "lease_of (expire l e) = (\<lambda>k. if lease_of e k = Some l then None else lease_of e k)"
    and expire_up: "up (expire l e) = up e"
begin

lemma get_keeps_leases: "up e \<Longrightarrow> EtcdGet (client l) p e = (r, e') \<Longrightarrow> lease_of e' = lease_of e"
  using get_up get_leases
  by (cases "cGetWithPrefix api p e") (fastforce simp: etcd_op_defs ret_def split: sum.splits if_splits)

lemma serving_keeps_leases:
  assumes "up e" and "IsIdentityServing (client l) it identity e = (Ret n, e')"
  shows "lease_of e' = lease_of e"
proof -
  obtain m e1 where get: "EtcdGet (client l) (KvmSvcIdentitiToPodIps @ identity) e = (Ret (Inr m), e1)" "up e1"
    using kv.get_spec [OF assms(1)] by blast
  obtain m2 e2 where get2: "EtcdGet (client l) KvmOprIdentityToLabel e1 = (Ret (Inr m2), e2)"
    using kv.get_spec [OF get(2)] by blast
  show ?thesis
    using assms get get2 get_keeps_leases [OF assms(1) get(1)] get_keeps_leases [OF get(2) get2]
    by (auto simp: IsIdentityServing_def andThen_def ret_def split: if_splits)
qed

text \<open>An accepted registration attaches the entry to the lease of the pod, and changes no other lease.\<close>

lemma register_attaches:
  assumes "up e" and "permuting it" and "identity_known (kvs e) identity" and "\<not> identity_taken (kvs e) identity"
  obtains e' where "RegisterAgentIdentity (client l) podIp it identity e = (Ret (0, None), e')" "up e'"
    "kvs e' = (kvs e)(KvmSvcIdentitiToPodIps @ identity \<mapsto> podIp)"
    "lease_of e' = (lease_of e)(KvmSvcIdentitiToPodIps @ identity := Some l)"
proof -
  from wp_IsIdentityServing [OF assms(1,2), of l identity] obtain e1 where
    e1: "IsIdentityServing (client l) it identity e = (Ret 1, e1)" "up e1" "kvs e1 = kvs e"
    using assms(3,4) by (auto simp: wp_def)
  obtain e2 where e2: "EtcdPutWithTTL (client l) (KvmSvcIdentitiToPodIps @ identity) podIp e1 = (Ret None, e2)" "up e2"
      "kvs e2 = (kvs e1)(KvmSvcIdentitiToPodIps @ identity \<mapsto> podIp)"
    using kv.putTTL_spec [OF e1(2)] by blast
  then have "cPutWithLease api (KvmSvcIdentitiToPodIps @ identity) podIp l e1 = (None, e2)"
    by (simp add: etcd_op_defs split: prod.splits)
  from put_attaches [OF this] serving_keeps_leases [OF assms(1) e1(1)]
  have "lease_of e2 = (lease_of e)(KvmSvcIdentitiToPodIps @ identity := Some l)" by simp
  with e1 e2 show ?thesis by (intro that) (simp_all add: RegisterAgentIdentity_def ret_def)
qed

text \<open>If only entries of the service are leased, the expiry of a lease leaves what the operator knows.\<close>

definition service_leases :: "'e \<Rightarrow> bool" where
  "service_leases e \<longleftrightarrow> (\<forall>k. lease_of e k \<noteq> None \<longrightarrow> prefix KvmSvcIdentitiToPodIps k)"

lemma expire_operator_keys:
  "service_leases e \<Longrightarrow> \<not> prefix KvmSvcIdentitiToPodIps k \<Longrightarrow> kvs (expire l e) k = kvs e k"
  by (force simp: service_leases_def expire_kvs)

lemma expire_known:
  assumes "service_leases e"
  shows "identity_known (kvs (expire l e)) identity = identity_known (kvs e) identity"
proof -
  have "\<not> prefix KvmSvcIdentitiToPodIps k" if "prefix KvmOprIdentityToLabel k" for k
    using that by (auto simp: prefix_def)
  with expire_operator_keys [OF assms, of _ l] show ?thesis
    unfolding identity_known_def by (intro ex_cong1) auto
qed

end


section \<open>A reference server with leases\<close>

record lease_etcd =
  le_store :: mem_etcd
  le_lease :: "string \<Rightarrow> int option"

definition lease_call :: "(mem_etcd \<Rightarrow> 'a \<times> mem_etcd) \<Rightarrow> ((string \<Rightarrow> int option) \<Rightarrow> string \<Rightarrow> int option) \<Rightarrow>
    ('a \<Rightarrow> bool) \<Rightarrow> lease_etcd \<Rightarrow> 'a \<times> lease_etcd" where
  "lease_call f upd ok e =
     (case f (le_store e) of (r, m) \<Rightarrow> (r, \<lparr>le_store = m, le_lease = (if ok r then upd (le_lease e) else le_lease e)\<rparr>))"

definition lease_api :: "lease_etcd clientv3" where
  "lease_api =
     \<lparr>cPut = (\<lambda>k v. lease_call (cPut mem_api k v) (\<lambda>L. L(k := None)) (\<lambda>r. r = None)),
      cPutWithLease = (\<lambda>k v l. lease_call (cPutWithLease mem_api k v l) (\<lambda>L. L(k := Some l)) (\<lambda>r. r = None)),
      cGetWithPrefix = (\<lambda>p. lease_call (cGetWithPrefix mem_api p) (\<lambda>L. L) (\<lambda>r. True)),
      cDeleteWithPrefix = (\<lambda>p. lease_call (cDeleteWithPrefix mem_api p) (\<lambda>L k. if prefix p k then None else L k) (\<lambda>r. r = None)),
      cGrant = (\<lambda>ttl. lease_call (cGrant mem_api ttl) (\<lambda>L. L) (\<lambda>r. True)),
      cKeepAlive = (\<lambda>l. lease_call (cKeepAlive mem_api l) (\<lambda>L. L) (\<lambda>r. True))\<rparr>"

definition le_expire :: "int \<Rightarrow> lease_etcd \<Rightarrow> lease_etcd" where
  "le_expire l e =
     \<lparr>le_store = (le_store e)\<lparr>mem_data := filter (\<lambda>(k, v). le_lease e k \<noteq> Some l) (mem_data (le_store e))\<rparr>,
      le_lease = (\<lambda>k. if le_lease e k = Some l then None else le_lease e k)\<rparr>"

abbreviation le_kvs :: "lease_etcd \<Rightarrow> string \<Rightarrow> string option" where
  "le_kvs e \<equiv> mem_kvs (le_store e)"

abbreviation le_up :: "lease_etcd \<Rightarrow> bool" where
  "le_up e \<equiv> mem_online (le_store e)"

lemma lease_callE:
  assumes "lease_call f upd ok e = (r, e')"
  shows "f (le_store e) = (r, le_store e')" "le_lease e' = (if ok r then upd (le_lease e) else le_lease e)"
  using assms by (auto simp: lease_call_def split: prod.splits)

lemma lease_api_simps:
  "cPut lease_api k v = lease_call (cPut mem_api k v) (\<lambda>L. L(k := None)) (\<lambda>r. r = None)"
  "cPutWithLease lease_api k v l = lease_call (cPutWithLease mem_api k v l) (\<lambda>L. L(k := Some l)) (\<lambda>r. r = None)"
  "cGetWithPrefix lease_api p = lease_call (cGetWithPrefix mem_api p) (\<lambda>L. L) (\<lambda>r. True)"
  "cDeleteWithPrefix lease_api p =
     lease_call (cDeleteWithPrefix mem_api p) (\<lambda>L k. if prefix p k then None else L k) (\<lambda>r. r = None)"
  by (simp_all add: lease_api_def)

lemma lease_runs:
  "cPut lease_api k v e = (r, e') \<Longrightarrow> cPut mem_api k v (le_store e) = (r, le_store e')"
  "cPutWithLease lease_api k v l e = (r, e') \<Longrightarrow> cPutWithLease mem_api k v l (le_store e) = (r, le_store e')"
  "cGetWithPrefix lease_api p e = (g, e') \<Longrightarrow> cGetWithPrefix mem_api p (le_store e) = (g, le_store e')"
  "cDeleteWithPrefix lease_api p e = (r, e') \<Longrightarrow> cDeleteWithPrefix mem_api p (le_store e) = (r, le_store e')"
  unfolding lease_api_simps by (erule lease_callE(1))+

lemma lease_changes:
  "cPut lease_api k v e = (None, e') \<Longrightarrow> le_lease e' = (le_lease e)(k := None)"
  "cPutWithLease lease_api k v l e = (None, e') \<Longrightarrow> le_lease e' = (le_lease e)(k := Some l)"
  "cGetWithPrefix lease_api p e = (g, e') \<Longrightarrow> le_lease e' = le_lease e"
  "cDeleteWithPrefix lease_api p e = (None, e') \<Longrightarrow> le_lease e' = (\<lambda>k. if prefix p k then None else le_lease e k)"
  unfolding lease_api_simps by (drule lease_callE(2), simp)+

interpretation leased: lease_server lease_api le_kvs le_up le_lease le_expire
proof (unfold_locales, goal_cases)
  case (1 k v e e')
  from lease_runs(1) [OF this] show ?case by (rule mem.put_ok)
next
  case (2 k v l e e')
  from lease_runs(2) [OF this] show ?case by (rule mem.put_lease_ok)
next
  case (3 p e g e')
  from lease_runs(3) [OF this] show ?case by (rule mem.get_kvs)
next
  case (4 p e kv e')
  from lease_runs(3) [OF this] show ?case by (rule mem.get_ok)
next
  case (5 p e e')
  from lease_runs(4) [OF this] show ?case by (rule mem.delete_ok)
next
  case (6 e k v r e')
  from this(1) lease_runs(1) [OF this(2)] show ?case by (rule mem.put_up)
next
  case (7 e k v l r e')
  from this(1) lease_runs(2) [OF this(2)] show ?case by (rule mem.put_lease_up)
next
  case (8 e p g e')
  from this(1) lease_runs(3) [OF this(2)] show ?case by (rule mem.get_up)
next
  case (9 e p r e')
  from this(1) lease_runs(4) [OF this(2)] show ?case by (rule mem.delete_up)
next
  case (14 l e)
  then show ?case by (simp add: le_expire_def mem_kvs_def map_of_filter_keys fun_eq_iff)
qed (simp_all add: lease_changes le_expire_def)


section \<open>Properties\<close>


definition demo_leased :: lease_etcd where
  "demo_leased = \<lparr>le_store = \<lparr>mem_data = [(KvmOprIdentityToLabel @ u16_str 5, ''env=prod'')], mem_online = True\<rparr>,
     le_lease = Map.empty\<rparr>"


end
