(* ===== verification/Go_Heap.thy ===== *)
theory Go_Heap
  imports KVM_Prelude
begin

text \<open>
  Go values in memory, as far as deep copies need them. A structure is a value with named fields.
  A slice is nil or a window on an array in the heap, a map is nil or the address of a table; both
  are references, so that assigning a structure shares the arrays and maps it refers to. A pointer
  to a structure is the address of an array with one element. \<open>ty\<close> describes Go types, \<open>wt\<close> says
  that a value has a type and refers only to allocated memory, \<open>deep\<close> is the value with all
  references followed, and \<open>reach\<close> is the memory it refers to, directly or not.
\<close>


section \<open>Values and types\<close>

datatype scalar = SString string | SInt int | SBool bool

datatype obj =
    Scalar scalar
  | SliceV "(nat \<times> nat \<times> nat) option"   \<comment> \<open>array, offset, length\<close>
  | MapV "nat option"
  | StructV "(string \<times> obj) list"

datatype ty = TScalar scalar | TSlice ty | TMap | TStruct "(string \<times> ty) list"

text \<open>\<open>TScalar z\<close> has the zero value \<open>z\<close>; the scalar types are told apart by it.\<close>

record heap =
  arrays :: "nat \<Rightarrow> obj list"
  tables :: "nat \<Rightarrow> (string, string) gomap"
  next_addr :: nat

definition fld :: "(string \<times> obj) list \<Rightarrow> string \<Rightarrow> obj" where
  "fld vs nm = (case map_of vs nm of None \<Rightarrow> Scalar (SInt 0) | Some v \<Rightarrow> v)"

lemma size_field [termination_simp]: "(nm, t) \<in> set fs \<Longrightarrow> size t < Suc (size_list (size_prod (\<lambda>_. 0) size) fs)"
  by (induction fs) (auto simp: size_prod_def)

fun zero_value :: "ty \<Rightarrow> obj" where
  "zero_value (TScalar z) = Scalar z"
| "zero_value (TSlice t) = SliceV None"
| "zero_value TMap = MapV None"
| "zero_value (TStruct fs) = StructV (map (\<lambda>(nm, t). (nm, zero_value t)) fs)"

fun same_kind :: "scalar \<Rightarrow> scalar \<Rightarrow> bool" where
  "same_kind (SString _) (SString _) = True"
| "same_kind (SInt _) (SInt _) = True"
| "same_kind (SBool _) (SBool _) = True"
| "same_kind _ _ = False"

abbreviation window :: "heap \<Rightarrow> nat \<Rightarrow> nat \<Rightarrow> nat \<Rightarrow> obj list" where
  "window h a off n \<equiv> take n (drop off (arrays h a))"

fun wt :: "ty \<Rightarrow> heap \<Rightarrow> obj \<Rightarrow> bool" where
  "wt (TScalar z) h (Scalar x) = same_kind z x"
| "wt (TSlice t) h (SliceV None) = True"
| "wt (TSlice t) h (SliceV (Some (a, off, n))) =
     (a < next_addr h \<and> off + n \<le> length (arrays h a) \<and> (\<forall>v \<in> set (window h a off n). wt t h v))"
| "wt TMap h (MapV None) = True"
| "wt TMap h (MapV (Some a)) = (a < next_addr h \<and> gomap_ok (tables h a))"
| "wt (TStruct fs) h (StructV vs) =
     (distinct (map fst fs) \<and> map fst vs = map fst fs \<and> (\<forall>(nm, t) \<in> set fs. wt t h (fld vs nm)))"
| "wt _ h _ = False"

datatype dval =
    DScalar scalar
  | DSlice "dval list option"
  | DMap "(string \<Rightarrow> string option) option"
  | DStruct "(string \<times> dval) list"
  | DBad

fun deep :: "ty \<Rightarrow> heap \<Rightarrow> obj \<Rightarrow> dval" where
  "deep (TScalar z) h (Scalar x) = DScalar x"
| "deep (TSlice t) h (SliceV None) = DSlice None"
| "deep (TSlice t) h (SliceV (Some (a, off, n))) = DSlice (Some (map (deep t h) (window h a off n)))"
| "deep TMap h (MapV None) = DMap None"
| "deep TMap h (MapV (Some a)) = DMap (Some (map_of (tables h a)))"
| "deep (TStruct fs) h (StructV vs) = DStruct (map (\<lambda>(nm, t). (nm, deep t h (fld vs nm))) fs)"
| "deep _ h _ = DBad"

fun reach :: "ty \<Rightarrow> heap \<Rightarrow> obj \<Rightarrow> nat set" where
  "reach (TSlice t) h (SliceV (Some (a, off, n))) = insert a (\<Union>v \<in> set (window h a off n). reach t h v)"
| "reach TMap h (MapV (Some a)) = {a}"
| "reach (TStruct fs) h (StructV vs) = (\<Union>(nm, t) \<in> set fs. reach t h (fld vs nm))"
| "reach _ h _ = {}"

text \<open>Types whose values hold no reference\<close>

fun flat :: "ty \<Rightarrow> bool" where
  "flat (TScalar z) = True"
| "flat (TSlice t) = False"
| "flat TMap = False"
| "flat (TStruct fs) = (\<forall>(nm, t) \<in> set fs. flat t)"

lemma wt_StructE:
  assumes "wt (TStruct fs) h v"
  obtains vs where "v = StructV vs" "distinct (map fst fs)" "map fst vs = map fst fs"
    "\<And>nm t. (nm, t) \<in> set fs \<Longrightarrow> wt t h (fld vs nm)"
  using assms by (cases v) auto

lemma wt_SliceE:
  assumes "wt (TSlice t) h v"
  obtains "v = SliceV None"
  | a off n where "v = SliceV (Some (a, off, n))" "a < next_addr h" "off + n \<le> length (arrays h a)"
      "\<And>x. x \<in> set (window h a off n) \<Longrightarrow> wt t h x"
  using assms by (cases "(TSlice t, h, v)" rule: wt.cases) auto

lemma wt_MapE:
  assumes "wt TMap h v"
  obtains "v = MapV None" | a where "v = MapV (Some a)" "a < next_addr h" "gomap_ok (tables h a)"
  using assms by (cases "(TMap, h, v)" rule: wt.cases) auto

lemma fld_simps [simp]:
  "fld ((m, v) # vs) nm = (if nm = m then v else fld vs nm)"
  by (simp add: fld_def)

lemma flat_reach: "flat t \<Longrightarrow> reach t h v = {}"
  by (induction t h v rule: reach.induct) auto

lemma reach_below: "wt t h v \<Longrightarrow> reach t h v \<subseteq> {..<next_addr h}"
  by (induction t h v rule: reach.induct) fastforce+


section \<open>What a value depends on\<close>

text \<open>Two heaps agree on a set of addresses.\<close>

definition agree :: "nat set \<Rightarrow> heap \<Rightarrow> heap \<Rightarrow> bool" where
  "agree A h h' \<longleftrightarrow> (\<forall>a \<in> A. arrays h' a = arrays h a \<and> tables h' a = tables h a)"

lemma agree_refl [simp]: "agree A h h"
  by (simp add: agree_def)

lemma agree_trans: "agree A h1 h2 \<Longrightarrow> agree A h2 h3 \<Longrightarrow> agree A h1 h3"
  by (simp add: agree_def)

lemma agree_mono: "agree A h h' \<Longrightarrow> B \<subseteq> A \<Longrightarrow> agree B h h'"
  by (auto simp: agree_def)

lemma deep_agree: "agree (reach t h v) h h' \<Longrightarrow> deep t h' v = deep t h v"
proof (induction t h v rule: deep.induct)
  case (3 t h a off n)
  then have "arrays h' a = arrays h a" by (simp add: agree_def)
  with 3 show ?case by (auto simp: agree_def)
next
  case (6 fs h vs)
  then show ?case by (auto simp: agree_def split: prod.splits)
qed (auto simp: agree_def)

lemma reach_agree: "agree (reach t h v) h h' \<Longrightarrow> reach t h' v = reach t h v"
proof (induction t h v rule: reach.induct)
  case (1 t h a off n)
  then have "arrays h' a = arrays h a" by (simp add: agree_def)
  with 1 show ?case by (auto simp: agree_def)
next
  case (3 fs h vs)
  then have "reach t h' (fld vs nm) = reach t h (fld vs nm)" if "(nm, t) \<in> set fs" for nm t
    using that by (fastforce simp: agree_def)
  then show ?case by (simp cong: SUP_cong) (rule SUP_cong, auto)
qed (auto simp: agree_def)

lemma wt_agree: "wt t h v \<Longrightarrow> agree (reach t h v) h h' \<Longrightarrow> next_addr h \<le> next_addr h' \<Longrightarrow> wt t h' v"
proof (induction t h v rule: wt.induct)
  case (3 t h a off n)
  then have "arrays h' a = arrays h a" by (simp add: agree_def)
  with 3 show ?case by (auto simp: agree_def)
next
  case (6 fs h vs)
  have "wt t h' (fld vs nm)" if "(nm, t) \<in> set fs" for nm t
    using 6 that by (fastforce simp: agree_def)
  with 6 show ?case by auto
qed (auto simp: agree_def)


section \<open>Allocation and the shapes of generated copies\<close>

definition new_array :: "obj list \<Rightarrow> heap \<Rightarrow> nat \<times> heap" where
  "new_array vs h =
     (next_addr h, h\<lparr>arrays := (arrays h)(next_addr h := vs), next_addr := Suc (next_addr h)\<rparr>)"

definition new_table :: "(string, string) gomap \<Rightarrow> heap \<Rightarrow> nat \<times> heap" where
  "new_table m h =
     (next_addr h, h\<lparr>tables := (tables h)(next_addr h := m), next_addr := Suc (next_addr h)\<rparr>)"

definition store_at :: "nat \<Rightarrow> nat \<Rightarrow> obj \<Rightarrow> heap \<Rightarrow> heap" where
  "store_at b i v h = h\<lparr>arrays := (arrays h)(b := (arrays h b)[i := v])\<rparr>"

text \<open>A copy reads the original and gives the new value of the field or variable it is assigned to.\<close>

type_synonym copier = "obj \<Rightarrow> heap \<Rightarrow> obj \<times> heap"

text \<open>\<open>*out = make([]T, len(*in)); copy(*out, *in)\<close>, under \<open>if in.F != nil\<close>\<close>

definition copy_slice :: copier where
  "copy_slice v h =
     (case v of
        SliceV (Some (a, off, n)) \<Rightarrow>
          (let (b, h') = new_array (window h a off n) h in (SliceV (Some (b, 0, n)), h'))
      | _ \<Rightarrow> (v, h))"

text \<open>\<open>for i := range *in { (*in)[i].DeepCopyInto(&(*out)[i]) }\<close>: \<open>k\<close> rounds are left\<close>

fun copy_rounds :: "copier \<Rightarrow> nat \<Rightarrow> nat \<Rightarrow> nat \<Rightarrow> nat \<Rightarrow> nat \<Rightarrow> heap \<Rightarrow> heap" where
  "copy_rounds f a off b i 0 h = h"
| "copy_rounds f a off b i (Suc k) h =
     (let (v, h') = f (arrays h a ! (off + i)) h
      in copy_rounds f a off b (Suc i) k (store_at b i v h'))"

definition copy_each :: "ty \<Rightarrow> copier \<Rightarrow> copier" where
  "copy_each t f v h =
     (case v of
        SliceV (Some (a, off, n)) \<Rightarrow>
          (let (b, h') = new_array (replicate n (zero_value t)) h
           in (SliceV (Some (b, 0, n)), copy_rounds f a off b 0 n h'))
      | _ \<Rightarrow> (v, h))"

text \<open>\<open>*out = make(map[string]string, len(*in))\<close> and a \<open>range\<close> over the map, in the order \<open>it\<close>\<close>

definition copy_map :: "iteration \<Rightarrow> copier" where
  "copy_map it v h =
     (case v of
        MapV (Some a) \<Rightarrow>
          (let (b, h') = new_table (fold (\<lambda>(key, val) m. AList.update key val m) (it (tables h a)) []) h
           in (MapV (Some b), h'))
      | _ \<Rightarrow> (v, h))"

text \<open>\<open>*out = *in\<close>, and then one copy for each field that is listed\<close>

definition set_fld :: "string \<Rightarrow> obj \<Rightarrow> (string \<times> obj) list \<Rightarrow> (string \<times> obj) list" where
  "set_fld nm v vs = map (\<lambda>(m, w). (m, if m = nm then v else w)) vs"

fun copy_rest :: "(string \<times> copier) list \<Rightarrow> (string \<times> obj) list \<Rightarrow> (string \<times> obj) list \<Rightarrow> heap \<Rightarrow> obj \<times> heap" where
  "copy_rest [] inp out h = (StructV out, h)"
| "copy_rest ((nm, f) # cs) inp out h =
     (let (v, h') = f (fld inp nm) h in copy_rest cs inp (set_fld nm v out) h')"

definition copy_fields :: "(string \<times> copier) list \<Rightarrow> copier" where
  "copy_fields cs v h = (case v of StructV vs \<Rightarrow> copy_rest cs vs vs h | _ \<Rightarrow> (v, h))"

text \<open>
  \<open>DeepCopy\<close>: nil for nil; otherwise a new zero structure, and \<open>DeepCopyInto\<close> into it.
\<close>

definition deep_copy :: "ty \<Rightarrow> copier \<Rightarrow> nat option \<Rightarrow> heap \<Rightarrow> nat option \<times> heap" where
  "deep_copy t f p h =
     (case p of
        None \<Rightarrow> (None, h)
      | Some a \<Rightarrow>
          (let (b, h1) = new_array [zero_value t] h; (v, h2) = f (arrays h1 a ! 0) h1
           in (Some b, store_at b 0 v h2)))"


section \<open>What a copy promises\<close>

text \<open>
  A copy of a value of type \<open>t\<close>: memory that was allocated before is untouched, the result has the
  type and the same deep value, and refers only to memory the copy has allocated itself.
\<close>

definition copied :: "ty \<Rightarrow> heap \<Rightarrow> obj \<Rightarrow> obj \<Rightarrow> heap \<Rightarrow> bool" where
  "copied t h v v' h' \<longleftrightarrow>
     next_addr h \<le> next_addr h' \<and> agree {..<next_addr h} h h' \<and>
     wt t h' v' \<and> deep t h' v' = deep t h v \<and> reach t h' v' \<subseteq> {next_addr h..<next_addr h'}"

definition copies :: "ty \<Rightarrow> copier \<Rightarrow> bool" where
  "copies t f \<longleftrightarrow> (\<forall>h v. wt t h v \<longrightarrow> (case f v h of (v', h') \<Rightarrow> copied t h v v' h'))"

named_theorems copies_intros \<open>the generated functions copy\<close>

lemma copiesD: "copies t f \<Longrightarrow> wt t h v \<Longrightarrow> f v h = (v', h') \<Longrightarrow> copied t h v v' h'"
  by (fastforce simp: copies_def)

lemma copiesI: "(\<And>h v v' h'. wt t h v \<Longrightarrow> f v h = (v', h') \<Longrightarrow> copied t h v v' h') \<Longrightarrow> copies t f"
  by (auto simp: copies_def)

lemma wt_alloc: "wt t h v \<Longrightarrow> agree {..<next_addr h} h h' \<Longrightarrow> next_addr h \<le> next_addr h' \<Longrightarrow> wt t h' v"
  by (meson agree_mono reach_below wt_agree)

lemma deep_alloc: "wt t h v \<Longrightarrow> agree {..<next_addr h} h h' \<Longrightarrow> deep t h' v = deep t h v"
  by (meson agree_mono reach_below deep_agree)

lemma reach_alloc: "wt t h v \<Longrightarrow> agree {..<next_addr h} h h' \<Longrightarrow> reach t h' v = reach t h v"
  by (meson agree_mono reach_below reach_agree)

lemma new_array_facts [simp]:
  "next_addr (snd (new_array vs h)) = Suc (next_addr h)" "arrays (snd (new_array vs h)) (next_addr h) = vs"
  "agree {..<next_addr h} h (snd (new_array vs h))" "fst (new_array vs h) = next_addr h"
  by (auto simp: new_array_def agree_def)

text \<open>A new array with copies of the elements is a copy of the slice.\<close>

lemma copied_slice:
  assumes "wt (TSlice t) h (SliceV (Some (a, off, n)))" and "agree {..<next_addr h} h h'"
    and "next_addr h < next_addr h'" and "length (arrays h' (next_addr h)) = n"
    and each: "\<And>i. i < n \<Longrightarrow> wt t h' (arrays h' (next_addr h) ! i) \<and>
      deep t h' (arrays h' (next_addr h) ! i) = deep t h (arrays h a ! (off + i)) \<and>
      reach t h' (arrays h' (next_addr h) ! i) \<subseteq> {next_addr h..<next_addr h'}"
  shows "copied (TSlice t) h (SliceV (Some (a, off, n))) (SliceV (Some (next_addr h, 0, n))) h'"
proof -
  have win: "window h' (next_addr h) 0 n = arrays h' (next_addr h)" using assms(4) by simp
  have all: "wt t h' x \<and> reach t h' x \<subseteq> {next_addr h..<next_addr h'}" if "x \<in> set (arrays h' (next_addr h))" for x
    using that each assms(4) by (auto simp: in_set_conv_nth)
  have "off + n \<le> length (arrays h a)" using assms(1) by simp
  then have "map (deep t h') (arrays h' (next_addr h)) = map (deep t h) (window h a off n)"
    using each assms(4) by (simp add: list_eq_iff_nth_eq)
  moreover have "reach (TSlice t) h' (SliceV (Some (next_addr h, 0, n))) \<subseteq> {next_addr h..<next_addr h'}"
    using all assms(3) unfolding reach.simps win by fastforce
  ultimately show ?thesis
    using all assms(2-4) win by (simp add: copied_def)
qed

text \<open>Elements without references may be copied as they are.\<close>

lemma copies_slice [copies_intros]:
  assumes "flat t"
  shows "copies (TSlice t) copy_slice"
proof (rule copiesI)
  fix h v v' h'
  assume wt: "wt (TSlice t) h v" and run: "copy_slice v h = (v', h')"
  from wt show "copied (TSlice t) h v v' h'"
  proof (cases rule: wt_SliceE)
    case 1
    with run show ?thesis by (auto simp: copy_slice_def copied_def)
  next
    case (2 a off n)
    let ?vs = "window h a off n"
    have v': "v' = SliceV (Some (next_addr h, 0, n))" and h': "h' = snd (new_array ?vs h)"
      using run 2(1) by (simp_all add: copy_slice_def new_array_def)
    have el: "?vs ! i \<in> set ?vs \<and> ?vs ! i = arrays h a ! (off + i)" if "i < n" for i
      using that 2(3) by (intro conjI nth_mem) simp_all
    have "wt t h' x \<and> deep t h' x = deep t h x" if "x \<in> set ?vs" for x
      using wt_alloc [OF 2(4) [OF that], of h'] deep_alloc [OF 2(4) [OF that], of h'] unfolding h' by simp
    then have "copied (TSlice t) h (SliceV (Some (a, off, n))) (SliceV (Some (next_addr h, 0, n))) h'"
      by (intro copied_slice) (use wt 2 el flat_reach [OF assms] in \<open>simp_all add: h'\<close>)
    then show ?thesis by (simp add: v' 2(1))
  qed
qed

text \<open>The loop over the elements: the first \<open>i\<close> elements of the new array \<open>b\<close> are copies.\<close>

definition copied_upto :: "ty \<Rightarrow> heap \<Rightarrow> nat \<Rightarrow> nat \<Rightarrow> nat \<Rightarrow> nat \<Rightarrow> heap \<Rightarrow> bool" where
  "copied_upto t h a off n i g \<longleftrightarrow>
     next_addr h < next_addr g \<and> agree {..<next_addr h} h g \<and> length (arrays g (next_addr h)) = n \<and>
     (\<forall>j < i. wt t g (arrays g (next_addr h) ! j) \<and>
        deep t g (arrays g (next_addr h) ! j) = deep t h (arrays h a ! (off + j)) \<and>
        reach t g (arrays g (next_addr h) ! j) \<subseteq> {next_addr h<..<next_addr g})"

lemma agree_store: "b \<notin> A \<Longrightarrow> agree A h (store_at b i v h)"
  by (auto simp: agree_def store_at_def)

lemma copied_upto_step:
  assumes f: "copies t f" and wt: "\<And>x. x \<in> set (window h a off n) \<Longrightarrow> wt t h x"
    and a: "a < next_addr h" "off + n \<le> length (arrays h a)" and i: "i < n"
    and inv: "copied_upto t h a off n i g" and run: "f (arrays g a ! (off + i)) g = (v, g')"
  shows "copied_upto t h a off n (Suc i) (store_at (next_addr h) i v g')"
proof -
  let ?b = "next_addr h" and ?g = "store_at (next_addr h) i v g'"
  have g: "next_addr h < next_addr g" "agree {..<next_addr h} h g" "length (arrays g ?b) = n"
    using inv by (simp_all add: copied_upto_def)
  have same: "arrays g a = arrays h a" using g(2) a(1) by (simp add: agree_def)
  have "arrays h a ! (off + i) \<in> set (window h a off n)"
    using i a(2) nth_mem [of i "window h a off n"] by simp
  then have x: "wt t h (arrays h a ! (off + i))" by (rule wt)
  have "wt t g (arrays g a ! (off + i))" using wt_alloc [OF x g(2)] g(1) same by simp
  from copiesD [OF f this run] have c: "copied t g (arrays g a ! (off + i)) v g'" .
  then have g': "next_addr g \<le> next_addr g'" "agree {..<next_addr g} g g'" "wt t g' v"
      "deep t g' v = deep t h (arrays h a ! (off + i))" "reach t g' v \<subseteq> {next_addr g..<next_addr g'}"
    using deep_alloc [OF x g(2)] by (simp_all add: copied_def same)
  have len: "length (arrays g' ?b) = n" using g'(2) g(1,3) by (simp add: agree_def)
  have old: "wt t ?g w \<and> deep t ?g w = deep t g' w \<and> reach t ?g w = reach t g' w" if "wt t g' w" "?b \<notin> reach t g' w" for w
    using agree_store [OF that(2)] that(1) wt_agree deep_agree reach_agree by (simp add: store_at_def)
  have "wt t ?g (arrays ?g ?b ! j) \<and> deep t ?g (arrays ?g ?b ! j) = deep t h (arrays h a ! (off + j)) \<and>
      reach t ?g (arrays ?g ?b ! j) \<subseteq> {?b<..<next_addr g'}" if "j < Suc i" for j
  proof (cases "j = i")
    case True
    have "?b \<notin> reach t g' v" using g'(5) g(1) by auto
    with old [OF g'(3)] g'(4,5) g(1) True i len show ?thesis by (auto simp: store_at_def)
  next
    case False
    let ?w = "arrays g ?b ! j"
    have "j < i" using False that by simp
    then have w: "wt t g ?w" "deep t g ?w = deep t h (arrays h a ! (off + j))" "reach t g ?w \<subseteq> {?b<..<next_addr g}"
      using inv by (simp_all add: copied_upto_def)
    have w': "wt t g' ?w" "deep t g' ?w = deep t g ?w" "reach t g' ?w = reach t g ?w"
      using wt_alloc [OF w(1) g'(2,1)] deep_alloc [OF w(1) g'(2)] reach_alloc [OF w(1) g'(2)] by simp_all
    moreover have "arrays ?g ?b ! j = ?w" using False g'(2) g(1) by (simp add: store_at_def agree_def)
    moreover have "?b \<notin> reach t g' ?w" using w(3) w'(3) by auto
    ultimately show ?thesis using old [OF w'(1)] w(2,3) g'(1) by auto
  qed
  moreover have "agree {..<?b} h ?g"
    by (rule agree_trans [OF g(2)], rule agree_trans [OF agree_mono [OF g'(2)]]) (use g(1) in \<open>auto intro: agree_store\<close>)
  ultimately show ?thesis
    using len g(1) g'(1) by (simp add: copied_upto_def store_at_def)
qed

lemma copied_upto_rounds:
  assumes "copies t f" and "\<And>x. x \<in> set (window h a off n) \<Longrightarrow> wt t h x"
    and "a < next_addr h" "off + n \<le> length (arrays h a)"
    and "copied_upto t h a off n i g" and "i + k = n"
  shows "copied_upto t h a off n n (copy_rounds f a off (next_addr h) i k g)"
  using assms(5,6)
proof (induction k arbitrary: i g)
  case (Suc k)
  obtain v g' where run: "f (arrays g a ! (off + i)) g = (v, g')" by fastforce
  have "copied_upto t h a off n (Suc i) (store_at (next_addr h) i v g')"
    by (rule copied_upto_step [OF assms(1-4) _ Suc.prems(1) run]) (use Suc.prems(2) in auto)
  then show ?case using Suc.IH Suc.prems(2) by (simp add: run)
qed simp

lemma copies_each [copies_intros]:
  assumes "copies t f"
  shows "copies (TSlice t) (copy_each t f)"
proof (rule copiesI)
  fix h v v' h'
  assume wt: "wt (TSlice t) h v" and run: "copy_each t f v h = (v', h')"
  from wt show "copied (TSlice t) h v v' h'"
  proof (cases rule: wt_SliceE)
    case 1
    with run show ?thesis by (auto simp: copy_each_def copied_def)
  next
    case (2 a off n)
    let ?g = "snd (new_array (replicate n (zero_value t)) h)"
    have v': "v' = SliceV (Some (next_addr h, 0, n))" and h': "h' = copy_rounds f a off (next_addr h) 0 n ?g"
      using run 2(1) by (simp_all add: copy_each_def new_array_def)
    have "copied_upto t h a off n 0 ?g" by (simp add: copied_upto_def)
    from copied_upto_rounds [OF assms 2(4,2,3) this] have "copied_upto t h a off n n h'" by (simp add: h')
    then have up: "next_addr h < next_addr h'" "agree {..<next_addr h} h h'" "length (arrays h' (next_addr h)) = n"
      and el: "\<And>i. i < n \<Longrightarrow> wt t h' (arrays h' (next_addr h) ! i) \<and>
          deep t h' (arrays h' (next_addr h) ! i) = deep t h (arrays h a ! (off + i)) \<and>
          reach t h' (arrays h' (next_addr h) ! i) \<subseteq> {next_addr h<..<next_addr h'}"
      by (simp_all add: copied_upto_def)
    have "{next_addr h<..<next_addr h'} \<subseteq> {next_addr h..<next_addr h'}" by auto
    with el have el': "wt t h' (arrays h' (next_addr h) ! i) \<and>
          deep t h' (arrays h' (next_addr h) ! i) = deep t h (arrays h a ! (off + i)) \<and>
          reach t h' (arrays h' (next_addr h) ! i) \<subseteq> {next_addr h..<next_addr h'}" if "i < n" for i
      using that by (meson order_trans)
    from copied_slice [OF wt [unfolded 2(1)] up(2,1,3) el']
    have "copied (TSlice t) h (SliceV (Some (a, off, n))) (SliceV (Some (next_addr h, 0, n))) h'" .
    then show ?thesis by (simp add: v' 2(1))
  qed
qed

lemma copies_map [copies_intros]:
  assumes "permuting it"
  shows "copies TMap (copy_map it)"
proof (rule copiesI)
  fix h v v' h'
  assume wt: "wt TMap h v" and run: "copy_map it v h = (v', h')"
  from wt show "copied TMap h v v' h'"
  proof (cases rule: wt_MapE)
    case 1
    with run show ?thesis by (auto simp: copy_map_def copied_def)
  next
    case (2 a)
    let ?m = "fold (\<lambda>(key, val) m. AList.update key val m) (it (tables h a)) []"
    have m: "gomap_ok ?m" "map_of ?m = map_of (tables h a)"
      using 2(3) assms by (simp_all add: gomap_ok_fold_update map_of_range_copy)
    then show ?thesis
      using run 2 by (auto simp: copied_def copy_map_def new_table_def agree_def)
  qed
qed

text \<open>
  Structures. The fields that are listed are copied by a copier of their type; a field that is not
  listed must not hold a reference.
\<close>

definition covers :: "(string \<times> ty) list \<Rightarrow> (string \<times> copier) list \<Rightarrow> bool" where
  "covers fs cs \<longleftrightarrow> distinct (map fst cs) \<and>
     (\<forall>(nm, f) \<in> set cs. \<exists>t. (nm, t) \<in> set fs \<and> copies t f) \<and>
     (\<forall>(nm, t) \<in> set fs. nm \<notin> fst ` set cs \<longrightarrow> flat t)"

lemma map_fst_set_fld [simp]: "map fst (set_fld nm v vs) = map fst vs"
  by (induction vs) (auto simp: set_fld_def)

lemma fld_set_fld: "nm \<in> fst ` set vs \<Longrightarrow> fld (set_fld nm v vs) m = (if m = nm then v else fld vs m)"
proof -
  have "map_of (set_fld nm v vs) m = (if m = nm then map_option (\<lambda>_. v) (map_of vs m) else map_of vs m)"
    by (induction vs) (auto simp: set_fld_def)
  moreover assume "nm \<in> fst ` set vs"
  then have "map_of vs nm \<noteq> None" by (simp add: map_of_eq_None_iff)
  ultimately show ?thesis by (auto simp: fld_def)
qed

definition field_copied :: "ty \<Rightarrow> heap \<Rightarrow> obj \<Rightarrow> obj \<Rightarrow> heap \<Rightarrow> bool" where
  "field_copied t h v v' g \<longleftrightarrow> wt t g v' \<and> deep t g v' = deep t h v \<and> reach t g v' \<subseteq> {next_addr h..<next_addr g}"

lemma field_copied_later:
  assumes "field_copied t h v v' g" and "agree {..<next_addr g} g g'" and "next_addr g \<le> next_addr g'"
  shows "field_copied t h v v' g'"
proof -
  have w: "wt t g v'" and r: "reach t g v' \<subseteq> {next_addr h..<next_addr g}" using assms(1) by (simp_all add: field_copied_def)
  have "{next_addr h..<next_addr g} \<subseteq> {next_addr h..<next_addr g'}" using assms(3) by auto
  with r have "reach t g' v' \<subseteq> {next_addr h..<next_addr g'}" unfolding reach_alloc [OF w assms(2)] by (rule order_trans)
  with assms(1) wt_alloc [OF w assms(2,3)] deep_alloc [OF w assms(2)] show ?thesis by (simp add: field_copied_def)
qed

lemma copy_rest_invariant:
  assumes "copy_rest cs inp out g = (v', h')" and "wt (TStruct fs) h (StructV inp)"
    and "distinct (map fst cs)" and "\<And>nm f. (nm, f) \<in> set cs \<Longrightarrow> \<exists>t. (nm, t) \<in> set fs \<and> copies t f"
    and "next_addr h \<le> next_addr g" and "agree {..<next_addr h} h g" and "map fst out = map fst fs"
    and "\<And>nm t. (nm, t) \<in> set fs \<Longrightarrow> nm \<notin> fst ` set cs \<Longrightarrow> field_copied t h (fld inp nm) (fld out nm) g"
  shows "\<exists>vs. v' = StructV vs \<and> next_addr h \<le> next_addr h' \<and> agree {..<next_addr h} h h' \<and> map fst vs = map fst fs \<and>
    (\<forall>(nm, t) \<in> set fs. field_copied t h (fld inp nm) (fld vs nm) h')"
  using assms(1,3-8)
proof (induction cs arbitrary: out g)
  case Nil
  then show ?case by auto
next
  case (Cons c cs)
  obtain nm f where c: "c = (nm, f)" by fastforce
  obtain v g' where run: "f (fld inp nm) g = (v, g')" by fastforce
  obtain t where t: "(nm, t) \<in> set fs" "copies t f" using Cons.prems(3) c by auto
  have dist: "distinct (map fst fs)" and w: "wt t h (fld inp nm)" using assms(2) t(1) by auto
  have "copied t g (fld inp nm) v g'"
    by (rule copiesD [OF t(2) wt_alloc [OF w Cons.prems(5,4)] run])
  then have g': "next_addr g \<le> next_addr g'" "agree {..<next_addr g} g g'"
      and new: "field_copied t h (fld inp nm) v g'"
    using deep_alloc [OF w Cons.prems(5)] Cons.prems(4) by (force simp: copied_def field_copied_def)+
  have nm: "nm \<in> fst ` set out" using t(1) Cons.prems(6) by (metis image_set fst_conv imageI)
  have "field_copied t' h (fld inp m) (fld (set_fld nm v out) m) g'"
    if m: "(m, t') \<in> set fs" "m \<notin> fst ` set cs" for m t'
  proof (cases "m = nm")
    case True
    then have "t' = t" using dist m(1) t(1) by (metis eq_key_imp_eq_value)
    with True new nm show ?thesis by (simp add: fld_set_fld)
  next
    case False
    with m c have "field_copied t' h (fld inp m) (fld out m) g" by (intro Cons.prems(7)) auto
    with False nm show ?thesis by (simp add: fld_set_fld field_copied_later [OF _ g'(2,1)])
  qed
  moreover have "copy_rest cs inp (set_fld nm v out) g' = (v', h')" using Cons.prems(1) by (simp add: c run)
  moreover have "agree {..<next_addr h} h g'"
    using agree_trans [OF Cons.prems(5) agree_mono [OF g'(2)]] Cons.prems(4) by auto
  ultimately show ?case
    using Cons.prems(2,3,4,6) g'(1) by (intro Cons.IH [of "set_fld nm v out" g']) (auto simp: c)
qed

lemma copies_fields:
  assumes "covers fs cs"
  shows "copies (TStruct fs) (copy_fields cs)"
proof (rule copiesI)
  fix h v v' h'
  assume wt: "wt (TStruct fs) h v" and run: "copy_fields cs v h = (v', h')"
  from wt obtain vs where v: "v = StructV vs" "distinct (map fst fs)" "map fst vs = map fst fs"
      "\<And>nm t. (nm, t) \<in> set fs \<Longrightarrow> wt t h (fld vs nm)"
    by (rule wt_StructE) blast
  have flat: "field_copied t h (fld vs nm) (fld vs nm) h" if "(nm, t) \<in> set fs" "nm \<notin> fst ` set cs" for nm t
    using assms that v(4) flat_reach [of t h "fld vs nm"] by (fastforce simp: covers_def field_copied_def)
  have "copy_rest cs vs vs h = (v', h')" using run v(1) by (simp add: copy_fields_def)
  from copy_rest_invariant [OF this wt [unfolded v(1)] _ _ _ _ v(3) flat] assms
  obtain ws where ws: "v' = StructV ws" "next_addr h \<le> next_addr h'" "agree {..<next_addr h} h h'" "map fst ws = map fst fs"
      and each: "\<And>nm t. (nm, t) \<in> set fs \<Longrightarrow> field_copied t h (fld vs nm) (fld ws nm) h'"
    by (fastforce simp: covers_def)
  show "copied (TStruct fs) h v v' h'"
    unfolding copied_def ws(1) v(1)
    using each v(2) ws(2-4) by (fastforce simp: field_copied_def)
qed

text \<open>Pointers. \<open>points_to t h a v\<close>: the address holds one structure, \<open>v\<close>, of type \<open>t\<close>.\<close>

definition points_to :: "ty \<Rightarrow> heap \<Rightarrow> nat \<Rightarrow> obj \<Rightarrow> bool" where
  "points_to t h a v \<longleftrightarrow> a < next_addr h \<and> arrays h a = [v] \<and> wt t h v"

text \<open>All memory that can be reached through a pointer\<close>

definition owned :: "ty \<Rightarrow> heap \<Rightarrow> nat \<Rightarrow> nat set" where
  "owned t h a = insert a (reach t h (arrays h a ! 0))"

lemma deep_copy_nil [simp]: "deep_copy t f None h = (None, h)"
  by (simp add: deep_copy_def)

lemma deep_copy_correct:
  assumes "copies t f" and "points_to t h a v" and "deep_copy t f (Some a) h = (p, h')"
  shows "\<exists>b v'. p = Some b \<and> points_to t h' b v' \<and> deep t h' v' = deep t h v \<and>
    agree {..<next_addr h} h h' \<and> owned t h' b \<subseteq> {next_addr h..<next_addr h'}"
proof -
  let ?b = "next_addr h" and ?h1 = "snd (new_array [zero_value t] h)"
  have a: "a < next_addr h" "arrays h a = [v]" "wt t h v" using assms(2) by (simp_all add: points_to_def)
  have h1: "wt t ?h1 v" "deep t ?h1 v = deep t h v" using wt_alloc [OF a(3), of ?h1] deep_alloc [OF a(3), of ?h1] by simp_all
  have v: "arrays ?h1 a ! 0 = v" using a by (simp add: new_array_def)
  obtain v' h2 where run: "f v ?h1 = (v', h2)" by fastforce
  have "copied t ?h1 v v' h2" by (rule copiesD [OF assms(1) h1(1) run])
  then have c: "Suc ?b \<le> next_addr h2" "agree {..<Suc ?b} ?h1 h2" "wt t h2 v'" "deep t h2 v' = deep t h v"
      "reach t h2 v' \<subseteq> {Suc ?b..<next_addr h2}"
    using h1(2) by (simp_all add: copied_def)
  have res: "p = Some ?b" "h' = store_at ?b 0 v' h2"
    using assms(3) run v by (simp_all add: deep_copy_def new_array_def)
  have "arrays h2 ?b = [zero_value t]" using c(2) by (simp add: agree_def)
  then have b: "arrays h' ?b = [v']" by (simp add: res(2) store_at_def)
  have "?b \<notin> reach t h2 v'" using c(5) by auto
  from agree_store [OF this] have ag: "agree (reach t h2 v') h2 h'" by (simp add: res(2))
  have nx: "next_addr h' = next_addr h2" by (simp add: res(2) store_at_def)
  have "points_to t h' ?b v'" "deep t h' v' = deep t h v" "owned t h' ?b \<subseteq> {?b..<next_addr h'}"
    using wt_agree [OF c(3) ag] deep_agree [OF ag] reach_agree [OF ag] b nx c(1,4,5)
    by (auto simp: points_to_def owned_def)
  moreover have "agree {..<?b} h h'"
    unfolding res(2) by (rule agree_trans [OF new_array_facts(3) agree_trans [OF agree_mono [OF c(2)] agree_store]]) auto
  ultimately show ?thesis by (auto simp: res(1))
qed

text \<open>Memory of the copy and memory of the original are apart, so that writes to one do not show in the other.\<close>

lemma deep_copy_isolated:
  assumes "points_to t h a v" and "points_to t h' b v'" and "deep t h' v' = deep t h v"
    and "agree {..<next_addr h} h h'" and "owned t h' b \<subseteq> {next_addr h..<next_addr h'}"
  shows "agree (- owned t h' b) h' g \<Longrightarrow> arrays g a = [v] \<and> deep t g v = deep t h v"
    and "agree (- owned t h' a) h' g \<Longrightarrow> arrays g b = [v'] \<and> deep t g v' = deep t h v"
proof -
  have a: "a < next_addr h" "arrays h a = [v]" "wt t h v" and b: "arrays h' b = [v']"
    using assms(1,2) by (simp_all add: points_to_def)
  have h': "arrays h' a = [v]" "reach t h' v = reach t h v" "deep t h' v = deep t h v"
    using a assms(4) reach_alloc [OF a(3) assms(4)] deep_alloc [OF a(3) assms(4)] by (simp_all add: agree_def)
  have low: "owned t h' a \<subseteq> {..<next_addr h}"
    using reach_below [OF a(3)] a(1) by (simp add: owned_def h')
  have apart: "owned t h' a \<inter> owned t h' b = {}" using low assms(5) by fastforce
  show "arrays g a = [v] \<and> deep t g v = deep t h v" if g: "agree (- owned t h' b) h' g"
  proof -
    have "agree (owned t h' a) h' g" using g apart by (auto intro: agree_mono)
    then show ?thesis
      using deep_agree [of t h' v g] h' by (auto simp: owned_def agree_def)
  qed
  show "arrays g b = [v'] \<and> deep t g v' = deep t h v" if g: "agree (- owned t h' a) h' g"
  proof -
    have "agree (owned t h' b) h' g" using g apart by (auto intro: agree_mono)
    then show ?thesis
      using deep_agree [of t h' v' g] b assms(3) by (auto simp: owned_def agree_def)
  qed
qed

end
