(* ===== verification/Deep_Copy.thy ===== *)
theory Deep_Copy
  imports Go_Heap
begin

text \<open>
  The generated files \<open>zz_generated.deepcopy.go\<close> of both controllers
  (\<open>pkg/KubeArmorHostPolicy/api/v1\<close> and \<open>pkg/KubeArmorExternalWorkload/api/v1\<close>). For each type of
  the API there is its description (\<open>\<dots>_ty\<close>, from the structure in the file of the types),
  \<open>DeepCopyInto\<close> as the value it assigns to \<open>*out\<close>, and \<open>DeepCopy\<close> on a pointer. The controllers and
  the caches of the Kubernetes client hand out copies made by these functions, and rely on it that
  a copy shares no memory with the original.

  The types \<open>TypeMeta\<close>, \<open>ObjectMeta\<close> and \<open>ListMeta\<close> and their \<open>DeepCopyInto\<close> come from the Kubernetes
  library: they are the parameter \<open>meta_api\<close>, and \<open>meta_ok\<close> is what the library documents of them
  (\<open>TypeMeta\<close> holds two strings and no reference; the others are copied deeply).
\<close>

abbreviation TString :: ty where "TString \<equiv> TScalar (SString [])"
abbreviation TInt :: ty where "TInt \<equiv> TScalar (SInt 0)"
abbreviation TBool :: ty where "TBool \<equiv> TScalar (SBool False)"

record meta_api =
  typeMeta :: ty
  objectMeta :: ty
  objectMeta_copy :: copier
  listMeta :: ty
  listMeta_copy :: copier

definition meta_ok :: "meta_api \<Rightarrow> bool" where
  "meta_ok api \<longleftrightarrow> flat (typeMeta api) \<and> copies (objectMeta api) (objectMeta_copy api) \<and>
     copies (listMeta api) (listMeta_copy api)"

lemma meta_okD [copies_intros]:
  "meta_ok api \<Longrightarrow> flat (typeMeta api)"
  "meta_ok api \<Longrightarrow> copies (objectMeta api) (objectMeta_copy api)"
  "meta_ok api \<Longrightarrow> copies (listMeta api) (listMeta_copy api)"
  by (simp_all add: meta_ok_def)


section \<open>The types\<close>

definition MatchSourceType_ty :: "ty" where
  "MatchSourceType_ty = TStruct
     [(''Path'', TString), (''Directory'', TString), (''Recursive'', TBool)]"

definition NodeSelectorType_ty :: "ty" where
  "NodeSelectorType_ty = TStruct
     [(''MatchLabels'', TMap)]"

definition ProcessPathType_ty :: "ty" where
  "ProcessPathType_ty = TStruct
     [(''Path'', TString), (''OwnerOnly'', TBool), (''FromSource'', TSlice MatchSourceType_ty),
      (''Severity'', TInt), (''Tags'', TSlice TString), (''Message'', TString), (''Action'', TString)]"

definition ProcessDirectoryType_ty :: "ty" where
  "ProcessDirectoryType_ty = TStruct
     [(''Directory'', TString), (''Recursive'', TBool), (''OwnerOnly'', TBool),
      (''FromSource'', TSlice MatchSourceType_ty), (''Severity'', TInt), (''Tags'', TSlice TString),
      (''Message'', TString), (''Action'', TString)]"

definition ProcessPatternType_ty :: "ty" where
  "ProcessPatternType_ty = TStruct
     [(''Pattern'', TString), (''OwnerOnly'', TBool), (''Severity'', TInt), (''Tags'', TSlice TString),
      (''Message'', TString), (''Action'', TString)]"

definition ProcessType_ty :: "ty" where
  "ProcessType_ty = TStruct
     [(''MatchPaths'', TSlice ProcessPathType_ty),
      (''MatchDirectories'', TSlice ProcessDirectoryType_ty),
      (''MatchPatterns'', TSlice ProcessPatternType_ty), (''Severity'', TInt),
      (''Tags'', TSlice TString), (''Message'', TString), (''Action'', TString)]"

definition FilePathType_ty :: "ty" where
  "FilePathType_ty = TStruct
     [(''Path'', TString), (''ReadOnly'', TBool), (''OwnerOnly'', TBool),
      (''FromSource'', TSlice MatchSourceType_ty), (''Severity'', TInt), (''Tags'', TSlice TString),
      (''Message'', TString), (''Action'', TString)]"

definition FileDirectoryType_ty :: "ty" where
  "FileDirectoryType_ty = TStruct
     [(''Directory'', TString), (''Recursive'', TBool), (''ReadOnly'', TBool), (''OwnerOnly'', TBool),
      (''FromSource'', TSlice MatchSourceType_ty), (''Severity'', TInt), (''Tags'', TSlice TString),
      (''Message'', TString), (''Action'', TString)]"

definition FilePatternType_ty :: "ty" where
  "FilePatternType_ty = TStruct
     [(''Pattern'', TString), (''ReadOnly'', TBool), (''OwnerOnly'', TBool), (''Severity'', TInt),
      (''Tags'', TSlice TString), (''Message'', TString), (''Action'', TString)]"

definition FileType_ty :: "ty" where
  "FileType_ty = TStruct
     [(''MatchPaths'', TSlice FilePathType_ty), (''MatchDirectories'', TSlice FileDirectoryType_ty),
      (''MatchPatterns'', TSlice FilePatternType_ty), (''Severity'', TInt), (''Tags'', TSlice TString),
      (''Message'', TString), (''Action'', TString)]"

definition MatchNetworkProtocolType_ty :: "ty" where
  "MatchNetworkProtocolType_ty = TStruct
     [(''Protocol'', TString), (''FromSource'', TSlice MatchSourceType_ty), (''Severity'', TInt),
      (''Tags'', TSlice TString), (''Message'', TString), (''Action'', TString)]"

definition NetworkType_ty :: "ty" where
  "NetworkType_ty = TStruct
     [(''MatchProtocols'', TSlice MatchNetworkProtocolType_ty), (''Severity'', TInt),
      (''Tags'', TSlice TString), (''Message'', TString), (''Action'', TString)]"

definition MatchCapabilitiesType_ty :: "ty" where
  "MatchCapabilitiesType_ty = TStruct
     [(''Capability'', TString), (''FromSource'', TSlice MatchSourceType_ty), (''Severity'', TInt),
      (''Tags'', TSlice TString), (''Message'', TString), (''Action'', TString)]"

definition CapabilitiesType_ty :: "ty" where
  "CapabilitiesType_ty = TStruct
     [(''MatchCapabilities'', TSlice MatchCapabilitiesType_ty), (''Severity'', TInt),
      (''Tags'', TSlice TString), (''Message'', TString), (''Action'', TString)]"

definition KubeArmorHostPolicySpec_ty :: "ty" where
  "KubeArmorHostPolicySpec_ty = TStruct
     [(''NodeSelector'', NodeSelectorType_ty), (''Process'', ProcessType_ty), (''File'', FileType_ty),
      (''Network'', NetworkType_ty), (''Capabilities'', CapabilitiesType_ty), (''AppArmor'', TString),
      (''Severity'', TInt), (''Tags'', TSlice TString), (''Message'', TString), (''Action'', TString)]"

definition KubeArmorHostPolicyStatus_ty :: "ty" where
  "KubeArmorHostPolicyStatus_ty = TStruct
     [(''PolicyStatus'', TString)]"

definition KubeArmorHostPolicy_ty :: "meta_api \<Rightarrow> ty" where
  "KubeArmorHostPolicy_ty api = TStruct
     [(''TypeMeta'', typeMeta api), (''ObjectMeta'', objectMeta api),
      (''Spec'', KubeArmorHostPolicySpec_ty), (''Status'', KubeArmorHostPolicyStatus_ty)]"

definition KubeArmorHostPolicyList_ty :: "meta_api \<Rightarrow> ty" where
  "KubeArmorHostPolicyList_ty api = TStruct
     [(''TypeMeta'', typeMeta api), (''ListMeta'', listMeta api),
      (''Items'', TSlice (KubeArmorHostPolicy_ty api))]"

definition KubeArmorExternalWorkloadStatus_ty :: "ty" where
  "KubeArmorExternalWorkloadStatus_ty = TStruct
     [(''ID'', TInt), (''IP'', TString)]"

definition KubeArmorExternalWorkload_ty :: "meta_api \<Rightarrow> ty" where
  "KubeArmorExternalWorkload_ty api = TStruct
     [(''TypeMeta'', typeMeta api), (''ObjectMeta'', objectMeta api),
      (''Status'', KubeArmorExternalWorkloadStatus_ty)]"

definition KubeArmorExternalWorkloadList_ty :: "meta_api \<Rightarrow> ty" where
  "KubeArmorExternalWorkloadList_ty api = TStruct
     [(''TypeMeta'', typeMeta api), (''ListMeta'', listMeta api),
      (''Items'', TSlice (KubeArmorExternalWorkload_ty api))]"


section \<open>\<open>DeepCopyInto\<close>\<close>

definition MatchSourceType_DeepCopyInto :: "copier" where
  "MatchSourceType_DeepCopyInto = copy_fields []"

definition NodeSelectorType_DeepCopyInto :: "iteration \<Rightarrow> copier" where
  "NodeSelectorType_DeepCopyInto it = copy_fields [(''MatchLabels'', copy_map it)]"

definition ProcessPathType_DeepCopyInto :: "copier" where
  "ProcessPathType_DeepCopyInto = copy_fields [(''FromSource'', copy_slice), (''Tags'', copy_slice)]"

definition ProcessDirectoryType_DeepCopyInto :: "copier" where
  "ProcessDirectoryType_DeepCopyInto = copy_fields [(''FromSource'', copy_slice), (''Tags'', copy_slice)]"

definition ProcessPatternType_DeepCopyInto :: "copier" where
  "ProcessPatternType_DeepCopyInto = copy_fields [(''Tags'', copy_slice)]"

definition ProcessType_DeepCopyInto :: "copier" where
  "ProcessType_DeepCopyInto = copy_fields
       [(''MatchPaths'', copy_each ProcessPathType_ty ProcessPathType_DeepCopyInto),
        (''MatchDirectories'', copy_each ProcessDirectoryType_ty ProcessDirectoryType_DeepCopyInto),
        (''MatchPatterns'', copy_each ProcessPatternType_ty ProcessPatternType_DeepCopyInto),
        (''Tags'', copy_slice)]"

definition FilePathType_DeepCopyInto :: "copier" where
  "FilePathType_DeepCopyInto = copy_fields [(''FromSource'', copy_slice), (''Tags'', copy_slice)]"

definition FileDirectoryType_DeepCopyInto :: "copier" where
  "FileDirectoryType_DeepCopyInto = copy_fields [(''FromSource'', copy_slice), (''Tags'', copy_slice)]"

definition FilePatternType_DeepCopyInto :: "copier" where
  "FilePatternType_DeepCopyInto = copy_fields [(''Tags'', copy_slice)]"

definition FileType_DeepCopyInto :: "copier" where
  "FileType_DeepCopyInto = copy_fields
       [(''MatchPaths'', copy_each FilePathType_ty FilePathType_DeepCopyInto),
        (''MatchDirectories'', copy_each FileDirectoryType_ty FileDirectoryType_DeepCopyInto),
        (''MatchPatterns'', copy_each FilePatternType_ty FilePatternType_DeepCopyInto),
        (''Tags'', copy_slice)]"

definition MatchNetworkProtocolType_DeepCopyInto :: "copier" where
  "MatchNetworkProtocolType_DeepCopyInto = copy_fields [(''FromSource'', copy_slice), (''Tags'', copy_slice)]"

definition NetworkType_DeepCopyInto :: "copier" where
  "NetworkType_DeepCopyInto = copy_fields
       [(''MatchProtocols'', copy_each MatchNetworkProtocolType_ty MatchNetworkProtocolType_DeepCopyInto),
        (''Tags'', copy_slice)]"

definition MatchCapabilitiesType_DeepCopyInto :: "copier" where
  "MatchCapabilitiesType_DeepCopyInto = copy_fields [(''FromSource'', copy_slice), (''Tags'', copy_slice)]"

definition CapabilitiesType_DeepCopyInto :: "copier" where
  "CapabilitiesType_DeepCopyInto = copy_fields
       [(''MatchCapabilities'', copy_each MatchCapabilitiesType_ty MatchCapabilitiesType_DeepCopyInto),
        (''Tags'', copy_slice)]"

definition KubeArmorHostPolicySpec_DeepCopyInto :: "iteration \<Rightarrow> copier" where
  "KubeArmorHostPolicySpec_DeepCopyInto it = copy_fields
       [(''NodeSelector'', NodeSelectorType_DeepCopyInto it), (''Process'', ProcessType_DeepCopyInto),
        (''File'', FileType_DeepCopyInto), (''Network'', NetworkType_DeepCopyInto),
        (''Capabilities'', CapabilitiesType_DeepCopyInto), (''Tags'', copy_slice)]"

definition KubeArmorHostPolicyStatus_DeepCopyInto :: "copier" where
  "KubeArmorHostPolicyStatus_DeepCopyInto = copy_fields []"

definition KubeArmorHostPolicy_DeepCopyInto :: "meta_api \<Rightarrow> iteration \<Rightarrow> copier" where
  "KubeArmorHostPolicy_DeepCopyInto api it = copy_fields
       [(''ObjectMeta'', objectMeta_copy api), (''Spec'', KubeArmorHostPolicySpec_DeepCopyInto it)]"

definition KubeArmorHostPolicyList_DeepCopyInto :: "meta_api \<Rightarrow> iteration \<Rightarrow> copier" where
  "KubeArmorHostPolicyList_DeepCopyInto api it = copy_fields
       [(''ListMeta'', listMeta_copy api),
        (''Items'', copy_each (KubeArmorHostPolicy_ty api) (KubeArmorHostPolicy_DeepCopyInto api it))]"

definition KubeArmorExternalWorkloadStatus_DeepCopyInto :: "copier" where
  "KubeArmorExternalWorkloadStatus_DeepCopyInto = copy_fields []"

definition KubeArmorExternalWorkload_DeepCopyInto :: "meta_api \<Rightarrow> copier" where
  "KubeArmorExternalWorkload_DeepCopyInto api = copy_fields [(''ObjectMeta'', objectMeta_copy api)]"

definition KubeArmorExternalWorkloadList_DeepCopyInto :: "meta_api \<Rightarrow> copier" where
  "KubeArmorExternalWorkloadList_DeepCopyInto api = copy_fields
       [(''ListMeta'', listMeta_copy api),
        (''Items'', copy_each (KubeArmorExternalWorkload_ty api) (KubeArmorExternalWorkload_DeepCopyInto api))]"


section \<open>\<open>DeepCopy\<close> and \<open>DeepCopyObject\<close>\<close>

definition MatchSourceType_DeepCopy :: "nat option \<Rightarrow> heap \<Rightarrow> nat option \<times> heap" where
  "MatchSourceType_DeepCopy = deep_copy MatchSourceType_ty MatchSourceType_DeepCopyInto"

definition NodeSelectorType_DeepCopy :: "iteration \<Rightarrow> nat option \<Rightarrow> heap \<Rightarrow> nat option \<times> heap" where
  "NodeSelectorType_DeepCopy it = deep_copy NodeSelectorType_ty (NodeSelectorType_DeepCopyInto it)"

definition ProcessPathType_DeepCopy :: "nat option \<Rightarrow> heap \<Rightarrow> nat option \<times> heap" where
  "ProcessPathType_DeepCopy = deep_copy ProcessPathType_ty ProcessPathType_DeepCopyInto"

definition ProcessDirectoryType_DeepCopy :: "nat option \<Rightarrow> heap \<Rightarrow> nat option \<times> heap" where
  "ProcessDirectoryType_DeepCopy = deep_copy ProcessDirectoryType_ty ProcessDirectoryType_DeepCopyInto"

definition ProcessPatternType_DeepCopy :: "nat option \<Rightarrow> heap \<Rightarrow> nat option \<times> heap" where
  "ProcessPatternType_DeepCopy = deep_copy ProcessPatternType_ty ProcessPatternType_DeepCopyInto"

definition ProcessType_DeepCopy :: "nat option \<Rightarrow> heap \<Rightarrow> nat option \<times> heap" where
  "ProcessType_DeepCopy = deep_copy ProcessType_ty ProcessType_DeepCopyInto"

definition FilePathType_DeepCopy :: "nat option \<Rightarrow> heap \<Rightarrow> nat option \<times> heap" where
  "FilePathType_DeepCopy = deep_copy FilePathType_ty FilePathType_DeepCopyInto"

definition FileDirectoryType_DeepCopy :: "nat option \<Rightarrow> heap \<Rightarrow> nat option \<times> heap" where
  "FileDirectoryType_DeepCopy = deep_copy FileDirectoryType_ty FileDirectoryType_DeepCopyInto"

definition FilePatternType_DeepCopy :: "nat option \<Rightarrow> heap \<Rightarrow> nat option \<times> heap" where
  "FilePatternType_DeepCopy = deep_copy FilePatternType_ty FilePatternType_DeepCopyInto"

definition FileType_DeepCopy :: "nat option \<Rightarrow> heap \<Rightarrow> nat option \<times> heap" where
  "FileType_DeepCopy = deep_copy FileType_ty FileType_DeepCopyInto"

definition MatchNetworkProtocolType_DeepCopy :: "nat option \<Rightarrow> heap \<Rightarrow> nat option \<times> heap" where
  "MatchNetworkProtocolType_DeepCopy = deep_copy MatchNetworkProtocolType_ty MatchNetworkProtocolType_DeepCopyInto"

definition NetworkType_DeepCopy :: "nat option \<Rightarrow> heap \<Rightarrow> nat option \<times> heap" where
  "NetworkType_DeepCopy = deep_copy NetworkType_ty NetworkType_DeepCopyInto"

definition MatchCapabilitiesType_DeepCopy :: "nat option \<Rightarrow> heap \<Rightarrow> nat option \<times> heap" where
  "MatchCapabilitiesType_DeepCopy = deep_copy MatchCapabilitiesType_ty MatchCapabilitiesType_DeepCopyInto"

definition CapabilitiesType_DeepCopy :: "nat option \<Rightarrow> heap \<Rightarrow> nat option \<times> heap" where
  "CapabilitiesType_DeepCopy = deep_copy CapabilitiesType_ty CapabilitiesType_DeepCopyInto"

definition KubeArmorHostPolicySpec_DeepCopy :: "iteration \<Rightarrow> nat option \<Rightarrow> heap \<Rightarrow> nat option \<times> heap" where
  "KubeArmorHostPolicySpec_DeepCopy it = deep_copy KubeArmorHostPolicySpec_ty (KubeArmorHostPolicySpec_DeepCopyInto it)"

definition KubeArmorHostPolicyStatus_DeepCopy :: "nat option \<Rightarrow> heap \<Rightarrow> nat option \<times> heap" where
  "KubeArmorHostPolicyStatus_DeepCopy = deep_copy KubeArmorHostPolicyStatus_ty KubeArmorHostPolicyStatus_DeepCopyInto"

definition KubeArmorHostPolicy_DeepCopy :: "meta_api \<Rightarrow> iteration \<Rightarrow> nat option \<Rightarrow> heap \<Rightarrow> nat option \<times> heap" where
  "KubeArmorHostPolicy_DeepCopy api it = deep_copy (KubeArmorHostPolicy_ty api) (KubeArmorHostPolicy_DeepCopyInto api it)"

definition KubeArmorHostPolicyList_DeepCopy :: "meta_api \<Rightarrow> iteration \<Rightarrow> nat option \<Rightarrow> heap \<Rightarrow> nat option \<times> heap" where
  "KubeArmorHostPolicyList_DeepCopy api it = deep_copy (KubeArmorHostPolicyList_ty api) (KubeArmorHostPolicyList_DeepCopyInto api it)"

definition KubeArmorExternalWorkloadStatus_DeepCopy :: "nat option \<Rightarrow> heap \<Rightarrow> nat option \<times> heap" where
  "KubeArmorExternalWorkloadStatus_DeepCopy = deep_copy KubeArmorExternalWorkloadStatus_ty KubeArmorExternalWorkloadStatus_DeepCopyInto"

definition KubeArmorExternalWorkload_DeepCopy :: "meta_api \<Rightarrow> nat option \<Rightarrow> heap \<Rightarrow> nat option \<times> heap" where
  "KubeArmorExternalWorkload_DeepCopy api = deep_copy (KubeArmorExternalWorkload_ty api) (KubeArmorExternalWorkload_DeepCopyInto api)"

definition KubeArmorExternalWorkloadList_DeepCopy :: "meta_api \<Rightarrow> nat option \<Rightarrow> heap \<Rightarrow> nat option \<times> heap" where
  "KubeArmorExternalWorkloadList_DeepCopy api = deep_copy (KubeArmorExternalWorkloadList_ty api) (KubeArmorExternalWorkloadList_DeepCopyInto api)"

text \<open>The copy as a value of the interface \<open>runtime.Object\<close>: a nil pointer becomes the nil interface.\<close>

definition KubeArmorHostPolicy_DeepCopyObject :: "meta_api \<Rightarrow> iteration \<Rightarrow> nat option \<Rightarrow> heap \<Rightarrow> nat option \<times> heap" where
  "KubeArmorHostPolicy_DeepCopyObject api it p h =
     (case KubeArmorHostPolicy_DeepCopy api it p h of (Some c, h') \<Rightarrow> (Some c, h') | (None, h') \<Rightarrow> (None, h'))"

definition KubeArmorHostPolicyList_DeepCopyObject :: "meta_api \<Rightarrow> iteration \<Rightarrow> nat option \<Rightarrow> heap \<Rightarrow> nat option \<times> heap" where
  "KubeArmorHostPolicyList_DeepCopyObject api it p h =
     (case KubeArmorHostPolicyList_DeepCopy api it p h of (Some c, h') \<Rightarrow> (Some c, h') | (None, h') \<Rightarrow> (None, h'))"

definition KubeArmorExternalWorkload_DeepCopyObject :: "meta_api \<Rightarrow> nat option \<Rightarrow> heap \<Rightarrow> nat option \<times> heap" where
  "KubeArmorExternalWorkload_DeepCopyObject api p h =
     (case KubeArmorExternalWorkload_DeepCopy api p h of (Some c, h') \<Rightarrow> (Some c, h') | (None, h') \<Rightarrow> (None, h'))"

definition KubeArmorExternalWorkloadList_DeepCopyObject :: "meta_api \<Rightarrow> nat option \<Rightarrow> heap \<Rightarrow> nat option \<times> heap" where
  "KubeArmorExternalWorkloadList_DeepCopyObject api p h =
     (case KubeArmorExternalWorkloadList_DeepCopy api p h of (Some c, h') \<Rightarrow> (Some c, h') | (None, h') \<Rightarrow> (None, h'))"


section \<open>They copy\<close>

lemma flat_types [simp]: "flat MatchSourceType_ty" "flat KubeArmorHostPolicyStatus_ty" "flat KubeArmorExternalWorkloadStatus_ty"
  by (simp_all add: MatchSourceType_ty_def KubeArmorHostPolicyStatus_ty_def KubeArmorExternalWorkloadStatus_ty_def)

lemma copies_MatchSourceType [copies_intros]: "copies MatchSourceType_ty MatchSourceType_DeepCopyInto"
  by (simp add: MatchSourceType_ty_def MatchSourceType_DeepCopyInto_def copies_fields covers_def copies_intros)

lemma copies_NodeSelectorType [copies_intros]: "permuting it \<Longrightarrow> copies NodeSelectorType_ty (NodeSelectorType_DeepCopyInto it)"
  by (simp add: NodeSelectorType_ty_def NodeSelectorType_DeepCopyInto_def copies_fields covers_def copies_intros)

lemma copies_ProcessPathType [copies_intros]: "copies ProcessPathType_ty ProcessPathType_DeepCopyInto"
  by (simp add: ProcessPathType_ty_def ProcessPathType_DeepCopyInto_def copies_fields covers_def copies_intros)

lemma copies_ProcessDirectoryType [copies_intros]: "copies ProcessDirectoryType_ty ProcessDirectoryType_DeepCopyInto"
  by (simp add: ProcessDirectoryType_ty_def ProcessDirectoryType_DeepCopyInto_def copies_fields covers_def copies_intros)

lemma copies_ProcessPatternType [copies_intros]: "copies ProcessPatternType_ty ProcessPatternType_DeepCopyInto"
  by (simp add: ProcessPatternType_ty_def ProcessPatternType_DeepCopyInto_def copies_fields covers_def copies_intros)

lemma copies_ProcessType [copies_intros]: "copies ProcessType_ty ProcessType_DeepCopyInto"
  by (simp add: ProcessType_ty_def ProcessType_DeepCopyInto_def copies_fields covers_def copies_intros)

lemma copies_FilePathType [copies_intros]: "copies FilePathType_ty FilePathType_DeepCopyInto"
  by (simp add: FilePathType_ty_def FilePathType_DeepCopyInto_def copies_fields covers_def copies_intros)

lemma copies_FileDirectoryType [copies_intros]: "copies FileDirectoryType_ty FileDirectoryType_DeepCopyInto"
  by (simp add: FileDirectoryType_ty_def FileDirectoryType_DeepCopyInto_def copies_fields covers_def copies_intros)

lemma copies_FilePatternType [copies_intros]: "copies FilePatternType_ty FilePatternType_DeepCopyInto"
  by (simp add: FilePatternType_ty_def FilePatternType_DeepCopyInto_def copies_fields covers_def copies_intros)

lemma copies_FileType [copies_intros]: "copies FileType_ty FileType_DeepCopyInto"
  by (simp add: FileType_ty_def FileType_DeepCopyInto_def copies_fields covers_def copies_intros)

lemma copies_MatchNetworkProtocolType [copies_intros]: "copies MatchNetworkProtocolType_ty MatchNetworkProtocolType_DeepCopyInto"
  by (simp add: MatchNetworkProtocolType_ty_def MatchNetworkProtocolType_DeepCopyInto_def copies_fields covers_def copies_intros)

lemma copies_NetworkType [copies_intros]: "copies NetworkType_ty NetworkType_DeepCopyInto"
  by (simp add: NetworkType_ty_def NetworkType_DeepCopyInto_def copies_fields covers_def copies_intros)

lemma copies_MatchCapabilitiesType [copies_intros]: "copies MatchCapabilitiesType_ty MatchCapabilitiesType_DeepCopyInto"
  by (simp add: MatchCapabilitiesType_ty_def MatchCapabilitiesType_DeepCopyInto_def copies_fields covers_def copies_intros)

lemma copies_CapabilitiesType [copies_intros]: "copies CapabilitiesType_ty CapabilitiesType_DeepCopyInto"
  by (simp add: CapabilitiesType_ty_def CapabilitiesType_DeepCopyInto_def copies_fields covers_def copies_intros)

lemma copies_KubeArmorHostPolicySpec [copies_intros]: "permuting it \<Longrightarrow> copies KubeArmorHostPolicySpec_ty (KubeArmorHostPolicySpec_DeepCopyInto it)"
  by (simp add: KubeArmorHostPolicySpec_ty_def KubeArmorHostPolicySpec_DeepCopyInto_def copies_fields covers_def copies_intros)

lemma copies_KubeArmorHostPolicyStatus [copies_intros]: "copies KubeArmorHostPolicyStatus_ty KubeArmorHostPolicyStatus_DeepCopyInto"
  by (simp add: KubeArmorHostPolicyStatus_ty_def KubeArmorHostPolicyStatus_DeepCopyInto_def copies_fields covers_def copies_intros)

lemma copies_KubeArmorHostPolicy [copies_intros]: "meta_ok api \<Longrightarrow> permuting it \<Longrightarrow> copies (KubeArmorHostPolicy_ty api) (KubeArmorHostPolicy_DeepCopyInto api it)"
  by (simp add: KubeArmorHostPolicy_ty_def KubeArmorHostPolicy_DeepCopyInto_def copies_fields covers_def copies_intros)

lemma copies_KubeArmorHostPolicyList [copies_intros]: "meta_ok api \<Longrightarrow> permuting it \<Longrightarrow> copies (KubeArmorHostPolicyList_ty api) (KubeArmorHostPolicyList_DeepCopyInto api it)"
  by (simp add: KubeArmorHostPolicyList_ty_def KubeArmorHostPolicyList_DeepCopyInto_def copies_fields covers_def copies_intros)

lemma copies_KubeArmorExternalWorkloadStatus [copies_intros]: "copies KubeArmorExternalWorkloadStatus_ty KubeArmorExternalWorkloadStatus_DeepCopyInto"
  by (simp add: KubeArmorExternalWorkloadStatus_ty_def KubeArmorExternalWorkloadStatus_DeepCopyInto_def copies_fields covers_def copies_intros)

lemma copies_KubeArmorExternalWorkload [copies_intros]: "meta_ok api \<Longrightarrow> copies (KubeArmorExternalWorkload_ty api) (KubeArmorExternalWorkload_DeepCopyInto api)"
  by (simp add: KubeArmorExternalWorkload_ty_def KubeArmorExternalWorkload_DeepCopyInto_def copies_fields covers_def copies_intros)

lemma copies_KubeArmorExternalWorkloadList [copies_intros]: "meta_ok api \<Longrightarrow> copies (KubeArmorExternalWorkloadList_ty api) (KubeArmorExternalWorkloadList_DeepCopyInto api)"
  by (simp add: KubeArmorExternalWorkloadList_ty_def KubeArmorExternalWorkloadList_DeepCopyInto_def copies_fields covers_def copies_intros)


section \<open>Properties\<close>

text \<open>
  C16. \<open>DeepCopyObject\<close> of a list of host policies gives nil for nil; for a list it gives a list with
  the same contents, at a new address, and the two share no memory: whatever is written afterwards
  to memory of the copy, the original keeps its contents, and the other way round.
\<close>

theorem host_policy_list_copy_independent:
  assumes "meta_ok api" and "permuting it" and "points_to (KubeArmorHostPolicyList_ty api) h a v"
  shows "KubeArmorHostPolicyList_DeepCopyObject api it None h = (None, h) \<and>
    (\<exists>b v' h'. KubeArmorHostPolicyList_DeepCopyObject api it (Some a) h = (Some b, h') \<and>
       points_to (KubeArmorHostPolicyList_ty api) h' b v' \<and>
       deep (KubeArmorHostPolicyList_ty api) h' v' = deep (KubeArmorHostPolicyList_ty api) h v \<and>
       (\<forall>g. agree (- owned (KubeArmorHostPolicyList_ty api) h' b) h' g \<longrightarrow>
          arrays g a = [v] \<and> deep (KubeArmorHostPolicyList_ty api) g v = deep (KubeArmorHostPolicyList_ty api) h v) \<and>
       (\<forall>g. agree (- owned (KubeArmorHostPolicyList_ty api) h' a) h' g \<longrightarrow>
          arrays g b = [v'] \<and> deep (KubeArmorHostPolicyList_ty api) g v' = deep (KubeArmorHostPolicyList_ty api) h v))"
proof -
  let ?t = "KubeArmorHostPolicyList_ty api"
  obtain p h' where run: "deep_copy ?t (KubeArmorHostPolicyList_DeepCopyInto api it) (Some a) h = (p, h')" by fastforce
  from deep_copy_correct [OF copies_KubeArmorHostPolicyList [OF assms(1,2)] assms(3) run]
  obtain b v' where b: "p = Some b" "points_to ?t h' b v'" "deep ?t h' v' = deep ?t h v"
      "agree {..<next_addr h} h h'" "owned ?t h' b \<subseteq> {next_addr h..<next_addr h'}" by blast
  note iso = deep_copy_isolated [OF assms(3) b(2-5)]
  show ?thesis
    using run b(1-3) iso by (auto simp: KubeArmorHostPolicyList_DeepCopyObject_def KubeArmorHostPolicyList_DeepCopy_def)
qed


text \<open>A small instance of the parameter, and a list with one item\<close>

definition demo_meta :: meta_api where
  "demo_meta =
     \<lparr>typeMeta = TStruct [(''Kind'', TString)],
      objectMeta = TStruct [(''Name'', TString), (''Labels'', TMap)],
      objectMeta_copy = copy_fields [(''Labels'', copy_map rev)],
      listMeta = TStruct [(''Continue'', TString)], listMeta_copy = copy_fields []\<rparr>"

lemma demo_meta_ok: "meta_ok demo_meta"
  by (simp add: meta_ok_def demo_meta_def copies_fields covers_def copies_intros)

definition with_fld :: "string \<Rightarrow> obj \<Rightarrow> obj \<Rightarrow> obj" where
  "with_fld nm v w = (case w of StructV vs \<Rightarrow> StructV (set_fld nm v vs) | _ \<Rightarrow> w)"

definition demo_heap :: "ty \<Rightarrow> obj \<Rightarrow> heap" where
  "demo_heap t item =
     \<lparr>arrays = (\<lambda>a. if a = 0 then [with_fld ''Items'' (SliceV (Some (1, 0, 1))) (zero_value t)]
        else if a = 1 then [item] else if a = 2 then [Scalar (SString ''CVE''), Scalar (SString ''host'')] else []),
      tables = (\<lambda>a. if a = 3 then [(''env'', ''prod'')] else []), next_addr = 4\<rparr>"

definition demo_host_policy :: obj where
  "demo_host_policy = with_fld ''Spec''
     (with_fld ''Tags'' (SliceV (Some (2, 1, 1)))
       (with_fld ''NodeSelector'' (StructV [(''MatchLabels'', MapV (Some 3))]) (zero_value KubeArmorHostPolicySpec_ty)))
     (zero_value (KubeArmorHostPolicy_ty demo_meta))"

lemmas type_defs = MatchSourceType_ty_def NodeSelectorType_ty_def ProcessPathType_ty_def ProcessDirectoryType_ty_def
  ProcessPatternType_ty_def ProcessType_ty_def FilePathType_ty_def FileDirectoryType_ty_def FilePatternType_ty_def
  FileType_ty_def MatchNetworkProtocolType_ty_def NetworkType_ty_def MatchCapabilitiesType_ty_def CapabilitiesType_ty_def
  KubeArmorHostPolicySpec_ty_def KubeArmorHostPolicyStatus_ty_def KubeArmorHostPolicy_ty_def KubeArmorHostPolicyList_ty_def
  KubeArmorExternalWorkloadStatus_ty_def KubeArmorExternalWorkload_ty_def KubeArmorExternalWorkloadList_ty_def

lemma demo_policy_list:
  "points_to (KubeArmorHostPolicyList_ty demo_meta) (demo_heap (KubeArmorHostPolicyList_ty demo_meta) demo_host_policy) 0
     (with_fld ''Items'' (SliceV (Some (1, 0, 1))) (zero_value (KubeArmorHostPolicyList_ty demo_meta)))"
  by (simp add: points_to_def demo_heap_def demo_host_policy_def with_fld_def set_fld_def demo_meta_def type_defs)

lemma demo_workload_list:
  "points_to (KubeArmorExternalWorkloadList_ty demo_meta)
     (demo_heap (KubeArmorExternalWorkloadList_ty demo_meta) (zero_value (KubeArmorExternalWorkload_ty demo_meta))) 0
     (with_fld ''Items'' (SliceV (Some (1, 0, 1))) (zero_value (KubeArmorExternalWorkloadList_ty demo_meta)))"
  by (simp add: points_to_def demo_heap_def with_fld_def set_fld_def demo_meta_def type_defs)

theorem host_policy_list_copy_independent_witness:
  "\<exists>b h'. KubeArmorHostPolicyList_DeepCopyObject demo_meta rev (Some 0)
      (demo_heap (KubeArmorHostPolicyList_ty demo_meta) demo_host_policy) = (Some b, h') \<and>
    arrays h' 0 = [with_fld ''Items'' (SliceV (Some (1, 0, 1))) (zero_value (KubeArmorHostPolicyList_ty demo_meta))]"
  using host_policy_list_copy_independent [OF demo_meta_ok permuting_rev demo_policy_list] agree_refl by blast


end
