(* ===== verification/Watch_Rounds.thy ===== *)
theory Watch_Rounds
  imports K8s_Handler Operator Service
begin

text \<open>
  The operator's own copy of the Kubernetes client, \<open>src/operator/core/k8sHandler.go\<close>, translated from
  that file and shown to be the same as the one of the service in \<open>K8s_Handler\<close>; and one round of the
  watch loops of both programs on top of the clients: is the resource defined, is the watch request
  answered, and which events are read. The decoder of the response, \<open>json.NewDecoder\<close> with its stop at
  the first error, is the parameter \<open>decoded\<close>: the events it gives for the state of the network.
\<close>


section \<open>The operator's copy of the client\<close>

definition op_NewK8sHandler :: "os_env \<Rightarrow> 'c K8sHandler" where
  "op_NewK8sHandler os =
     \<lparr>K8sClient = None, K8sToken = [],
      K8sHost = (case env_vars os ''KUBERNETES_SERVICE_HOST'' of Some val \<Rightarrow> val | None \<Rightarrow> LocalHostIPAddress),
      K8sPort = (case env_vars os ''KUBERNETES_PORT_443_TCP_PORT'' of Some val \<Rightarrow> val | None \<Rightarrow> KubeProxyK8sPort)\<rparr>"

definition op_InitLocalAPIClient :: "('c, 'n) k8s_net \<Rightarrow> os_env \<Rightarrow> 'c K8sHandler \<Rightarrow> bool \<times> 'c K8sHandler" where
  "op_InitLocalAPIClient net os kh =
     (let home = Getenv os ''HOME'';
          kubeconfig = (if home \<noteq> [] then Clean (home @ ''/.kube/config'') else [])
      in case nBuildConfig net kubeconfig of
           Inl err \<Rightarrow> (False, kh)
         | Inr client \<Rightarrow> (True, kh\<lparr>K8sClient := Some client\<rparr>))"

definition op_InitInclusterAPIClient :: "('c, 'n) k8s_net \<Rightarrow> 'c K8sHandler \<Rightarrow> bool \<times> 'c K8sHandler" where
  "op_InitInclusterAPIClient net kh =
     (case nReadFile net ''/var/run/secrets/kubernetes.io/serviceaccount/token'' of
        Inl err \<Rightarrow> (False, kh)
      | Inr read \<Rightarrow>
          (case nNewForConfig net (''https://'' @ K8sHost kh @ '':'' @ K8sPort kh) read of
             Inl err \<Rightarrow> (False, kh\<lparr>K8sToken := read\<rparr>)
           | Inr client \<Rightarrow> (True, kh\<lparr>K8sToken := read, K8sClient := Some client\<rparr>)))"

definition op_InitK8sClient :: "('c, 'n) k8s_net \<Rightarrow> os_env \<Rightarrow> 'c K8sHandler \<Rightarrow> bool \<times> 'c K8sHandler" where
  "op_InitK8sClient net os kh =
     (if \<not> IsK8sEnv os then (False, kh)
      else
        (case K8sClient kh of
           Some _ \<Rightarrow> (True, kh)
         | None \<Rightarrow>
             if IsInK8sCluster os then op_InitInclusterAPIClient net kh
             else if IsK8sLocal os then op_InitLocalAPIClient net os kh
             else (False, kh)))"

definition op_DoRequest ::
  "('c, 'n) k8s_net \<Rightarrow> os_env \<Rightarrow> 'c K8sHandler \<Rightarrow> string \<Rightarrow> string \<Rightarrow> 'n \<Rightarrow> (go_error + string) \<times> 'n" where
  "op_DoRequest net os kh cmd path n =
     (let URL = (if IsInK8sCluster os then ''https://'' @ K8sHost kh @ '':'' @ K8sPort kh
                 else ''http://'' @ K8sHost kh @ '':'' @ K8sPort kh)
      in case nNewRequest net cmd (URL @ path) of
           Some err \<Rightarrow> (Inl err, n)
         | None \<Rightarrow>
             (let header = (if IsInK8sCluster os
                then [(''Content-Type'', ''application/json''), (''Authorization'', ''Bearer '' @ K8sToken kh)] else [])
              in nDo net \<lparr>rq_Method = cmd, rq_URL = URL @ path, rq_Body = ''null'', rq_Header = header\<rparr> n))"

definition op_CheckCustomResourceDefinition ::
  "('c, 'n) k8s_net \<Rightarrow> os_env \<Rightarrow> 'c K8sHandler \<Rightarrow> string \<Rightarrow> 'n \<Rightarrow> bool \<times> 'n" where
  "op_CheckCustomResourceDefinition net os kh resourceName n =
     (if \<not> IsK8sEnv os then (False, n)
      else
        (case op_DoRequest net os kh ''GET'' ''/apis'' n of
           (Inl errOut, n1) \<Rightarrow> (False, n1)
         | (Inr resBody, n1) \<Rightarrow>
             (case nGroups net resBody of
                Inl errIn \<Rightarrow> (False, n1)
              | Inr groups \<Rightarrow>
                  (case find_group groups of
                     None \<Rightarrow> (False, n1)
                   | Some groupVersion \<Rightarrow>
                       (case op_DoRequest net os kh ''GET'' (''/apis/'' @ groupVersion) n1 of
                          (Inl errOut, n2) \<Rightarrow> (False, n2)
                        | (Inr resBody2, n2) \<Rightarrow>
                            (case nResources net resBody2 of
                               Inl errIn \<Rightarrow> (False, n2)
                             | Inr names \<Rightarrow> (find_resource resourceName names, n2)))))))"

definition op_WatchK8sExternalWorkloadSecurityPolicies ::
  "('c, 'n) k8s_net \<Rightarrow> os_env \<Rightarrow> 'c K8sHandler \<Rightarrow> 'n \<Rightarrow> bool \<times> 'n" where
  "op_WatchK8sExternalWorkloadSecurityPolicies net os kh n =
     (if \<not> IsK8sEnv os then (False, n)
      else if IsInK8sCluster os then
        (let URL = ''https://'' @ K8sHost kh @ '':'' @ K8sPort kh @
               ''/apis/security.kubearmor.com/v1/kubearmorexternalworkloads?watch=true''
         in case nNewRequest net ''GET'' URL of
              Some err \<Rightarrow> (False, n)
            | None \<Rightarrow>
                (case nOpen net \<lparr>rq_Method = ''GET'', rq_URL = URL, rq_Body = [],
                   rq_Header = [(''Content-Type'', ''application/json''), (''Authorization'', ''Bearer '' @ K8sToken kh)]\<rparr> n of
                   (Some err, n') \<Rightarrow> (False, n') | (None, n') \<Rightarrow> (True, n')))
      else
        (let URL = ''http://'' @ K8sHost kh @ '':'' @ K8sPort kh @
               ''/apis/security.kubearmor.com/v1/kubearmorexternalworkloads?watch=true''
         in case nOpen net \<lparr>rq_Method = ''GET'', rq_URL = URL, rq_Body = [], rq_Header = []\<rparr> n of
              (None, n') \<Rightarrow> (True, n') | (Some err, n') \<Rightarrow> (False, n')))"

text \<open>Both programs build the same requests.\<close>

lemma op_NewK8sHandler_eq: "op_NewK8sHandler = NewK8sHandler"
  by (simp add: fun_eq_iff op_NewK8sHandler_def NewK8sHandler_def LookupEnv_or_def)

lemma op_Init_eq: "op_InitK8sClient = InitK8sClient"
  by (auto simp: fun_eq_iff op_InitK8sClient_def InitK8sClient_def op_InitInclusterAPIClient_def InitInclusterAPIClient_def
      op_InitLocalAPIClient_def InitLocalAPIClient_def Let_def split: option.splits sum.splits)

lemma op_DoRequest_eq: "op_DoRequest = DoRequest"
  by (simp add: fun_eq_iff op_DoRequest_def DoRequest_def base_url_def auth_headers_def Let_def split: option.splits)

lemma op_Check_eq: "op_CheckCustomResourceDefinition = CheckCustomResourceDefinition"
  by (auto simp: fun_eq_iff op_CheckCustomResourceDefinition_def CheckCustomResourceDefinition_def op_DoRequest_eq
      split: prod.splits sum.splits option.splits)

lemma op_Watch_eq: "op_WatchK8sExternalWorkloadSecurityPolicies = WatchK8sExternalWorkloadSecurityPolicies"
  by (auto simp: fun_eq_iff op_WatchK8sExternalWorkloadSecurityPolicies_def WatchK8sExternalWorkloadSecurityPolicies_def
      watch_request_def watch_path_def base_url_def auth_headers_def Let_def split: prod.splits option.splits)


section \<open>A round of the watch loops\<close>

definition operator_round ::
  "('c, 'n) k8s_net \<Rightarrow> os_env \<Rightarrow> 'c K8sHandler \<Rightarrow> ('n \<Rightarrow> 'ev list) \<Rightarrow> 'n \<Rightarrow> 'ev watch_round \<times> 'n" where
  "operator_round net os kh decoded n =
     (case op_CheckCustomResourceDefinition net os kh KewCRDName n of
        (False, n1) \<Rightarrow> (CrdMissing, n1)
      | (True, n1) \<Rightarrow>
          (case op_WatchK8sExternalWorkloadSecurityPolicies net os kh n1 of
             (False, n2) \<Rightarrow> (WatchFailed, n2)
           | (True, n2) \<Rightarrow> (WatchStream (decoded n2), n2)))"

definition service_round ::
  "('c, 'n) k8s_net \<Rightarrow> os_env \<Rightarrow> 'c K8sHandler \<Rightarrow> ('n \<Rightarrow> 'ev list) \<Rightarrow> 'n \<Rightarrow> 'ev list option \<times> 'n" where
  "service_round net os kh decoded n =
     (case CheckCustomResourceDefinition net os kh KhpCRDName n of
        (False, n1) \<Rightarrow> (None, n1)
      | (True, n1) \<Rightarrow>
          (case WatchK8sHostSecurityPolicies net os kh n1 of
             (False, n2) \<Rightarrow> (None, n2)
           | (True, n2) \<Rightarrow> (Some (decoded n2), n2)))"

lemma andThen_ret_right [simp]: "andThen m ret = m"
  by (auto simp: fun_eq_iff andThen_def ret_def split: prod.splits outcome.splits)


section \<open>Properties\<close>

text \<open>
  C28. A round of a watch loop handles the events of the response exactly if the program runs in a
  Kubernetes environment, the API server lists the resource in the preferred version of the group,
  and the watch request is answered; otherwise it changes nothing. The operator and the service
  decide this alike, each for its own resource, with separate copies of the client.
\<close>

theorem watch_round_exact:
  "WatchExternalWorkloadSecurityPolicies [fst (operator_round net os kh decoded n)] =
     (if IsK8sEnv os \<and> lists_resource net os kh KewCRDName n \<and>
         fst (watch_request net os kh ''kubearmorexternalworkloads'' (snd (CheckCustomResourceDefinition net os kh KewCRDName n)))
      then run_events HandleEvent (decoded (snd (operator_round net os kh decoded n))) else ret ()) \<and>
   WatchHostSecurityPolicies [fst (service_round net os kh decoded' n)] =
     (if IsK8sEnv os \<and> lists_resource net os kh KhpCRDName n \<and>
         fst (watch_request net os kh ''kubearmorhostpolicies'' (snd (CheckCustomResourceDefinition net os kh KhpCRDName n)))
      then run_events HandleHostEvent (decoded' (snd (service_round net os kh decoded' n))) else ret ())"
proof -
  have c: "IsK8sEnv os \<and> lists_resource net os kh r n \<longleftrightarrow> fst (CheckCustomResourceDefinition net os kh r n)" for r
    by (simp add: CheckCRD_iff)
  show ?thesis
    unfolding conj_assoc [symmetric] c operator_round_def service_round_def op_Check_eq op_Watch_eq
      WatchK8sExternalWorkloadSecurityPolicies_def WatchK8sHostSecurityPolicies_def
    by (auto split: prod.splits bool.splits)
qed

end
