(* ===== verification/Managers.thy ===== *)
theory Managers
  imports Host_Policy
begin

text \<open>
  The entry points of the two controllers, \<open>pkg/KubeArmorHostPolicy/main.go\<close> and
  \<open>pkg/KubeArmorExternalWorkload/main.go\<close>, with \<open>SetupWithManager\<close> of their reconcilers. The
  controller runtime is the parameter \<open>ctrl_runtime\<close>: a manager is made from its options, controllers
  are added to it by the kind they are for, and it runs until it is stopped.

  The controller runtime documents of its leader election that of all managers that use it with the
  same lock, which the option \<open>LeaderElectionID\<close> names, at most one runs its controllers
  (\<open>exclusive_leaders\<close>).
\<close>


section \<open>The programs\<close>

record manager_options =
  mo_MetricsBindAddress :: string
  mo_Port :: int
  mo_LeaderElection :: bool
  mo_LeaderElectionID :: string

record 'm ctrl_runtime =
  rt_NewManager :: "manager_options \<Rightarrow> go_error + 'm"
  rt_Complete :: "string \<Rightarrow> 'm \<Rightarrow> go_error option"
  rt_Start :: "'m \<Rightarrow> go_error option"

text \<open>The flags as they are given; a flag that is not given has its default.\<close>

record manager_flags =
  fl_metrics_addr :: "string option"
  fl_leader_election :: "bool option"

definition host_policy_options :: "manager_flags \<Rightarrow> manager_options" where
  "host_policy_options fl =
     \<lparr>mo_MetricsBindAddress = (case fl_metrics_addr fl of None \<Rightarrow> '':8080'' | Some a \<Rightarrow> a), mo_Port = 9443,
      mo_LeaderElection = (case fl_leader_election fl of None \<Rightarrow> False | Some b \<Rightarrow> b),
      mo_LeaderElectionID = ''62bbde7f.kubearmor.com''\<rparr>"

definition workload_options :: "manager_flags \<Rightarrow> manager_options" where
  "workload_options fl =
     \<lparr>mo_MetricsBindAddress = (case fl_metrics_addr fl of None \<Rightarrow> '':8080'' | Some a \<Rightarrow> a), mo_Port = 9443,
      mo_LeaderElection = (case fl_leader_election fl of None \<Rightarrow> False | Some b \<Rightarrow> b),
      mo_LeaderElectionID = ''62bbde7f.kubearmor.com''\<rparr>"

definition SetupWithManager :: "'m ctrl_runtime \<Rightarrow> 'm \<Rightarrow> go_error option" where
  "SetupWithManager rt mgr = rt_Complete rt ''KubeArmorHostPolicy'' mgr"

definition SetupWithManager_workload :: "'m ctrl_runtime \<Rightarrow> 'm \<Rightarrow> go_error option" where
  "SetupWithManager_workload rt mgr = rt_Complete rt ''KubeArmorExternalWorkload'' mgr"

text \<open>The status the process exits with; a manager that stops without an error lets \<open>main\<close> return.\<close>

definition host_policy_main :: "'m ctrl_runtime \<Rightarrow> manager_flags \<Rightarrow> nat" where
  "host_policy_main rt fl =
     (case rt_NewManager rt (host_policy_options fl) of
        Inl err \<Rightarrow> 1
      | Inr mgr \<Rightarrow>
          (case SetupWithManager rt mgr of
             Some err \<Rightarrow> 1
           | None \<Rightarrow> (case rt_Start rt mgr of Some err \<Rightarrow> 1 | None \<Rightarrow> 0)))"

definition workload_main :: "'m ctrl_runtime \<Rightarrow> manager_flags \<Rightarrow> nat" where
  "workload_main rt fl =
     (case rt_NewManager rt (workload_options fl) of
        Inl err \<Rightarrow> 1
      | Inr mgr \<Rightarrow>
          (case SetupWithManager_workload rt mgr of
             Some err \<Rightarrow> 1
           | None \<Rightarrow> (case rt_Start rt mgr of Some err \<Rightarrow> 1 | None \<Rightarrow> 0)))"


section \<open>Correctness\<close>

lemma host_policy_main_ok:
  "host_policy_main rt fl = 0 \<longleftrightarrow>
     (\<exists>mgr. rt_NewManager rt (host_policy_options fl) = Inr mgr \<and> rt_Complete rt ''KubeArmorHostPolicy'' mgr = None \<and>
        rt_Start rt mgr = None)"
  by (auto simp: host_policy_main_def SetupWithManager_def split: sum.splits option.splits)

lemma workload_main_ok:
  "workload_main rt fl = 0 \<longleftrightarrow>
     (\<exists>mgr. rt_NewManager rt (workload_options fl) = Inr mgr \<and> rt_Complete rt ''KubeArmorExternalWorkload'' mgr = None \<and>
        rt_Start rt mgr = None)"
  by (auto simp: workload_main_def SetupWithManager_workload_def split: sum.splits option.splits)

text \<open>
  \<open>runs p o t\<close>: at time \<open>t\<close> the manager of process \<open>p\<close>, which was made with the options \<open>o\<close>, runs its
  controllers. Only one process can, of those that ask for the same lock.
\<close>

definition exclusive_leaders :: "(nat \<Rightarrow> manager_options \<Rightarrow> 't \<Rightarrow> bool) \<Rightarrow> bool" where
  "exclusive_leaders runs \<longleftrightarrow>
     (\<forall>p q o1 o2 t. mo_LeaderElection o1 \<and> mo_LeaderElection o2 \<and> mo_LeaderElectionID o1 = mo_LeaderElectionID o2 \<and>
        runs p o1 t \<and> runs q o2 t \<longrightarrow> p = q)"

text \<open>
  The two controllers ask for the same lock. With leader election, which their deployments switch on,
  in the same namespace, they keep each other from running: while the controller of the workloads
  runs, host policies are not validated, and the other way round.
\<close>

lemma controllers_exclude_each_other:
  assumes "exclusive_leaders runs" and "fl_leader_election fl1 = Some True" and "fl_leader_election fl2 = Some True" and "p \<noteq> q"
  shows "\<not> (runs p (host_policy_options fl1) t \<and> runs q (workload_options fl2) t)"
  using assms unfolding exclusive_leaders_def
  by (metis (no_types, lifting) host_policy_options_def manager_options.select_convs(3,4) option.simps(5) workload_options_def)

end
