(* ===== verification/Go_Regexp.thy ===== *)
theory Go_Regexp
  imports KVM_Prelude
begin

text \<open>
  Regular expressions as the package \<open>regexp\<close> of Go reads them, as far as the markers of the API types use
  them: character classes with ranges, sequences, alternatives and repetition. \<open>matches\<close> says which texts
  an expression describes, \<open>rx_match\<close> decides it by derivatives. Texts are sequences of bytes; all
  classes here are ASCII.
\<close>


section \<open>Expressions and the texts they describe\<close>

datatype rx =
    RNone
  | REmpty
  | RClass "(char \<times> char) list"  \<comment> \<open>ranges, with both ends\<close>
  | RAlt rx rx
  | RSeq rx rx
  | RStar rx

definition in_class :: "(char \<times> char) list \<Rightarrow> char \<Rightarrow> bool" where
  "in_class ranges c \<longleftrightarrow> list_ex (\<lambda>(lo, hi). (of_char lo :: nat) \<le> of_char c \<and> (of_char c :: nat) \<le> of_char hi) ranges"

inductive matches :: "rx \<Rightarrow> string \<Rightarrow> bool" where
  matches_empty: "matches REmpty []"
| matches_class: "in_class ranges c \<Longrightarrow> matches (RClass ranges) [c]"
| matches_alt1: "matches r s \<Longrightarrow> matches (RAlt r r') s"
| matches_alt2: "matches r' s \<Longrightarrow> matches (RAlt r r') s"
| matches_seq: "matches r s \<Longrightarrow> matches r' s' \<Longrightarrow> matches (RSeq r r') (s @ s')"
| matches_star0: "matches (RStar r) []"
| matches_star: "matches r s \<Longrightarrow> matches (RStar r) s' \<Longrightarrow> matches (RStar r) (s @ s')"

inductive_simps matches_RNone [simp]: "matches RNone s"
inductive_simps matches_REmpty [simp]: "matches REmpty s"
inductive_simps matches_RClass: "matches (RClass ranges) s"
inductive_simps matches_RAlt [simp]: "matches (RAlt r r') s"
inductive_simps matches_RSeq: "matches (RSeq r r') s"

text \<open>What the source writes in short: \<open>r+\<close>, a literal text, and alternatives of texts\<close>

definition RPlus :: "rx \<Rightarrow> rx" where
  "RPlus r = RSeq r (RStar r)"

definition RChar :: "char \<Rightarrow> rx" where
  "RChar c = RClass [(c, c)]"

definition RText :: "string \<Rightarrow> rx" where
  "RText s = foldr (\<lambda>c r. RSeq (RChar c) r) s REmpty"

definition ROneOf :: "string list \<Rightarrow> rx" where
  "ROneOf ws = foldr (\<lambda>w r. RAlt (RText w) r) ws RNone"

text \<open>
  A pattern that ends in \<open>$\<close>, and begins with \<open>^\<close> or not. \<open>MatchString\<close> looks for a match anywhere; without
  \<open>^\<close> any text may come before it.
\<close>

record pattern =
  pa_begin :: bool
  pa_rx :: rx

definition RAny :: rx where
  "RAny = RClass [(CHR 0x00, CHR 0xFF)]"


section \<open>Deciding it\<close>

primrec nullable :: "rx \<Rightarrow> bool" where
  "nullable RNone = False"
| "nullable REmpty = True"
| "nullable (RClass ranges) = False"
| "nullable (RAlt r r') = (nullable r \<or> nullable r')"
| "nullable (RSeq r r') = (nullable r \<and> nullable r')"
| "nullable (RStar r) = True"

primrec deriv :: "char \<Rightarrow> rx \<Rightarrow> rx" where
  "deriv c RNone = RNone"
| "deriv c REmpty = RNone"
| "deriv c (RClass ranges) = (if in_class ranges c then REmpty else RNone)"
| "deriv c (RAlt r r') = RAlt (deriv c r) (deriv c r')"
| "deriv c (RSeq r r') =
     (if nullable r then RAlt (RSeq (deriv c r) r') (deriv c r') else RSeq (deriv c r) r')"
| "deriv c (RStar r) = RSeq (deriv c r) (RStar r)"

definition rx_match :: "rx \<Rightarrow> string \<Rightarrow> bool" where
  "rx_match r s = nullable (fold deriv s r)"

definition MatchString :: "pattern \<Rightarrow> string \<Rightarrow> bool" where
  "MatchString p s = rx_match (if pa_begin p then pa_rx p else RSeq (RStar RAny) (pa_rx p)) s"

lemma nullable_exact: "nullable r \<longleftrightarrow> matches r []"
  by (induction r) (auto simp: matches_RClass matches_RSeq intro: matches_star0)

lemma star_Cons:
  assumes "matches (RStar r) (c # s)"
  shows "\<exists>u v. s = u @ v \<and> matches r (c # u) \<and> matches (RStar r) v"
  using assms
proof (induction "RStar r" "c # s" arbitrary: s rule: matches.induct)
  case (matches_star t t')
  then show ?case by (cases t) auto
qed

lemma deriv_exact: "matches (deriv c r) s \<longleftrightarrow> matches r (c # s)"
proof (induction r arbitrary: s)
  case (RSeq r r')
  then show ?case
    by (auto simp: matches_RSeq nullable_exact Cons_eq_append_conv)
next
  case (RStar r)
  then show ?case by (auto simp: matches_RSeq dest: star_Cons intro: matches_star [of _ "c # _", simplified])
qed (auto simp: matches_RClass)

theorem rx_match_exact: "rx_match r s \<longleftrightarrow> matches r s"
  by (induction s arbitrary: r) (simp_all add: rx_match_def nullable_exact deriv_exact)


section \<open>The short forms\<close>

lemma in_class_Nil [simp]: "\<not> in_class [] c"
  by (simp add: in_class_def)

lemma in_class_any [simp]: "in_class [(CHR 0x00, CHR 0xFF)] c"
proof -
  have "(of_char c :: nat) \<le> 255" using nat_of_char_less_256 [of c] by linarith
  then show ?thesis by (simp add: in_class_def)
qed

lemma matches_RChar [simp]: "matches (RChar c) s \<longleftrightarrow> s = [c]"
  by (auto simp: RChar_def matches_RClass in_class_def)

lemma matches_RText [simp]: "matches (RText w) s \<longleftrightarrow> s = w"
  by (induction w arbitrary: s) (auto simp: RText_def matches_RSeq)

lemma matches_ROneOf [simp]: "matches (ROneOf ws) s \<longleftrightarrow> s \<in> set ws"
  by (induction ws) (auto simp: ROneOf_def)

lemma star_class: "matches (RStar (RClass ranges)) s \<longleftrightarrow> list_all (in_class ranges) s"
proof
  assume "matches (RStar (RClass ranges)) s"
  then show "list_all (in_class ranges) s"
    by (induction "RStar (RClass ranges)" s rule: matches.induct) (auto simp: matches_RClass)
next
  assume "list_all (in_class ranges) s"
  then show "matches (RStar (RClass ranges)) s"
  proof (induction s)
    case (Cons c s)
    then show ?case using matches_star [of "RClass ranges" "[c]" s] by (simp add: matches_RClass)
  qed (rule matches_star0)
qed

lemma plus_class: "matches (RPlus (RClass ranges)) s \<longleftrightarrow> s \<noteq> [] \<and> list_all (in_class ranges) s"
proof (cases s)
  case Nil
  then show ?thesis by (auto simp: RPlus_def matches_RSeq matches_RClass)
next
  case (Cons c t)
  have "matches (RPlus (RClass ranges)) (c # t) \<longleftrightarrow> in_class ranges c \<and> list_all (in_class ranges) t"
    unfolding RPlus_def matches_RSeq matches_RClass star_class by (metis append_Cons append_Nil list.inject)
  with Cons show ?thesis by simp
qed

text \<open>A repetition of a repetition adds nothing.\<close>

lemma star_append: "matches (RStar r) s \<Longrightarrow> matches (RStar r) s' \<Longrightarrow> matches (RStar r) (s @ s')"
  by (induction "RStar r" s rule: matches.induct) (auto intro: matches_star)

lemma star_plus: "matches (RStar (RPlus r)) s \<Longrightarrow> matches (RStar r) s"
  by (induction "RStar (RPlus r)" s rule: matches.induct)
    (auto simp: RPlus_def matches_RSeq intro: matches_star0 matches_star star_append)

lemma plus_plus [simp]: "matches (RPlus (RPlus r)) s \<longleftrightarrow> matches (RPlus r) s"
proof
  assume "matches (RPlus (RPlus r)) s"
  then obtain a b c where "s = (a @ b) @ c" "matches r a" "matches (RStar r) b" "matches (RStar (RPlus r)) c"
    by (auto simp: RPlus_def [of "RPlus r"] matches_RSeq) (auto simp: RPlus_def matches_RSeq)
  then show "matches (RPlus r) s"
    using star_append [OF _ star_plus, of r b c] by (auto simp: RPlus_def matches_RSeq)
next
  assume "matches (RPlus r) s"
  then show "matches (RPlus (RPlus r)) s"
    unfolding RPlus_def [of "RPlus r"] using matches_seq [OF _ matches_star0] by fastforce
qed

lemma MatchString_exact:
  "MatchString p s \<longleftrightarrow> (if pa_begin p then matches (pa_rx p) s else (\<exists>w. suffix w s \<and> matches (pa_rx p) w))"
  by (auto simp: MatchString_def rx_match_exact matches_RSeq RAny_def star_class suffix_def list_all_iff)

end
