(* ===== verification/Api_Schema.thy ===== *)
theory Api_Schema
  imports Go_Regexp Go_Stdlib Host_Policy
begin

text \<open>
  The schema of \<open>KubeArmorHostPolicy\<close>: the markers of \<open>kubearmorhostpolicy_types.go\<close> from which the
  definition of the custom resource is generated, and by which the API server accepts or refuses a
  policy before the controller sees it. Patterns, bounds and enumerations are checked on the values of
  a policy; a field with \<open>omitempty\<close> that has its zero value is absent and not checked. What is
  accepted by the schema and by the validation of the controller is then stated in plain terms.
\<close>


section \<open>Patterns, bounds, enumerations\<close>

text \<open>\<open>[A-z0-9-_.]\<close>: a hyphen that follows a range stands for itself.\<close>

definition name_class :: "(char \<times> char) list" where
  "name_class = [(CHR ''A'', CHR ''z''), (CHR ''0'', CHR ''9''), (CHR ''-'', CHR ''-''), (CHR ''_'', CHR ''_''), (CHR ''.'', CHR ''.'')]"

definition MatchPathType_pattern :: pattern where
  "MatchPathType_pattern = \<lparr>pa_begin = True, pa_rx =
     RSeq (RChar (CHR ''/'')) (RSeq (RStar (RSeq (RPlus (RClass name_class)) (RChar (CHR ''/'')))) (RPlus (RClass name_class)))\<rparr>"

definition MatchDirectoryType_pattern :: pattern where
  "MatchDirectoryType_pattern = \<lparr>pa_begin = True, pa_rx =
     RSeq (RChar (CHR ''/'')) (RSeq (RStar (RSeq (RPlus (RClass name_class)) (RChar (CHR ''/''))))
       (RSeq (RPlus (RPlus (RClass name_class))) (RChar (CHR ''/''))))\<rparr>"

definition protocols :: "string list" where
  "protocols = [''icmp'', ''ICMP'', ''tcp'', ''TCP'', ''udp'', ''UDP'']"

definition MatchNetworkProtocolStringType_pattern :: pattern where
  "MatchNetworkProtocolStringType_pattern = \<lparr>pa_begin = False, pa_rx = ROneOf protocols\<rparr>"

definition capabilities :: "string list" where
  "capabilities =
    [''chown'', ''dac_override'', ''dac_read_search'', ''fowner'', ''fsetid'', ''kill'',
     ''setgid'', ''setuid'', ''setpcap'', ''linux_immutable'', ''net_bind_service'',
     ''net_broadcast'', ''net_admin'', ''net_raw'', ''ipc_lock'', ''ipc_owner'', ''sys_module'',
     ''sys_rawio'', ''sys_chroot'', ''sys_ptrace'', ''sys_pacct'', ''sys_admin'', ''sys_boot'',
     ''sys_nice'', ''sys_resource'', ''sys_time'', ''sys_tty_config'', ''mknod'', ''lease'',
     ''audit_write'', ''audit_control'', ''setfcap'', ''mac_override'', ''mac_admin'']"

definition MatchCapabilitiesStringType_pattern :: pattern where
  "MatchCapabilitiesStringType_pattern = \<lparr>pa_begin = False, pa_rx = ROneOf capabilities\<rparr>"

definition SeverityType_ok :: "int \<Rightarrow> bool" where
  "SeverityType_ok n \<longleftrightarrow> 1 \<le> n \<and> n \<le> 10"

definition ActionType_ok :: "string \<Rightarrow> bool" where
  "ActionType_ok a \<longleftrightarrow> a \<in> set [''Allow'', ''Audit'', ''Block'']"


section \<open>The schema of each type\<close>

text \<open>A field with \<open>omitempty\<close>\<close>

definition optional :: "'a \<Rightarrow> ('a \<Rightarrow> bool) \<Rightarrow> 'a \<Rightarrow> bool" where
  "optional zero ok x \<longleftrightarrow> x = zero \<or> ok x"

definition severity_and_action_ok :: "int \<Rightarrow> string \<Rightarrow> bool" where
  "severity_and_action_ok severity action \<longleftrightarrow> optional 0 SeverityType_ok severity \<and> optional [] ActionType_ok action"

definition MatchSourceType_ok :: "MatchSourceType_v1 \<Rightarrow> bool" where
  "MatchSourceType_ok x \<longleftrightarrow>
     optional [] (MatchString MatchPathType_pattern) (ms1_Path x) \<and>
     optional [] (MatchString MatchDirectoryType_pattern) (ms1_Directory x)"

definition ProcessPathType_ok :: "ProcessPathType_v1 \<Rightarrow> bool" where
  "ProcessPathType_ok x \<longleftrightarrow> MatchString MatchPathType_pattern (pp1_Path x) \<and>
     list_all MatchSourceType_ok (pp1_FromSource x) \<and> severity_and_action_ok (pp1_Severity x) (pp1_Action x)"

definition ProcessDirectoryType_ok :: "ProcessDirectoryType_v1 \<Rightarrow> bool" where
  "ProcessDirectoryType_ok x \<longleftrightarrow> MatchString MatchDirectoryType_pattern (pd1_Directory x) \<and>
     list_all MatchSourceType_ok (pd1_FromSource x) \<and> severity_and_action_ok (pd1_Severity x) (pd1_Action x)"

definition ProcessPatternType_ok :: "ProcessPatternType_v1 \<Rightarrow> bool" where
  "ProcessPatternType_ok x \<longleftrightarrow> severity_and_action_ok (pt1_Severity x) (pt1_Action x)"

definition ProcessType_ok :: "ProcessType_v1 \<Rightarrow> bool" where
  "ProcessType_ok x \<longleftrightarrow> list_all ProcessPathType_ok (pr1_MatchPaths x) \<and>
     list_all ProcessDirectoryType_ok (pr1_MatchDirectories x) \<and> list_all ProcessPatternType_ok (pr1_MatchPatterns x) \<and>
     severity_and_action_ok (pr1_Severity x) (pr1_Action x)"

definition FilePathType_ok :: "FilePathType_v1 \<Rightarrow> bool" where
  "FilePathType_ok x \<longleftrightarrow> MatchString MatchPathType_pattern (fp1_Path x) \<and>
     list_all MatchSourceType_ok (fp1_FromSource x) \<and> severity_and_action_ok (fp1_Severity x) (fp1_Action x)"

definition FileDirectoryType_ok :: "FileDirectoryType_v1 \<Rightarrow> bool" where
  "FileDirectoryType_ok x \<longleftrightarrow> MatchString MatchDirectoryType_pattern (fd1_Directory x) \<and>
     list_all MatchSourceType_ok (fd1_FromSource x) \<and> severity_and_action_ok (fd1_Severity x) (fd1_Action x)"

definition FilePatternType_ok :: "FilePatternType_v1 \<Rightarrow> bool" where
  "FilePatternType_ok x \<longleftrightarrow> severity_and_action_ok (ft1_Severity x) (ft1_Action x)"

definition FileType_ok :: "FileType_v1 \<Rightarrow> bool" where
  "FileType_ok x \<longleftrightarrow> list_all FilePathType_ok (fi1_MatchPaths x) \<and>
     list_all FileDirectoryType_ok (fi1_MatchDirectories x) \<and> list_all FilePatternType_ok (fi1_MatchPatterns x) \<and>
     severity_and_action_ok (fi1_Severity x) (fi1_Action x)"

definition MatchNetworkProtocolType_ok :: "MatchNetworkProtocolType_v1 \<Rightarrow> bool" where
  "MatchNetworkProtocolType_ok x \<longleftrightarrow> MatchString MatchNetworkProtocolStringType_pattern (np1_Protocol x) \<and>
     list_all MatchSourceType_ok (np1_FromSource x) \<and> severity_and_action_ok (np1_Severity x) (np1_Action x)"

definition NetworkType_ok :: "NetworkType_v1 \<Rightarrow> bool" where
  "NetworkType_ok x \<longleftrightarrow> list_all MatchNetworkProtocolType_ok (nt1_MatchProtocols x) \<and>
     severity_and_action_ok (nt1_Severity x) (nt1_Action x)"

definition MatchCapabilitiesType_ok :: "MatchCapabilitiesType_v1 \<Rightarrow> bool" where
  "MatchCapabilitiesType_ok x \<longleftrightarrow> MatchString MatchCapabilitiesStringType_pattern (mc1_Capability x) \<and>
     list_all MatchSourceType_ok (mc1_FromSource x) \<and> severity_and_action_ok (mc1_Severity x) (mc1_Action x)"

definition CapabilitiesType_ok :: "CapabilitiesType_v1 \<Rightarrow> bool" where
  "CapabilitiesType_ok x \<longleftrightarrow> list_all MatchCapabilitiesType_ok (ca1_MatchCapabilities x) \<and>
     severity_and_action_ok (ca1_Severity x) (ca1_Action x)"

definition KubeArmorHostPolicySpec_ok :: "KubeArmorHostPolicySpec \<Rightarrow> bool" where
  "KubeArmorHostPolicySpec_ok x \<longleftrightarrow>
     ProcessType_ok (hp1_Process x) \<and> FileType_ok (hp1_File x) \<and> NetworkType_ok (hp1_Network x) \<and>
     CapabilitiesType_ok (hp1_Capabilities x) \<and> severity_and_action_ok (hp1_Severity x) (hp1_Action x)"


section \<open>What the patterns accept\<close>

text \<open>
  A name is not empty and has the characters from \<open>A\<close> to \<open>z\<close>, among them brackets, the backslash, the caret
  and the grave accent, digits, hyphens and points. A path is a slash and names with slashes between
  them.
\<close>

definition is_name :: "string \<Rightarrow> bool" where
  "is_name n \<longleftrightarrow> n \<noteq> [] \<and> list_all (in_class name_class) n"

definition is_path :: "string \<Rightarrow> bool" where
  "is_path s \<longleftrightarrow> (case s of [] \<Rightarrow> False | c # rest \<Rightarrow> c = CHR ''/'' \<and> list_all is_name (Split rest (CHR ''/'')))"

lemma is_path_iff: "is_path s \<longleftrightarrow> (\<exists>t. s = CHR ''/'' # t \<and> list_all is_name (Split t (CHR ''/'')))"
  by (auto simp: is_path_def split: list.splits)

abbreviation names_rx :: rx where
  "names_rx \<equiv> RStar (RSeq (RPlus (RClass name_class)) (RChar (CHR ''/'')))"

lemma slash_no_name [simp]: "\<not> in_class name_class (CHR ''/'')"
  by (simp add: in_class_def name_class_def)

lemma is_name_no_slash: "is_name n \<Longrightarrow> CHR ''/'' \<notin> set n"
  by (auto simp: is_name_def list_all_iff)

lemma plus_name [simp]: "matches (RPlus (RClass name_class)) n \<longleftrightarrow> is_name n"
  by (simp add: plus_class is_name_def)

lemma names_Split:
  assumes "matches names_rx s" and "is_name n"
  shows "list_all is_name (Split (s @ n) (CHR ''/''))"
  using assms(1)
proof (induction names_rx s rule: matches.induct)
  case matches_star0
  then show ?case using assms(2) by (simp add: Split_no_sep is_name_no_slash)
next
  case (matches_star s s')
  then obtain m where "s = m @ [CHR ''/'']" "is_name m" by (auto simp: matches_RSeq)
  with matches_star show ?case
    using Split_append [of m "CHR ''/''" "s' @ n"] by (simp add: Split_no_sep is_name_no_slash)
qed

lemma names_join:
  "ns \<noteq> [] \<Longrightarrow> list_all is_name ns \<Longrightarrow> \<exists>s n. join ns (CHR ''/'') = s @ n \<and> matches names_rx s \<and> is_name n"
proof (induction ns)
  case (Cons m ns)
  show ?case
  proof (cases "ns = []")
    case True
    with Cons.prems show ?thesis by (intro exI [of _ "[]"] exI [of _ m]) (simp add: matches_star0)
  next
    case False
    with Cons obtain s n where sn: "join ns (CHR ''/'') = s @ n" "matches names_rx s" "is_name n" by auto
    have "matches (RSeq (RPlus (RClass name_class)) (RChar (CHR ''/''))) (m @ [CHR ''/''])"
      using Cons.prems by (intro matches_seq) simp_all
    from matches_star [OF this sn(2)] sn False show ?thesis
      by (intro exI [of _ "(m @ [CHR ''/'']) @ s"] exI [of _ n]) (simp add: join_Cons_ne)
  qed
qed simp

lemma names_exact: "(\<exists>t n. s = t @ n \<and> matches names_rx t \<and> is_name n) \<longleftrightarrow> list_all is_name (Split s (CHR ''/''))"
  using names_Split names_join [of "Split s (CHR ''/'')"] by (fastforce simp: join_Split)

lemma seq_slash: "matches (RSeq (RChar (CHR ''/'')) r) s \<longleftrightarrow> (\<exists>t. s = CHR ''/'' # t \<and> matches r t)"
  by (auto simp: matches_RSeq)

lemma seq_name: "matches (RSeq names_rx (RPlus (RClass name_class))) s \<longleftrightarrow> list_all is_name (Split s (CHR ''/''))"
  unfolding names_exact [symmetric] by (simp add: matches_RSeq [of names_rx])

theorem path_pattern_exact: "MatchString MatchPathType_pattern s \<longleftrightarrow> is_path s"
  by (auto simp: MatchString_exact MatchPathType_pattern_def seq_slash seq_name is_path_iff)

theorem directory_pattern_exact: "MatchString MatchDirectoryType_pattern s \<longleftrightarrow> (\<exists>p. s = p @ ''/'' \<and> is_path p)"
proof -
  have "matches (RSeq names_rx (RSeq (RPlus (RPlus (RClass name_class))) (RChar (CHR ''/'')))) t \<longleftrightarrow>
      (\<exists>q. t = q @ ''/'' \<and> list_all is_name (Split q (CHR ''/'')))" for t
    unfolding names_exact [symmetric] by (fastforce simp: matches_RSeq)
  then show ?thesis
    by (auto simp: MatchString_exact MatchDirectoryType_pattern_def seq_slash is_path_iff)
qed

text \<open>The patterns of protocols and capabilities do not begin with \<open>^\<close>: anything may precede the name.\<close>

theorem name_patterns_exact:
  "MatchString MatchNetworkProtocolStringType_pattern s \<longleftrightarrow> (\<exists>w \<in> set protocols. suffix w s)"
  "MatchString MatchCapabilitiesStringType_pattern s \<longleftrightarrow> (\<exists>w \<in> set capabilities. suffix w s)"
  by (auto simp: MatchString_exact MatchNetworkProtocolStringType_pattern_def MatchCapabilitiesStringType_pattern_def)


section \<open>What the schema and the controller accept\<close>

definition is_directory :: "string \<Rightarrow> bool" where
  "is_directory s \<longleftrightarrow> s \<noteq> [] \<and> last s = CHR ''/'' \<and> is_path (butlast s)"

lemma directory_iff: "MatchString MatchDirectoryType_pattern s \<longleftrightarrow> is_directory s"
  unfolding directory_pattern_exact is_directory_def by (cases s rule: rev_cases) auto

lemma path_not_directory: "is_path s \<Longrightarrow> \<not> is_directory s"
proof
  assume "is_path s" "is_directory s"
  then obtain t where t: "s = CHR ''/'' # t" "list_all is_name (Split t (CHR ''/''))" "t = [] \<or> last t = CHR ''/''"
    by (auto simp: is_path_iff is_directory_def split: if_splits)
  show False
  proof (cases t rule: rev_cases)
    case Nil
    with t(2) show ?thesis by (simp add: is_name_def)
  next
    case (snoc u c)
    with t(2,3) Split_append [of u "CHR ''/''" "[]"] show ?thesis by (simp add: is_name_def)
  qed
qed

definition required_paths :: "KubeArmorHostPolicySpec \<Rightarrow> string list" where
  "required_paths spec =
     map pp1_Path (pr1_MatchPaths (hp1_Process spec)) @ map fp1_Path (fi1_MatchPaths (hp1_File spec))"

definition required_directories :: "KubeArmorHostPolicySpec \<Rightarrow> string list" where
  "required_directories spec =
     map pd1_Directory (pr1_MatchDirectories (hp1_Process spec)) @ map fd1_Directory (fi1_MatchDirectories (hp1_File spec))"

definition directory_sources :: "KubeArmorHostPolicySpec \<Rightarrow> MatchSourceType_v1 list" where
  "directory_sources spec =
     concat (map pd1_FromSource (pr1_MatchDirectories (hp1_Process spec))) @
     concat (map fd1_FromSource (fi1_MatchDirectories (hp1_File spec)))"

definition severities_and_actions :: "KubeArmorHostPolicySpec \<Rightarrow> (int \<times> string) list" where
  "severities_and_actions spec =
     (hp1_Severity spec, hp1_Action spec) #
     (let x = hp1_Process spec in (pr1_Severity x, pr1_Action x) #
        map (\<lambda>y. (pp1_Severity y, pp1_Action y)) (pr1_MatchPaths x) @
        map (\<lambda>y. (pd1_Severity y, pd1_Action y)) (pr1_MatchDirectories x) @
        map (\<lambda>y. (pt1_Severity y, pt1_Action y)) (pr1_MatchPatterns x)) @
     (let x = hp1_File spec in (fi1_Severity x, fi1_Action x) #
        map (\<lambda>y. (fp1_Severity y, fp1_Action y)) (fi1_MatchPaths x) @
        map (\<lambda>y. (fd1_Severity y, fd1_Action y)) (fi1_MatchDirectories x) @
        map (\<lambda>y. (ft1_Severity y, ft1_Action y)) (fi1_MatchPatterns x)) @
     (let x = hp1_Network spec in (nt1_Severity x, nt1_Action x) #
        map (\<lambda>y. (np1_Severity y, np1_Action y)) (nt1_MatchProtocols x)) @
     (let x = hp1_Capabilities spec in (ca1_Severity x, ca1_Action x) #
        map (\<lambda>y. (mc1_Severity y, mc1_Action y)) (ca1_MatchCapabilities x))"

lemma schema_parts:
  "KubeArmorHostPolicySpec_ok spec \<longleftrightarrow>
     (\<forall>s \<in> set (required_paths spec). is_path s) \<and> (\<forall>s \<in> set (required_directories spec). is_directory s) \<and>
     (\<forall>src \<in> set (strict_sources spec) \<union> set (file_sources spec) \<union> set (directory_sources spec). MatchSourceType_ok src) \<and>
     (\<forall>m \<in> set (nt1_MatchProtocols (hp1_Network spec)). \<exists>w \<in> set protocols. suffix w (np1_Protocol m)) \<and>
     (\<forall>m \<in> set (ca1_MatchCapabilities (hp1_Capabilities spec)). \<exists>w \<in> set capabilities. suffix w (mc1_Capability m)) \<and>
     (\<forall>(severity, action) \<in> set (severities_and_actions spec). severity_and_action_ok severity action)"
  unfolding KubeArmorHostPolicySpec_ok_def ProcessType_ok_def FileType_ok_def NetworkType_ok_def CapabilitiesType_ok_def
    ProcessPathType_ok_def ProcessDirectoryType_ok_def ProcessPatternType_ok_def FilePathType_ok_def FileDirectoryType_ok_def
    FilePatternType_ok_def MatchNetworkProtocolType_ok_def MatchCapabilitiesType_ok_def
    path_pattern_exact directory_iff name_patterns_exact required_paths_def required_directories_def
    strict_sources_def file_sources_def directory_sources_def severities_and_actions_def Let_def list_all_iff
  by (simp add: ball_Un ball_conj_distrib) argo

definition source_directory_ok :: "MatchSourceType_v1 \<Rightarrow> bool" where
  "source_directory_ok src \<longleftrightarrow> ms1_Directory src = [] \<or> is_directory (ms1_Directory src)"

lemma source_iff:
  "MatchSourceType_ok src \<longleftrightarrow> (ms1_Path src = [] \<or> is_path (ms1_Path src)) \<and> source_directory_ok src"
  by (simp add: MatchSourceType_ok_def optional_def path_pattern_exact directory_iff source_directory_ok_def)

lemma severity_and_action_iff:
  "severity_and_action_ok severity action \<longleftrightarrow> 0 \<le> severity \<and> severity \<le> 10 \<and> action \<in> {[], ''Allow'', ''Audit'', ''Block''}"
  by (auto simp: severity_and_action_ok_def optional_def SeverityType_ok_def ActionType_ok_def)

text \<open>The conditions on a policy that reaches the agents, by its parts\<close>

definition policy_accepted :: "KubeArmorHostPolicySpec \<Rightarrow> bool" where
  "policy_accepted spec \<longleftrightarrow>
     list_all is_path (required_paths spec) \<and> list_all is_directory (required_directories spec) \<and>
     list_all (\<lambda>src. ms1_Path src = [] \<and> source_directory_ok src) (strict_sources spec) \<and>
     list_all (\<lambda>src. (ms1_Path src = [] \<or> is_path (ms1_Path src) \<and> \<not> ms1_Recursive src) \<and> source_directory_ok src)
       (file_sources spec) \<and>
     list_all (\<lambda>src. (ms1_Path src = [] \<or> is_path (ms1_Path src)) \<and> source_directory_ok src) (directory_sources spec) \<and>
     list_all (\<lambda>m. list_ex (\<lambda>w. suffix w (np1_Protocol m)) protocols) (nt1_MatchProtocols (hp1_Network spec)) \<and>
     list_all (\<lambda>m. list_ex (\<lambda>w. suffix w (mc1_Capability m)) capabilities) (ca1_MatchCapabilities (hp1_Capabilities spec)) \<and>
     list_all (\<lambda>(severity, action). 0 \<le> severity \<and> severity \<le> 10 \<and> action \<in> {[], ''Allow'', ''Audit'', ''Block''})
       (severities_and_actions spec) \<and>
     (hp1_Action spec = ''Allow'' \<or> True \<notin> set (owner_flags spec))"


section \<open>Properties\<close>


text \<open>Examples: brackets in a path, the root directory, a text before a protocol, relative parts\<close>

lemma pattern_examples:
  "MatchString MatchPathType_pattern ''/bin/[sh]^''" "MatchString MatchPathType_pattern ''/bin/../sh''"
  "\<not> MatchString MatchPathType_pattern ''/bin//sh''" "\<not> MatchString MatchPathType_pattern ''/bin/sh*''"
  "\<not> MatchString MatchDirectoryType_pattern ''/''" "MatchString MatchDirectoryType_pattern ''/etc/''"
  "MatchString MatchNetworkProtocolStringType_pattern ''not-tcp''" "\<not> MatchString MatchNetworkProtocolStringType_pattern ''tcp4''"
  "MatchString MatchCapabilitiesStringType_pattern ''release''"
  by (simp_all add: path_pattern_exact directory_iff name_patterns_exact is_path_def is_directory_def is_name_def
      in_class_def name_class_def protocols_def capabilities_def suffix_def)

end
