(* ===== verification/Go_Json.thy ===== *)
theory Go_Json
  imports Json_Codec
begin

text \<open>
  \<open>encoding/json\<close> as it works for any structure, by the type of the value and the tags of its fields. A
  type description has what the library finds by reflection; \<open>marshal\<close> is \<open>json.Marshal\<close> and \<open>jdec\<close> is
  \<open>json.Unmarshal\<close> into a given value, both at the level of JSON values. A type of another package is
  a name, and how its values are written and read is a parameter.

  The reader follows the documented rules: the members of an object are taken in order; a member goes to
  the field of its name, or else to one whose name differs only in case, and is skipped when there
  is none; structures and maps keep what the object does not mention; slices start empty; \<open>null\<close>
  makes a slice or map nil and leaves everything else alone; a value of another kind and a number
  out of range are errors.
\<close>


section \<open>Types and values\<close>

datatype jty =
    TString
  | TBool
  | TInt int int  \<comment> \<open>the least and the greatest value\<close>
  | TSlice jty
  | TMap jty      \<comment> \<open>keys are strings\<close>
  | TStruct "jfield list"
  | TExt string   \<comment> \<open>a type of another package\<close>
and jfield = Field (field_name: string) (omitempty: bool) (field_type: jty)

datatype 'x jval =
    VString string
  | VBool bool
  | VInt int
  | VNil
  | VSlice "'x jval list"
  | VMap "(string \<times> 'x jval) list"
  | VStruct "'x jval list"
  | VExt 'x

text \<open>The integer types\<close>

abbreviation TInt64 :: jty where
  "TInt64 \<equiv> TInt (- (2 ^ 63)) (2 ^ 63 - 1)"

abbreviation TInt32 :: jty where
  "TInt32 \<equiv> TInt (- (2 ^ 31)) (2 ^ 31 - 1)"

abbreviation TUint32 :: jty where
  "TUint32 \<equiv> TInt 0 (2 ^ 32 - 1)"

abbreviation TUint64 :: jty where
  "TUint64 \<equiv> TInt 0 (2 ^ 64 - 1)"

text \<open>How values of other packages are written and read, by the name of the type\<close>

record 'x ext =
  x_zero :: "string \<Rightarrow> 'x"
  x_enc :: "string \<Rightarrow> 'x \<Rightarrow> json"
  x_dec :: "string \<Rightarrow> 'x \<Rightarrow> json \<Rightarrow> 'x option"

text \<open>The zero value of a type\<close>

fun jzero :: "'x ext \<Rightarrow> jty \<Rightarrow> 'x jval" and jzeros :: "'x ext \<Rightarrow> jfield list \<Rightarrow> 'x jval list" where
  "jzero X TString = VString []"
| "jzero X TBool = VBool False"
| "jzero X (TInt lo hi) = VInt 0"
| "jzero X (TSlice t) = VNil"
| "jzero X (TMap t) = VNil"
| "jzero X (TStruct fs) = VStruct (jzeros X fs)"
| "jzero X (TExt n) = VExt (x_zero X n)"
| "jzeros X [] = []"
| "jzeros X (Field n om t # fs) = jzero X t # jzeros X fs"

text \<open>The values of a type; \<open>ok\<close> are those of other packages\<close>

fun has_type :: "(string \<Rightarrow> 'x \<Rightarrow> bool) \<Rightarrow> jty \<Rightarrow> 'x jval \<Rightarrow> bool"
  and have_types :: "(string \<Rightarrow> 'x \<Rightarrow> bool) \<Rightarrow> jfield list \<Rightarrow> 'x jval list \<Rightarrow> bool" where
  "has_type ok TString v = (case v of VString s \<Rightarrow> True | _ \<Rightarrow> False)"
| "has_type ok TBool v = (case v of VBool b \<Rightarrow> True | _ \<Rightarrow> False)"
| "has_type ok (TInt lo hi) v = (case v of VInt i \<Rightarrow> lo \<le> i \<and> i \<le> hi | _ \<Rightarrow> False)"
| "has_type ok (TSlice t) v = (case v of VNil \<Rightarrow> True | VSlice vs \<Rightarrow> list_all (has_type ok t) vs | _ \<Rightarrow> False)"
| "has_type ok (TMap t) v =
     (case v of VNil \<Rightarrow> True | VMap es \<Rightarrow> gomap_ok es \<and> list_all (\<lambda>(k, v). has_type ok t v) es | _ \<Rightarrow> False)"
| "has_type ok (TStruct fs) v = (case v of VStruct vs \<Rightarrow> have_types ok fs vs | _ \<Rightarrow> False)"
| "has_type ok (TExt n) v = (case v of VExt x \<Rightarrow> ok n x | _ \<Rightarrow> False)"
| "have_types ok [] vs = (vs = [])"
| "have_types ok (Field n om t # fs) vs = (case vs of [] \<Rightarrow> False | v # vs \<Rightarrow> has_type ok t v \<and> have_types ok fs vs)"


section \<open>Writing\<close>

text \<open>What \<open>omitempty\<close> leaves out\<close>

fun is_empty_value :: "'x jval \<Rightarrow> bool" where
  "is_empty_value (VString s) = (s = [])"
| "is_empty_value (VBool b) = (\<not> b)"
| "is_empty_value (VInt i) = (i = 0)"
| "is_empty_value VNil = True"
| "is_empty_value (VSlice vs) = (vs = [])"
| "is_empty_value (VMap es) = (es = [])"
| "is_empty_value (VStruct vs) = False"
| "is_empty_value (VExt x) = False"

fun marshal :: "'x ext \<Rightarrow> jty \<Rightarrow> 'x jval \<Rightarrow> json"
  and marshal_fields :: "'x ext \<Rightarrow> jfield list \<Rightarrow> 'x jval list \<Rightarrow> (string \<times> json) list" where
  "marshal X TString v = (case v of VString s \<Rightarrow> JStr s | _ \<Rightarrow> JNull)"
| "marshal X TBool v = (case v of VBool b \<Rightarrow> JBool b | _ \<Rightarrow> JNull)"
| "marshal X (TInt lo hi) v = (case v of VInt i \<Rightarrow> JNum i | _ \<Rightarrow> JNull)"
| "marshal X (TSlice t) v = (case v of VSlice vs \<Rightarrow> JArr (map (marshal X t) vs) | _ \<Rightarrow> JNull)"
| "marshal X (TMap t) v = (case v of VMap es \<Rightarrow> JObj (map (\<lambda>(k, v). (k, marshal X t v)) es) | _ \<Rightarrow> JNull)"
| "marshal X (TStruct fs) v = (case v of VStruct vs \<Rightarrow> JObj (marshal_fields X fs vs) | _ \<Rightarrow> JNull)"
| "marshal X (TExt n) v = (case v of VExt x \<Rightarrow> x_enc X n x | _ \<Rightarrow> JNull)"
| "marshal_fields X [] vs = []"
| "marshal_fields X (Field n om t # fs) vs =
     (case vs of
        [] \<Rightarrow> []
      | v # vs \<Rightarrow> (if om \<and> is_empty_value v then [] else [(n, marshal X t v)]) @ marshal_fields X fs vs)"


section \<open>Reading\<close>

text \<open>
  Names that differ only in case: letters are folded, and so are the two other characters that Unicode
  folds to a letter of ASCII, the Kelvin sign and the long s, which have three bytes and two.
\<close>

definition lower :: "char \<Rightarrow> char" where
  "lower c = (if (65 :: nat) \<le> of_char c \<and> of_char c \<le> (90 :: nat) then char_of ((of_char c :: nat) + 32) else c)"

fun fold_name :: "string \<Rightarrow> string" where
  "fold_name [] = []"
| "fold_name (c # s) =
     (if take 3 (c # s) = [CHR 0xE2, CHR 0x84, CHR 0xAA] then CHR ''k'' # fold_name (drop 2 s)
      else if take 2 (c # s) = [CHR 0xC5, CHR 0xBF] then CHR ''s'' # fold_name (drop 1 s)
      else lower c # fold_name s)"

fun index_where :: "('a \<Rightarrow> bool) \<Rightarrow> 'a list \<Rightarrow> nat option" where
  "index_where P [] = None"
| "index_where P (x # xs) = (if P x then Some 0 else map_option Suc (index_where P xs))"

definition find_field :: "string \<Rightarrow> string list \<Rightarrow> nat option" where
  "find_field k names =
     (case index_where (\<lambda>n. n = k) names of
        Some i \<Rightarrow> Some i
      | None \<Rightarrow> index_where (\<lambda>n. fold_name n = fold_name k) names)"

text \<open>The members of an object, into the fields: each field has a name and a reader\<close>

type_synonym 'x reader = "'x jval \<Rightarrow> json \<Rightarrow> 'x jval option"

fun read_members :: "(string \<times> 'x reader) list \<Rightarrow> 'x jval list \<Rightarrow> (string \<times> json) list \<Rightarrow> 'x jval list option" where
  "read_members ds vs [] = Some vs"
| "read_members ds vs ((k, j) # ms) =
     (case find_field k (map fst ds) of
        None \<Rightarrow> read_members ds vs ms
      | Some i \<Rightarrow>
          (case snd (ds ! i) (vs ! i) j of
             None \<Rightarrow> None
           | Some v \<Rightarrow> read_members ds (vs[i := v]) ms))"

fun read_entries :: "(json \<Rightarrow> 'x jval option) \<Rightarrow> (string \<times> 'x jval) list \<Rightarrow> (string \<times> json) list \<Rightarrow> (string \<times> 'x jval) list option" where
  "read_entries d es [] = Some es"
| "read_entries d es ((k, j) # ms) =
     (case d j of None \<Rightarrow> None | Some v \<Rightarrow> read_entries d (AList.update k v es) ms)"

fun entries_of :: "'x jval \<Rightarrow> (string \<times> 'x jval) list" where
  "entries_of (VMap es) = es"
| "entries_of _ = []"

fun jdec :: "'x ext \<Rightarrow> jty \<Rightarrow> 'x reader" and jdecs :: "'x ext \<Rightarrow> jfield list \<Rightarrow> (string \<times> 'x reader) list" where
  "jdec X TString v j = (case j of JStr s \<Rightarrow> Some (VString s) | JNull \<Rightarrow> Some v | _ \<Rightarrow> None)"
| "jdec X TBool v j = (case j of JBool b \<Rightarrow> Some (VBool b) | JNull \<Rightarrow> Some v | _ \<Rightarrow> None)"
| "jdec X (TInt lo hi) v j =
     (case j of JNum i \<Rightarrow> if lo \<le> i \<and> i \<le> hi then Some (VInt i) else None | JNull \<Rightarrow> Some v | _ \<Rightarrow> None)"
| "jdec X (TSlice t) v j =
     (case j of
        JArr js \<Rightarrow> map_option VSlice (those (map (jdec X t (jzero X t)) js))
      | JNull \<Rightarrow> Some VNil
      | _ \<Rightarrow> None)"
| "jdec X (TMap t) v j =
     (case j of
        JObj ms \<Rightarrow> map_option VMap (read_entries (jdec X t (jzero X t)) (entries_of v) ms)
      | JNull \<Rightarrow> Some VNil
      | _ \<Rightarrow> None)"
| "jdec X (TStruct fs) v j =
     (case j of
        JObj ms \<Rightarrow> (case v of VStruct vs \<Rightarrow> map_option VStruct (read_members (jdecs X fs) vs ms) | _ \<Rightarrow> None)
      | JNull \<Rightarrow> Some v
      | _ \<Rightarrow> None)"
| "jdec X (TExt n) v j = (case v of VExt x \<Rightarrow> map_option VExt (x_dec X n x j) | _ \<Rightarrow> None)"
| "jdecs X [] = []"
| "jdecs X (Field n om t # fs) = (n, jdec X t) # jdecs X fs"

text \<open>\<open>json.Unmarshal\<close> into a new variable\<close>

definition unmarshal :: "'x ext \<Rightarrow> jty \<Rightarrow> json \<Rightarrow> 'x jval option" where
  "unmarshal X t j = jdec X t (jzero X t) j"


section \<open>What becomes of a value\<close>

text \<open>
  A value that is written and read back: an empty slice or map that \<open>omitempty\<close> leaves out comes back as
  nil, and everything else as it was, up to \<open>N\<close>, which says the same of other packages.
\<close>

fun jnorm :: "'x ext \<Rightarrow> (string \<Rightarrow> 'x \<Rightarrow> 'x) \<Rightarrow> jty \<Rightarrow> 'x jval \<Rightarrow> 'x jval"
  and jnorms :: "'x ext \<Rightarrow> (string \<Rightarrow> 'x \<Rightarrow> 'x) \<Rightarrow> jfield list \<Rightarrow> 'x jval list \<Rightarrow> 'x jval list" where
  "jnorm X N TString v = v"
| "jnorm X N TBool v = v"
| "jnorm X N (TInt lo hi) v = v"
| "jnorm X N (TSlice t) v = (case v of VSlice vs \<Rightarrow> VSlice (map (jnorm X N t) vs) | _ \<Rightarrow> v)"
| "jnorm X N (TMap t) v = (case v of VMap es \<Rightarrow> VMap (map (\<lambda>(k, v). (k, jnorm X N t v)) es) | _ \<Rightarrow> v)"
| "jnorm X N (TStruct fs) v = (case v of VStruct vs \<Rightarrow> VStruct (jnorms X N fs vs) | _ \<Rightarrow> v)"
| "jnorm X N (TExt n) v = (case v of VExt x \<Rightarrow> VExt (N n x) | _ \<Rightarrow> v)"
| "jnorms X N [] vs = []"
| "jnorms X N (Field n om t # fs) vs =
     (case vs of
        [] \<Rightarrow> []
      | v # vs \<Rightarrow> (if om \<and> is_empty_value v then jzero X t else jnorm X N t v) # jnorms X N fs vs)"

text \<open>Types in which no two fields have names that differ only in case, and 0 is a number\<close>

fun jty_ok :: "jty \<Rightarrow> bool" and jtys_ok :: "jfield list \<Rightarrow> bool" where
  "jty_ok TString = True"
| "jty_ok TBool = True"
| "jty_ok (TInt lo hi) = (lo \<le> 0 \<and> 0 \<le> hi)"
| "jty_ok (TSlice t) = jty_ok t"
| "jty_ok (TMap t) = jty_ok t"
| "jty_ok (TStruct fs) = (distinct (map (fold_name \<circ> field_name) fs) \<and> jtys_ok fs)"
| "jty_ok (TExt n) = True"
| "jtys_ok [] = True"
| "jtys_ok (Field n om t # fs) = (jty_ok t \<and> jtys_ok fs)"

lemma those_Some: "those xs = Some ys \<longleftrightarrow> xs = map Some ys"
  by (induction xs arbitrary: ys) (auto split: option.splits)

lemma index_where_first: "(\<And>x. x \<in> set xs \<Longrightarrow> \<not> P x) \<Longrightarrow> P y \<Longrightarrow> index_where P (xs @ y # ys) = Some (length xs)"
  by (induction xs) auto

lemma index_where_bound: "index_where P xs = Some i \<Longrightarrow> i < length xs"
  by (induction xs arbitrary: i) (auto split: if_splits)

lemma find_field_first: "n \<notin> set xs \<Longrightarrow> find_field n (xs @ n # ys) = Some (length xs)"
  unfolding find_field_def by (subst index_where_first) auto

lemma find_field_bound: "find_field k xs = Some i \<Longrightarrow> i < length xs"
  by (auto simp: find_field_def dest: index_where_bound split: option.splits)

lemma jdecs_map: "jdecs X fs = map (\<lambda>f. (field_name f, jdec X (field_type f))) fs"
proof (induction fs)
  case (Cons f fs)
  then show ?case by (cases f) simp
qed simp

lemma have_types_iff: "have_types ok fs vs \<longleftrightarrow> list_all2 (\<lambda>f. has_type ok (field_type f)) fs vs"
proof (induction fs arbitrary: vs)
  case (Cons f fs)
  then show ?case by (cases f; cases vs) auto
qed simp

lemma jtys_ok_iff: "jtys_ok fs \<longleftrightarrow> (\<forall>f \<in> set fs. jty_ok (field_type f))"
proof (induction fs)
  case (Cons f fs)
  then show ?case by (cases f) simp
qed simp

lemma read_entries_fresh:
  assumes "gomap_ok (es @ es')" and "list_all (\<lambda>(k, v). d (e v) = Some (f v)) es'"
  shows "read_entries d es (map (\<lambda>(k, v). (k, e v)) es') = Some (es @ map (\<lambda>(k, v). (k, f v)) es')"
  using assms
proof (induction es' arbitrary: es)
  case (Cons p es')
  obtain k v where p: "p = (k, v)" by (cases p)
  have "k \<notin> fst ` set es" using Cons.prems(1) by (auto simp: p)
  then have "AList.update k (f v) es = es @ [(k, f v)]" by (induction es) auto
  with Cons.IH [of "es @ [(k, f v)]"] Cons.prems show ?case by (simp add: p)
qed simp

lemma list_all_update: "list_all (\<lambda>(k, v). P v) es \<Longrightarrow> P v \<Longrightarrow> list_all (\<lambda>(k, v). P v) (AList.update k v es)"
  by (induction es) auto

lemma read_entries_types:
  assumes "read_entries d es ms = Some es'" and "gomap_ok es" and "list_all (\<lambda>(k, v). P v) es"
    and "\<And>j v. d j = Some v \<Longrightarrow> P v"
  shows "gomap_ok es' \<and> list_all (\<lambda>(k, v). P v) es'"
  using assms(1-3)
proof (induction ms arbitrary: es)
  case (Cons m ms)
  obtain k j where m: "m = (k, j)" by (cases m)
  with Cons.prems(1) obtain v where v: "d j = Some v" "read_entries d (AList.update k v es) ms = Some es'"
    by (auto split: option.splits)
  have "list_all (\<lambda>(k, v). P v) (AList.update k v es)"
    using Cons.prems(3) assms(4) [OF v(1)] by (rule list_all_update)
  with Cons.IH [OF v(2)] Cons.prems(2) show ?case by simp
qed simp

lemma read_members_all:
  assumes "read_members (jdecs X fs) vs ms = Some vs'" and "list_all2 T fs vs"
    and "list_all (\<lambda>(k, j). J j) ms"
    and "\<And>f v j v'. f \<in> set fs \<Longrightarrow> T f v \<Longrightarrow> J j \<Longrightarrow> jdec X (field_type f) v j = Some v' \<Longrightarrow> T f v'"
  shows "list_all2 T fs vs'"
  using assms(1-3)
proof (induction ms arbitrary: vs)
  case (Cons m ms)
  obtain k j where m: "m = (k, j)" by (cases m)
  show ?case
  proof (cases "find_field k (map fst (jdecs X fs))")
    case None
    with Cons m show ?thesis by simp
  next
    case (Some i)
    then have i: "i < length fs" using find_field_bound by (fastforce simp: jdecs_map)
    with Cons.prems(1) Some obtain v where
      v: "jdec X (field_type (fs ! i)) (vs ! i) j = Some v" "read_members (jdecs X fs) (vs[i := v]) ms = Some vs'"
      by (auto simp: m jdecs_map split: option.splits)
    have "T (fs ! i) v" using assms(4) [OF nth_mem [OF i] _ _ v(1)] list_all2_nthD [OF Cons.prems(2) i] Cons.prems(3) by (simp add: m)
    then have "list_all2 T fs (vs[i := v])" using Cons.prems(2) i by (metis list_all2_update_cong list_update_id)
    with Cons.IH [OF v(2)] Cons.prems(3) show ?thesis by (simp add: m)
  qed
qed simp

lemmas read_members_types = read_members_all [where J = "\<lambda>_. True", simplified list_all_iff split_beta, simplified]

text \<open>What types of other packages promise\<close>

locale ext_json =
  fixes X :: "'x ext" and ok :: "string \<Rightarrow> 'x \<Rightarrow> bool" and N :: "string \<Rightarrow> 'x \<Rightarrow> 'x"
  assumes zero_ok: "ok n (x_zero X n)"
    and dec_ok: "ok n x \<Longrightarrow> x_dec X n x j = Some y \<Longrightarrow> ok n y"
    and dec_enc: "ok n x \<Longrightarrow> x_dec X n (x_zero X n) (x_enc X n x) = Some (N n x)"
    and enc_norm: "ok n x \<Longrightarrow> x_enc X n (N n x) = x_enc X n x"
begin

lemma zero_typed: "jty_ok t \<Longrightarrow> has_type ok t (jzero X t)" "jtys_ok fs \<Longrightarrow> have_types ok fs (jzeros X fs)"
  by (induction t and fs rule: jty_ok_jtys_ok.induct) (auto simp: zero_ok)

text \<open>Reading keeps the type of the variable.\<close>

lemma jdec_typed:
  "jty_ok t \<Longrightarrow> has_type ok t v \<Longrightarrow> jdec X t v j = Some v' \<Longrightarrow> has_type ok t v'"
  "jtys_ok fs \<Longrightarrow> f \<in> set fs \<Longrightarrow> has_type ok (field_type f) v \<Longrightarrow> jdec X (field_type f) v j = Some v' \<Longrightarrow>
     has_type ok (field_type f) v'"
proof (induction t and fs arbitrary: v j v' and f v j v' rule: jty_ok_jtys_ok.induct)
  case (4 t)
  show ?case
  proof (cases j)
    case (JArr js)
    with 4 obtain vs where vs: "v' = VSlice vs" "map (jdec X t (jzero X t)) js = map Some vs" by (auto simp: those_Some)
    have "has_type ok t u" if "u \<in> set vs" for u
    proof -
      from that have "Some u \<in> set (map (jdec X t (jzero X t)) js)" by (simp add: vs(2))
      then obtain i where "jdec X t (jzero X t) i = Some u" by auto
      from "4.IH" [OF _ zero_typed(1) this] "4.prems"(1) show ?thesis by simp
    qed
    then show ?thesis by (simp add: vs(1) list_all_iff)
  qed (use 4 in auto)
next
  case (5 t)
  show ?case
  proof (cases j)
    case (JObj ms)
    with 5 obtain es where es: "v' = VMap es" "read_entries (jdec X t (jzero X t)) (entries_of v) ms = Some es" by auto
    have "gomap_ok (entries_of v)" "list_all (\<lambda>(k, v). has_type ok t v) (entries_of v)"
      using "5.prems"(2) by (auto split: jval.splits)
    from read_entries_types [OF es(2) this] "5.IH" [OF _ zero_typed(1)] "5.prems"(1)
    show ?thesis by (simp add: es(1))
  qed (use 5 in auto)
next
  case (6 fs)
  show ?case
  proof (cases j)
    case (JObj ms)
    with 6 obtain vs vs' where vs: "v = VStruct vs" "v' = VStruct vs'" "read_members (jdecs X fs) vs ms = Some vs'"
      by (auto split: jval.splits)
    have "list_all2 (\<lambda>f. has_type ok (field_type f)) fs vs" using "6.prems"(2) by (simp add: vs(1) have_types_iff)
    from read_members_types [OF vs(3) this] "6.IH" "6.prems"(1) have "list_all2 (\<lambda>f. has_type ok (field_type f)) fs vs'" by simp
    then show ?thesis by (simp add: vs(2) have_types_iff)
  qed (use 6 in auto)
next
  case (9 n om t fs)
  show ?case
  proof (cases "f = Field n om t")
    case True
    with "9.prems" "9.IH"(1) [of v j v'] show ?thesis by simp
  next
    case False
    with "9.prems" "9.IH"(2) [of f v j v'] show ?thesis by simp
  qed
qed (auto split: json.splits if_splits jval.splits option.splits simp: dec_ok)

text \<open>What is written can be read: the round trip, and a second one changes nothing.\<close>

lemma jdec_marshal:
  "jty_ok t \<Longrightarrow> has_type ok t v \<Longrightarrow> jdec X t (jzero X t) (marshal X t v) = Some (jnorm X N t v)"
  "jtys_ok fs \<Longrightarrow> have_types ok fs vs \<Longrightarrow> length ds = length us \<Longrightarrow> distinct (map fst ds @ map field_name fs) \<Longrightarrow>
     read_members (ds @ jdecs X fs) (us @ jzeros X fs) (marshal_fields X fs vs) = Some (us @ jnorms X N fs vs)"
proof (induction t and fs arbitrary: v and vs ds us rule: jty_ok_jtys_ok.induct)
  case (4 t)
  then show ?case
    by (auto simp: list_all_iff those_Some split: jval.splits)
next
  case (5 t)
  show ?case
  proof (cases v)
    case (VMap es)
    have "list_all (\<lambda>(k, u). jdec X t (jzero X t) (marshal X t u) = Some (jnorm X N t u)) es"
      using 5 VMap by (auto simp: list_all_iff)
    from read_entries_fresh [OF _ this, of "[]"] "5.prems"(2) VMap show ?thesis by simp
  qed (use 5 in auto)
next
  case (6 fs)
  then obtain vs where vs: "v = VStruct vs" "have_types ok fs vs" by (auto split: jval.splits)
  have "distinct (map field_name fs)" using "6.prems"(1) by (simp add: distinct_map comp_inj_on_iff [symmetric] inj_on_def)
  with 6 vs show ?case using "6.IH" [of vs "[]" "[]"] by simp
next
  case (9 n om t fs)
  then obtain v ws where vs: "vs = v # ws" "has_type ok t v" "have_types ok fs ws" by (auto split: list.splits)
  have IH: "read_members (ds @ (n, jdec X t) # jdecs X fs) (us @ u # jzeros X fs) (marshal_fields X fs ws) =
      Some (us @ u # jnorms X N fs ws)" for u
    using "9.IH"(2) [of ws "ds @ [(n, jdec X t)]" "us @ [u]"] "9.prems" vs(3) by simp
  show ?case
  proof (cases "om \<and> is_empty_value v")
    case True
    with IH [of "jzero X t"] show ?thesis by (simp add: vs(1))
  next
    case False
    have "find_field n (map fst (ds @ jdecs X (Field n om t # fs))) = Some (length ds)"
      using find_field_first [of n "map fst ds"] "9.prems"(4) by simp
    moreover have "jdec X t (jzero X t) (marshal X t v) = Some (jnorm X N t v)" using 9 vs by simp
    moreover have "(ds @ (n, jdec X t) # jdecs X fs) ! length us = (n, jdec X t)"
      using nth_append_length [of ds] "9.prems"(3) by metis
    ultimately show ?thesis using False IH [of "jnorm X N t v"] "9.prems"(3) by (auto simp: vs(1))
  qed
qed (auto simp: dec_enc split: jval.splits)

lemma empty_zero: "has_type ok t v \<Longrightarrow> is_empty_value v \<Longrightarrow> is_empty_value (jzero X t)"
  by (cases t; cases v) auto

lemma empty_jnorm: "has_type ok t v \<Longrightarrow> is_empty_value (jnorm X N t v) \<longleftrightarrow> is_empty_value v"
  by (cases t; cases v) auto

lemma marshal_jnorm:
  "jty_ok t \<Longrightarrow> has_type ok t v \<Longrightarrow> marshal X t (jnorm X N t v) = marshal X t v"
  "jtys_ok fs \<Longrightarrow> have_types ok fs vs \<Longrightarrow> marshal_fields X fs (jnorms X N fs vs) = marshal_fields X fs vs"
proof (induction t and fs arbitrary: v and vs rule: jty_ok_jtys_ok.induct)
  case (4 t)
  then show ?case by (auto simp: list_all_iff split: jval.splits)
next
  case (5 t)
  then show ?case by (auto simp: list_all_iff split: jval.splits)
next
  case (9 n om t fs)
  then show ?case by (auto simp: empty_zero empty_jnorm split: list.splits)
qed (auto simp: enc_norm split: jval.splits)

end

text \<open>Structures without types of other packages\<close>

definition no_ext :: "unit ext" where
  "no_ext = \<lparr>x_zero = (\<lambda>_. ()), x_enc = (\<lambda>_ _. JNull), x_dec = (\<lambda>_ _ _. Some ())\<rparr>"

interpretation no_ext: ext_json no_ext "\<lambda>_ _. True" "\<lambda>_ _. ()"
  by unfold_locales (simp_all add: no_ext_def)

end
