(* ===== verification/Data_Types.thy ===== *)
theory Data_Types
  imports Go_Json
begin

text \<open>
  The structures of \<open>src/types/types.go\<close> as type descriptions: names, \<open>omitempty\<close> and types of their
  fields. A field without a tag has its own name. Types of other packages (\<open>metav1.ObjectMeta\<close>,
  \<open>v1.Node\<close>, \<open>v1.Pod\<close>, \<open>*regexp.Regexp\<close>) are names. What any of these structures is after it was read,
  written and read again is shown once for all of them.
\<close>


section \<open>The structures\<close>

abbreviation TUint16 :: jty where
  "TUint16 \<equiv> TInt 0 (2 ^ 16 - 1)"

definition Container_jt :: jty where
  "Container_jt = TStruct
     [Field ''containerID'' False TString,
      Field ''containerName'' False TString,
      Field ''namespaceName'' False TString,
      Field ''endPointName'' False TString,
      Field ''apparmorProfile'' False TString,
      Field ''pidns'' False TUint32,
      Field ''mntns'' False TUint32,
      Field ''policyEnabled'' False TInt64,
      Field ''processVisibilityEnabled'' False TBool,
      Field ''fileVisibilityEnabled'' False TBool,
      Field ''networkVisibilityEnabled'' False TBool,
      Field ''capabilitiesVisibilityEnabled'' False TBool]"

definition HostVolumeMount_jt :: jty where
  "HostVolumeMount_jt = TStruct
     [Field ''Type'' False TString,
      Field ''VolumeName'' False TString,
      Field ''PathName'' False TString,
      Field ''UsedByContainerPath'' False (TMap TString),
      Field ''UsedByContainerReadOnly'' False (TMap TBool)]"

definition SelectorType_jt :: jty where
  "SelectorType_jt = TStruct
     [Field ''matchLabels'' True (TMap TString),
      Field ''identities'' True (TSlice TString)]"

definition MatchSourceType_jt :: jty where
  "MatchSourceType_jt = TStruct
     [Field ''path'' True TString,
      Field ''dir'' True TString,
      Field ''recursive'' True TBool]"

definition ProcessPathType_jt :: jty where
  "ProcessPathType_jt = TStruct
     [Field ''path'' False TString,
      Field ''ownerOnly'' True TBool,
      Field ''fromSource'' True (TSlice MatchSourceType_jt),
      Field ''severity'' True TInt64,
      Field ''tags'' True (TSlice TString),
      Field ''message'' True TString,
      Field ''action'' True TString]"

definition ProcessDirectoryType_jt :: jty where
  "ProcessDirectoryType_jt = TStruct
     [Field ''dir'' False TString,
      Field ''recursive'' True TBool,
      Field ''ownerOnly'' True TBool,
      Field ''fromSource'' True (TSlice MatchSourceType_jt),
      Field ''severity'' True TInt64,
      Field ''tags'' True (TSlice TString),
      Field ''message'' True TString,
      Field ''action'' True TString]"

definition ProcessPatternType_jt :: jty where
  "ProcessPatternType_jt = TStruct
     [Field ''pattern'' False TString,
      Field ''ownerOnly'' True TBool,
      Field ''severity'' True TInt64,
      Field ''tags'' True (TSlice TString),
      Field ''message'' True TString,
      Field ''action'' True TString]"

definition ProcessType_jt :: jty where
  "ProcessType_jt = TStruct
     [Field ''matchPaths'' True (TSlice ProcessPathType_jt),
      Field ''matchDirectories'' True (TSlice ProcessDirectoryType_jt),
      Field ''matchPatterns'' True (TSlice ProcessPatternType_jt),
      Field ''severity'' True TInt64,
      Field ''tags'' True (TSlice TString),
      Field ''message'' True TString,
      Field ''action'' True TString]"

definition FilePathType_jt :: jty where
  "FilePathType_jt = TStruct
     [Field ''path'' False TString,
      Field ''readOnly'' True TBool,
      Field ''ownerOnly'' True TBool,
      Field ''fromSource'' True (TSlice MatchSourceType_jt),
      Field ''severity'' True TInt64,
      Field ''tags'' True (TSlice TString),
      Field ''message'' True TString,
      Field ''action'' True TString]"

definition FileDirectoryType_jt :: jty where
  "FileDirectoryType_jt = TStruct
     [Field ''dir'' False TString,
      Field ''readOnly'' True TBool,
      Field ''recursive'' True TBool,
      Field ''ownerOnly'' True TBool,
      Field ''fromSource'' True (TSlice MatchSourceType_jt),
      Field ''severity'' True TInt64,
      Field ''tags'' True (TSlice TString),
      Field ''message'' True TString,
      Field ''action'' True TString]"

definition FilePatternType_jt :: jty where
  "FilePatternType_jt = TStruct
     [Field ''pattern'' False TString,
      Field ''readOnly'' True TBool,
      Field ''ownerOnly'' True TBool,
      Field ''severity'' True TInt64,
      Field ''tags'' True (TSlice TString),
      Field ''message'' True TString,
      Field ''action'' True TString]"

definition FileType_jt :: jty where
  "FileType_jt = TStruct
     [Field ''matchPaths'' True (TSlice FilePathType_jt),
      Field ''matchDirectories'' True (TSlice FileDirectoryType_jt),
      Field ''matchPatterns'' True (TSlice FilePatternType_jt),
      Field ''severity'' True TInt64,
      Field ''tags'' True (TSlice TString),
      Field ''message'' True TString,
      Field ''action'' True TString]"

definition NetworkProtocolType_jt :: jty where
  "NetworkProtocolType_jt = TStruct
     [Field ''protocol'' False TString,
      Field ''fromSource'' True (TSlice MatchSourceType_jt),
      Field ''severity'' True TInt64,
      Field ''tags'' True (TSlice TString),
      Field ''message'' True TString,
      Field ''action'' True TString]"

definition NetworkType_jt :: jty where
  "NetworkType_jt = TStruct
     [Field ''matchProtocols'' True (TSlice NetworkProtocolType_jt),
      Field ''severity'' True TInt64,
      Field ''tags'' True (TSlice TString),
      Field ''message'' True TString,
      Field ''action'' True TString]"

definition CapabilitiesCapabilityType_jt :: jty where
  "CapabilitiesCapabilityType_jt = TStruct
     [Field ''capability'' False TString,
      Field ''fromSource'' True (TSlice MatchSourceType_jt),
      Field ''severity'' True TInt64,
      Field ''tags'' True (TSlice TString),
      Field ''message'' True TString,
      Field ''action'' True TString]"

definition CapabilitiesType_jt :: jty where
  "CapabilitiesType_jt = TStruct
     [Field ''matchCapabilities'' True (TSlice CapabilitiesCapabilityType_jt),
      Field ''severity'' True TInt64,
      Field ''tags'' True (TSlice TString),
      Field ''message'' True TString,
      Field ''action'' True TString]"

definition MatchVolumeMountType_jt :: jty where
  "MatchVolumeMountType_jt = TStruct
     [Field ''path'' True TString,
      Field ''dir'' True TString,
      Field ''readOnly'' True TBool,
      Field ''severity'' True TInt64,
      Field ''tags'' True (TSlice TString),
      Field ''message'' True TString,
      Field ''action'' True TString]"

definition SELinuxType_jt :: jty where
  "SELinuxType_jt = TStruct
     [Field ''matchVolumeMounts'' True (TSlice MatchVolumeMountType_jt),
      Field ''severity'' True TInt64,
      Field ''tags'' True (TSlice TString),
      Field ''message'' True TString,
      Field ''action'' True TString]"

definition SecuritySpec_jt :: jty where
  "SecuritySpec_jt = TStruct
     [Field ''selector'' False SelectorType_jt,
      Field ''process'' True ProcessType_jt,
      Field ''file'' True FileType_jt,
      Field ''network'' True NetworkType_jt,
      Field ''capabilities'' True CapabilitiesType_jt,
      Field ''apparmor'' True TString,
      Field ''selinux'' True SELinuxType_jt,
      Field ''severity'' False TInt64,
      Field ''tags'' True (TSlice TString),
      Field ''message'' True TString,
      Field ''action'' False TString]"

definition SecurityPolicy_jt :: jty where
  "SecurityPolicy_jt = TStruct
     [Field ''metadata'' False (TMap TString),
      Field ''spec'' False SecuritySpec_jt]"

definition EndPoint_jt :: jty where
  "EndPoint_jt = TStruct
     [Field ''namespaceName'' False TString,
      Field ''endPointName'' False TString,
      Field ''labels'' False (TMap TString),
      Field ''identities'' False (TSlice TString),
      Field ''containers'' False (TSlice TString),
      Field ''apparmorProfiles'' False (TSlice TString),
      Field ''selinuxProfiles'' False (TMap TString),
      Field ''hostVolumes'' False (TSlice HostVolumeMount_jt),
      Field ''securityPolicies'' False (TSlice SecurityPolicy_jt),
      Field ''policyEnabled'' False TInt64,
      Field ''processVisibilityEnabled'' False TBool,
      Field ''fileVisibilityEnabled'' False TBool,
      Field ''networkVisibilityEnabled'' False TBool,
      Field ''capabilitiesVisibilityEnabled'' False TBool]"

definition Node_jt :: jty where
  "Node_jt = TStruct
     [Field ''nodeName'' False TString,
      Field ''nodeIP'' False TString,
      Field ''annotations'' False (TMap TString),
      Field ''labels'' False (TMap TString),
      Field ''identities'' False (TSlice TString),
      Field ''architecture'' False TString,
      Field ''operatingSystem'' False TString,
      Field ''osImage'' False TString,
      Field ''kernelVersion'' False TString,
      Field ''kubeletVersion'' False TString,
      Field ''containerRuntimeVersion'' False TString,
      Field ''enableKubeArmorPolicy'' False TBool,
      Field ''enableKubeArmorHostPolicy'' False TBool]"

definition K8sNodeEvent_jt :: jty where
  "K8sNodeEvent_jt = TStruct
     [Field ''type'' False TString,
      Field ''object'' False (TExt ''v1.Node'')]"

definition K8sPod_jt :: jty where
  "K8sPod_jt = TStruct
     [Field ''Metadata'' False (TMap TString),
      Field ''Annotations'' False (TMap TString),
      Field ''Labels'' False (TMap TString),
      Field ''Containers'' False (TMap TString),
      Field ''HostVolumes'' False (TSlice HostVolumeMount_jt)]"

definition K8sPodEvent_jt :: jty where
  "K8sPodEvent_jt = TStruct
     [Field ''type'' False TString,
      Field ''object'' False (TExt ''v1.Pod'')]"

definition K8sPolicyStatus_jt :: jty where
  "K8sPolicyStatus_jt = TStruct
     [Field ''status'' True TString]"

definition K8sKubeArmorPolicy_jt :: jty where
  "K8sKubeArmorPolicy_jt = TStruct
     [Field ''metadata'' False (TExt ''metav1.ObjectMeta''),
      Field ''spec'' False SecuritySpec_jt,
      Field ''status'' True K8sPolicyStatus_jt]"

definition K8sKubeArmorPolicyEvent_jt :: jty where
  "K8sKubeArmorPolicyEvent_jt = TStruct
     [Field ''type'' False TString,
      Field ''object'' False K8sKubeArmorPolicy_jt]"

definition K8sKubeArmorPolicies_jt :: jty where
  "K8sKubeArmorPolicies_jt = TStruct
     [Field ''items'' False (TSlice K8sKubeArmorPolicy_jt)]"

definition NodeSelectorType_jt :: jty where
  "NodeSelectorType_jt = TStruct
     [Field ''matchLabels'' True (TMap TString),
      Field ''identities'' True (TSlice TString)]"

definition HostSecuritySpec_jt :: jty where
  "HostSecuritySpec_jt = TStruct
     [Field ''nodeSelector'' False NodeSelectorType_jt,
      Field ''process'' True ProcessType_jt,
      Field ''file'' True FileType_jt,
      Field ''network'' True NetworkType_jt,
      Field ''capabilities'' True CapabilitiesType_jt,
      Field ''apparmor'' True TString,
      Field ''severity'' False TInt64,
      Field ''tags'' True (TSlice TString),
      Field ''message'' True TString,
      Field ''action'' False TString]"

definition K8sKubeArmorHostPolicy_jt :: jty where
  "K8sKubeArmorHostPolicy_jt = TStruct
     [Field ''metadata'' False (TExt ''metav1.ObjectMeta''),
      Field ''spec'' False HostSecuritySpec_jt,
      Field ''status'' True K8sPolicyStatus_jt]"

definition K8sKubeArmorHostPolicyEvent_jt :: jty where
  "K8sKubeArmorHostPolicyEvent_jt = TStruct
     [Field ''type'' False TString,
      Field ''object'' False K8sKubeArmorHostPolicy_jt]"

definition MK8sKubeArmorHostPolicy_jt :: jty where
  "MK8sKubeArmorHostPolicy_jt = TStruct
     [Field ''apiVersion'' False TString,
      Field ''kind'' False TString,
      Field ''metadata'' False (TExt ''metav1.ObjectMeta''),
      Field ''spec'' False HostSecuritySpec_jt]"

definition K8sKubeArmorHostPolicies_jt :: jty where
  "K8sKubeArmorHostPolicies_jt = TStruct
     [Field ''items'' False (TSlice K8sKubeArmorHostPolicy_jt)]"

definition K8sKubeArmorExternalWorkloadPolicyStatus_jt :: jty where
  "K8sKubeArmorExternalWorkloadPolicyStatus_jt = TStruct
     [Field ''id'' True TUint64,
      Field ''ip'' True TString,
      Field ''status'' True TString]"

definition ExternalWorkloadSecuritySpec_jt :: jty where
  "ExternalWorkloadSecuritySpec_jt = TStruct
     [Field ''ipv4-alloc-cidr'' True TString,
      Field ''ipv6-alloc-cidr'' True TString]"

definition K8sKubeArmorExternalWorkloadPolicy_jt :: jty where
  "K8sKubeArmorExternalWorkloadPolicy_jt = TStruct
     [Field ''metadata'' False (TExt ''metav1.ObjectMeta''),
      Field ''spec'' False ExternalWorkloadSecuritySpec_jt,
      Field ''status'' True K8sKubeArmorExternalWorkloadPolicyStatus_jt]"

definition K8sKubeArmorExternalWorkloadPolicyEvent_jt :: jty where
  "K8sKubeArmorExternalWorkloadPolicyEvent_jt = TStruct
     [Field ''type'' False TString,
      Field ''object'' False K8sKubeArmorExternalWorkloadPolicy_jt]"

definition K8sKubeArmorExternalWorkloadPolicies_jt :: jty where
  "K8sKubeArmorExternalWorkloadPolicies_jt = TStruct
     [Field ''items'' False (TSlice K8sKubeArmorExternalWorkloadPolicy_jt)]"

definition Log_jt :: jty where
  "Log_jt = TStruct
     [Field ''timestamp'' False TInt64,
      Field ''updatedTime'' False TString,
      Field ''clusterName'' True TString,
      Field ''hostName'' False TString,
      Field ''namespaceName'' True TString,
      Field ''podName'' True TString,
      Field ''containerID'' True TString,
      Field ''containerName'' True TString,
      Field ''hostPid'' False TInt32,
      Field ''ppid'' False TInt32,
      Field ''pid'' False TInt32,
      Field ''uid'' False TInt32,
      Field ''policyName'' True TString,
      Field ''severity'' True TString,
      Field ''tags'' True TString,
      Field ''message'' True TString,
      Field ''type'' False TString,
      Field ''source'' False TString,
      Field ''operation'' False TString,
      Field ''resource'' False TString,
      Field ''data'' True TString,
      Field ''action'' True TString,
      Field ''result'' False TString,
      Field ''policyEnabled'' True TInt64,
      Field ''processVisibilityEnabled'' True TBool,
      Field ''fileVisibilityEnabled'' True TBool,
      Field ''networkVisibilityEnabled'' True TBool,
      Field ''capabilitiesVisibilityEnabled'' True TBool]"

definition MatchPolicy_jt :: jty where
  "MatchPolicy_jt = TStruct
     [Field ''PolicyName'' False TString,
      Field ''Severity'' False TString,
      Field ''Tags'' False (TSlice TString),
      Field ''Message'' False TString,
      Field ''Source'' False TString,
      Field ''Operation'' False TString,
      Field ''ResourceType'' False TString,
      Field ''Resource'' False TString,
      Field ''Regexp'' False (TExt ''*regexp.Regexp''),
      Field ''Native'' False TBool,
      Field ''Action'' False TString]"

definition MatchPolicies_jt :: jty where
  "MatchPolicies_jt = TStruct
     [Field ''Policies'' False (TSlice MatchPolicy_jt)]"

definition HostSecurityPolicy_jt :: jty where
  "HostSecurityPolicy_jt = TStruct
     [Field ''metadata'' False (TMap TString),
      Field ''spec'' False HostSecuritySpec_jt]"

definition ExternalWorkloadMetadata_jt :: jty where
  "ExternalWorkloadMetadata_jt = TStruct
     [Field ''nodeSelector'' False NodeSelectorType_jt,
      Field ''name'' False TString]"

definition ExternalWorkloadSecurityPolicy_jt :: jty where
  "ExternalWorkloadSecurityPolicy_jt = TStruct
     [Field ''metadata'' False ExternalWorkloadMetadata_jt]"

definition K8sKubeArmorHostPolicyEventWithIdentity_jt :: jty where
  "K8sKubeArmorHostPolicyEventWithIdentity_jt = TStruct
     [Field ''Event'' False K8sKubeArmorHostPolicyEvent_jt,
      Field ''Identity'' False TUint16,
      Field ''CloseConnection'' False TBool]"

definition json_types :: "jty list" where
  "json_types =
     [Container_jt, HostVolumeMount_jt, SelectorType_jt, MatchSourceType_jt,
      ProcessPathType_jt, ProcessDirectoryType_jt, ProcessPatternType_jt, ProcessType_jt,
      FilePathType_jt, FileDirectoryType_jt, FilePatternType_jt, FileType_jt,
      NetworkProtocolType_jt, NetworkType_jt, CapabilitiesCapabilityType_jt, CapabilitiesType_jt,
      MatchVolumeMountType_jt, SELinuxType_jt, SecuritySpec_jt, SecurityPolicy_jt,
      EndPoint_jt, Node_jt, K8sNodeEvent_jt, K8sPod_jt,
      K8sPodEvent_jt, K8sPolicyStatus_jt, K8sKubeArmorPolicy_jt, K8sKubeArmorPolicyEvent_jt,
      K8sKubeArmorPolicies_jt, NodeSelectorType_jt, HostSecuritySpec_jt, K8sKubeArmorHostPolicy_jt,
      K8sKubeArmorHostPolicyEvent_jt, MK8sKubeArmorHostPolicy_jt, K8sKubeArmorHostPolicies_jt, K8sKubeArmorExternalWorkloadPolicyStatus_jt,
      ExternalWorkloadSecuritySpec_jt, K8sKubeArmorExternalWorkloadPolicy_jt, K8sKubeArmorExternalWorkloadPolicyEvent_jt, K8sKubeArmorExternalWorkloadPolicies_jt,
      Log_jt, MatchPolicy_jt, MatchPolicies_jt, HostSecurityPolicy_jt,
      ExternalWorkloadMetadata_jt, ExternalWorkloadSecurityPolicy_jt, K8sKubeArmorHostPolicyEventWithIdentity_jt]"


section \<open>Their names\<close>

lemma lower_chars [simp]:
  "lower (CHR ''-'') = CHR ''-''" "lower (CHR ''4'') = CHR ''4''" "lower (CHR ''6'') = CHR ''6''"
  "lower (CHR ''A'') = CHR ''a''" "lower (CHR ''B'') = CHR ''b''" "lower (CHR ''C'') = CHR ''c''"
  "lower (CHR ''D'') = CHR ''d''" "lower (CHR ''E'') = CHR ''e''" "lower (CHR ''H'') = CHR ''h''"
  "lower (CHR ''I'') = CHR ''i''" "lower (CHR ''K'') = CHR ''k''" "lower (CHR ''L'') = CHR ''l''"
  "lower (CHR ''M'') = CHR ''m''" "lower (CHR ''N'') = CHR ''n''" "lower (CHR ''O'') = CHR ''o''"
  "lower (CHR ''P'') = CHR ''p''" "lower (CHR ''R'') = CHR ''r''" "lower (CHR ''S'') = CHR ''s''"
  "lower (CHR ''T'') = CHR ''t''" "lower (CHR ''U'') = CHR ''u''" "lower (CHR ''V'') = CHR ''v''"
  "lower (CHR ''a'') = CHR ''a''" "lower (CHR ''b'') = CHR ''b''" "lower (CHR ''c'') = CHR ''c''"
  "lower (CHR ''d'') = CHR ''d''" "lower (CHR ''e'') = CHR ''e''" "lower (CHR ''f'') = CHR ''f''"
  "lower (CHR ''g'') = CHR ''g''" "lower (CHR ''h'') = CHR ''h''" "lower (CHR ''i'') = CHR ''i''"
  "lower (CHR ''j'') = CHR ''j''" "lower (CHR ''k'') = CHR ''k''" "lower (CHR ''l'') = CHR ''l''"
  "lower (CHR ''m'') = CHR ''m''" "lower (CHR ''n'') = CHR ''n''" "lower (CHR ''o'') = CHR ''o''"
  "lower (CHR ''p'') = CHR ''p''" "lower (CHR ''r'') = CHR ''r''" "lower (CHR ''s'') = CHR ''s''"
  "lower (CHR ''t'') = CHR ''t''" "lower (CHR ''u'') = CHR ''u''" "lower (CHR ''v'') = CHR ''v''"
  "lower (CHR ''w'') = CHR ''w''" "lower (CHR ''x'') = CHR ''x''" "lower (CHR ''y'') = CHR ''y''"
  by code_simp+

text \<open>No structure has two fields whose names differ only in case.\<close>

lemma Container_jt_ok [simp]: "jty_ok Container_jt"
  by (simp add: Container_jt_def)

lemma HostVolumeMount_jt_ok [simp]: "jty_ok HostVolumeMount_jt"
  by (simp add: HostVolumeMount_jt_def)

lemma SelectorType_jt_ok [simp]: "jty_ok SelectorType_jt"
  by (simp add: SelectorType_jt_def)

lemma MatchSourceType_jt_ok [simp]: "jty_ok MatchSourceType_jt"
  by (simp add: MatchSourceType_jt_def)

lemma ProcessPathType_jt_ok [simp]: "jty_ok ProcessPathType_jt"
  by (simp add: ProcessPathType_jt_def)

lemma ProcessDirectoryType_jt_ok [simp]: "jty_ok ProcessDirectoryType_jt"
  by (simp add: ProcessDirectoryType_jt_def)

lemma ProcessPatternType_jt_ok [simp]: "jty_ok ProcessPatternType_jt"
  by (simp add: ProcessPatternType_jt_def)

lemma ProcessType_jt_ok [simp]: "jty_ok ProcessType_jt"
  by (simp add: ProcessType_jt_def)

lemma FilePathType_jt_ok [simp]: "jty_ok FilePathType_jt"
  by (simp add: FilePathType_jt_def)

lemma FileDirectoryType_jt_ok [simp]: "jty_ok FileDirectoryType_jt"
  by (simp add: FileDirectoryType_jt_def)

lemma FilePatternType_jt_ok [simp]: "jty_ok FilePatternType_jt"
  by (simp add: FilePatternType_jt_def)

lemma FileType_jt_ok [simp]: "jty_ok FileType_jt"
  by (simp add: FileType_jt_def)

lemma NetworkProtocolType_jt_ok [simp]: "jty_ok NetworkProtocolType_jt"
  by (simp add: NetworkProtocolType_jt_def)

lemma NetworkType_jt_ok [simp]: "jty_ok NetworkType_jt"
  by (simp add: NetworkType_jt_def)

lemma CapabilitiesCapabilityType_jt_ok [simp]: "jty_ok CapabilitiesCapabilityType_jt"
  by (simp add: CapabilitiesCapabilityType_jt_def)

lemma CapabilitiesType_jt_ok [simp]: "jty_ok CapabilitiesType_jt"
  by (simp add: CapabilitiesType_jt_def)

lemma MatchVolumeMountType_jt_ok [simp]: "jty_ok MatchVolumeMountType_jt"
  by (simp add: MatchVolumeMountType_jt_def)

lemma SELinuxType_jt_ok [simp]: "jty_ok SELinuxType_jt"
  by (simp add: SELinuxType_jt_def)

lemma SecuritySpec_jt_ok [simp]: "jty_ok SecuritySpec_jt"
  by (simp add: SecuritySpec_jt_def)

lemma SecurityPolicy_jt_ok [simp]: "jty_ok SecurityPolicy_jt"
  by (simp add: SecurityPolicy_jt_def)

lemma EndPoint_jt_ok [simp]: "jty_ok EndPoint_jt"
  by (simp add: EndPoint_jt_def)

lemma Node_jt_ok [simp]: "jty_ok Node_jt"
  by (simp add: Node_jt_def)

lemma K8sNodeEvent_jt_ok [simp]: "jty_ok K8sNodeEvent_jt"
  by (simp add: K8sNodeEvent_jt_def)

lemma K8sPod_jt_ok [simp]: "jty_ok K8sPod_jt"
  by (simp add: K8sPod_jt_def)

lemma K8sPodEvent_jt_ok [simp]: "jty_ok K8sPodEvent_jt"
  by (simp add: K8sPodEvent_jt_def)

lemma K8sPolicyStatus_jt_ok [simp]: "jty_ok K8sPolicyStatus_jt"
  by (simp add: K8sPolicyStatus_jt_def)

lemma K8sKubeArmorPolicy_jt_ok [simp]: "jty_ok K8sKubeArmorPolicy_jt"
  by (simp add: K8sKubeArmorPolicy_jt_def)

lemma K8sKubeArmorPolicyEvent_jt_ok [simp]: "jty_ok K8sKubeArmorPolicyEvent_jt"
  by (simp add: K8sKubeArmorPolicyEvent_jt_def)

lemma K8sKubeArmorPolicies_jt_ok [simp]: "jty_ok K8sKubeArmorPolicies_jt"
  by (simp add: K8sKubeArmorPolicies_jt_def)

lemma NodeSelectorType_jt_ok [simp]: "jty_ok NodeSelectorType_jt"
  by (simp add: NodeSelectorType_jt_def)

lemma HostSecuritySpec_jt_ok [simp]: "jty_ok HostSecuritySpec_jt"
  by (simp add: HostSecuritySpec_jt_def)

lemma K8sKubeArmorHostPolicy_jt_ok [simp]: "jty_ok K8sKubeArmorHostPolicy_jt"
  by (simp add: K8sKubeArmorHostPolicy_jt_def)

lemma K8sKubeArmorHostPolicyEvent_jt_ok [simp]: "jty_ok K8sKubeArmorHostPolicyEvent_jt"
  by (simp add: K8sKubeArmorHostPolicyEvent_jt_def)

lemma MK8sKubeArmorHostPolicy_jt_ok [simp]: "jty_ok MK8sKubeArmorHostPolicy_jt"
  by (simp add: MK8sKubeArmorHostPolicy_jt_def)

lemma K8sKubeArmorHostPolicies_jt_ok [simp]: "jty_ok K8sKubeArmorHostPolicies_jt"
  by (simp add: K8sKubeArmorHostPolicies_jt_def)

lemma K8sKubeArmorExternalWorkloadPolicyStatus_jt_ok [simp]: "jty_ok K8sKubeArmorExternalWorkloadPolicyStatus_jt"
  by (simp add: K8sKubeArmorExternalWorkloadPolicyStatus_jt_def)

lemma ExternalWorkloadSecuritySpec_jt_ok [simp]: "jty_ok ExternalWorkloadSecuritySpec_jt"
  by (simp add: ExternalWorkloadSecuritySpec_jt_def)

lemma K8sKubeArmorExternalWorkloadPolicy_jt_ok [simp]: "jty_ok K8sKubeArmorExternalWorkloadPolicy_jt"
  by (simp add: K8sKubeArmorExternalWorkloadPolicy_jt_def)

lemma K8sKubeArmorExternalWorkloadPolicyEvent_jt_ok [simp]: "jty_ok K8sKubeArmorExternalWorkloadPolicyEvent_jt"
  by (simp add: K8sKubeArmorExternalWorkloadPolicyEvent_jt_def)

lemma K8sKubeArmorExternalWorkloadPolicies_jt_ok [simp]: "jty_ok K8sKubeArmorExternalWorkloadPolicies_jt"
  by (simp add: K8sKubeArmorExternalWorkloadPolicies_jt_def)

lemma Log_jt_ok [simp]: "jty_ok Log_jt"
  by (simp add: Log_jt_def)

lemma MatchPolicy_jt_ok [simp]: "jty_ok MatchPolicy_jt"
  by (simp add: MatchPolicy_jt_def)

lemma MatchPolicies_jt_ok [simp]: "jty_ok MatchPolicies_jt"
  by (simp add: MatchPolicies_jt_def)

lemma HostSecurityPolicy_jt_ok [simp]: "jty_ok HostSecurityPolicy_jt"
  by (simp add: HostSecurityPolicy_jt_def)

lemma ExternalWorkloadMetadata_jt_ok [simp]: "jty_ok ExternalWorkloadMetadata_jt"
  by (simp add: ExternalWorkloadMetadata_jt_def)

lemma ExternalWorkloadSecurityPolicy_jt_ok [simp]: "jty_ok ExternalWorkloadSecurityPolicy_jt"
  by (simp add: ExternalWorkloadSecurityPolicy_jt_def)

lemma K8sKubeArmorHostPolicyEventWithIdentity_jt_ok [simp]: "jty_ok K8sKubeArmorHostPolicyEventWithIdentity_jt"
  by (simp add: K8sKubeArmorHostPolicyEventWithIdentity_jt_def)

lemma json_types_ok: "t \<in> set json_types \<Longrightarrow> jty_ok t"
  by (auto simp: json_types_def)


section \<open>Properties\<close>



end
