(* ===== verification/Json_Compat.thy ===== *)
theory Json_Compat
  imports Go_Json
begin

text \<open>
  What one program writes with one structure and another reads with another. \<open>compat t t'\<close> says that
  every field of \<open>t\<close> is, by its exact name, a field of \<open>t'\<close> whose type takes its values; then whatever is
  written from a value of type \<open>t\<close> is read into \<open>t'\<close> without an error, and \<open>convert\<close> says what is read: every
  field of \<open>t'\<close> has the value of the field of its name, or is zero.
\<close>


fun compat :: "jty \<Rightarrow> jty \<Rightarrow> bool" and compats :: "jfield list \<Rightarrow> jfield list \<Rightarrow> bool" where
  "compat TString t' = (t' = TString)"
| "compat TBool t' = (t' = TBool)"
| "compat (TInt lo hi) t' = (case t' of TInt lo' hi' \<Rightarrow> lo' \<le> lo \<and> hi \<le> hi' | _ \<Rightarrow> False)"
| "compat (TSlice t) t' = (case t' of TSlice u \<Rightarrow> compat t u | _ \<Rightarrow> False)"
| "compat (TMap t) t' = (case t' of TMap u \<Rightarrow> compat t u | _ \<Rightarrow> False)"
| "compat (TStruct fs) t' = (case t' of TStruct gs \<Rightarrow> compats fs gs | _ \<Rightarrow> False)"
| "compat (TExt n) t' = (t' = TExt n)"
| "compats [] gs = True"
| "compats (Field n om t # fs) gs =
     ((case find (\<lambda>g. field_name g = n) gs of None \<Rightarrow> False | Some g \<Rightarrow> compat t (field_type g)) \<and> compats fs gs)"

text \<open>The fields of a structure after fields of given names were set\<close>

definition set_fields :: "jfield list \<Rightarrow> 'x jval list \<Rightarrow> (string \<times> (jty \<Rightarrow> 'x jval)) list \<Rightarrow> 'x jval list" where
  "set_fields gs ws M =
     map (\<lambda>(g, w). case map_of M (field_name g) of None \<Rightarrow> w | Some c \<Rightarrow> c (field_type g)) (zip gs ws)"

fun convert :: "'x ext \<Rightarrow> (string \<Rightarrow> 'x \<Rightarrow> 'x) \<Rightarrow> jty \<Rightarrow> 'x jval \<Rightarrow> jty \<Rightarrow> 'x jval"
  and converts :: "'x ext \<Rightarrow> (string \<Rightarrow> 'x \<Rightarrow> 'x) \<Rightarrow> jfield list \<Rightarrow> 'x jval list \<Rightarrow> (string \<times> (jty \<Rightarrow> 'x jval)) list" where
  "convert X N TString v t' = v"
| "convert X N TBool v t' = v"
| "convert X N (TInt lo hi) v t' = v"
| "convert X N (TSlice t) v t' =
     (case (v, t') of (VSlice vs, TSlice u) \<Rightarrow> VSlice (map (\<lambda>v. convert X N t v u) vs) | _ \<Rightarrow> v)"
| "convert X N (TMap t) v t' =
     (case (v, t') of (VMap es, TMap u) \<Rightarrow> VMap (map (\<lambda>(k, v). (k, convert X N t v u)) es) | _ \<Rightarrow> v)"
| "convert X N (TStruct fs) v t' =
     (case (v, t') of (VStruct vs, TStruct gs) \<Rightarrow> VStruct (set_fields gs (jzeros X gs) (converts X N fs vs)) | _ \<Rightarrow> v)"
| "convert X N (TExt n) v t' = (case v of VExt x \<Rightarrow> VExt (N n x) | _ \<Rightarrow> v)"
| "converts X N [] vs = []"
| "converts X N (Field n om t # fs) vs =
     (case vs of
        [] \<Rightarrow> []
      | v # vs \<Rightarrow> (n, \<lambda>t'. if om \<and> is_empty_value v then jzero X t' else convert X N t v t') # converts X N fs vs)"


section \<open>Setting fields\<close>

lemma jzeros_map: "jzeros X fs = map (\<lambda>f. jzero X (field_type f)) fs"
proof (induction fs)
  case (Cons f fs)
  then show ?case by (cases f) simp
qed simp

lemma length_set_fields [simp]: "length (set_fields gs ws M) = min (length gs) (length ws)"
  by (simp add: set_fields_def)

lemma set_fields_nth:
  "i < length gs \<Longrightarrow> length ws = length gs \<Longrightarrow>
     set_fields gs ws M ! i = (case map_of M (field_name (gs ! i)) of None \<Rightarrow> ws ! i | Some c \<Rightarrow> c (field_type (gs ! i)))"
  by (simp add: set_fields_def)

lemma set_fields_Nil [simp]: "length ws = length gs \<Longrightarrow> set_fields gs ws [] = ws"
  by (rule nth_equalityI) (simp_all add: set_fields_nth)

lemma set_fields_Cons:
  assumes "distinct (map field_name gs)" and "i < length gs" and "field_name (gs ! i) = n" and "length ws = length gs"
    and "n \<notin> fst ` set M"
  shows "set_fields gs ws ((n, c) # M) = set_fields gs (ws[i := c (field_type (gs ! i))]) M"
proof (rule nth_equalityI)
  fix k assume "k < length (set_fields gs ws ((n, c) # M))"
  then have k: "k < length gs" using assms(4) by simp
  have "field_name (gs ! k) = n \<longleftrightarrow> k = i"
    using assms(1-3) k nth_eq_iff_index_eq [of "map field_name gs" k i] by auto
  moreover have "map_of M n = None" using assms(5) by (simp add: map_of_eq_None_iff)
  ultimately show "set_fields gs ws ((n, c) # M) ! k = set_fields gs (ws[i := c (field_type (gs ! i))]) M ! k"
    using k assms(3,4) by (auto simp: set_fields_nth nth_list_update split: option.splits)
qed (simp add: assms(4))

lemma find_name:
  assumes "find (\<lambda>g. field_name g = n) gs = Some g"
  obtains i where "i < length gs" "gs ! i = g" "field_name g = n" "find_field n (map field_name gs) = Some i"
proof -
  from assms obtain i where i: "i < length gs" "gs ! i = g" "field_name g = n" "\<And>j. j < i \<Longrightarrow> field_name (gs ! j) \<noteq> n"
    by (auto simp: find_Some_iff)
  then have "map field_name gs = map field_name (take i gs) @ n # map field_name (drop (Suc i) gs)"
    by (metis id_take_nth_drop list.simps(9) map_append)
  moreover have "n \<notin> set (map field_name (take i gs))"
    using i(1,4) by (auto simp: in_set_conv_nth) metis
  ultimately have "find_field n (map field_name gs) = Some (length (map field_name (take i gs)))"
    by (metis find_field_first)
  with i(1-3) show ?thesis by (intro that [of i]) simp_all
qed

lemma converts_names: "fst ` set (converts X N fs vs) \<subseteq> field_name ` set fs"
proof (induction fs arbitrary: vs)
  case (Cons f fs)
  show ?case
  proof (cases f)
    case (Field n om t)
    then show ?thesis using Cons by (cases vs) auto
  qed
qed simp

lemma distinct_names: "jty_ok (TStruct fs) \<Longrightarrow> distinct (map field_name fs)"
  by (auto simp: distinct_map inj_on_def)


section \<open>What is read\<close>

context ext_json
begin

lemma jdec_compat:
  "jty_ok t \<Longrightarrow> jty_ok t' \<Longrightarrow> compat t t' \<Longrightarrow> has_type ok t v \<Longrightarrow>
     jdec X t' (jzero X t') (marshal X t v) = Some (convert X N t v t')"
  "jtys_ok fs \<Longrightarrow> distinct (map field_name fs) \<Longrightarrow> jty_ok (TStruct gs) \<Longrightarrow> compats fs gs \<Longrightarrow> have_types ok fs vs \<Longrightarrow>
     length ws = length gs \<Longrightarrow> (\<forall>i < length gs. field_name (gs ! i) \<in> field_name ` set fs \<longrightarrow> ws ! i = jzero X (field_type (gs ! i))) \<Longrightarrow>
     read_members (jdecs X gs) ws (marshal_fields X fs vs) = Some (set_fields gs ws (converts X N fs vs))"
proof (induction t and fs arbitrary: v t' and vs gs ws rule: jty_ok_jtys_ok.induct)
  case (3 lo hi)
  then show ?case by (auto split: jval.splits jty.splits)
next
  case (4 t)
  then obtain u where u: "t' = TSlice u" "compat t u" by (auto split: jty.splits)
  then show ?case using 4 by (auto simp: list_all_iff those_Some split: jval.splits)
next
  case (5 t)
  then obtain u where u: "t' = TMap u" "compat t u" by (auto split: jty.splits)
  show ?case
  proof (cases v)
    case (VMap es)
    have "list_all (\<lambda>(k, w). jdec X u (jzero X u) (marshal X t w) = Some (convert X N t w u)) es"
      using 5 u VMap by (auto simp: list_all_iff)
    from read_entries_fresh [OF _ this, of "[]"] "5.prems"(4) VMap u(1) show ?thesis by simp
  qed (use 5 u in auto)
next
  case (6 fs)
  then obtain gs vs where g: "t' = TStruct gs" "compats fs gs" "v = VStruct vs" "have_types ok fs vs"
    by (auto split: jty.splits jval.splits)
  have "read_members (jdecs X gs) (jzeros X gs) (marshal_fields X fs vs) = Some (set_fields gs (jzeros X gs) (converts X N fs vs))"
    using "6.IH" [of gs vs "jzeros X gs"] "6.prems"(1,2) g(1,2,4) distinct_names by (simp add: jzeros_map)
  then show ?case by (simp add: g(1,3))
next
  case (9 n om t fs)
  then obtain v us where vs: "vs = v # us" "has_type ok t v" "have_types ok fs us" by (auto split: list.splits)
  obtain g where g: "find (\<lambda>g. field_name g = n) gs = Some g" "compat t (field_type g)"
    using "9.prems"(4) by (auto split: option.splits)
  obtain i where i: "i < length gs" "gs ! i = g" "field_name g = n" "find_field n (map field_name gs) = Some i"
    using find_name [OF g(1)] by blast
  let ?c = "\<lambda>t'. if om \<and> is_empty_value v then jzero X t' else convert X N t v t'"
  have names: "distinct (map field_name gs)" by (rule distinct_names) (rule "9.prems"(3))
  have n: "n \<notin> field_name ` set fs" using "9.prems"(2) by auto
  have zero: "ws ! i = jzero X (field_type g)" using "9.prems"(7) i(1-3) by auto
  have okg: "jty_ok (field_type g)" using "9.prems"(3) i(1,2) by (auto simp: jtys_ok_iff)
  have set: "set_fields gs ws ((n, ?c) # converts X N fs us) = set_fields gs (ws[i := ?c (field_type g)]) (converts X N fs us)"
  proof -
    have "n \<notin> fst ` set (converts X N fs us)" using n converts_names [of X N fs us] by blast
    from set_fields_Cons [OF names i(1) _ "9.prems"(6) this, of ?c] show ?thesis using i(2,3) by simp
  qed
  have IH: "read_members (jdecs X gs) (ws[i := u]) (marshal_fields X fs us) = Some (set_fields gs (ws[i := u]) (converts X N fs us))" for u
  proof (rule "9.IH"(2))
    show "\<forall>k < length gs. field_name (gs ! k) \<in> field_name ` set fs \<longrightarrow> ws[i := u] ! k = jzero X (field_type (gs ! k))"
    proof (intro allI impI)
      fix k assume k: "k < length gs" "field_name (gs ! k) \<in> field_name ` set fs"
      with n i(2,3) have "k \<noteq> i" by auto
      with k "9.prems"(7) show "ws[i := u] ! k = jzero X (field_type (gs ! k))" by auto
    qed
  qed (use "9.prems" vs(3) in auto)
  show ?case
  proof (cases "om \<and> is_empty_value v")
    case True
    with IH [of "jzero X (field_type g)"] set zero show ?thesis by (simp add: vs(1)) (metis list_update_id)
  next
    case False
    have "jdec X (field_type g) (ws ! i) (marshal X t v) = Some (convert X N t v (field_type g))"
      unfolding zero using "9.IH"(1) [OF _ okg g(2) vs(2)] "9.prems"(1) by simp
    with False IH [of "convert X N t v (field_type g)"] set i show ?thesis
      by (auto simp: vs(1) jdecs_map comp_def)
  qed
qed (auto simp: dec_enc split: jval.splits)

end

text \<open>Every field that both structures have is carried over.\<close>

lemma converts_nth:
  "i < length fs \<Longrightarrow> length vs = length fs \<Longrightarrow> distinct (map field_name fs) \<Longrightarrow>
     map_of (converts X N fs vs) (field_name (fs ! i)) =
       Some (\<lambda>u. if omitempty (fs ! i) \<and> is_empty_value (vs ! i) then jzero X u else convert X N (field_type (fs ! i)) (vs ! i) u)"
proof (induction fs arbitrary: i vs)
  case (Cons f fs)
  obtain n om t where f: "f = Field n om t" by (cases f)
  obtain v ws where vs: "vs = v # ws" using Cons.prems(2) by (cases vs) auto
  show ?case
  proof (cases i)
    case 0
    then show ?thesis by (simp add: f vs cong: if_cong)
  next
    case (Suc k)
    with Cons.prems have "k < length fs" "length ws = length fs" "distinct (map field_name fs)" "field_name (fs ! k) \<noteq> n"
      by (auto simp: f vs)
    with Cons.IH [of k ws] Suc show ?thesis by (simp add: f vs cong: if_cong)
  qed
qed simp

lemma convert_field:
  assumes "jty_ok (TStruct fs)" and "length vs = length fs" and "i < length fs" and "k < length gs"
    and "field_name (gs ! k) = field_name (fs ! i)" and "\<not> is_empty_value (vs ! i)"
  shows "\<exists>ws. convert X N (TStruct fs) (VStruct vs) (TStruct gs) = VStruct ws \<and>
    ws ! k = convert X N (field_type (fs ! i)) (vs ! i) (field_type (gs ! k))"
  using converts_nth [OF assms(3,2) distinct_names [OF assms(1)], of X N] assms(4-6)
  by (simp add: set_fields_nth jzeros_map)

end
