(* ===== verification/Api_Json.thy ===== *)
theory Api_Json
  imports Data_Types Json_Compat
begin

text \<open>
  The structures of \<open>kubearmorhostpolicy_types.go\<close> and \<open>kubearmorexternalworkload_types.go\<close>, which the API
  server stores and serves, as type descriptions, each compared with the structure of \<open>types.go\<close> that
  the watch loops read it into.
\<close>


section \<open>The API types\<close>

definition NodeSelectorType_v1_jt :: jty where
  "NodeSelectorType_v1_jt = TStruct
     [Field ''matchLabels'' True (TMap TString)]"

definition MatchSourceType_v1_jt :: jty where
  "MatchSourceType_v1_jt = TStruct
     [Field ''path'' True TString,
      Field ''dir'' True TString,
      Field ''recursive'' True TBool]"

definition ProcessPathType_v1_jt :: jty where
  "ProcessPathType_v1_jt = TStruct
     [Field ''path'' False TString,
      Field ''ownerOnly'' True TBool,
      Field ''fromSource'' True (TSlice MatchSourceType_v1_jt),
      Field ''severity'' True TInt64,
      Field ''tags'' True (TSlice TString),
      Field ''message'' True TString,
      Field ''action'' True TString]"

definition ProcessDirectoryType_v1_jt :: jty where
  "ProcessDirectoryType_v1_jt = TStruct
     [Field ''dir'' False TString,
      Field ''recursive'' True TBool,
      Field ''ownerOnly'' True TBool,
      Field ''fromSource'' True (TSlice MatchSourceType_v1_jt),
      Field ''severity'' True TInt64,
      Field ''tags'' True (TSlice TString),
      Field ''message'' True TString,
      Field ''action'' True TString]"

definition ProcessPatternType_v1_jt :: jty where
  "ProcessPatternType_v1_jt = TStruct
     [Field ''pattern'' False TString,
      Field ''ownerOnly'' True TBool,
      Field ''severity'' True TInt64,
      Field ''tags'' True (TSlice TString),
      Field ''message'' True TString,
      Field ''action'' True TString]"

definition ProcessType_v1_jt :: jty where
  "ProcessType_v1_jt = TStruct
     [Field ''matchPaths'' True (TSlice ProcessPathType_v1_jt),
      Field ''matchDirectories'' True (TSlice ProcessDirectoryType_v1_jt),
      Field ''matchPatterns'' True (TSlice ProcessPatternType_v1_jt),
      Field ''severity'' True TInt64,
      Field ''tags'' True (TSlice TString),
      Field ''message'' True TString,
      Field ''action'' True TString]"

definition FilePathType_v1_jt :: jty where
  "FilePathType_v1_jt = TStruct
     [Field ''path'' False TString,
      Field ''readOnly'' True TBool,
      Field ''ownerOnly'' True TBool,
      Field ''fromSource'' True (TSlice MatchSourceType_v1_jt),
      Field ''severity'' True TInt64,
      Field ''tags'' True (TSlice TString),
      Field ''message'' True TString,
      Field ''action'' True TString]"

definition FileDirectoryType_v1_jt :: jty where
  "FileDirectoryType_v1_jt = TStruct
     [Field ''dir'' False TString,
      Field ''recursive'' True TBool,
      Field ''readOnly'' True TBool,
      Field ''ownerOnly'' True TBool,
      Field ''fromSource'' True (TSlice MatchSourceType_v1_jt),
      Field ''severity'' True TInt64,
      Field ''tags'' True (TSlice TString),
      Field ''message'' True TString,
      Field ''action'' True TString]"

definition FilePatternType_v1_jt :: jty where
  "FilePatternType_v1_jt = TStruct
     [Field ''pattern'' False TString,
      Field ''readOnly'' True TBool,
      Field ''ownerOnly'' True TBool,
      Field ''severity'' True TInt64,
      Field ''tags'' True (TSlice TString),
      Field ''message'' True TString,
      Field ''action'' True TString]"

definition FileType_v1_jt :: jty where
  "FileType_v1_jt = TStruct
     [Field ''matchPaths'' True (TSlice FilePathType_v1_jt),
      Field ''matchDirectories'' True (TSlice FileDirectoryType_v1_jt),
      Field ''matchPatterns'' True (TSlice FilePatternType_v1_jt),
      Field ''severity'' True TInt64,
      Field ''tags'' True (TSlice TString),
      Field ''message'' True TString,
      Field ''action'' True TString]"

definition MatchNetworkProtocolType_v1_jt :: jty where
  "MatchNetworkProtocolType_v1_jt = TStruct
     [Field ''protocol'' False TString,
      Field ''fromSource'' False (TSlice MatchSourceType_v1_jt),
      Field ''severity'' True TInt64,
      Field ''tags'' True (TSlice TString),
      Field ''message'' True TString,
      Field ''action'' True TString]"

definition NetworkType_v1_jt :: jty where
  "NetworkType_v1_jt = TStruct
     [Field ''matchProtocols'' False (TSlice MatchNetworkProtocolType_v1_jt),
      Field ''severity'' True TInt64,
      Field ''tags'' True (TSlice TString),
      Field ''message'' True TString,
      Field ''action'' True TString]"

definition MatchCapabilitiesType_v1_jt :: jty where
  "MatchCapabilitiesType_v1_jt = TStruct
     [Field ''capability'' False TString,
      Field ''fromSource'' False (TSlice MatchSourceType_v1_jt),
      Field ''severity'' True TInt64,
      Field ''tags'' True (TSlice TString),
      Field ''message'' True TString,
      Field ''action'' True TString]"

definition CapabilitiesType_v1_jt :: jty where
  "CapabilitiesType_v1_jt = TStruct
     [Field ''matchCapabilities'' False (TSlice MatchCapabilitiesType_v1_jt),
      Field ''severity'' True TInt64,
      Field ''tags'' True (TSlice TString),
      Field ''message'' True TString,
      Field ''action'' True TString]"

definition KubeArmorHostPolicySpec_v1_jt :: jty where
  "KubeArmorHostPolicySpec_v1_jt = TStruct
     [Field ''nodeSelector'' False NodeSelectorType_v1_jt,
      Field ''process'' True ProcessType_v1_jt,
      Field ''file'' True FileType_v1_jt,
      Field ''network'' True NetworkType_v1_jt,
      Field ''capabilities'' True CapabilitiesType_v1_jt,
      Field ''apparmor'' True TString,
      Field ''severity'' True TInt64,
      Field ''tags'' True (TSlice TString),
      Field ''message'' True TString,
      Field ''action'' True TString]"

definition KubeArmorHostPolicyStatus_v1_jt :: jty where
  "KubeArmorHostPolicyStatus_v1_jt = TStruct
     [Field ''status'' True TString]"

definition KubeArmorExternalWorkloadStatus_v1_jt :: jty where
  "KubeArmorExternalWorkloadStatus_v1_jt = TStruct
     [Field ''id'' True TUint64,
      Field ''ip'' True TString]"

lemma NodeSelectorType_v1_jt_ok [simp]: "jty_ok NodeSelectorType_v1_jt"
  by (simp add: NodeSelectorType_v1_jt_def)

lemma MatchSourceType_v1_jt_ok [simp]: "jty_ok MatchSourceType_v1_jt"
  by (simp add: MatchSourceType_v1_jt_def)

lemma ProcessPathType_v1_jt_ok [simp]: "jty_ok ProcessPathType_v1_jt"
  by (simp add: ProcessPathType_v1_jt_def)

lemma ProcessDirectoryType_v1_jt_ok [simp]: "jty_ok ProcessDirectoryType_v1_jt"
  by (simp add: ProcessDirectoryType_v1_jt_def)

lemma ProcessPatternType_v1_jt_ok [simp]: "jty_ok ProcessPatternType_v1_jt"
  by (simp add: ProcessPatternType_v1_jt_def)

lemma ProcessType_v1_jt_ok [simp]: "jty_ok ProcessType_v1_jt"
  by (simp add: ProcessType_v1_jt_def)

lemma FilePathType_v1_jt_ok [simp]: "jty_ok FilePathType_v1_jt"
  by (simp add: FilePathType_v1_jt_def)

lemma FileDirectoryType_v1_jt_ok [simp]: "jty_ok FileDirectoryType_v1_jt"
  by (simp add: FileDirectoryType_v1_jt_def)

lemma FilePatternType_v1_jt_ok [simp]: "jty_ok FilePatternType_v1_jt"
  by (simp add: FilePatternType_v1_jt_def)

lemma FileType_v1_jt_ok [simp]: "jty_ok FileType_v1_jt"
  by (simp add: FileType_v1_jt_def)

lemma MatchNetworkProtocolType_v1_jt_ok [simp]: "jty_ok MatchNetworkProtocolType_v1_jt"
  by (simp add: MatchNetworkProtocolType_v1_jt_def)

lemma NetworkType_v1_jt_ok [simp]: "jty_ok NetworkType_v1_jt"
  by (simp add: NetworkType_v1_jt_def)

lemma MatchCapabilitiesType_v1_jt_ok [simp]: "jty_ok MatchCapabilitiesType_v1_jt"
  by (simp add: MatchCapabilitiesType_v1_jt_def)

lemma CapabilitiesType_v1_jt_ok [simp]: "jty_ok CapabilitiesType_v1_jt"
  by (simp add: CapabilitiesType_v1_jt_def)

lemma KubeArmorHostPolicySpec_v1_jt_ok [simp]: "jty_ok KubeArmorHostPolicySpec_v1_jt"
  by (simp add: KubeArmorHostPolicySpec_v1_jt_def)

lemma KubeArmorHostPolicyStatus_v1_jt_ok [simp]: "jty_ok KubeArmorHostPolicyStatus_v1_jt"
  by (simp add: KubeArmorHostPolicyStatus_v1_jt_def)

lemma KubeArmorExternalWorkloadStatus_v1_jt_ok [simp]: "jty_ok KubeArmorExternalWorkloadStatus_v1_jt"
  by (simp add: KubeArmorExternalWorkloadStatus_v1_jt_def)

text \<open>Every field of an API type is a field of the structure of \<open>types.go\<close>.\<close>

lemma NodeSelectorType_compat [simp]: "compat NodeSelectorType_v1_jt NodeSelectorType_jt"
  by (simp add: NodeSelectorType_v1_jt_def NodeSelectorType_jt_def)

lemma MatchSourceType_compat [simp]: "compat MatchSourceType_v1_jt MatchSourceType_jt"
  by (simp add: MatchSourceType_v1_jt_def MatchSourceType_jt_def)

lemma ProcessPathType_compat [simp]: "compat ProcessPathType_v1_jt ProcessPathType_jt"
  by (simp add: ProcessPathType_v1_jt_def ProcessPathType_jt_def)

lemma ProcessDirectoryType_compat [simp]: "compat ProcessDirectoryType_v1_jt ProcessDirectoryType_jt"
  by (simp add: ProcessDirectoryType_v1_jt_def ProcessDirectoryType_jt_def)

lemma ProcessPatternType_compat [simp]: "compat ProcessPatternType_v1_jt ProcessPatternType_jt"
  by (simp add: ProcessPatternType_v1_jt_def ProcessPatternType_jt_def)

lemma ProcessType_compat [simp]: "compat ProcessType_v1_jt ProcessType_jt"
  by (simp add: ProcessType_v1_jt_def ProcessType_jt_def)

lemma FilePathType_compat [simp]: "compat FilePathType_v1_jt FilePathType_jt"
  by (simp add: FilePathType_v1_jt_def FilePathType_jt_def)

lemma FileDirectoryType_compat [simp]: "compat FileDirectoryType_v1_jt FileDirectoryType_jt"
  by (simp add: FileDirectoryType_v1_jt_def FileDirectoryType_jt_def)

lemma FilePatternType_compat [simp]: "compat FilePatternType_v1_jt FilePatternType_jt"
  by (simp add: FilePatternType_v1_jt_def FilePatternType_jt_def)

lemma FileType_compat [simp]: "compat FileType_v1_jt FileType_jt"
  by (simp add: FileType_v1_jt_def FileType_jt_def)

lemma MatchNetworkProtocolType_compat [simp]: "compat MatchNetworkProtocolType_v1_jt NetworkProtocolType_jt"
  by (simp add: MatchNetworkProtocolType_v1_jt_def NetworkProtocolType_jt_def)

lemma NetworkType_compat [simp]: "compat NetworkType_v1_jt NetworkType_jt"
  by (simp add: NetworkType_v1_jt_def NetworkType_jt_def)

lemma MatchCapabilitiesType_compat [simp]: "compat MatchCapabilitiesType_v1_jt CapabilitiesCapabilityType_jt"
  by (simp add: MatchCapabilitiesType_v1_jt_def CapabilitiesCapabilityType_jt_def)

lemma CapabilitiesType_compat [simp]: "compat CapabilitiesType_v1_jt CapabilitiesType_jt"
  by (simp add: CapabilitiesType_v1_jt_def CapabilitiesType_jt_def)

lemma KubeArmorHostPolicySpec_compat [simp]: "compat KubeArmorHostPolicySpec_v1_jt HostSecuritySpec_jt"
  by (simp add: KubeArmorHostPolicySpec_v1_jt_def HostSecuritySpec_jt_def)

lemma KubeArmorHostPolicyStatus_compat [simp]: "compat KubeArmorHostPolicyStatus_v1_jt K8sPolicyStatus_jt"
  by (simp add: KubeArmorHostPolicyStatus_v1_jt_def K8sPolicyStatus_jt_def)

lemma KubeArmorExternalWorkloadStatus_compat [simp]: "compat KubeArmorExternalWorkloadStatus_v1_jt K8sKubeArmorExternalWorkloadPolicyStatus_jt"
  by (simp add: KubeArmorExternalWorkloadStatus_v1_jt_def K8sKubeArmorExternalWorkloadPolicyStatus_jt_def)

end
