(* ===== verification/Json_Text.thy ===== *)
theory Json_Text
  imports Json_Codec Go_Stdlib
begin

text \<open>
  The text of JSON, as \<open>encoding/json\<close> writes and reads it. Strings are bytes: the writer escapes
  quotes, backslashes, control characters, the characters \<open><\<close>, \<open>>\<close> and \<open>&\<close>, and the line separators
  U+2028 and U+2029, and writes U+FFFD for bytes that are no UTF-8; the reader knows all escapes, joins
  surrogates, and replaces bytes that are no UTF-8 as well. Numbers are integers; the reader takes a
  fraction or an exponent for an error.

  A value whose strings are UTF-8 is read back from its text.
\<close>


section \<open>UTF-8\<close>

abbreviation byte :: "char \<Rightarrow> nat" where
  "byte \<equiv> of_char"

definition continues :: "char \<Rightarrow> bool" where
  "continues c \<longleftrightarrow> 0x80 \<le> byte c \<and> byte c \<le> 0xBF"

text \<open>The range of the second byte, by the first\<close>

definition second_ok :: "char \<Rightarrow> char \<Rightarrow> bool" where
  "second_ok c d \<longleftrightarrow>
     (if byte c = 0xE0 then 0xA0 else if byte c = 0xF0 then 0x90 else 0x80) \<le> byte d \<and>
     byte d \<le> (if byte c = 0xED then 0x9F else if byte c = 0xF4 then 0x8F else 0xBF)"

text \<open>How many bytes the first character has; 0 if the text does not begin with a character\<close>

fun utf8_len :: "string \<Rightarrow> nat" where
  "utf8_len [] = 0"
| "utf8_len (c # s) =
     (if byte c < 0x80 then 1
      else if 0xC2 \<le> byte c \<and> byte c \<le> 0xDF then
        (case s of d # _ \<Rightarrow> if continues d then 2 else 0 | _ \<Rightarrow> 0)
      else if 0xE0 \<le> byte c \<and> byte c \<le> 0xEF then
        (case s of d # e # _ \<Rightarrow> if second_ok c d \<and> continues e then 3 else 0 | _ \<Rightarrow> 0)
      else if 0xF0 \<le> byte c \<and> byte c \<le> 0xF4 then
        (case s of d # e # f # _ \<Rightarrow> if second_ok c d \<and> continues e \<and> continues f then 4 else 0 | _ \<Rightarrow> 0)
      else 0)"

declare utf8_len.simps(2) [simp del]

fun valid_utf8 :: "string \<Rightarrow> bool" where
  "valid_utf8 [] = True"
| "valid_utf8 (c # s) = (utf8_len (c # s) \<noteq> 0 \<and> valid_utf8 (drop (utf8_len (c # s) - 1) s))"

definition encode_rune :: "nat \<Rightarrow> string" where
  "encode_rune n =
     (if n < 0x80 then [char_of n]
      else if n < 0x800 then [char_of (0xC0 + n div 0x40), char_of (0x80 + n mod 0x40)]
      else if n < 0x10000 then
        [char_of (0xE0 + n div 0x1000), char_of (0x80 + n div 0x40 mod 0x40), char_of (0x80 + n mod 0x40)]
      else
        [char_of (0xF0 + n div 0x40000), char_of (0x80 + n div 0x1000 mod 0x40), char_of (0x80 + n div 0x40 mod 0x40),
         char_of (0x80 + n mod 0x40)])"

definition rune_error :: nat where
  "rune_error = 0xFFFD"

lemma utf8_len_append: "utf8_len s = n \<Longrightarrow> n \<noteq> 0 \<Longrightarrow> utf8_len (take n s @ t) = n"
  by (cases s) (auto simp: utf8_len.simps(2) split: if_splits list.splits)

lemma utf8_len_bound: "utf8_len s \<le> length s"
  by (cases s) (auto simp: utf8_len.simps(2) split: list.splits)


section \<open>Strings\<close>

definition hex :: "nat \<Rightarrow> char" where
  "hex d = (if d < 10 then char_of (48 + d) else char_of (87 + d))"

definition escape_byte :: "char \<Rightarrow> string" where
  "escape_byte c =
     (if c = CHR 0x22 \<or> c = CHR 0x5C then [CHR 0x5C, c]
      else if c = CHR 0x0A then [CHR 0x5C, CHR ''n'']
      else if c = CHR 0x0D then [CHR 0x5C, CHR ''r'']
      else if c = CHR 0x09 then [CHR 0x5C, CHR ''t'']
      else if byte c < 0x20 \<or> c = CHR ''<'' \<or> c = CHR ''>'' \<or> c = CHR ''&'' then
        [CHR 0x5C, CHR ''u'', CHR ''0'', CHR ''0'', hex (byte c div 16), hex (byte c mod 16)]
      else [c])"

fun escape :: "string \<Rightarrow> string" where
  "escape [] = []"
| "escape (c # s) =
     (if byte c < 0x80 then escape_byte c @ escape s
      else if utf8_len (c # s) = 0 then CHR 0x5C # ''ufffd'' @ escape s
      else if take 3 (c # s) = [CHR 0xE2, CHR 0x80, CHR 0xA8] then CHR 0x5C # ''u2028'' @ escape (drop 2 s)
      else if take 3 (c # s) = [CHR 0xE2, CHR 0x80, CHR 0xA9] then CHR 0x5C # ''u2029'' @ escape (drop 2 s)
      else take (utf8_len (c # s)) (c # s) @ escape (drop (utf8_len (c # s) - 1) s))"

definition hex_value :: "char \<Rightarrow> nat option" where
  "hex_value c =
     (if is_digit c then Some (digit_of c)
      else if 97 \<le> byte c \<and> byte c \<le> 102 then Some (byte c - 87)
      else if 65 \<le> byte c \<and> byte c \<le> 70 then Some (byte c - 55)
      else None)"

text \<open>Four hexadecimal digits\<close>

definition read_hex4 :: "string \<Rightarrow> (nat \<times> string) option" where
  "read_hex4 s =
     (case s of
        a # b # c # d # r \<Rightarrow> do {
          w \<leftarrow> hex_value a; x \<leftarrow> hex_value b; y \<leftarrow> hex_value c; z \<leftarrow> hex_value d;
          Some (((w * 16 + x) * 16 + y) * 16 + z, r) }
      | _ \<Rightarrow> None)"

text \<open>What follows \<open>\\u\<close>: two surrogates are one character, and one alone is none.\<close>

definition read_unicode :: "string \<Rightarrow> (string \<times> string) option" where
  "read_unicode s = do {
     (n, r) \<leftarrow> read_hex4 s;
     if 0xD800 \<le> n \<and> n < 0xE000 then
       (case r of
          a # b # r1 \<Rightarrow>
            (if a = CHR 0x5C \<and> b = CHR ''u'' then
               (case read_hex4 r1 of
                  Some (m, r2) \<Rightarrow>
                    if n < 0xDC00 \<and> 0xDC00 \<le> m \<and> m < 0xE000
                    then Some (encode_rune (0x10000 + (n - 0xD800) * 0x400 + (m - 0xDC00)), r2)
                    else Some (encode_rune rune_error, r)
                | None \<Rightarrow> Some (encode_rune rune_error, r))
             else Some (encode_rune rune_error, r))
        | _ \<Rightarrow> Some (encode_rune rune_error, r))
     else Some (encode_rune n, r) }"

text \<open>What follows a backslash\<close>

definition read_escaped :: "string \<Rightarrow> (string \<times> string) option" where
  "read_escaped s =
     (case s of
        [] \<Rightarrow> None
      | c # r \<Rightarrow>
          if c = CHR 0x22 \<or> c = CHR 0x5C \<or> c = CHR ''/'' then Some ([c], r)
          else if c = CHR ''b'' then Some ([CHR 0x08], r)
          else if c = CHR ''f'' then Some ([CHR 0x0C], r)
          else if c = CHR ''n'' then Some ([CHR 0x0A], r)
          else if c = CHR ''r'' then Some ([CHR 0x0D], r)
          else if c = CHR ''t'' then Some ([CHR 0x09], r)
          else if c = CHR ''u'' then read_unicode r
          else None)"

lemma read_hex4_shorter: "read_hex4 s = Some (n, r) \<Longrightarrow> length r < length s"
  by (auto simp: read_hex4_def split: list.splits bind_splits)

lemma read_unicode_shorter: "read_unicode s = Some (bs, r) \<Longrightarrow> length r < length s"
  by (auto simp: read_unicode_def dest!: read_hex4_shorter split: bind_splits if_splits list.splits option.splits)

lemma read_escaped_shorter: "read_escaped s = Some (bs, r) \<Longrightarrow> length r < length s"
  by (auto simp: read_escaped_def dest: read_unicode_shorter split: list.splits if_splits)

text \<open>The rest of a string, after the opening quote: its bytes, and what follows the closing quote\<close>

function read_string_text :: "string \<Rightarrow> (string \<times> string) option" where
  "read_string_text s =
     (case s of
        [] \<Rightarrow> None
      | c # r \<Rightarrow>
          if c = CHR 0x22 then Some ([], r)
          else if c = CHR 0x5C then
            (case read_escaped r of
               None \<Rightarrow> None
             | Some (bs, r1) \<Rightarrow> map_option (\<lambda>(t, r2). (bs @ t, r2)) (read_string_text r1))
          else if byte c < 0x20 then None
          else if utf8_len s = 0 then map_option (\<lambda>(t, r2). (encode_rune rune_error @ t, r2)) (read_string_text r)
          else map_option (\<lambda>(t, r2). (take (utf8_len s) s @ t, r2)) (read_string_text (drop (utf8_len s - 1) r)))"
  by pat_completeness auto

termination
  by (relation "measure length") (auto dest: read_escaped_shorter)

declare read_string_text.simps [simp del]


lemma char_of_byte [simp]: "char_of (byte c) = c"
  by simp

lemma hex_value_hex: "d < 16 \<Longrightarrow> hex_value (hex d) = Some d"
  by (auto simp: hex_value_def hex_def is_digit_def digit_of_def)

lemma read_hex4_byte:
  assumes "n < 256"
  shows "read_hex4 (CHR ''0'' # CHR ''0'' # hex (n div 16) # hex (n mod 16) # r) = Some (n, r)"
proof -
  have "n div 16 < 16" using assms by (simp add: div_less_iff_less_mult)
  moreover have "hex_value (CHR ''0'') = Some 0" by (simp add: hex_value_def is_digit_def digit_of_def)
  ultimately show ?thesis by (simp add: read_hex4_def hex_value_hex)
qed

lemma read_backslash:
  "read_escaped s = Some (bs, r) \<Longrightarrow>
     read_string_text (CHR 0x5C # s) = map_option (\<lambda>(t, r2). (bs @ t, r2)) (read_string_text r)"
  by (subst read_string_text.simps) simp

lemma read_quote: "read_string_text (CHR 0x22 # s) = Some ([], s)"
  by (subst read_string_text.simps) simp

lemma read_plain:
  assumes "c \<noteq> CHR 0x22" and "c \<noteq> CHR 0x5C" and "\<not> byte c < 0x20" and "utf8_len (c # s) = Suc m"
  shows "read_string_text (c # s) = map_option (\<lambda>(t, r2). (c # take m s @ t, r2)) (read_string_text (drop m s))"
  by (subst read_string_text.simps) (simp add: assms)

text \<open>One character of a string is read back from its escape.\<close>

lemma read_escape_byte:
  assumes "byte c < 0x80"
  shows "read_string_text (escape_byte c @ r) = map_option (\<lambda>(t, r2). (c # t, r2)) (read_string_text r)"
proof (cases "\<exists>e. escape_byte c = CHR 0x5C # e")
  case True
  then obtain e where e: "escape_byte c = CHR 0x5C # e" by blast
  have u: "read_unicode (CHR ''0'' # CHR ''0'' # hex (byte c div 16) # hex (byte c mod 16) # r) = Some ([c], r)"
    using assms by (simp add: read_unicode_def read_hex4_byte encode_rune_def)
  from e consider "e = [c]" "c = CHR 0x22 \<or> c = CHR 0x5C" | "e = ''n''" "c = CHR 0x0A" | "e = ''r''" "c = CHR 0x0D"
    | "e = ''t''" "c = CHR 0x09" | "e = CHR ''u'' # CHR ''0'' # CHR ''0'' # hex (byte c div 16) # [hex (byte c mod 16)]"
    unfolding escape_byte_def by (metis list.inject not_Cons_self2)
  then have "read_escaped (e @ r) = Some ([c], r)"
    by cases (use u in \<open>auto simp: read_escaped_def\<close>)
  then show ?thesis by (simp add: e read_backslash)
next
  case False
  then have c: "escape_byte c = [c]" "c \<noteq> CHR 0x22" "c \<noteq> CHR 0x5C" "\<not> byte c < 0x20"
    by (auto simp: escape_byte_def split: if_splits)
  have "utf8_len (c # r) = Suc 0" using assms by (simp add: utf8_len.simps)
  from read_plain [OF c(2-4) this] show ?thesis by (simp add: c(1))
qed

lemma read_escape_bytes:
  assumes "utf8_len (c # s) = Suc m" and "\<not> byte c < 0x80"
  shows "read_string_text (c # take m s @ r) = map_option (\<lambda>(t, r2). (c # take m s @ t, r2)) (read_string_text r)"
proof -
  have "utf8_len (c # take m s @ r) = Suc m" using utf8_len_append [OF assms(1), of r] by simp
  moreover have "m \<le> length s" using utf8_len_bound [of "c # s"] assms(1) by simp
  moreover have "c \<noteq> CHR 0x22" "c \<noteq> CHR 0x5C" "\<not> byte c < 0x20" using assms(2) by auto
  ultimately show ?thesis by (simp add: read_plain)
qed

lemma read_separators:
  "read_escaped (''u2028'' @ u) = Some ([CHR 0xE2, CHR 0x80, CHR 0xA8], u)"
  "read_escaped (''u2029'' @ u) = Some ([CHR 0xE2, CHR 0x80, CHR 0xA9], u)"
proof -
  have "char_of (226 :: nat) = CHR 0xE2" "char_of (128 :: nat) = CHR 0x80" "char_of (168 :: nat) = CHR 0xA8" "char_of (169 :: nat) = CHR 0xA9"
    by code_simp+
  then have "encode_rune 8232 = [CHR 0xE2, CHR 0x80, CHR 0xA8]" "encode_rune 8233 = [CHR 0xE2, CHR 0x80, CHR 0xA9]"
    by (simp_all add: encode_rune_def)
  then show "read_escaped (''u2028'' @ u) = Some ([CHR 0xE2, CHR 0x80, CHR 0xA8], u)"
    "read_escaped (''u2029'' @ u) = Some ([CHR 0xE2, CHR 0x80, CHR 0xA9], u)"
    by (simp_all add: read_escaped_def read_unicode_def read_hex4_def hex_value_def is_digit_def digit_of_def)
qed

theorem read_escape:
  "valid_utf8 s \<Longrightarrow> read_string_text (escape s @ CHR 0x22 # r) = Some (s, r)"
proof (induction s rule: escape.induct)
  case 1
  then show ?case by (simp add: read_quote)
next
  case (2 c s)
  then obtain m where m: "utf8_len (c # s) = Suc m" "valid_utf8 (drop m s)" by (cases "utf8_len (c # s)") auto
  show ?case
  proof (cases "byte c < 0x80")
    case True
    then have "m = 0" using m(1) by (simp add: utf8_len.simps)
    with 2 True m(2) show ?thesis by (simp add: read_escape_byte)
  next
    case False
    show ?thesis
    proof (cases "\<exists>d. take 3 (c # s) = [CHR 0xE2, CHR 0x80, d] \<and> (d = CHR 0xA8 \<or> d = CHR 0xA9)")
      case True
      then obtain d t where t: "c = CHR 0xE2" "s = CHR 0x80 # d # t" "d = CHR 0xA8 \<or> d = CHR 0xA9"
        by (cases s; cases "tl s") auto
      then have "m = 2" using m(1) by (auto simp: utf8_len.simps second_ok_def continues_def)
      with 2 t m show ?thesis using False by (auto simp: read_backslash [OF read_separators(1), simplified] read_backslash [OF read_separators(2), simplified])
    next
      case other: False
      then have "escape (c # s) = (c # take m s) @ escape (drop m s)" using False m(1) by auto
      moreover have "read_string_text (escape (drop m s) @ CHR 0x22 # r) = Some (drop m s, r)"
        using 2 False other m by auto
      ultimately show ?thesis using read_escape_bytes [OF m(1) False, of "escape (drop m s) @ CHR 0x22 # r"] by simp
    qed
  qed
qed


section \<open>Values\<close>

definition print_int :: "int \<Rightarrow> string" where
  "print_int i = (if i < 0 then CHR ''-'' # FormatUint (nat (- i)) else FormatUint (nat i))"

definition print_string :: "string \<Rightarrow> string" where
  "print_string s = CHR 0x22 # escape s @ [CHR 0x22]"

fun commas :: "string list \<Rightarrow> string" where
  "commas [] = []"
| "commas [s] = s"
| "commas (s # t # ss) = s @ CHR '','' # commas (t # ss)"

fun print_json :: "json \<Rightarrow> string" where
  "print_json JNull = ''null''"
| "print_json (JBool b) = (if b then ''true'' else ''false'')"
| "print_json (JNum i) = print_int i"
| "print_json (JStr s) = print_string s"
| "print_json (JArr js) = CHR ''['' # commas (map print_json js) @ '']''"
| "print_json (JObj ms) = CHR ''{'' # commas (map (\<lambda>(k, j). print_string k @ CHR '':'' # print_json j) ms) @ ''}''"

definition is_space :: "char \<Rightarrow> bool" where
  "is_space c \<longleftrightarrow> c = CHR '' '' \<or> c = CHR 0x09 \<or> c = CHR 0x0A \<or> c = CHR 0x0D"

abbreviation skip :: "string \<Rightarrow> string" where
  "skip \<equiv> dropWhile is_space"

definition read_digits :: "string \<Rightarrow> (nat \<times> string) option" where
  "read_digits s =
     (let ds = takeWhile is_digit s; r = dropWhile is_digit s in
      if ds = [] \<or> (hd ds = CHR ''0'' \<and> tl ds \<noteq> []) \<or> (r \<noteq> [] \<and> hd r \<in> set ''.eE'') then None
      else Some (foldl (\<lambda>n c. 10 * n + digit_of c) 0 ds, r))"

definition read_int_text :: "string \<Rightarrow> (int \<times> string) option" where
  "read_int_text s =
     (case s of
        [] \<Rightarrow> None
      | c # r \<Rightarrow>
          if c = CHR ''-'' then map_option (\<lambda>(n, r). (- int n, r)) (read_digits r)
          else map_option (\<lambda>(n, r). (int n, r)) (read_digits s))"

definition read_word :: "string \<Rightarrow> json \<Rightarrow> string \<Rightarrow> (json \<times> string) option" where
  "read_word w j s = (if prefix w s then Some (j, drop (length w) s) else None)"

text \<open>
  One value and what follows it. The first argument bounds the depth of the recursion: a call
  needs no more than the length of the text, which is what \<open>parse_json\<close> gives.
\<close>

fun read_value :: "nat \<Rightarrow> string \<Rightarrow> (json \<times> string) option"
  and read_elements :: "nat \<Rightarrow> string \<Rightarrow> (json list \<times> string) option"
  and read_pairs :: "nat \<Rightarrow> string \<Rightarrow> ((string \<times> json) list \<times> string) option" where
  "read_value 0 s = None"
| "read_value (Suc n) s =
     (case skip s of
        [] \<Rightarrow> None
      | c # r \<Rightarrow>
          if c = CHR 0x22 then map_option (\<lambda>(t, r1). (JStr t, r1)) (read_string_text r)
          else if c = CHR ''['' then
            (if skip r \<noteq> [] \<and> hd (skip r) = CHR '']'' then Some (JArr [], tl (skip r))
             else map_option (\<lambda>(js, r1). (JArr js, r1)) (read_elements n r))
          else if c = CHR ''{'' then
            (if skip r \<noteq> [] \<and> hd (skip r) = CHR ''}'' then Some (JObj [], tl (skip r))
             else map_option (\<lambda>(ms, r1). (JObj ms, r1)) (read_pairs n r))
          else if c = CHR ''t'' then read_word ''rue'' (JBool True) r
          else if c = CHR ''f'' then read_word ''alse'' (JBool False) r
          else if c = CHR ''n'' then read_word ''ull'' JNull r
          else map_option (\<lambda>(i, r1). (JNum i, r1)) (read_int_text (c # r)))"
| "read_elements 0 s = None"
| "read_elements (Suc n) s =
     (case read_value n s of
        None \<Rightarrow> None
      | Some (j, r) \<Rightarrow>
          (case skip r of
             [] \<Rightarrow> None
           | c # r1 \<Rightarrow>
               if c = CHR '','' then map_option (\<lambda>(js, r2). (j # js, r2)) (read_elements n r1)
               else if c = CHR '']'' then Some ([j], r1)
               else None))"
| "read_pairs 0 s = None"
| "read_pairs (Suc n) s =
     (case skip s of
        [] \<Rightarrow> None
      | q # r0 \<Rightarrow>
          if q \<noteq> CHR 0x22 then None
          else
            (case read_string_text r0 of
               None \<Rightarrow> None
             | Some (k, r1) \<Rightarrow>
                 (case skip r1 of
                    [] \<Rightarrow> None
                  | d # r2 \<Rightarrow>
                      if d \<noteq> CHR '':'' then None
                      else
                        (case read_value n r2 of
                           None \<Rightarrow> None
                         | Some (j, r3) \<Rightarrow>
                             (case skip r3 of
                                [] \<Rightarrow> None
                              | c # r4 \<Rightarrow>
                                  if c = CHR '','' then map_option (\<lambda>(ms, r5). ((k, j) # ms, r5)) (read_pairs n r4)
                                  else if c = CHR ''}'' then Some ([(k, j)], r4)
                                  else None)))))"

text \<open>A whole text\<close>

definition parse_json :: "string \<Rightarrow> json option" where
  "parse_json s =
     (case read_value (length s) s of Some (j, r) \<Rightarrow> if skip r = [] then Some j else None | None \<Rightarrow> None)"

text \<open>Values whose strings are UTF-8\<close>

fun valid_json :: "json \<Rightarrow> bool" where
  "valid_json (JStr s) = valid_utf8 s"
| "valid_json (JArr js) = list_all valid_json js"
| "valid_json (JObj ms) = list_all (\<lambda>(k, j). valid_utf8 k \<and> valid_json j) ms"
| "valid_json _ = True"


section \<open>Reading what was written\<close>

definition ends_value :: "string \<Rightarrow> bool" where
  "ends_value r \<longleftrightarrow> r = [] \<or> hd r \<in> set '',]}'' \<or> is_space (hd r)"

lemma not_digit_chars [simp]:
  "\<not> is_digit (CHR ''}'')" "\<not> is_digit (CHR 0x09)" "\<not> is_digit (CHR 0x0A)" "\<not> is_digit (CHR 0x0D)" "\<not> is_digit (CHR 0x22)"
  "\<not> is_digit (CHR ''['')" "\<not> is_digit (CHR ''{'')" "\<not> is_digit (CHR ''t'')" "\<not> is_digit (CHR ''f'')" "\<not> is_digit (CHR ''n'')"
  by (simp_all add: is_digit_def)

lemma ends_value_no_digit: "ends_value r \<Longrightarrow> r = [] \<or> \<not> is_digit (hd r) \<and> hd r \<notin> set ''.eE''"
  by (auto simp: ends_value_def is_space_def)

lemma digits_value: "foldl (\<lambda>n c. 10 * n + digit_of c) 0 (FormatUint n) = n"
proof (induction n rule: FormatUint.induct)
  case (1 n)
  show ?case
  proof (cases "n < 10")
    case True
    then show ?thesis by (simp add: FormatUint.simps [of n])
  next
    case False
    with 1 show ?thesis by (simp add: FormatUint.simps [of n])
  qed
qed

lemma FormatUint_zero: "hd (FormatUint n) = CHR ''0'' \<Longrightarrow> tl (FormatUint n) = []"
proof (induction n rule: FormatUint.induct)
  case (1 n)
  show ?case
  proof (cases "n < 10")
    case True
    then show ?thesis by (simp add: FormatUint.simps [of n])
  next
    case False
    with 1 have "hd (FormatUint (n div 10)) = CHR ''0''" by (simp add: FormatUint.simps [of n] hd_append)
    with 1 False have "tl (FormatUint (n div 10)) = []" by simp
    then obtain c where "FormatUint (n div 10) = [c]" by (cases "FormatUint (n div 10)") auto
    with \<open>hd (FormatUint (n div 10)) = CHR ''0''\<close> digits_value [of "n div 10"] have "n div 10 = 0" by (simp add: digit_of_def)
    with False show ?thesis by simp
  qed
qed

lemma read_digits_print:
  assumes "ends_value r"
  shows "read_digits (FormatUint n @ r) = Some (n, r)"
proof -
  have "takeWhile is_digit (FormatUint n @ r) = FormatUint n" "dropWhile is_digit (FormatUint n @ r) = r"
    using FormatUint_digits [of _ n] ends_value_no_digit [OF assms] by (cases r; auto simp: takeWhile_append dropWhile_append)+
  moreover have "r = [] \<or> hd r \<notin> set ''.eE''" using ends_value_no_digit [OF assms] by blast
  ultimately show ?thesis
    using FormatUint_zero [of n] by (auto simp: read_digits_def Let_def digits_value)
qed

lemma FormatUint_head: "\<exists>c s. FormatUint n = c # s \<and> is_digit c"
  using FormatUint_digits [of _ n] by (cases "FormatUint n") auto

lemma read_int_print:
  assumes "ends_value r"
  shows "read_int_text (print_int i @ r) = Some (i, r)"
proof (cases "i < 0")
  case True
  then show ?thesis by (simp add: print_int_def read_int_text_def read_digits_print [OF assms])
next
  case False
  obtain c s where c: "FormatUint (nat i) = c # s" "is_digit c" using FormatUint_head by blast
  moreover have "c \<noteq> CHR ''-''" using c(2) by auto
  ultimately show ?thesis
    using False read_digits_print [OF assms, of "nat i"] by (simp add: print_int_def read_int_text_def)
qed

text \<open>The first character of a value\<close>

lemma print_int_head: "\<exists>c s. print_int i = c # s \<and> (c = CHR ''-'' \<or> is_digit c)"
  using FormatUint_head [of "nat i"] by (auto simp: print_int_def)

lemma digit_not_special:
  assumes "c = CHR ''-'' \<or> is_digit c"
  shows "\<not> is_space c" "c \<notin> set (CHR 0x22 # ''[]{}tfn,'')"
  using assms by (auto simp: is_space_def is_digit_def)

lemma print_json_head: "\<exists>c s. print_json j = c # s \<and> \<not> is_space c \<and> c \<notin> set '']},''"
proof (cases j)
  case (JNum i)
  obtain c s where "print_int i = c # s" "c = CHR ''-'' \<or> is_digit c" using print_int_head by blast
  then show ?thesis using digit_not_special [of c] JNum by auto
qed (auto simp: is_space_def print_string_def)

lemma skip_print [simp]: "skip (print_json j @ r) = print_json j @ r"
  using print_json_head [of j] by auto

lemma read_value_int:
  assumes "ends_value r"
  shows "read_value (Suc n) (print_int i @ r) = Some (JNum i, r)"
proof -
  obtain c s where c: "print_int i = c # s" "c = CHR ''-'' \<or> is_digit c" using print_int_head by blast
  show ?thesis
    using read_int_print [OF assms, of i] digit_not_special [OF c(2)] by (simp add: c(1))
qed

lemma read_value_string: "valid_utf8 s \<Longrightarrow> read_value (Suc n) (print_string s @ r) = Some (JStr s, r)"
  using read_escape [of s r] by (simp add: print_string_def is_space_def)

definition read_back :: "json \<Rightarrow> bool" where
  "read_back j \<longleftrightarrow> (\<forall>n r. length (print_json j) \<le> n \<longrightarrow> ends_value r \<longrightarrow> read_value n (print_json j @ r) = Some (j, r))"

lemma read_elements_back:
  "js \<noteq> [] \<Longrightarrow> list_all read_back js \<Longrightarrow> length (commas (map print_json js)) < n \<Longrightarrow>
     read_elements n (commas (map print_json js) @ CHR '']'' # r) = Some (js, r)"
proof (induction js arbitrary: n)
  case (Cons j js)
  obtain m where n: "n = Suc m" using Cons.prems(3) by (cases n) auto
  have ends: "ends_value (CHR '']'' # r)" "ends_value (CHR '','' # t)" for t by (simp_all add: ends_value_def)
  show ?case
  proof (cases js)
    case Nil
    with Cons.prems ends(1) show ?thesis by (simp add: n read_back_def is_space_def)
  next
    case (Cons j' js')
    with Cons.prems Cons.IH [of m] ends(2) show ?thesis by (simp add: n read_back_def is_space_def)
  qed
qed simp

abbreviation print_pair :: "string \<times> json \<Rightarrow> string" where
  "print_pair \<equiv> \<lambda>(k, j). print_string k @ CHR '':'' # print_json j"

lemma read_pairs_back:
  "ms \<noteq> [] \<Longrightarrow> list_all (\<lambda>(k, j). valid_utf8 k \<and> read_back j) ms \<Longrightarrow> length (commas (map print_pair ms)) < n \<Longrightarrow>
     read_pairs n (commas (map print_pair ms) @ CHR ''}'' # r) = Some (ms, r)"
proof (induction ms arbitrary: n)
  case (Cons p ms)
  obtain k j where p: "p = (k, j)" by (cases p)
  obtain m where n: "n = Suc m" using Cons.prems(3) by (cases n) auto
  have ends: "ends_value (CHR ''}'' # r)" "ends_value (CHR '','' # t)" for t by (simp_all add: ends_value_def)
  have key: "read_string_text (escape k @ CHR 0x22 # t) = Some (k, t)" for t
    using Cons.prems(2) by (auto simp: p intro: read_escape)
  show ?case
  proof (cases ms)
    case Nil
    with Cons.prems ends(1) key show ?thesis by (simp add: n p print_string_def read_back_def is_space_def)
  next
    case (Cons p' ms')
    with Cons.prems Cons.IH [of m] ends(2) key show ?thesis by (simp add: n p print_string_def read_back_def is_space_def)
  qed
qed simp

lemma commas_head:
  assumes "ss \<noteq> []" and "\<And>s. s \<in> set ss \<Longrightarrow> s \<noteq> [] \<and> P (hd s)"
  shows "commas ss \<noteq> [] \<and> P (hd (commas ss))"
  using assms by (cases ss rule: commas.cases) auto

lemma head_not_space: "s \<noteq> [] \<Longrightarrow> \<not> is_space (hd s) \<Longrightarrow> skip (s @ r) = s @ r"
  by (cases s) auto

theorem read_back_valid: "valid_json j \<Longrightarrow> read_back j"
proof (induction j rule: print_json.induct)
  case 1
  then show ?case by (auto simp: read_back_def is_space_def read_word_def Suc_le_eq dest!: gr0_implies_Suc less_imp_Suc_add)
next
  case (2 b)
  then show ?case by (auto simp: read_back_def is_space_def read_word_def Suc_le_eq dest!: gr0_implies_Suc less_imp_Suc_add)
next
  case (3 i)
  have "read_value n (print_int i @ r) = Some (JNum i, r)" if "length (print_int i) \<le> n" "ends_value r" for n r
    using that read_value_int [of r "n - 1" i] print_int_head [of i] by (cases n) auto
  then show ?case by (simp add: read_back_def)
next
  case (4 s)
  have "read_value n (print_string s @ r) = Some (JStr s, r)" if "length (print_string s) \<le> n" for n r
    using that read_value_string [of s "n - 1" r] 4 by (cases n) (auto simp: print_string_def)
  then show ?case by (simp add: read_back_def)
next
  case (5 js)
  show ?case
  proof (cases "js = []")
    case True
    then show ?thesis by (auto simp: read_back_def is_space_def Suc_le_eq dest!: gr0_implies_Suc less_imp_Suc_add)
  next
    case False
    let ?t = "commas (map print_json js)"
    have "?t \<noteq> [] \<and> (\<not> is_space (hd ?t) \<and> hd ?t \<noteq> CHR '']'')"
    proof (rule commas_head)
      show "map print_json js \<noteq> []" using False by simp
      fix s assume "s \<in> set (map print_json js)"
      then obtain j where "s = print_json j" by auto
      then show "s \<noteq> [] \<and> (\<not> is_space (hd s) \<and> hd s \<noteq> CHR '']'')" using print_json_head [of j] by auto
    qed
    then have t: "skip (?t @ r) = ?t @ r" "hd (?t @ r) \<noteq> CHR '']''" for r by (simp_all add: head_not_space)
    have "list_all read_back js" using 5 by (auto simp: list_all_iff)
    from read_elements_back [OF False this] t show ?thesis
      by (auto simp: read_back_def is_space_def Suc_le_eq simp del: read_elements.simps dest!: less_imp_Suc_add)
  qed
next
  case (6 ms)
  show ?case
  proof (cases "ms = []")
    case True
    then show ?thesis by (auto simp: read_back_def is_space_def Suc_le_eq dest!: gr0_implies_Suc less_imp_Suc_add)
  next
    case False
    let ?t = "commas (map print_pair ms)"
    have "?t \<noteq> [] \<and> (\<not> is_space (hd ?t) \<and> hd ?t \<noteq> CHR ''}'')"
      using False by (intro commas_head) (auto simp: print_string_def is_space_def)
    then have t: "skip (?t @ r) = ?t @ r" "hd (?t @ r) \<noteq> CHR ''}''" for r by (simp_all add: head_not_space)
    have "list_all (\<lambda>(k, j). valid_utf8 k \<and> read_back j) ms" using 6 by (fastforce simp: list_all_iff)
    from read_pairs_back [OF False this] t show ?thesis
      by (auto simp: read_back_def is_space_def Suc_le_eq simp del: read_pairs.simps dest!: less_imp_Suc_add)
  qed
qed

theorem parse_print: "valid_json j \<Longrightarrow> parse_json (print_json j) = Some j"
  using read_back_valid [of j] by (auto simp: read_back_def parse_json_def ends_value_def dest: spec [of _ "[]"])


section \<open>Streams\<close>

text \<open>
  \<open>Decoder.Decode\<close>, called again and again, takes one value after the other from its reader until
  there is none or the text is not JSON. The first argument bounds the number of values: each has at
  least one character.
\<close>

fun stream_values :: "nat \<Rightarrow> string \<Rightarrow> json list" where
  "stream_values 0 s = []"
| "stream_values (Suc n) s =
     (case read_value (length s) s of None \<Rightarrow> [] | Some (j, r) \<Rightarrow> j # stream_values n r)"

definition Decoder_values :: "string \<Rightarrow> json list" where
  "Decoder_values s = stream_values (Suc (length s)) s"

text \<open>The body of a watch response: every value on a line of its own\<close>

definition json_lines :: "json list \<Rightarrow> string" where
  "json_lines js = concat (map (\<lambda>j. print_json j @ [CHR 0x0A]) js)"

lemma json_lines_simps [simp]:
  "json_lines [] = []" "json_lines (j # js) = print_json j @ CHR 0x0A # json_lines js"
  by (simp_all add: json_lines_def)

lemma read_value_skip: "read_value n (skip s) = read_value n s"
  by (cases n) simp_all

lemma stream_values_lines:
  "list_all valid_json js \<Longrightarrow> length js < n \<Longrightarrow> stream_values n (json_lines js) = js \<and> stream_values n (CHR 0x0A # json_lines js) = js"
proof (induction js arbitrary: n)
  case Nil
  then obtain m where "n = Suc m" by (cases n) auto
  then show ?case by (simp add: is_space_def)
next
  case (Cons j js)
  obtain m where n: "n = Suc m" "length js < m" using Cons.prems(2) by (cases n) auto
  have ends: "ends_value (CHR 0x0A # r)" for r by (simp add: ends_value_def is_space_def)
  have head: "read_value k (print_json j @ CHR 0x0A # r) = Some (j, CHR 0x0A # r)" if "length (print_json j) \<le> k" for k r
    using read_back_valid [of j] Cons.prems(1) that ends by (simp add: read_back_def)
  have line: "read_value k (CHR 0x0A # print_json j @ CHR 0x0A # r) = Some (j, CHR 0x0A # r)" if "length (print_json j) \<le> k" for k r
    using head [OF that] read_value_skip [of k "CHR 0x0A # print_json j @ CHR 0x0A # r"] by (simp add: is_space_def)
  show ?case using Cons.IH [OF _ n(2)] Cons.prems(1) by (simp add: n(1) head line del: read_value.simps)
qed

theorem Decoder_reads_lines: "list_all valid_json js \<Longrightarrow> Decoder_values (json_lines js) = js"
proof -
  assume "list_all valid_json js"
  moreover have "length js \<le> length (json_lines js)" by (induction js) auto
  ultimately show ?thesis by (simp add: Decoder_values_def stream_values_lines del: stream_values.simps)
qed

end
