(* ===== verification/Json_Stream.thy ===== *)
theory Json_Stream
  imports Go_Json Json_Text
begin

text \<open>
  \<open>encoding/json\<close> from values to text and back. \<open>unmarshal_text\<close> is \<open>json.Unmarshal\<close> of a text, and
  \<open>decode_text\<close> the loop around \<open>decoder.Decode(&v)\<close> over the body of a response. Values whose strings are
  UTF-8 are written as JSON of that kind, and reading such JSON keeps it so; therefore what holds
  of JSON values holds of their text.

  The entries of a map are written in the order of its list.
\<close>


section \<open>Operations\<close>

definition unmarshal_text :: "'x ext \<Rightarrow> jty \<Rightarrow> string \<Rightarrow> 'x jval option" where
  "unmarshal_text X t s = do { j \<leftarrow> parse_json s; unmarshal X t j }"

text \<open>The loop around \<open>decoder.Decode(&event)\<close>, with a new \<open>event\<close> in each round\<close>

fun decode_loop :: "'x ext \<Rightarrow> jty \<Rightarrow> json list \<Rightarrow> 'x jval list" where
  "decode_loop X t [] = []"
| "decode_loop X t (j # js) = (case unmarshal X t j of None \<Rightarrow> [] | Some v \<Rightarrow> v # decode_loop X t js)"

definition decode_text :: "'x ext \<Rightarrow> jty \<Rightarrow> string \<Rightarrow> 'x jval list" where
  "decode_text X t s = decode_loop X t (Decoder_values s)"

lemma decode_loop_all:
  "(\<And>p. p \<in> set ps \<Longrightarrow> unmarshal X t (f p) = Some (g p)) \<Longrightarrow> decode_loop X t (map f ps) = map g ps"
  by (induction ps) auto

lemma unmarshal_text_print [simp]: "valid_json j \<Longrightarrow> unmarshal_text X t (print_json j) = unmarshal X t j"
  by (simp add: unmarshal_text_def parse_print)

lemma decode_text_lines:
  assumes "\<And>p. p \<in> set ps \<Longrightarrow> valid_json (f p) \<and> unmarshal X t (f p) = Some (g p)"
  shows "decode_text X t (json_lines (map f ps)) = map g ps"
  using assms by (simp add: decode_text_def Decoder_reads_lines decode_loop_all list_all_iff)


section \<open>Values and types with UTF-8 strings\<close>

fun utf8_val :: "('x \<Rightarrow> bool) \<Rightarrow> 'x jval \<Rightarrow> bool" where
  "utf8_val U (VString s) = valid_utf8 s"
| "utf8_val U (VSlice vs) = list_all (utf8_val U) vs"
| "utf8_val U (VMap es) = list_all (\<lambda>(k, v). valid_utf8 k \<and> utf8_val U v) es"
| "utf8_val U (VStruct vs) = list_all (utf8_val U) vs"
| "utf8_val U (VExt x) = U x"
| "utf8_val U _ = True"

fun utf8_names :: "jty \<Rightarrow> bool" and utf8_fields :: "jfield list \<Rightarrow> bool" where
  "utf8_names (TSlice t) = utf8_names t"
| "utf8_names (TMap t) = utf8_names t"
| "utf8_names (TStruct fs) = utf8_fields fs"
| "utf8_names _ = True"
| "utf8_fields [] = True"
| "utf8_fields (Field n om t # fs) = (valid_utf8 n \<and> utf8_names t \<and> utf8_fields fs)"

declare valid_utf8.simps(2) [simp del]

lemma ascii_utf8 [simp]: "byte c < 0x80 \<Longrightarrow> valid_utf8 (c # s) \<longleftrightarrow> valid_utf8 s"
  by (simp add: valid_utf8.simps(2) utf8_len.simps(2))

lemma read_entries_all:
  assumes "read_entries d es ms = Some es'" and "list_all (\<lambda>(k, v). K k \<and> P v) es"
    and "list_all (\<lambda>(k, j). K k \<and> J j) ms" and "\<And>j v. J j \<Longrightarrow> d j = Some v \<Longrightarrow> P v"
  shows "list_all (\<lambda>(k, v). K k \<and> P v) es'"
  using assms(1-3)
proof (induction ms arbitrary: es)
  case (Cons m ms)
  obtain k j where m: "m = (k, j)" by (cases m)
  with Cons.prems(1) obtain v where v: "d j = Some v" "read_entries d (AList.update k v es) ms = Some es'"
    by (auto split: option.splits)
  have "K k" "P v" using Cons.prems(3) assms(4) [OF _ v(1)] by (simp_all add: m)
  then have "list_all (\<lambda>(k, v). K k \<and> P v) (AList.update k v es)"
    using Cons.prems(2) by (induction es) auto
  with Cons.IH [OF v(2)] Cons.prems(3) show ?case by (simp add: m)
qed simp


section \<open>Types of other packages\<close>

locale ext_text = ext_json X ok N
  for X :: "'x ext" and ok :: "string \<Rightarrow> 'x \<Rightarrow> bool" and N :: "string \<Rightarrow> 'x \<Rightarrow> 'x" +
  fixes U :: "'x \<Rightarrow> bool"
  assumes zero_utf8: "U (x_zero X n)"
    and enc_utf8: "U x \<Longrightarrow> valid_json (x_enc X n x)"
    and dec_utf8: "ok n x \<Longrightarrow> U x \<Longrightarrow> valid_json j \<Longrightarrow> x_dec X n x j = Some y \<Longrightarrow> U y"
begin

lemma jzero_utf8: "utf8_val U (jzero X t)" "list_all (utf8_val U) (jzeros X fs)"
  by (induction t and fs rule: jty_ok_jtys_ok.induct) (auto simp: zero_utf8)

lemma marshal_valid:
  "utf8_names t \<Longrightarrow> utf8_val U v \<Longrightarrow> valid_json (marshal X t v)"
  "utf8_fields fs \<Longrightarrow> list_all (utf8_val U) vs \<Longrightarrow> list_all (\<lambda>(k, j). valid_utf8 k \<and> valid_json j) (marshal_fields X fs vs)"
proof (induction t and fs arbitrary: v and vs rule: jty_ok_jtys_ok.induct)
  case (4 t)
  then show ?case by (auto simp: list_all_iff split: jval.splits)
next
  case (5 t)
  then show ?case by (fastforce simp: list_all_iff split: jval.splits)
next
  case (9 n om t fs)
  then show ?case by (cases vs) auto
qed (auto simp: enc_utf8 split: jval.splits)

lemma jdec_utf8:
  "jty_ok t \<Longrightarrow> has_type ok t v \<Longrightarrow> utf8_val U v \<Longrightarrow> valid_json j \<Longrightarrow> jdec X t v j = Some v' \<Longrightarrow> utf8_val U v'"
  "jtys_ok fs \<Longrightarrow> f \<in> set fs \<Longrightarrow> has_type ok (field_type f) v \<Longrightarrow> utf8_val U v \<Longrightarrow> valid_json j \<Longrightarrow>
     jdec X (field_type f) v j = Some v' \<Longrightarrow> utf8_val U v'"
proof (induction t and fs arbitrary: v j v' and f v j v' rule: jty_ok_jtys_ok.induct)
  case (4 t)
  show ?case
  proof (cases j)
    case (JArr js)
    with 4 obtain vs where vs: "v' = VSlice vs" "map (jdec X t (jzero X t)) js = map Some vs" by (auto simp: those_Some)
    have "utf8_val U u" if "u \<in> set vs" for u
    proof -
      from that have "Some u \<in> set (map (jdec X t (jzero X t)) js)" by (simp add: vs(2))
      then obtain i where "i \<in> set js" "jdec X t (jzero X t) i = Some u" by auto
      with "4.IH" [OF _ zero_typed(1) jzero_utf8(1)] "4.prems"(1,4) JArr show ?thesis by (auto simp: list_all_iff)
    qed
    then show ?thesis by (simp add: vs(1) list_all_iff)
  qed (use 4 in auto)
next
  case (5 t)
  show ?case
  proof (cases j)
    case (JObj ms)
    with 5 obtain es where es: "v' = VMap es" "read_entries (jdec X t (jzero X t)) (entries_of v) ms = Some es" by auto
    have "list_all (\<lambda>(k, v). valid_utf8 k \<and> utf8_val U v) (entries_of v)"
      using "5.prems"(3) by (cases v) auto
    from read_entries_all [OF es(2) this, of valid_json] "5.IH" [OF _ zero_typed(1) jzero_utf8(1)] "5.prems"(1,4) JObj
    show ?thesis by (simp add: es(1))
  qed (use 5 in auto)
next
  case (6 fs)
  show ?case
  proof (cases j)
    case (JObj ms)
    with 6 obtain vs vs' where vs: "v = VStruct vs" "v' = VStruct vs'" "read_members (jdecs X fs) vs ms = Some vs'"
      by (auto split: jval.splits)
    let ?T = "\<lambda>f v. has_type ok (field_type f) v \<and> utf8_val U v"
    have "list_all2 ?T fs vs" using "6.prems"(2,3) by (auto simp: vs(1) have_types_iff list_all2_conv_all_nth list_all_length)
    moreover have "list_all (\<lambda>(k, j). valid_json j) ms" using "6.prems"(4) JObj by (auto simp: list_all_iff)
    moreover have "?T f u'" if "f \<in> set fs" "?T f u" "valid_json i" "jdec X (field_type f) u i = Some u'" for f u i u'
      using "6.IH" that jdec_typed(2) "6.prems"(1) by simp blast
    ultimately have "list_all2 ?T fs vs'" by (rule read_members_all [OF vs(3)])
    then show ?thesis by (auto simp: vs(2) list_all2_conv_all_nth list_all_length)
  qed (use 6 in auto)
next
  case (9 n om t fs)
  show ?case
  proof (cases "f = Field n om t")
    case True
    with "9.prems" "9.IH"(1) [of v j v'] show ?thesis by simp
  next
    case False
    with "9.prems" "9.IH"(2) [of f v j v'] show ?thesis by simp
  qed
qed (auto split: json.splits if_splits jval.splits option.splits simp: dec_utf8)

end

interpretation no_ext_text: ext_text no_ext "\<lambda>_ _. True" "\<lambda>_ _. ()" "\<lambda>_. True"
  by unfold_locales (simp_all add: no_ext_def)

end
