(* ===== verification/Record_Json.thy ===== *)
theory Record_Json
  imports Data_Types Json_Stream
begin

text \<open>
  The records of \<open>Types\<close> as values of the type descriptions. \<open>ObjectMeta\<close> is a type of another package: its
  two fields are written and read as the interface \<open>ext_json\<close> asks for. The dedicated writers of
  \<open>Json_Codec\<close> are shown to be the general one at their types, and what comes back from the general reader
  is again a record.
\<close>


section \<open>The records as values\<close>

definition slice_val :: "('a \<Rightarrow> 'x jval) \<Rightarrow> 'a list \<Rightarrow> 'x jval" where
  "slice_val f xs = (if xs = [] then VNil else VSlice (map f xs))"

definition slice_opt_val :: "('a \<Rightarrow> 'x jval) \<Rightarrow> 'a list option \<Rightarrow> 'x jval" where
  "slice_opt_val f xs = (case xs of None \<Rightarrow> VNil | Some ys \<Rightarrow> VSlice (map f ys))"

definition labels_val :: "(string, string) gomap option \<Rightarrow> 'x jval" where
  "labels_val m = (case m of None \<Rightarrow> VNil | Some es \<Rightarrow> VMap (map (\<lambda>(k, v). (k, VString v)) es))"

definition MatchSourceType_val :: "MatchSourceType \<Rightarrow> ObjectMeta jval" where
  "MatchSourceType_val x = VStruct
     [VString (ms_Path x),
      VString (ms_Directory x),
      VBool (ms_Recursive x)]"

definition ProcessPathType_val :: "ProcessPathType \<Rightarrow> ObjectMeta jval" where
  "ProcessPathType_val x = VStruct
     [VString (pp_Path x),
      VBool (pp_OwnerOnly x),
      slice_val MatchSourceType_val (pp_FromSource x),
      VInt (pp_Severity x),
      slice_val VString (pp_Tags x),
      VString (pp_Message x),
      VString (pp_Action x)]"

definition ProcessDirectoryType_val :: "ProcessDirectoryType \<Rightarrow> ObjectMeta jval" where
  "ProcessDirectoryType_val x = VStruct
     [VString (pd_Directory x),
      VBool (pd_Recursive x),
      VBool (pd_OwnerOnly x),
      slice_val MatchSourceType_val (pd_FromSource x),
      VInt (pd_Severity x),
      slice_val VString (pd_Tags x),
      VString (pd_Message x),
      VString (pd_Action x)]"

definition ProcessPatternType_val :: "ProcessPatternType \<Rightarrow> ObjectMeta jval" where
  "ProcessPatternType_val x = VStruct
     [VString (pt_Pattern x),
      VBool (pt_OwnerOnly x),
      VInt (pt_Severity x),
      slice_val VString (pt_Tags x),
      VString (pt_Message x),
      VString (pt_Action x)]"

definition ProcessType_val :: "ProcessType \<Rightarrow> ObjectMeta jval" where
  "ProcessType_val x = VStruct
     [slice_val ProcessPathType_val (pr_MatchPaths x),
      slice_val ProcessDirectoryType_val (pr_MatchDirectories x),
      slice_val ProcessPatternType_val (pr_MatchPatterns x),
      VInt (pr_Severity x),
      slice_val VString (pr_Tags x),
      VString (pr_Message x),
      VString (pr_Action x)]"

definition FilePathType_val :: "FilePathType \<Rightarrow> ObjectMeta jval" where
  "FilePathType_val x = VStruct
     [VString (fp_Path x),
      VBool (fp_ReadOnly x),
      VBool (fp_OwnerOnly x),
      slice_val MatchSourceType_val (fp_FromSource x),
      VInt (fp_Severity x),
      slice_val VString (fp_Tags x),
      VString (fp_Message x),
      VString (fp_Action x)]"

definition FileDirectoryType_val :: "FileDirectoryType \<Rightarrow> ObjectMeta jval" where
  "FileDirectoryType_val x = VStruct
     [VString (fd_Directory x),
      VBool (fd_ReadOnly x),
      VBool (fd_Recursive x),
      VBool (fd_OwnerOnly x),
      slice_val MatchSourceType_val (fd_FromSource x),
      VInt (fd_Severity x),
      slice_val VString (fd_Tags x),
      VString (fd_Message x),
      VString (fd_Action x)]"

definition FilePatternType_val :: "FilePatternType \<Rightarrow> ObjectMeta jval" where
  "FilePatternType_val x = VStruct
     [VString (ft_Pattern x),
      VBool (ft_ReadOnly x),
      VBool (ft_OwnerOnly x),
      VInt (ft_Severity x),
      slice_val VString (ft_Tags x),
      VString (ft_Message x),
      VString (ft_Action x)]"

definition FileType_val :: "FileType \<Rightarrow> ObjectMeta jval" where
  "FileType_val x = VStruct
     [slice_val FilePathType_val (fi_MatchPaths x),
      slice_val FileDirectoryType_val (fi_MatchDirectories x),
      slice_val FilePatternType_val (fi_MatchPatterns x),
      VInt (fi_Severity x),
      slice_val VString (fi_Tags x),
      VString (fi_Message x),
      VString (fi_Action x)]"

definition NetworkProtocolType_val :: "NetworkProtocolType \<Rightarrow> ObjectMeta jval" where
  "NetworkProtocolType_val x = VStruct
     [VString (np_Protocol x),
      slice_val MatchSourceType_val (np_FromSource x),
      VInt (np_Severity x),
      slice_val VString (np_Tags x),
      VString (np_Message x),
      VString (np_Action x)]"

definition NetworkType_val :: "NetworkType \<Rightarrow> ObjectMeta jval" where
  "NetworkType_val x = VStruct
     [slice_val NetworkProtocolType_val (nw_MatchProtocols x),
      VInt (nw_Severity x),
      slice_val VString (nw_Tags x),
      VString (nw_Message x),
      VString (nw_Action x)]"

definition CapabilitiesCapabilityType_val :: "CapabilitiesCapabilityType \<Rightarrow> ObjectMeta jval" where
  "CapabilitiesCapabilityType_val x = VStruct
     [VString (cc_Capability x),
      slice_val MatchSourceType_val (cc_FromSource x),
      VInt (cc_Severity x),
      slice_val VString (cc_Tags x),
      VString (cc_Message x),
      VString (cc_Action x)]"

definition CapabilitiesType_val :: "CapabilitiesType \<Rightarrow> ObjectMeta jval" where
  "CapabilitiesType_val x = VStruct
     [slice_val CapabilitiesCapabilityType_val (ca_MatchCapabilities x),
      VInt (ca_Severity x),
      slice_val VString (ca_Tags x),
      VString (ca_Message x),
      VString (ca_Action x)]"

definition NodeSelectorType_val :: "NodeSelectorType \<Rightarrow> ObjectMeta jval" where
  "NodeSelectorType_val x = VStruct
     [labels_val (ns_MatchLabels x),
      slice_opt_val VString (ns_Identities x)]"

definition HostSecuritySpec_val :: "HostSecuritySpec \<Rightarrow> ObjectMeta jval" where
  "HostSecuritySpec_val x = VStruct
     [NodeSelectorType_val (hs_NodeSelector x),
      ProcessType_val (hs_Process x),
      FileType_val (hs_File x),
      NetworkType_val (hs_Network x),
      CapabilitiesType_val (hs_Capabilities x),
      VString (hs_AppArmor x),
      VInt (hs_Severity x),
      slice_val VString (hs_Tags x),
      VString (hs_Message x),
      VString (hs_Action x)]"

definition K8sPolicyStatus_val :: "K8sPolicyStatus \<Rightarrow> ObjectMeta jval" where
  "K8sPolicyStatus_val x = VStruct
     [VString (st_Status x)]"

definition K8sKubeArmorHostPolicy_val :: "K8sKubeArmorHostPolicy \<Rightarrow> ObjectMeta jval" where
  "K8sKubeArmorHostPolicy_val x = VStruct
     [VExt (kh_Metadata x),
      HostSecuritySpec_val (kh_Spec x),
      K8sPolicyStatus_val (kh_Status x)]"

definition K8sKubeArmorHostPolicyEvent_val :: "K8sKubeArmorHostPolicyEvent \<Rightarrow> ObjectMeta jval" where
  "K8sKubeArmorHostPolicyEvent_val x = VStruct
     [VString (he_Type x),
      K8sKubeArmorHostPolicy_val (he_Object x)]"

definition ExternalWorkloadSecuritySpec_val :: "ExternalWorkloadSecuritySpec \<Rightarrow> ObjectMeta jval" where
  "ExternalWorkloadSecuritySpec_val x = VStruct
     [VString (es_IPv4AllocCIDR x),
      VString (es_IPv6AllocCIDR x)]"

definition K8sKubeArmorExternalWorkloadPolicyStatus_val :: "K8sKubeArmorExternalWorkloadPolicyStatus \<Rightarrow> ObjectMeta jval" where
  "K8sKubeArmorExternalWorkloadPolicyStatus_val x = VStruct
     [VInt (uint (ws_ID x)),
      VString (ws_IP x),
      VString (ws_Status x)]"

definition K8sKubeArmorExternalWorkloadPolicy_val :: "K8sKubeArmorExternalWorkloadPolicy \<Rightarrow> ObjectMeta jval" where
  "K8sKubeArmorExternalWorkloadPolicy_val x = VStruct
     [VExt (ke_Metadata x),
      ExternalWorkloadSecuritySpec_val (ke_Spec x),
      K8sKubeArmorExternalWorkloadPolicyStatus_val (ke_Status x)]"

definition K8sKubeArmorExternalWorkloadPolicyEvent_val :: "K8sKubeArmorExternalWorkloadPolicyEvent \<Rightarrow> ObjectMeta jval" where
  "K8sKubeArmorExternalWorkloadPolicyEvent_val x = VStruct
     [VString (we_Type x),
      K8sKubeArmorExternalWorkloadPolicy_val (we_Object x)]"


section \<open>\<open>ObjectMeta\<close>\<close>

text \<open>
  Of \<open>metav1.ObjectMeta\<close> the two fields the programs read are kept; they are written and read like those
  of any structure, without types of further packages.
\<close>

definition meta_jt :: jty where
  "meta_jt = TStruct [Field ''name'' True TString, Field ''labels'' True (TMap TString)]"

definition meta_val :: "ObjectMeta \<Rightarrow> unit jval" where
  "meta_val m = VStruct [VString (om_Name m), labels_val (om_Labels m)]"

definition labels_of_val :: "'x jval \<Rightarrow> (string, string) gomap option" where
  "labels_of_val v =
     (case v of VMap es \<Rightarrow> Some (map (\<lambda>(k, w). (k, case w of VString s \<Rightarrow> s | _ \<Rightarrow> [])) es) | _ \<Rightarrow> None)"

definition meta_of :: "unit jval \<Rightarrow> ObjectMeta" where
  "meta_of v =
     (case v of
        VStruct [VString name, labels] \<Rightarrow> \<lparr>om_Name = name, om_Labels = labels_of_val labels\<rparr>
      | _ \<Rightarrow> \<lparr>om_Name = [], om_Labels = None\<rparr>)"

definition meta_ok :: "string \<Rightarrow> ObjectMeta \<Rightarrow> bool" where
  "meta_ok n m \<longleftrightarrow> gomap_ok (labels_of (om_Labels m))"

definition meta_norm :: "string \<Rightarrow> ObjectMeta \<Rightarrow> ObjectMeta" where
  "meta_norm n m = m\<lparr>om_Labels := (if labels_of (om_Labels m) = [] then None else om_Labels m)\<rparr>"

definition meta_ext :: "ObjectMeta ext" where
  "meta_ext =
     \<lparr>x_zero = (\<lambda>_. \<lparr>om_Name = [], om_Labels = None\<rparr>),
      x_enc = (\<lambda>_ m. marshal no_ext meta_jt (meta_val m)),
      x_dec = (\<lambda>_ m j. map_option meta_of (jdec no_ext meta_jt (meta_val m) j))\<rparr>"

lemma meta_jt_ok [simp]: "jty_ok meta_jt"
  by (simp add: meta_jt_def)

lemma labels_of_val [simp]: "labels_of_val (labels_val m) = m"
  by (cases m) (auto simp: labels_of_val_def labels_val_def comp_def split_beta)

lemma meta_of_val [simp]: "meta_of (meta_val m) = m"
  by (simp add: meta_of_def meta_val_def)

lemma meta_typed: "has_type (\<lambda>_ _. True) meta_jt (meta_val m) \<longleftrightarrow> meta_ok n m"
  by (cases "om_Labels m") (auto simp: meta_jt_def meta_val_def labels_val_def meta_ok_def list_all_iff comp_def split_beta)

lemma labels_val_of: "has_type ok (TMap TString) v \<Longrightarrow> labels_val (labels_of_val v) = v"
  by (cases v) (auto simp: labels_val_def labels_of_val_def list_all_iff comp_def split_beta intro!: map_idI split: jval.splits)

lemma meta_val_of:
  assumes "has_type ok meta_jt v"
  shows "meta_val (meta_of v) = v"
proof -
  from assms obtain name labels where v: "v = VStruct [VString name, labels]" and l: "has_type ok (TMap TString) labels"
    by (auto simp: meta_jt_def split: jval.splits list.splits)
  from labels_val_of [OF l] show ?thesis by (simp add: v meta_of_def meta_val_def)
qed

lemma meta_zero: "meta_val \<lparr>om_Name = [], om_Labels = None\<rparr> = jzero no_ext meta_jt"
  by (simp add: meta_val_def meta_jt_def labels_val_def)

lemma meta_jnorm: "jnorm no_ext (\<lambda>_ _. ()) meta_jt (meta_val m) = meta_val (meta_norm n m)"
  by (cases "om_Labels m") (auto simp: meta_jt_def meta_val_def meta_norm_def labels_val_def comp_def split_beta)

interpretation meta: ext_json meta_ext meta_ok meta_norm
proof unfold_locales
  show "meta_ok n (x_zero meta_ext n)" for n by (simp add: meta_ext_def meta_ok_def)
next
  fix n x j y assume "meta_ok n x" and "x_dec meta_ext n x j = Some y"
  then obtain v where v: "jdec no_ext meta_jt (meta_val x) j = Some v" "y = meta_of v" by (auto simp: meta_ext_def)
  from no_ext.jdec_typed(1) [OF meta_jt_ok _ v(1)] \<open>meta_ok n x\<close> have "has_type (\<lambda>_ _. True) meta_jt v"
    by (simp add: meta_typed [of _ n])
  with meta_val_of [OF this] show "meta_ok n y" unfolding v(2) by (metis meta_typed)
next
  fix n x assume "meta_ok n x"
  then have t: "has_type (\<lambda>_ _. True) meta_jt (meta_val x)" by (simp add: meta_typed [of _ n])
  from no_ext.jdec_marshal(1) [OF meta_jt_ok t] show "x_dec meta_ext n (x_zero meta_ext n) (x_enc meta_ext n x) = Some (meta_norm n x)"
    by (simp add: meta_ext_def meta_zero meta_jnorm [of _ n])
  from no_ext.marshal_jnorm(1) [OF meta_jt_ok t] show "x_enc meta_ext n (meta_norm n x) = x_enc meta_ext n x"
    by (simp add: meta_ext_def meta_jnorm [of _ n])
qed

text \<open>Its strings\<close>

definition meta_utf8 :: "ObjectMeta \<Rightarrow> bool" where
  "meta_utf8 m \<longleftrightarrow> valid_utf8 (om_Name m) \<and> list_all (\<lambda>(k, v). valid_utf8 k \<and> valid_utf8 v) (labels_of (om_Labels m))"

lemma meta_utf8_val: "utf8_val U (meta_val m) \<longleftrightarrow> meta_utf8 m"
  by (cases "om_Labels m") (auto simp: meta_val_def labels_val_def meta_utf8_def list_all_iff)

lemma meta_names [simp]: "utf8_names meta_jt"
  by (simp add: meta_jt_def)

interpretation meta_text: ext_text meta_ext meta_ok meta_norm meta_utf8
proof unfold_locales
  show "meta_utf8 (x_zero meta_ext n)" for n by (simp add: meta_ext_def meta_utf8_def)
  show "valid_json (x_enc meta_ext n x)" if "meta_utf8 x" for n x
    using no_ext_text.marshal_valid(1) [OF meta_names, of "meta_val x"] that by (simp add: meta_ext_def meta_utf8_val)
next
  fix n x j y assume x: "meta_ok n x" "meta_utf8 x" "valid_json j" and "x_dec meta_ext n x j = Some y"
  then obtain v where v: "jdec no_ext meta_jt (meta_val x) j = Some v" "y = meta_of v" by (auto simp: meta_ext_def)
  have t: "has_type (\<lambda>_ _. True) meta_jt (meta_val x)" using x(1) by (simp add: meta_typed [of _ n])
  have "utf8_val (\<lambda>_. True) v"
    using no_ext_text.jdec_utf8(1) [OF meta_jt_ok t _ x(3) v(1)] x(2) by (simp add: meta_utf8_val)
  with meta_val_of [OF no_ext.jdec_typed(1) [OF meta_jt_ok t v(1)]] show "meta_utf8 y"
    unfolding v(2) by (metis meta_utf8_val)
qed


section \<open>The dedicated writers are the general one\<close>

lemma slice_val_empty [simp]: "is_empty_value (slice_val f xs) \<longleftrightarrow> xs = []"
  by (simp add: slice_val_def)

lemma slice_opt_val_empty [simp]: "is_empty_value (slice_opt_val f xs) \<longleftrightarrow> xs = None \<or> xs = Some []"
  by (cases xs) (simp_all add: slice_opt_val_def)

lemma labels_val_empty [simp]: "is_empty_value (labels_val m) \<longleftrightarrow> labels_of m = []"
  by (cases m) (simp_all add: labels_val_def)

lemma struct_vals_not_empty [simp]:
  "\<not> is_empty_value (ProcessType_val a)" "\<not> is_empty_value (FileType_val b)" "\<not> is_empty_value (NetworkType_val c)"
  "\<not> is_empty_value (CapabilitiesType_val d)" "\<not> is_empty_value (K8sPolicyStatus_val e)"
  "\<not> is_empty_value (K8sKubeArmorExternalWorkloadPolicyStatus_val f)"
  by (simp_all add: ProcessType_val_def FileType_val_def NetworkType_val_def CapabilitiesType_val_def K8sPolicyStatus_val_def
      K8sKubeArmorExternalWorkloadPolicyStatus_val_def)

lemmas omit_defs = omit_string_def omit_int_def omit_bool_def omit_list_def omit_map_def omit_strings_def

lemma marshal_MatchSourceType [simp]: "marshal meta_ext MatchSourceType_jt (MatchSourceType_val x) = enc_MatchSourceType x"
  by (simp add: MatchSourceType_jt_def MatchSourceType_val_def enc_MatchSourceType_def omit_defs slice_val_def comp_def)

lemma marshal_ProcessPathType [simp]: "marshal meta_ext ProcessPathType_jt (ProcessPathType_val x) = enc_ProcessPathType x"
  by (simp add: ProcessPathType_jt_def ProcessPathType_val_def enc_ProcessPathType_def omit_defs slice_val_def comp_def)

lemma marshal_ProcessDirectoryType [simp]: "marshal meta_ext ProcessDirectoryType_jt (ProcessDirectoryType_val x) = enc_ProcessDirectoryType x"
  by (simp add: ProcessDirectoryType_jt_def ProcessDirectoryType_val_def enc_ProcessDirectoryType_def omit_defs slice_val_def comp_def)

lemma marshal_ProcessPatternType [simp]: "marshal meta_ext ProcessPatternType_jt (ProcessPatternType_val x) = enc_ProcessPatternType x"
  by (simp add: ProcessPatternType_jt_def ProcessPatternType_val_def enc_ProcessPatternType_def omit_defs slice_val_def comp_def)

lemma marshal_ProcessType [simp]: "marshal meta_ext ProcessType_jt (ProcessType_val x) = enc_ProcessType x"
  by (simp add: ProcessType_jt_def ProcessType_val_def enc_ProcessType_def omit_defs slice_val_def comp_def)

lemma marshal_FilePathType [simp]: "marshal meta_ext FilePathType_jt (FilePathType_val x) = enc_FilePathType x"
  by (simp add: FilePathType_jt_def FilePathType_val_def enc_FilePathType_def omit_defs slice_val_def comp_def)

lemma marshal_FileDirectoryType [simp]: "marshal meta_ext FileDirectoryType_jt (FileDirectoryType_val x) = enc_FileDirectoryType x"
  by (simp add: FileDirectoryType_jt_def FileDirectoryType_val_def enc_FileDirectoryType_def omit_defs slice_val_def comp_def)

lemma marshal_FilePatternType [simp]: "marshal meta_ext FilePatternType_jt (FilePatternType_val x) = enc_FilePatternType x"
  by (simp add: FilePatternType_jt_def FilePatternType_val_def enc_FilePatternType_def omit_defs slice_val_def comp_def)

lemma marshal_FileType [simp]: "marshal meta_ext FileType_jt (FileType_val x) = enc_FileType x"
  by (simp add: FileType_jt_def FileType_val_def enc_FileType_def omit_defs slice_val_def comp_def)

lemma marshal_NetworkProtocolType [simp]: "marshal meta_ext NetworkProtocolType_jt (NetworkProtocolType_val x) = enc_NetworkProtocolType x"
  by (simp add: NetworkProtocolType_jt_def NetworkProtocolType_val_def enc_NetworkProtocolType_def omit_defs slice_val_def comp_def)

lemma marshal_NetworkType [simp]: "marshal meta_ext NetworkType_jt (NetworkType_val x) = enc_NetworkType x"
  by (simp add: NetworkType_jt_def NetworkType_val_def enc_NetworkType_def omit_defs slice_val_def comp_def)

lemma marshal_CapabilitiesCapabilityType [simp]: "marshal meta_ext CapabilitiesCapabilityType_jt (CapabilitiesCapabilityType_val x) = enc_CapabilitiesCapabilityType x"
  by (simp add: CapabilitiesCapabilityType_jt_def CapabilitiesCapabilityType_val_def enc_CapabilitiesCapabilityType_def omit_defs slice_val_def comp_def)

lemma marshal_CapabilitiesType [simp]: "marshal meta_ext CapabilitiesType_jt (CapabilitiesType_val x) = enc_CapabilitiesType x"
  by (simp add: CapabilitiesType_jt_def CapabilitiesType_val_def enc_CapabilitiesType_def omit_defs slice_val_def comp_def)

lemma marshal_NodeSelectorType [simp]: "marshal meta_ext NodeSelectorType_jt (NodeSelectorType_val x) = enc_NodeSelectorType x"
  by (auto simp: NodeSelectorType_jt_def NodeSelectorType_val_def enc_NodeSelectorType_def omit_defs slice_val_def comp_def labels_val_def slice_opt_val_def comp_def split_beta split: option.splits)

lemma marshal_HostSecuritySpec [simp]: "marshal meta_ext HostSecuritySpec_jt (HostSecuritySpec_val x) = enc_HostSecuritySpec x"
  by (simp add: HostSecuritySpec_jt_def HostSecuritySpec_val_def enc_HostSecuritySpec_def omit_defs slice_val_def comp_def)


section \<open>Reading them back\<close>

lemma jnorm_slice:
  "(\<And>x. jnorm X N t (f x) = f x) \<Longrightarrow> jnorm X N (TSlice t) (slice_val f xs) = slice_val f xs"
  by (simp add: slice_val_def comp_def)

lemma slice_val_Nil [simp]: "slice_val f [] = VNil"
  by (simp add: slice_val_def)

lemma jnorm_strings [simp]: "jnorm X N (TSlice TString) (slice_val VString xs) = slice_val VString xs"
  by (rule jnorm_slice) simp

lemma jnorm_MatchSourceType [simp]: "jnorm X N MatchSourceType_jt (MatchSourceType_val x) = MatchSourceType_val x"
  by (simp add: MatchSourceType_jt_def MatchSourceType_val_def del: jnorm.simps(4))

lemma jnorm_ProcessPathType [simp]: "jnorm X N ProcessPathType_jt (ProcessPathType_val x) = ProcessPathType_val x"
  by (simp add: ProcessPathType_jt_def ProcessPathType_val_def jnorm_slice del: jnorm.simps(4))

lemma jnorm_ProcessDirectoryType [simp]: "jnorm X N ProcessDirectoryType_jt (ProcessDirectoryType_val x) = ProcessDirectoryType_val x"
  by (simp add: ProcessDirectoryType_jt_def ProcessDirectoryType_val_def jnorm_slice del: jnorm.simps(4))

lemma jnorm_ProcessPatternType [simp]: "jnorm X N ProcessPatternType_jt (ProcessPatternType_val x) = ProcessPatternType_val x"
  by (simp add: ProcessPatternType_jt_def ProcessPatternType_val_def del: jnorm.simps(4))

lemma jnorm_ProcessType [simp]: "jnorm X N ProcessType_jt (ProcessType_val x) = ProcessType_val x"
  by (simp add: ProcessType_jt_def ProcessType_val_def jnorm_slice del: jnorm.simps(4))

lemma jnorm_FilePathType [simp]: "jnorm X N FilePathType_jt (FilePathType_val x) = FilePathType_val x"
  by (simp add: FilePathType_jt_def FilePathType_val_def jnorm_slice del: jnorm.simps(4))

lemma jnorm_FileDirectoryType [simp]: "jnorm X N FileDirectoryType_jt (FileDirectoryType_val x) = FileDirectoryType_val x"
  by (simp add: FileDirectoryType_jt_def FileDirectoryType_val_def jnorm_slice del: jnorm.simps(4))

lemma jnorm_FilePatternType [simp]: "jnorm X N FilePatternType_jt (FilePatternType_val x) = FilePatternType_val x"
  by (simp add: FilePatternType_jt_def FilePatternType_val_def del: jnorm.simps(4))

lemma jnorm_FileType [simp]: "jnorm X N FileType_jt (FileType_val x) = FileType_val x"
  by (simp add: FileType_jt_def FileType_val_def jnorm_slice del: jnorm.simps(4))

lemma jnorm_NetworkProtocolType [simp]: "jnorm X N NetworkProtocolType_jt (NetworkProtocolType_val x) = NetworkProtocolType_val x"
  by (simp add: NetworkProtocolType_jt_def NetworkProtocolType_val_def jnorm_slice del: jnorm.simps(4))

lemma jnorm_NetworkType [simp]: "jnorm X N NetworkType_jt (NetworkType_val x) = NetworkType_val x"
  by (simp add: NetworkType_jt_def NetworkType_val_def jnorm_slice del: jnorm.simps(4))

lemma jnorm_CapabilitiesCapabilityType [simp]: "jnorm X N CapabilitiesCapabilityType_jt (CapabilitiesCapabilityType_val x) = CapabilitiesCapabilityType_val x"
  by (simp add: CapabilitiesCapabilityType_jt_def CapabilitiesCapabilityType_val_def jnorm_slice del: jnorm.simps(4))

lemma jnorm_CapabilitiesType [simp]: "jnorm X N CapabilitiesType_jt (CapabilitiesType_val x) = CapabilitiesType_val x"
  by (simp add: CapabilitiesType_jt_def CapabilitiesType_val_def jnorm_slice del: jnorm.simps(4))

text \<open>The selector, with its label map and identities, and the structures above it\<close>

lemma jnorm_NodeSelectorType [simp]: "jnorm X N NodeSelectorType_jt (NodeSelectorType_val x) = NodeSelectorType_val (norm_selector x)"
  by (cases "ns_MatchLabels x"; cases "ns_Identities x")
    (auto simp: NodeSelectorType_jt_def NodeSelectorType_val_def norm_selector_def labels_val_def slice_opt_val_def comp_def split_beta)

lemma jnorm_HostSecuritySpec [simp]:
  "jnorm X N HostSecuritySpec_jt (HostSecuritySpec_val x) =
     HostSecuritySpec_val (x\<lparr>hs_NodeSelector := norm_selector (hs_NodeSelector x)\<rparr>)"
  by (simp add: HostSecuritySpec_jt_def HostSecuritySpec_val_def del: jnorm.simps(4))

definition norm_event :: "K8sKubeArmorHostPolicyEvent \<Rightarrow> K8sKubeArmorHostPolicyEvent" where
  "norm_event e = e\<lparr>he_Object := (he_Object e)\<lparr>
     kh_Metadata := meta_norm ''metav1.ObjectMeta'' (kh_Metadata (he_Object e)),
     kh_Spec := (kh_Spec (he_Object e))\<lparr>hs_NodeSelector := norm_selector (hs_NodeSelector (kh_Spec (he_Object e)))\<rparr>\<rparr>\<rparr>"

lemma jnorm_K8sKubeArmorHostPolicyEvent [simp]:
  "jnorm X meta_norm K8sKubeArmorHostPolicyEvent_jt (K8sKubeArmorHostPolicyEvent_val e) = K8sKubeArmorHostPolicyEvent_val (norm_event e)"
  by (simp add: K8sKubeArmorHostPolicyEvent_jt_def K8sKubeArmorHostPolicyEvent_val_def K8sKubeArmorHostPolicy_jt_def
      K8sKubeArmorHostPolicy_val_def K8sPolicyStatus_jt_def K8sPolicyStatus_val_def norm_event_def del: jnorm.simps(4))

end
