(* ===== verification/Policy_Wire.thy ===== *)
theory Policy_Wire
  imports Api_Json Record_Json Operator_Theorems Service
begin

text \<open>
  JSON from the API server to the agents. The watch loops read the events of a response one after the
  other until one cannot be read (\<open>decode_text\<close>); \<open>SendPolicy\<close> writes the event of a policy for the
  agent (\<open>PolicyData\<close>). An event of the watch API has a type and an object; the object has \<open>kind\<close> and
  \<open>apiVersion\<close>, its metadata, and what the API types say.
\<close>


section \<open>Reading and writing\<close>

text \<open>\<open>json.Marshal(&event.Event)\<close> in \<open>SendPolicy\<close>\<close>

definition PolicyData :: "K8sKubeArmorHostPolicyEvent \<Rightarrow> json" where
  "PolicyData event = marshal meta_ext K8sKubeArmorHostPolicyEvent_jt (K8sKubeArmorHostPolicyEvent_val event)"

lemma PolicyData_members:
  "PolicyData e = JObj
     [(''type'', JStr (he_Type e)),
      (''object'', JObj
        [(''metadata'', x_enc meta_ext ''metav1.ObjectMeta'' (kh_Metadata (he_Object e))),
         (''spec'', enc_HostSecuritySpec (kh_Spec (he_Object e))),
         (''status'', JObj (omit_string ''status'' (st_Status (kh_Status (he_Object e)))))])]"
  by (simp add: PolicyData_def K8sKubeArmorHostPolicyEvent_jt_def K8sKubeArmorHostPolicyEvent_val_def
      K8sKubeArmorHostPolicy_jt_def K8sKubeArmorHostPolicy_val_def K8sPolicyStatus_jt_def K8sPolicyStatus_val_def omit_string_def)


section \<open>Events of the watch API\<close>

definition watch_event :: "string \<Rightarrow> json \<Rightarrow> json \<Rightarrow> (string \<times> json) list \<Rightarrow> json" where
  "watch_event type kind apiVersion members =
     JObj [(''type'', JStr type), (''object'', JObj ((''kind'', kind) # (''apiVersion'', apiVersion) # members))]"

text \<open>A host policy as the API server has it\<close>

record 'x api_policy =
  ap_type :: string
  ap_kind :: json
  ap_apiVersion :: json
  ap_meta :: 'x
  ap_spec :: "'x jval"
  ap_status :: "'x jval"

definition api_policy_ok :: "(string \<Rightarrow> 'x \<Rightarrow> bool) \<Rightarrow> 'x api_policy \<Rightarrow> bool" where
  "api_policy_ok ok p \<longleftrightarrow> ok ''metav1.ObjectMeta'' (ap_meta p) \<and>
     has_type ok KubeArmorHostPolicySpec_v1_jt (ap_spec p) \<and> has_type ok KubeArmorHostPolicyStatus_v1_jt (ap_status p)"

text \<open>All strings in it are UTF-8.\<close>

definition api_policy_utf8 :: "('x \<Rightarrow> bool) \<Rightarrow> 'x api_policy \<Rightarrow> bool" where
  "api_policy_utf8 U p \<longleftrightarrow> valid_utf8 (ap_type p) \<and> valid_json (ap_kind p) \<and> valid_json (ap_apiVersion p) \<and>
     U (ap_meta p) \<and> utf8_val U (ap_spec p) \<and> utf8_val U (ap_status p)"

definition api_event :: "'x ext \<Rightarrow> 'x api_policy \<Rightarrow> json" where
  "api_event X p = watch_event (ap_type p) (ap_kind p) (ap_apiVersion p)
     [(''metadata'', x_enc X ''metav1.ObjectMeta'' (ap_meta p)),
      (''spec'', marshal X KubeArmorHostPolicySpec_v1_jt (ap_spec p)),
      (''status'', marshal X KubeArmorHostPolicyStatus_v1_jt (ap_status p))]"

text \<open>The event the service has then: every field under its name\<close>

definition service_event :: "'x ext \<Rightarrow> (string \<Rightarrow> 'x \<Rightarrow> 'x) \<Rightarrow> 'x api_policy \<Rightarrow> 'x jval" where
  "service_event X N p = VStruct
     [VString (ap_type p),
      VStruct
        [VExt (N ''metav1.ObjectMeta'' (ap_meta p)),
         convert X N KubeArmorHostPolicySpec_v1_jt (ap_spec p) HostSecuritySpec_jt,
         convert X N KubeArmorHostPolicyStatus_v1_jt (ap_status p) K8sPolicyStatus_jt]]"

lemma unmarshal_api_event:
  assumes "ext_json X ok N" and "api_policy_ok ok p"
  shows "unmarshal X K8sKubeArmorHostPolicyEvent_jt (api_event X p) = Some (service_event X N p)"
proof -
  have spec: "jdec X HostSecuritySpec_jt (jzero X HostSecuritySpec_jt) (marshal X KubeArmorHostPolicySpec_v1_jt (ap_spec p)) =
      Some (convert X N KubeArmorHostPolicySpec_v1_jt (ap_spec p) HostSecuritySpec_jt)"
    and status: "jdec X K8sPolicyStatus_jt (jzero X K8sPolicyStatus_jt) (marshal X KubeArmorHostPolicyStatus_v1_jt (ap_status p)) =
      Some (convert X N KubeArmorHostPolicyStatus_v1_jt (ap_status p) K8sPolicyStatus_jt)"
    using assms(2) by (simp_all add: ext_json.jdec_compat(1) [OF assms(1)] api_policy_ok_def)
  have "x_dec X ''metav1.ObjectMeta'' (x_zero X ''metav1.ObjectMeta'') (x_enc X ''metav1.ObjectMeta'' (ap_meta p)) =
      Some (N ''metav1.ObjectMeta'' (ap_meta p))"
    using assms(2) ext_json.dec_enc [OF assms(1)] by (simp add: api_policy_ok_def)
  with spec status show ?thesis
    by (simp add: unmarshal_def api_event_def watch_event_def service_event_def K8sKubeArmorHostPolicyEvent_jt_def
        K8sKubeArmorHostPolicy_jt_def find_field_def)
qed


lemma wire_names:
  "utf8_names KubeArmorHostPolicySpec_v1_jt" "utf8_names KubeArmorHostPolicyStatus_v1_jt" "utf8_names K8sKubeArmorHostPolicyEvent_jt"
  by (code_simp, code_simp, code_simp)

lemma valid_api_event:
  assumes "ext_text X ok N U" and "api_policy_utf8 U p"
  shows "valid_json (api_event X p)"
  using assms(2) ext_text.enc_utf8 [OF assms(1)] ext_text.marshal_valid(1) [OF assms(1)] wire_names
  by (simp add: api_event_def watch_event_def api_policy_utf8_def)

text \<open>The event the service has can be written and read again.\<close>

lemma service_event_ok:
  assumes "ext_text X ok N U" and "api_policy_ok ok p" and "api_policy_utf8 U p"
  shows "has_type ok K8sKubeArmorHostPolicyEvent_jt (service_event X N p)" and "utf8_val U (service_event X N p)"
proof -
  have X: "ext_json X ok N" using assms(1) by (simp add: ext_text_def)
  have read: "jdec X K8sKubeArmorHostPolicyEvent_jt (jzero X K8sKubeArmorHostPolicyEvent_jt) (api_event X p) = Some (service_event X N p)"
    using unmarshal_api_event [OF X assms(2)] by (simp add: unmarshal_def)
  note zero = ext_json.zero_typed(1) [OF X, of K8sKubeArmorHostPolicyEvent_jt]
  show "has_type ok K8sKubeArmorHostPolicyEvent_jt (service_event X N p)"
    using ext_json.jdec_typed(1) [OF X _ zero read] by simp
  show "utf8_val U (service_event X N p)"
    using ext_text.jdec_utf8(1) [OF assms(1) _ zero _ valid_api_event [OF assms(1,3)] read] ext_text.jzero_utf8(1) [OF assms(1)]
    by simp
qed


section \<open>Properties\<close>

text \<open>
  C33. Host policies survive the way from the API server to the agent. The watch loop of the service
  reads every response with policies of the API types, whatever their contents, to its end and without an
  error, and every field arrives under its name; the text the service then writes for an agent
  is read with the same structure as the same event, up to nil for empty slices and maps.
\<close>

theorem policies_survive_the_wire:
  assumes "ext_text X ok N U" and "\<forall>p \<in> set ps. api_policy_ok ok p \<and> api_policy_utf8 U p"
  shows "decode_text X K8sKubeArmorHostPolicyEvent_jt (json_lines (map (api_event X) ps)) = map (service_event X N) ps \<and>
    (\<forall>p \<in> set ps. unmarshal_text X K8sKubeArmorHostPolicyEvent_jt
       (print_json (marshal X K8sKubeArmorHostPolicyEvent_jt (service_event X N p))) =
      Some (jnorm X N K8sKubeArmorHostPolicyEvent_jt (service_event X N p)))"
proof (intro conjI decode_text_lines ballI)
  have X: "ext_json X ok N" using assms(1) by (simp add: ext_text_def)
  fix p assume "p \<in> set ps"
  then have p: "api_policy_ok ok p" "api_policy_utf8 U p" using assms(2) by auto
  show "valid_json (api_event X p)" using assms(1) p(2) by (rule valid_api_event)
  show "unmarshal X K8sKubeArmorHostPolicyEvent_jt (api_event X p) = Some (service_event X N p)"
    using X p(1) by (rule unmarshal_api_event)
  note event = service_event_ok [OF assms(1) p]
  have "valid_json (marshal X K8sKubeArmorHostPolicyEvent_jt (service_event X N p))"
    using ext_text.marshal_valid(1) [OF assms(1) wire_names(3) event(2)] .
  then show "unmarshal_text X K8sKubeArmorHostPolicyEvent_jt (print_json (marshal X K8sKubeArmorHostPolicyEvent_jt (service_event X N p))) =
      Some (jnorm X N K8sKubeArmorHostPolicyEvent_jt (service_event X N p))"
    using ext_json.jdec_marshal(1) [OF X _ event(1)] by (simp add: unmarshal_def)
qed

definition demo_api_policy :: "ObjectMeta api_policy" where
  "demo_api_policy =
     \<lparr>ap_type = ''ADDED'', ap_kind = JStr ''KubeArmorHostPolicy'', ap_apiVersion = JStr ''security.kubearmor.com/v1'',
      ap_meta = \<lparr>om_Name = ''hp1'', om_Labels = None\<rparr>,
      ap_spec = VStruct
        [VStruct [VMap [(''env'', VString ''prod'')]], jzero meta_ext ProcessType_v1_jt, jzero meta_ext FileType_v1_jt,
         VStruct [VSlice [], VInt 0, VNil, VString [], VString []], jzero meta_ext CapabilitiesType_v1_jt,
         VString [], VInt 5, VSlice [VString ''a''], VString [], VString ''Block''],
      ap_status = VStruct [VString ''OK'']\<rparr>"

theorem policies_survive_the_wire_witness:
  "decode_text meta_ext K8sKubeArmorHostPolicyEvent_jt (json_lines [api_event meta_ext demo_api_policy]) =
     [service_event meta_ext meta_norm demo_api_policy] \<and>
   service_event meta_ext meta_norm demo_api_policy =
     VStruct
      [VString ''ADDED'',
       VStruct
        [VExt \<lparr>om_Name = ''hp1'', om_Labels = None\<rparr>,
         VStruct
          [VStruct [VMap [(''env'', VString ''prod'')], VNil], jzero meta_ext ProcessType_jt, jzero meta_ext FileType_jt,
           VStruct [VSlice [], VInt 0, VNil, VString [], VString []], jzero meta_ext CapabilitiesType_jt,
           VString [], VInt 5, VSlice [VString ''a''], VString [], VString ''Block''],
         VStruct [VString ''OK'']]]"
proof -
  have "api_policy_ok meta_ok demo_api_policy"
    by (simp add: api_policy_ok_def demo_api_policy_def meta_ok_def KubeArmorHostPolicySpec_v1_jt_def NodeSelectorType_v1_jt_def
        NetworkType_v1_jt_def KubeArmorHostPolicyStatus_v1_jt_def meta.zero_typed)
  moreover have "api_policy_utf8 meta_utf8 demo_api_policy"
    by (simp add: api_policy_utf8_def demo_api_policy_def meta_utf8_def meta_text.jzero_utf8)
  ultimately have "decode_text meta_ext K8sKubeArmorHostPolicyEvent_jt (json_lines [api_event meta_ext demo_api_policy]) =
     [service_event meta_ext meta_norm demo_api_policy]"
    using policies_survive_the_wire [OF meta_text.ext_text_axioms, of "[demo_api_policy]"] by simp
  moreover have "convert meta_ext meta_norm ProcessType_v1_jt (jzero meta_ext ProcessType_v1_jt) ProcessType_jt = jzero meta_ext ProcessType_jt"
    "convert meta_ext meta_norm FileType_v1_jt (jzero meta_ext FileType_v1_jt) FileType_jt = jzero meta_ext FileType_jt"
    "convert meta_ext meta_norm CapabilitiesType_v1_jt (jzero meta_ext CapabilitiesType_v1_jt) CapabilitiesType_jt = jzero meta_ext CapabilitiesType_jt"
    by (simp_all add: ProcessType_v1_jt_def ProcessType_jt_def FileType_v1_jt_def FileType_jt_def CapabilitiesType_v1_jt_def
        CapabilitiesType_jt_def set_fields_def)
  ultimately show ?thesis
    by (simp add: service_event_def demo_api_policy_def meta_norm_def KubeArmorHostPolicySpec_v1_jt_def HostSecuritySpec_jt_def
        NodeSelectorType_v1_jt_def NodeSelectorType_jt_def NetworkType_v1_jt_def NetworkType_jt_def
        KubeArmorHostPolicyStatus_v1_jt_def K8sPolicyStatus_jt_def set_fields_def)
qed

text \<open>
  In the records of \<open>Types\<close>: an agent that reads what \<open>SendPolicy\<close> writes has the event, with nil for an
  empty label map or identity list.
\<close>

lemma agent_reads_event:
  assumes "has_type meta_ok K8sKubeArmorHostPolicyEvent_jt (K8sKubeArmorHostPolicyEvent_val e)"
  shows "unmarshal meta_ext K8sKubeArmorHostPolicyEvent_jt (PolicyData e) = Some (K8sKubeArmorHostPolicyEvent_val (norm_event e))"
  using meta.jdec_marshal(1) [OF _ assms] by (simp add: unmarshal_def PolicyData_def)

lemma agent_reads_text:
  assumes "has_type meta_ok K8sKubeArmorHostPolicyEvent_jt (K8sKubeArmorHostPolicyEvent_val e)"
    and "utf8_val meta_utf8 (K8sKubeArmorHostPolicyEvent_val e)"
  shows "unmarshal_text meta_ext K8sKubeArmorHostPolicyEvent_jt (print_json (PolicyData e)) =
    Some (K8sKubeArmorHostPolicyEvent_val (norm_event e))"
  using agent_reads_event [OF assms(1)] meta_text.marshal_valid(1) [OF wire_names(3) assms(2)] by (simp add: PolicyData_def)

text \<open>
  The API type of external workloads has no field \<open>status.status\<close>: whatever status the API server has, the
  operator reads an empty one, and its check of the status lets every event through.
\<close>

theorem workload_status_never_set:
  assumes "has_type meta_ok KubeArmorExternalWorkloadStatus_v1_jt st"
    and "unmarshal meta_ext K8sKubeArmorExternalWorkloadPolicyEvent_jt
      (watch_event type kind apiVersion [(''metadata'', metadata), (''status'', marshal meta_ext KubeArmorExternalWorkloadStatus_v1_jt st)]) =
      Some (K8sKubeArmorExternalWorkloadPolicyEvent_val ev)"
  shows "ws_Status (ke_Status (we_Object ev)) = [] \<and> accepted_status ev"
proof -
  let ?t = "K8sKubeArmorExternalWorkloadPolicyStatus_jt"
  obtain a b where st: "st = VStruct [VInt a, VString b]"
    using assms(1) by (auto simp: KubeArmorExternalWorkloadStatus_v1_jt_def split: jval.splits list.splits)
  obtain i ip where c: "convert meta_ext meta_norm KubeArmorExternalWorkloadStatus_v1_jt st ?t = VStruct [i, ip, VString []]"
    by (simp add: st KubeArmorExternalWorkloadStatus_v1_jt_def K8sKubeArmorExternalWorkloadPolicyStatus_jt_def set_fields_def)
  have "jdec meta_ext ?t (jzero meta_ext ?t) (marshal meta_ext KubeArmorExternalWorkloadStatus_v1_jt st) = Some (VStruct [i, ip, VString []])"
    using ext_json.jdec_compat(1) [OF meta.ext_json_axioms _ _ _ assms(1), of ?t] by (simp add: c)
  with assms(2) have "ws_Status (ke_Status (we_Object ev)) = []"
    by (auto simp: unmarshal_def watch_event_def K8sKubeArmorExternalWorkloadPolicyEvent_jt_def K8sKubeArmorExternalWorkloadPolicy_jt_def
        K8sKubeArmorExternalWorkloadPolicyEvent_val_def K8sKubeArmorExternalWorkloadPolicy_val_def
        K8sKubeArmorExternalWorkloadPolicyStatus_val_def find_field_def split: option.splits)
  then show ?thesis by (simp add: accepted_status_def)
qed

end
