(* ===== verification/Host_Commands.thy ===== *)
theory Host_Commands
  imports Common
begin

text \<open>
  The helpers of \<open>src/common/common.go\<close> that run commands and read the host: command execution,
  the host name, and the time of the last boot. Starting a process and the clock are parameters.
  None of these helpers is called by the operator or the service.
\<close>


section \<open>Commands\<close>

text \<open>\<open>output cmd args\<close>: what \<open>exec.Command(cmd, args...).Output()\<close> gives, the output and the error\<close>

type_synonym runner = "string \<Rightarrow> string list \<Rightarrow> string \<times> go_error option"

definition GetCommandOutputWithErr :: "runner \<Rightarrow> string \<Rightarrow> string list \<Rightarrow> string \<times> go_error option" where
  "GetCommandOutputWithErr output cmd args =
     (case output cmd args of (out, Some err) \<Rightarrow> (out, Some err) | (out, None) \<Rightarrow> (out, None))"

definition GetCommandOutputWithoutErr :: "runner \<Rightarrow> string \<Rightarrow> string list \<Rightarrow> string" where
  "GetCommandOutputWithoutErr output cmd args =
     (case output cmd args of (out, Some err) \<Rightarrow> [] | (out, None) \<Rightarrow> out)"

text \<open>\<open>start\<close> and \<open>wait\<close> are the errors of \<open>command.Start()\<close> and \<open>command.Wait()\<close>, over a state of the host.\<close>

definition RunCommandAndWaitWithErr ::
  "(string \<Rightarrow> string list \<Rightarrow> 'h \<Rightarrow> go_error option \<times> 'h) \<Rightarrow> ('h \<Rightarrow> go_error option \<times> 'h) \<Rightarrow>
   string \<Rightarrow> string list \<Rightarrow> 'h \<Rightarrow> go_error option \<times> 'h" where
  "RunCommandAndWaitWithErr start wait cmd args h =
     (case start cmd args h of
        (Some err, h1) \<Rightarrow> (Some err, h1)
      | (None, h1) \<Rightarrow> (case wait h1 of (Some err, h2) \<Rightarrow> (Some err, h2) | (None, h2) \<Rightarrow> (None, h2)))"

definition GetHostName :: "go_error + string \<Rightarrow> string" where
  "GetHostName hostname = (case hostname of Inr res \<Rightarrow> res | Inl err \<Rightarrow> [])"

lemma run_command_error_iff:
  "fst (RunCommandAndWaitWithErr start wait cmd args h) = None \<longleftrightarrow>
     fst (start cmd args h) = None \<and> fst (wait (snd (start cmd args h))) = None"
  by (auto simp: RunCommandAndWaitWithErr_def split: prod.splits option.splits)


section \<open>The time of the last boot\<close>

text \<open>A product of durations, \<open>int64\<close> nanoseconds, wraps around.\<close>

definition to_int64 :: "int \<Rightarrow> int" where
  "to_int64 i = sint (word_of_int i :: 64 word)"

text \<open>Go's \<open>/\<close> rounds towards zero.\<close>

definition go_quot :: "int \<Rightarrow> int \<Rightarrow> int" where
  "go_quot a b = (if a < 0 then - ((- a) div b) else a div b)"

text \<open>
  \<open>GetUptimeTimestamp\<close>: \<open>now\<close> is the clock in nanoseconds since 1970. The result is in microseconds;
  the final conversion to seconds as a float is left out. An error of \<open>ParseInt\<close> is only logged; its
  values are those of \<open>Atoi\<close>.
\<close>

definition GetUptimeTimestamp :: "runner \<Rightarrow> int \<Rightarrow> int outcome" where
  "GetUptimeTimestamp output now =
     (let res = GetCommandOutputWithoutErr output ''cat'' [''/proc/uptime''];
          uptimeDiff = Split res (CHR '' '') ! 0;
          parts = Split uptimeDiff (CHR ''.'');
          uptimeDiffSec = fst (Atoi (parts ! 0))
      in if length parts \<le> 1 then Stop (Panic ''index out of range [1] with length 1'')
         else
           (let uptimeDiffMil = fst (Atoi (parts ! 1));
                uptime = now + to_int64 (- 1000000000 * uptimeDiffSec) + to_int64 (- 1000000 * uptimeDiffMil)
            in Ret (go_quot uptime 1000)))"

text \<open>If the file cannot be read the output is empty, and the access to the second part panics.\<close>

lemma uptime_unreadable_panics:
  assumes "output ''cat'' [''/proc/uptime''] = (out, Some err)"
  shows "GetUptimeTimestamp output now = Stop (Panic ''index out of range [1] with length 1'')"
  by (simp add: GetUptimeTimestamp_def GetCommandOutputWithoutErr_def assms)

lemma to_int64_small: "- (2 ^ 63) \<le> i \<Longrightarrow> i < 2 ^ 63 \<Longrightarrow> to_int64 i = i"
  by (simp add: to_int64_def signed_take_bit_int_eq_self signed_of_int)

text \<open>
  The kernel writes the time since the boot in seconds with two decimals, that is hundredths of a
  second. The code takes the two digits as milliseconds: the result is late by nine milliseconds for
  each hundredth.
\<close>

lemma uptime_hundredths_as_milliseconds:
  assumes "output ''cat'' [''/proc/uptime''] = (FormatUint s @ CHR ''.'' # FormatUint c @ CHR '' '' # rest, None)"
    and "10 \<le> c" and "c < 100" and "s < 2 ^ 32" and "1000000000 * int s + 100000000 \<le> now"
  shows "GetUptimeTimestamp output now = Ret ((now - 1000000000 * int s - 1000000 * int c) div 1000)"
    and "(now - 1000000000 * int s - 1000000 * int c) div 1000 =
      (now - 1000000000 * int s - 10000000 * int c) div 1000 + 9000 * int c"
proof -
  have no: "CHR '' '' \<notin> set (FormatUint n)" "CHR ''.'' \<notin> set (FormatUint n)" for n
    using FormatUint_digits by (fastforce simp: is_digit_def)+
  let ?u = "FormatUint s @ CHR ''.'' # FormatUint c"
  have "Split (?u @ CHR '' '' # rest) (CHR '' '') ! 0 = ?u"
    using no by (subst Split_append) (simp add: Split_no_sep)
  moreover have "Split ?u (CHR ''.'') = [FormatUint s, FormatUint c]"
    using no by (simp add: Split_append Split_no_sep)
  moreover have "Atoi (FormatUint s) = (int s, None)" "Atoi (FormatUint c) = (int c, None)"
    using assms(3,4) by (simp_all add: Atoi_FormatUint)
  moreover have "to_int64 (- 1000000000 * int s) = - 1000000000 * int s" "to_int64 (- 1000000 * int c) = - 1000000 * int c"
    using assms(3,4) by (intro to_int64_small; simp)+
  ultimately show "GetUptimeTimestamp output now = Ret ((now - 1000000000 * int s - 1000000 * int c) div 1000)"
    using assms by (simp add: GetUptimeTimestamp_def GetCommandOutputWithoutErr_def go_quot_def Let_def)
  show "(now - 1000000000 * int s - 1000000 * int c) div 1000 =
      (now - 1000000000 * int s - 10000000 * int c) div 1000 + 9000 * int c"
    by simp
qed

end
