(* ===== verification/Timestamps.thy ===== *)
theory Timestamps
  imports Host_Commands
begin

text \<open>
  The dates of \<open>src/common/common.go\<close>, with what they use of Go's library: the format \<open>%.6f\<close> of a float,
  the calendar of the package \<open>time\<close> and the layout \<open>TimeFormUTC\<close>. The calendar counts the days from a
  year far in the past; it is shown to agree with the usual count of days by years, leap years and
  months. None of the two functions is called by the operator or the service.
\<close>


section \<open>Floats with six decimals\<close>

text \<open>A finite float is a natural number times a power of two, with a sign.\<close>

datatype float64 = NaN | Inf bool | Finite bool nat int

text \<open>The absolute value in millionths: the nearest integer, and the even one of two\<close>

definition round_half_even :: "nat \<Rightarrow> nat \<Rightarrow> nat" where
  "round_half_even n d =
     (let q = n div d; r = n mod d in
      if d < 2 * r \<or> d = 2 * r \<and> odd q then q + 1 else q)"

definition millionths :: "nat \<Rightarrow> int \<Rightarrow> nat" where
  "millionths m e =
     (if 0 \<le> e then m * 10 ^ 6 * 2 ^ nat e else round_half_even (m * 10 ^ 6) (2 ^ nat (- e)))"

definition zero_padded :: "nat \<Rightarrow> nat \<Rightarrow> string" where
  "zero_padded w n = (let ds = FormatUint n in replicate (w - length ds) (CHR ''0'') @ ds)"

definition Sprintf_6f :: "float64 \<Rightarrow> string" where
  "Sprintf_6f x =
     (case x of
        NaN \<Rightarrow> ''NaN''
      | Inf neg \<Rightarrow> (if neg then ''-Inf'' else ''+Inf'')
      | Finite neg m e \<Rightarrow>
          (let u = millionths m e in
           (if neg then ''-'' else []) @ FormatUint (u div 10 ^ 6) @ ''.'' @ zero_padded 6 (u mod 10 ^ 6)))"


section \<open>The calendar\<close>

text \<open>
  The package \<open>time\<close> counts seconds from the start of the year -292277022399 modulo \<open>2 ^ 64\<close>; the
  constant is the count at the start of 1970.
\<close>

definition absoluteZeroYear :: int where
  "absoluteZeroYear = -292277022399"

definition unixToAbsolute :: int where
  "unixToAbsolute = 9223372028715321600"

definition abs_seconds :: "int \<Rightarrow> nat" where
  "abs_seconds sec = nat ((sec + unixToAbsolute) mod 2 ^ 64)"

definition isLeap :: "int \<Rightarrow> bool" where
  "isLeap year \<longleftrightarrow> year mod 4 = 0 \<and> (year mod 100 \<noteq> 0 \<or> year mod 400 = 0)"

definition daysBefore :: "nat list" where
  "daysBefore = [0, 31, 59, 90, 120, 151, 181, 212, 243, 273, 304, 334, 365]"

text \<open>Years since the first one and days since the start of the year\<close>

definition absYear :: "nat \<Rightarrow> nat \<times> nat" where
  "absYear days =
     (let n400 = days div 146097; d = days - 146097 * n400;
          n100 = d div 36524; n100 = n100 - n100 div 4; d = d - 36524 * n100;
          n4 = d div 1461; d = d - 1461 * n4;
          n1 = d div 365; n1 = n1 - n1 div 4; d = d - 365 * n1
      in (400 * n400 + 100 * n100 + 4 * n4 + n1, d))"

definition month_and_day :: "nat \<Rightarrow> nat \<times> nat" where
  "month_and_day yday =
     (let month = yday div 31; limit = daysBefore ! (month + 1) in
      if limit \<le> yday then (month + 2, yday - limit + 1) else (month + 1, yday - daysBefore ! month + 1))"

definition absDate :: "nat \<Rightarrow> int \<times> nat \<times> nat" where
  "absDate days =
     (let (y, yday) = absYear days; year = int y + absoluteZeroYear in
      if isLeap year then
        if 59 < yday then (year, month_and_day (yday - 1))
        else if yday = 59 then (year, 2, 29)
        else (year, month_and_day yday)
      else (year, month_and_day yday))"

definition appendInt :: "int \<Rightarrow> nat \<Rightarrow> string" where
  "appendInt x width = (if x < 0 then ''-'' else []) @ zero_padded width (nat \<bar>x\<bar>)"

text \<open>
  \<open>Format\<close> of \<open>sec\<close> seconds and \<open>nsec < 10 ^ 9\<close> nanoseconds with the layout \<open>2006-01-02\<close>, a separator,
  \<open>15:04:05.000000\<close>, and a last part, where neither has letters or digits that stand for a part of the time
\<close>

definition FormatTime :: "string \<Rightarrow> string \<Rightarrow> int \<Rightarrow> nat \<Rightarrow> string" where
  "FormatTime separator zone sec nsec =
     (let abs = abs_seconds sec; (year, month, day) = absDate (abs div 86400); s = abs mod 86400 in
      appendInt year 4 @ ''-'' @ zero_padded 2 month @ ''-'' @ zero_padded 2 day @ separator @
      zero_padded 2 (s div 3600) @ '':'' @ zero_padded 2 (s mod 3600 div 60) @ '':'' @ zero_padded 2 (s mod 60) @
      ''.'' @ zero_padded 6 (nsec div 1000) @ zone)"

text \<open>\<open>time.Unix(sec, nsec).UTC().Format(TimeFormUTC)\<close>\<close>

definition FormatUTC :: "int \<Rightarrow> nat \<Rightarrow> string" where
  "FormatUTC = FormatTime ''T'' ''Z''"


section \<open>The functions\<close>

definition GetDateTimeNow :: "int \<Rightarrow> nat \<Rightarrow> int \<times> string" where
  "GetDateTimeNow sec nsec = (sec, FormatUTC sec nsec)"

text \<open>
  The float is written with six decimals and the text is cut at the point. Errors of \<open>ParseInt\<close> are only
  logged; its values are those of \<open>Atoi\<close>.
\<close>

definition GetDateTimeFromTimestamp :: "float64 \<Rightarrow> string outcome" where
  "GetDateTimeFromTimestamp timestamp =
     (let strTS = Sprintf_6f timestamp; parts = Split strTS (CHR ''.''); secTS = parts ! 0 in
      if length parts \<le> 1 then Stop (Panic ''index out of range [1] with length 1'')
      else
        (let nanoTS = parts ! 1 @ ''000''; sec64 = fst (Atoi secTS); nano64 = fst (Atoi nanoTS) in
         Ret (FormatUTC sec64 (nat nano64))))"


section \<open>The calendar counts days\<close>

definition month_length :: "bool \<Rightarrow> nat \<Rightarrow> nat" where
  "month_length leap month =
     (if month = 2 then if leap then 29 else 28 else if month \<in> {4, 6, 9, 11} then 30 else 31)"

definition valid_date :: "int \<times> nat \<times> nat \<Rightarrow> bool" where
  "valid_date dt = (case dt of (year, month, day) \<Rightarrow>
     1 \<le> month \<and> month \<le> 12 \<and> 1 \<le> day \<and> day \<le> month_length (isLeap year) month)"

text \<open>Days from 1970 to a date: 365 for each year, one for each leap year, and the months before\<close>

definition leaps_until :: "int \<Rightarrow> int" where
  "leaps_until year = year div 4 - year div 100 + year div 400"

definition day_number :: "int \<times> nat \<times> nat \<Rightarrow> int" where
  "day_number dt = (case dt of (year, month, day) \<Rightarrow>
     365 * (year - 1970) + (leaps_until (year - 1) - leaps_until 1969) +
     int (\<Sum>m \<leftarrow> [1..<month]. month_length (isLeap year) m) + int day - 1)"

text \<open>Four periods of \<open>k\<close> days, the last of which may have one day more\<close>

lemma last_period_longer:
  fixes d k :: nat
  assumes "d \<le> 4 * k" and "0 < k" and "q = d div k - d div k div 4"
  shows "k * q \<le> d \<and> q \<le> 3 \<and> d - k * q \<le> k \<and> (q < 3 \<longrightarrow> d - k * q < k)"
proof (cases "d = 4 * k")
  case True
  then show ?thesis using assms(2,3) by simp
next
  case False
  then have "d div k < 4" using assms(1) by (simp add: less_mult_imp_div_less)
  then have "q = d div k" "q \<le> 3" using assms(3) by simp_all
  then show ?thesis using assms(2) by (simp add: minus_mult_div_eq_mod less_imp_le)
qed

lemma absYear_parts:
  assumes "absYear days = (y, yday)"
  obtains a b c e where "y = 400 * a + 100 * b + 4 * c + e" "days = 146097 * a + 36524 * b + 1461 * c + 365 * e + yday"
    "b \<le> 3" "c \<le> 24" "e \<le> 3" "yday \<le> 365" "yday = 365 \<longrightarrow> e = 3 \<and> (c = 24 \<longrightarrow> b = 3)"
proof -
  define a d0 where "a = days div 146097" and "d0 = days mod 146097"
  define b where "b = d0 div 36524 - d0 div 36524 div 4"
  define d1 where "d1 = d0 - 36524 * b"
  define c d2 where "c = d1 div 1461" and "d2 = d1 mod 1461"
  define e where "e = d2 div 365 - d2 div 365 div 4"
  define d3 where "d3 = d2 - 365 * e"
  have d0: "days = 146097 * a + d0" "d0 < 146097" by (simp_all add: a_def d0_def)
  have d1: "d0 = 36524 * b + d1" "b \<le> 3" "d1 < 36525" "b < 3 \<Longrightarrow> d1 < 36524"
    using last_period_longer [OF _ _ b_def] d0(2) by (auto simp: d1_def)
  have d2: "d1 = 1461 * c + d2" "d2 < 1461" "c \<le> 24" using d1(3) by (auto simp: c_def d2_def)
  have d3: "d2 = 365 * e + d3" "e \<le> 3" "d3 \<le> 365" "e < 3 \<Longrightarrow> d3 < 365"
    using last_period_longer [OF _ _ e_def] d2(2) by (auto simp: d3_def)
  have "days - 146097 * a = d0" "d1 - 1461 * c = d2" using d0 d2 by simp_all
  then have "absYear days = (400 * a + 100 * b + 4 * c + e, d3)"
    by (simp only: absYear_def Let_def a_def [symmetric] b_def [symmetric] c_def [symmetric] d1_def [symmetric]
        e_def [symmetric] d3_def [symmetric])
  then have "y = 400 * a + 100 * b + 4 * c + e" "yday = d3" using assms by simp_all
  moreover have "e = 3 \<and> (c = 24 \<longrightarrow> b = 3)" if "d3 = 365"
    using that d1 d2 d3 by linarith
  ultimately show ?thesis by (intro that [of a b c e]) (use d0(1) d1(1,2) d2(1,3) d3 in auto)
qed

text \<open>The calendar repeats every 400 years.\<close>

lemma shift_period:
  fixes p q w x :: int
  assumes "0 < p"
  shows "(p * q * w + x) mod p = x mod p" "(p * q * w + x) div p = q * w + x div p"
  using assms by (simp_all add: mult.assoc)

lemma four_centuries:
  fixes w x :: int
  shows "(400 * w + x) mod 4 = x mod 4" "(400 * w + x) mod 100 = x mod 100" "(400 * w + x) mod 400 = x mod 400"
    "(400 * w + x) div 4 = 100 * w + x div 4" "(400 * w + x) div 100 = 4 * w + x div 100"
    "(400 * w + x) div 400 = w + x div 400"
proof -
  have "400 * w = 4 * 100 * w" "400 * w = 100 * 4 * w" "400 * w = 400 * 1 * w" by simp_all
  then show "(400 * w + x) mod 4 = x mod 4" "(400 * w + x) mod 100 = x mod 100" "(400 * w + x) mod 400 = x mod 400"
    "(400 * w + x) div 4 = 100 * w + x div 4" "(400 * w + x) div 100 = 4 * w + x div 100"
    "(400 * w + x) div 400 = w + x div 400"
    using shift_period [of 4 100 w x] shift_period [of 100 4 w x] shift_period [of 400 1 w x] by (metis zero_less_numeral mult_1)+
qed

lemma isLeap_repeats: "isLeap (400 * w + x) = isLeap x"
  by (simp add: isLeap_def four_centuries)

lemma leaps_until_repeats: "leaps_until (400 * w + x) = 97 * w + leaps_until x"
  by (simp add: leaps_until_def four_centuries)

lemma year_of_parts:
  fixes a b c e :: nat
  assumes "y = 400 * a + 100 * b + 4 * c + e" and "b \<le> 3" and "c \<le> 24" and "e \<le> 3"
  shows "isLeap (int y + absoluteZeroYear) \<longleftrightarrow> e = 3 \<and> (c = 24 \<longrightarrow> b = 3)"
    and "leaps_until (int y + absoluteZeroYear - 1) = 97 * (int a - 730692556) + 24 * int b + int c"
proof -
  let ?x = "100 * int b + 4 * int c + int e"
  have year: "int y + absoluteZeroYear = 400 * (int a - 730692556) + (?x + 1)"
    using assms(1) by (simp add: absoluteZeroYear_def)
  have "isLeap (?x + 1) \<longleftrightarrow> e = 3 \<and> (c = 24 \<longrightarrow> b = 3)"
  proof -
    have period: "z mod k = 0 \<longleftrightarrow> z = k" if "1 \<le> z" "z \<le> k" for z k :: int
      using that zmod_trivial_iff [of z k] by auto
    have "(?x + 1) mod 4 = (int e + 1) mod 4" "(?x + 1) mod 100 = (4 * int c + int e + 1) mod 100"
      using shift_period(1) [of 4 1 "25 * int b + int c" "int e + 1"] shift_period(1) [of 100 1 "int b" "4 * int c + int e + 1"]
      by (simp_all add: algebra_simps)
    then show ?thesis
      unfolding isLeap_def using assms(2-4) period [of "int e + 1" 4] period [of "4 * int c + int e + 1" 100] period [of "?x + 1" 400]
      by auto
  qed
  then show "isLeap (int y + absoluteZeroYear) \<longleftrightarrow> e = 3 \<and> (c = 24 \<longrightarrow> b = 3)"
    unfolding year isLeap_repeats .
  have "?x div 4 = 25 * int b + int c" "?x div 100 = int b" "?x div 400 = 0" using assms(2-4) by linarith+
  then have "leaps_until ?x = 24 * int b + int c" by (simp add: leaps_until_def)
  moreover have "int y + absoluteZeroYear - 1 = 400 * (int a - 730692556) + ?x" using year by simp
  ultimately show "leaps_until (int y + absoluteZeroYear - 1) = 97 * (int a - 730692556) + 24 * int b + int c"
    by (simp only: leaps_until_repeats)
qed

text \<open>The days of a year, and of a leap year\<close>

definition in_year :: "bool \<Rightarrow> nat \<times> nat \<Rightarrow> nat \<Rightarrow> bool" where
  "in_year leap md yday = (case md of (month, day) \<Rightarrow>
     1 \<le> month \<and> month \<le> 12 \<and> 1 \<le> day \<and> day \<le> month_length leap month \<and>
     (\<Sum>m \<leftarrow> [1..<month]. month_length leap m) + day = yday + 1)"

text \<open>What the table of the days before each month says\<close>

lemma daysBefore_table:
  assumes "k < 12"
  shows "daysBefore ! k \<le> 31 * k" and "k < 11 \<Longrightarrow> 31 * (k + 1) \<le> daysBefore ! (k + 2)" and "daysBefore ! k \<le> daysBefore ! (k + 1)"
    and "(\<Sum>m \<leftarrow> [1..<k + 1]. month_length leap m) = daysBefore ! k + (if leap \<and> 2 \<le> k then 1 else 0)"
    and "month_length leap (k + 1) = daysBefore ! (k + 1) - daysBefore ! k + (if leap \<and> k = 1 then 1 else 0)"
proof -
  have "list_all (\<lambda>k. daysBefore ! k \<le> 31 * k \<and> (k < 11 \<longrightarrow> 31 * (k + 1) \<le> daysBefore ! (k + 2)) \<and>
      daysBefore ! k \<le> daysBefore ! (k + 1)) [0..<12]"
    by code_simp
  then show "daysBefore ! k \<le> 31 * k" "k < 11 \<Longrightarrow> 31 * (k + 1) \<le> daysBefore ! (k + 2)" "daysBefore ! k \<le> daysBefore ! (k + 1)"
    using assms by (simp_all add: list_all_iff)
  have "list_all (\<lambda>k. (\<Sum>m \<leftarrow> [1..<k + 1]. month_length True m) = daysBefore ! k + (if 2 \<le> k then 1 else 0) \<and>
      month_length True (k + 1) = daysBefore ! (k + 1) - daysBefore ! k + (if k = 1 then 1 else 0)) [0..<12]"
    by code_simp
  moreover have "list_all (\<lambda>k. (\<Sum>m \<leftarrow> [1..<k + 1]. month_length False m) = daysBefore ! k \<and>
      month_length False (k + 1) = daysBefore ! (k + 1) - daysBefore ! k) [0..<12]"
    by code_simp
  ultimately show "(\<Sum>m \<leftarrow> [1..<k + 1]. month_length leap m) = daysBefore ! k + (if leap \<and> 2 \<le> k then 1 else 0)"
      "month_length leap (k + 1) = daysBefore ! (k + 1) - daysBefore ! k + (if leap \<and> k = 1 then 1 else 0)"
    using assms by (cases leap; simp add: list_all_iff)+
qed

lemma month_and_day_cases:
  assumes "yday < 365"
  obtains k where "k < 12" "daysBefore ! k \<le> yday" "yday < daysBefore ! (k + 1)"
    "month_and_day yday = (k + 1, yday - daysBefore ! k + 1)"
proof -
  define k where "k = yday div 31"
  have k: "k < 12" "31 * k \<le> yday" "yday < 31 * (k + 1)" using assms by (simp_all add: k_def)
  have eq: "month_and_day yday = (if daysBefore ! (k + 1) \<le> yday then (k + 2, yday - daysBefore ! (k + 1) + 1)
      else (k + 1, yday - daysBefore ! k + 1))"
    by (simp only: month_and_day_def Let_def k_def [symmetric])
  show ?thesis
  proof (cases "daysBefore ! (k + 1) \<le> yday")
    case True
    have "k \<noteq> 11" using True assms by (auto simp: daysBefore_def)
    then have "k < 11" using k(1) by simp
    with True eq k daysBefore_table(2) [OF k(1)] show ?thesis by (intro that [of "k + 1"]) auto
  next
    case False
    with eq k daysBefore_table(1) [OF k(1)] show ?thesis by (intro that [of k]) auto
  qed
qed

lemma month_in_year:
  assumes "yday < 365"
  shows "in_year False (month_and_day yday) yday" and "yday < 59 \<Longrightarrow> in_year True (month_and_day yday) yday"
    and "59 \<le> yday \<Longrightarrow> in_year True (month_and_day yday) (yday + 1)"
proof -
  obtain k where k: "k < 12" "daysBefore ! k \<le> yday" "yday < daysBefore ! (k + 1)"
      "month_and_day yday = (k + 1, yday - daysBefore ! k + 1)"
    by (rule month_and_day_cases [OF assms])
  note table = daysBefore_table [OF k(1)]
  show "in_year False (month_and_day yday) yday"
    using k table(4,5) [of False] by (simp add: in_year_def)
  have "k < 2 \<longleftrightarrow> yday < 59"
  proof -
    have "list_all (\<lambda>k. (k < 2 \<longrightarrow> daysBefore ! (k + 1) \<le> 59) \<and> (2 \<le> k \<longrightarrow> 59 \<le> daysBefore ! k)) [0..<12]" by code_simp
    then have "(k < 2 \<longrightarrow> daysBefore ! (k + 1) \<le> 59) \<and> (2 \<le> k \<longrightarrow> 59 \<le> daysBefore ! k)"
      using k(1) by (simp add: list_all_iff)
    then show ?thesis using k(2,3) by linarith
  qed
  with k table(4,5) [of True] show "yday < 59 \<Longrightarrow> in_year True (month_and_day yday) yday"
      "59 \<le> yday \<Longrightarrow> in_year True (month_and_day yday) (yday + 1)"
    by (auto simp: in_year_def)
qed

text \<open>
  The date of a day is a date of the calendar, and the days from the start of 1970 to it are as many
  as the days that were given.
\<close>

lemma absDate_exact: "valid_date (absDate days) \<and> day_number (absDate days) = int days - 106751991073094"
proof -
  obtain y yday where y: "absYear days = (y, yday)" by fastforce
  let ?year = "int y + absoluteZeroYear"
  obtain a b c e where p: "y = 400 * a + 100 * b + 4 * c + e" "days = 146097 * a + 36524 * b + 1461 * c + 365 * e + yday"
      "b \<le> 3" "c \<le> 24" "e \<le> 3" "yday \<le> 365" "yday = 365 \<longrightarrow> e = 3 \<and> (c = 24 \<longrightarrow> b = 3)"
    by (rule absYear_parts [OF y])
  note year = year_of_parts [OF p(1,3-5)]
  have long: "yday = 365 \<Longrightarrow> isLeap ?year" using p(7) year(1) by blast
  have "\<exists>md. absDate days = (?year, md) \<and> in_year (isLeap ?year) md yday"
  proof (cases "isLeap ?year")
    case False
    then have "yday < 365" using long p(6) by fastforce
    with False show ?thesis using month_in_year(1) [of yday] by (simp only: absDate_def y Let_def split) simp
  next
    case leap: True
    consider "yday < 59" | "yday = 59" | "59 < yday" by linarith
    then show ?thesis
    proof cases
      case 1
      with leap show ?thesis using month_in_year(2) [of yday] by (simp only: absDate_def y Let_def split) simp
    next
      case 2
      with leap show ?thesis by (simp add: absDate_def y Let_def in_year_def month_length_def upt_rec)
    next
      case 3
      with leap p(6) show ?thesis using month_in_year(3) [of "yday - 1"] by (simp only: absDate_def y Let_def split) simp
    qed
  qed
  then obtain month day where md: "absDate days = (?year, month, day)" "in_year (isLeap ?year) (month, day) yday"
    by fastforce
  moreover have "day_number (?year, month, day) = 365 * (?year - 1970) + (leaps_until (?year - 1) - leaps_until 1969) + int yday"
    using md(2) by (simp add: day_number_def in_year_def)
  moreover have "leaps_until 1969 = 477" by (simp add: leaps_until_def)
  ultimately show ?thesis
    using p(1,2) year(2) by (simp add: valid_date_def in_year_def absoluteZeroYear_def)
qed

lemma abs_seconds_exact:
  assumes "- 9223372028715321600 \<le> sec" and "sec < 2 ^ 63"
  shows "int (abs_seconds sec) = sec + unixToAbsolute"
  using assms by (simp add: abs_seconds_def unixToAbsolute_def)

text \<open>
  The text of a time: the digits of a date and a time of day, which are as many seconds and
  microseconds after the start of 1970 as was given. This holds for all 64-bit numbers of seconds but
  the lowest, which lie before the first year of the package.
\<close>

theorem FormatTime_exact:
  assumes "- 9223372028715321600 \<le> sec" and "sec < 2 ^ 63"
  obtains year month day h mi s where
    "FormatTime separator zone sec nsec = appendInt year 4 @ ''-'' @ zero_padded 2 month @ ''-'' @ zero_padded 2 day @ separator @
       zero_padded 2 h @ '':'' @ zero_padded 2 mi @ '':'' @ zero_padded 2 s @ ''.'' @ zero_padded 6 (nsec div 1000) @ zone"
    "valid_date (year, month, day)" "h < 24" "mi < 60" "s < 60"
    "sec = 86400 * day_number (year, month, day) + int (3600 * h + 60 * mi + s)"
proof -
  define q r where "q = abs_seconds sec div 86400" and "r = abs_seconds sec mod 86400"
  define h mi s where "h = r div 3600" and "mi = r mod 3600 div 60" and "s = r mod 60"
  have qr: "abs_seconds sec = 86400 * q + r" "r < 86400" by (simp_all add: q_def r_def)
  have "r mod 3600 mod 60 = s" unfolding s_def by (rule mod_mod_cancel) simp
  then have r: "r = 3600 * h + 60 * mi + s"
    using mult_div_mod_eq [of 3600 r] mult_div_mod_eq [of 60 "r mod 3600"] unfolding h_def mi_def by linarith
  have bounds: "h < 24" "mi < 60" "s < 60"
    using qr(2) unfolding h_def mi_def s_def by (simp_all add: less_mult_imp_div_less)
  obtain year month day where d: "absDate q = (year, month, day)" by (cases "absDate q")
  have v: "valid_date (year, month, day)" "day_number (year, month, day) = int q - 106751991073094"
    using absDate_exact [of q] d by simp_all
  have "int (86400 * q + r) = sec + unixToAbsolute" using abs_seconds_exact [OF assms] unfolding qr(1) .
  then have "sec = 86400 * day_number (year, month, day) + int (3600 * h + 60 * mi + s)"
    unfolding v(2) r by (simp add: unixToAbsolute_def)
  moreover have "FormatTime separator zone sec nsec = appendInt year 4 @ ''-'' @ zero_padded 2 month @ ''-'' @ zero_padded 2 day @ separator @
       zero_padded 2 h @ '':'' @ zero_padded 2 mi @ '':'' @ zero_padded 2 s @ ''.'' @ zero_padded 6 (nsec div 1000) @ zone"
    by (simp only: FormatTime_def Let_def q_def [symmetric] r_def [symmetric] h_def [symmetric] mi_def [symmetric]
        s_def [symmetric] d split)
  ultimately show ?thesis using v(1) bounds by (intro that)
qed


section \<open>From a float to a date\<close>

lemma ParseUint_zeros: "ParseUint_loop 0 (replicate n (CHR ''0'') @ s) = ParseUint_loop 0 s"
  by (induction n) (simp_all add: is_digit_def digit_of_def maxUint64_def)

lemma ParseUint_padded: "n \<le> maxUint64 \<Longrightarrow> ParseUint_loop 0 (zero_padded w n) = Inr n"
  by (simp add: zero_padded_def Let_def ParseUint_zeros ParseUint_FormatUint)

lemma ParseUint_000:
  assumes "ParseUint_loop 0 s = Inr n" and "1000 * n \<le> maxUint64"
  shows "ParseUint_loop 0 (s @ ''000'') = Inr (1000 * n)"
proof -
  have zero: "is_digit (CHR ''0'')" "digit_of (CHR ''0'') = 0" by (simp_all add: is_digit_def digit_of_def)
  have "ParseUint_loop 0 (s @ ''0'') = Inr (10 * n)"
    using ParseUint_loop_snoc [OF assms(1) zero(1)] assms(2) zero(2) by simp
  from ParseUint_loop_snoc [OF this zero(1)] have "ParseUint_loop 0 (s @ ''00'') = Inr (100 * n)"
    using assms(2) zero(2) by simp
  from ParseUint_loop_snoc [OF this zero(1)] show ?thesis using assms(2) zero(2) by simp
qed

lemma padded_digits: "c \<in> set (zero_padded w n) \<Longrightarrow> is_digit c"
  by (auto simp: zero_padded_def Let_def FormatUint_digits is_digit_def [of "CHR ''0''"])

lemma padded_not_Nil [simp]: "zero_padded w n \<noteq> []"
  by (simp add: zero_padded_def Let_def)

lemma Atoi_nanoseconds:
  assumes "n < 10 ^ 6"
  shows "Atoi (zero_padded 6 n @ ''000'') = (int (1000 * n), None)"
proof -
  have "ParseUint_loop 0 (zero_padded 6 n @ ''000'') = Inr (1000 * n)"
    using assms by (intro ParseUint_000 ParseUint_padded) (simp_all add: maxUint64_def)
  moreover have "Atoi_sign (zero_padded 6 n @ ''000'') = (False, zero_padded 6 n @ ''000'')"
    by (rule Atoi_sign_digits) (simp_all add: padded_digits [of _ 6 n])
  ultimately show ?thesis using assms by (simp add: Atoi_def ParseUint_def)
qed

lemma Atoi_negative:
  assumes "n < 2 ^ 63"
  shows "Atoi (CHR ''-'' # FormatUint n) = (- int n, None)"
proof -
  have "ParseUint_loop 0 (FormatUint n) = Inr n" using assms by (intro ParseUint_FormatUint) (simp add: maxUint64_def)
  then show ?thesis using assms by (simp add: Atoi_def Atoi_sign_def ParseUint_def)
qed

text \<open>
  The text of a finite float is cut into its seconds, with the sign, and its microseconds, without.
\<close>

theorem timestamp_parts:
  assumes "millionths m e = u" and "u div 10 ^ 6 < 2 ^ 63"
  shows "GetDateTimeFromTimestamp (Finite neg m e) =
    Ret (FormatUTC (if neg then - int (u div 10 ^ 6) else int (u div 10 ^ 6)) (1000 * (u mod 10 ^ 6)))"
proof -
  let ?sec = "(if neg then ''-'' else []) @ FormatUint (u div 10 ^ 6)" and ?us = "zero_padded 6 (u mod 10 ^ 6)"
  have dot: "\<not> is_digit (CHR ''.'')" by (simp add: is_digit_def)
  then have "CHR ''.'' \<notin> set ?sec" "CHR ''.'' \<notin> set ?us" using FormatUint_digits padded_digits by fastforce+
  then have "Split (Sprintf_6f (Finite neg m e)) (CHR ''.'') = [?sec, ?us]"
    using assms(1) Split_append [of ?sec "CHR ''.''" ?us] by (simp add: Sprintf_6f_def Let_def Split_no_sep)
  moreover have "fst (Atoi ?sec) = (if neg then - int (u div 10 ^ 6) else int (u div 10 ^ 6))"
    using Atoi_negative [OF assms(2)] Atoi_FormatUint [OF assms(2)] by simp
  moreover have "nat (fst (Atoi (?us @ ''000''))) = 1000 * (u mod 10 ^ 6)"
    by (subst Atoi_nanoseconds) (simp_all only: fst_conv nat_int mod_less_divisor zero_less_power zero_less_numeral)
  ultimately show ?thesis by (simp add: GetDateTimeFromTimestamp_def Let_def)
qed

text \<open>
  So a timestamp from 1970 on gives its date. Before 1970 the microseconds are added to the seconds
  rather than taken from them: the date is late by twice the fraction, as for half a second before
  1970, which is printed as half a second after.
\<close>

theorem timestamp_fraction_added:
  assumes "millionths m e = u" and "u div 10 ^ 6 < 2 ^ 63"
  obtains sec where "GetDateTimeFromTimestamp (Finite neg m e) = Ret (FormatUTC sec (1000 * (u mod 10 ^ 6)))"
    "sec * 10 ^ 6 + int (u mod 10 ^ 6) = (if neg then - int u + 2 * int (u mod 10 ^ 6) else int u)"
proof
  show "GetDateTimeFromTimestamp (Finite neg m e) =
      Ret (FormatUTC (if neg then - int (u div 10 ^ 6) else int (u div 10 ^ 6)) (1000 * (u mod 10 ^ 6)))"
    by (rule timestamp_parts [OF assms])
  define q r where "q = u div 10 ^ 6" and "r = u mod 10 ^ 6"
  have "u = q * 10 ^ 6 + r" by (simp only: q_def r_def div_mult_mod_eq)
  then show "(if neg then - int (u div 10 ^ 6) else int (u div 10 ^ 6)) * 10 ^ 6 + int (u mod 10 ^ 6) =
      (if neg then - int u + 2 * int (u mod 10 ^ 6) else int u)"
    unfolding q_def [symmetric] r_def [symmetric] by simp
qed

lemma half_a_second_before_1970:
  "GetDateTimeFromTimestamp (Finite True 1 (-1)) = GetDateTimeFromTimestamp (Finite False 1 (-1))"
proof -
  have "millionths 1 (-1) = 500000" by (simp add: millionths_def round_half_even_def)
  from timestamp_parts [OF this] show ?thesis by simp
qed

text \<open>A timestamp that is no number has no point in its text, and the access to the second part panics.\<close>

lemma timestamp_not_finite:
  "x = NaN \<or> x = Inf neg \<Longrightarrow> GetDateTimeFromTimestamp x = Stop (Panic ''index out of range [1] with length 1'')"
  by (auto simp: GetDateTimeFromTimestamp_def Sprintf_6f_def)

text \<open>The first day of 1970, and a leap day\<close>

lemma known_dates: "absDate 106751991073094 = (1970, 1, 1)" "absDate 106751991084110 = (2000, 2, 29)"
proof -
  have div: "106751991073094 div 146097 = (730692560 :: nat)" "106751991084110 div 146097 = (730692560 :: nat)" by simp_all
  have "absYear 106751991073094 = (292277024369, 0)" "absYear 106751991084110 = (292277024399, 59)"
    unfolding absYear_def Let_def div by simp_all
  moreover have "isLeap 2000" "\<not> isLeap 1970" by (simp_all add: isLeap_def)
  ultimately show "absDate 106751991073094 = (1970, 1, 1)" "absDate 106751991084110 = (2000, 2, 29)"
    by (simp_all add: absDate_def absoluteZeroYear_def month_and_day_def daysBefore_def)
qed

end
