(* ===== verification/Logger.thy ===== *)
theory Logger
  imports Timestamps
begin

text \<open>
  The package \<open>src/log\<close>: the logger both programs set up before \<open>main\<close> and the six functions that write
  with it. The library \<open>zap\<close> is the parameter \<open>zap\<close>; what it documents of loggers that write to a
  console is \<open>zap_documented\<close>. The state is the variable of the package and the lines written so far.
\<close>


section \<open>The library\<close>

text \<open>The levels the package uses, and their names in capitals\<close>

datatype log_level = DebugLevel | InfoLevel | ErrorLevel

primrec severity :: "log_level \<Rightarrow> int" where
  "severity DebugLevel = -1"
| "severity InfoLevel = 0"
| "severity ErrorLevel = 2"

primrec level_name :: "log_level \<Rightarrow> string" where
  "level_name DebugLevel = ''DEBUG''"
| "level_name InfoLevel = ''INFO''"
| "level_name ErrorLevel = ''ERROR''"

text \<open>A time: seconds since 1970, nanoseconds, and the offset of its zone in seconds\<close>

type_synonym log_time = "int \<times> nat \<times> int"

record ('c, 'l, 'a) zap =
  z_Unmarshal :: "string \<Rightarrow> go_error + 'c"
  z_EncodeTime :: "(log_time \<Rightarrow> string) \<Rightarrow> 'c \<Rightarrow> 'c"
  z_SetLevel :: "log_level \<Rightarrow> 'c \<Rightarrow> 'c"
  z_Build :: "'c \<Rightarrow> go_error + 'l"
  z_message :: "string \<Rightarrow> 'a list \<Rightarrow> string"  \<comment> \<open>template and arguments\<close>
  z_write :: "'l \<Rightarrow> log_level \<Rightarrow> string \<Rightarrow> log_time \<Rightarrow> string list"  \<comment> \<open>lines for an entry\<close>


section \<open>The package\<close>

record 'l logging =
  zapLogger :: "'l option"
  lg_lines :: "string list"

definition customTimeEncoder :: "log_time \<Rightarrow> string" where
  "customTimeEncoder = (\<lambda>(sec, nsec, offset). FormatTime '' '' [] (sec + offset) nsec)"

definition config_line :: "nat \<Rightarrow> string \<Rightarrow> string" where
  "config_line n s = replicate n (CHR 0x09) @ s @ [CHR 0x0A]"

definition defaultConfig :: string where
  "defaultConfig = concat
     [config_line 0 ''{'',
      config_line 2 ''\"level\": \"debug\",'',
      config_line 2 ''\"encoding\": \"console\",'',
      config_line 2 ''\"outputPaths\": [\"stdout\"],'',
      config_line 2 ''\"encoderConfig\": {'',
      config_line 3 ''\"messageKey\": \"message\",'',
      config_line 3 ''\"levelKey\": \"level\",'',
      config_line 3 ''\"nameKey\": \"logger\",'',
      config_line 3 ''\"timeKey\": \"time\",'',
      config_line 3 ''\"callerKey\": \"logger\",'',
      config_line 3 ''\"stacktraceKey\": \"stacktrace\",'',
      config_line 3 ''\"callstackKey\": \"callstack\",'',
      config_line 3 ''\"errorKey\": \"error\",'',
      config_line 3 ''\"levelEncoder\": \"capitalColor\",'',
      config_line 3 ''\"durationEncoder\": \"second\",'',
      config_line 3 ''\"sampling\": {'',
      config_line 4 ''\"initial\": \"3\",'',
      config_line 4 ''\"thereafter\": \"10\"'',
      config_line 3 ''}'',
      config_line 2 ''}'',
      [CHR 0x09] @ ''}'']"

definition initLogger :: "('c, 'l, 'a) zap \<Rightarrow> ('l logging, unit) prog" where
  "initLogger z =
     (case z_Unmarshal z defaultConfig of
        Inl err \<Rightarrow> stop_with (Panic err)
      | Inr config \<Rightarrow>
          (let config = z_EncodeTime z customTimeEncoder config; config = z_SetLevel z DebugLevel config in
           case z_Build z config of
             Inl err \<Rightarrow> stop_with (Panic err)
           | Inr logger \<Rightarrow> modify (\<lambda>s. s\<lparr>zapLogger := Some logger\<rparr>)))"

text \<open>A method of the logger: it dereferences the variable.\<close>

definition log_entry :: "('c, 'l, 'a) zap \<Rightarrow> log_level \<Rightarrow> log_time \<Rightarrow> string \<Rightarrow> ('l logging, unit) prog" where
  "log_entry z level now message =
     andThen (reads zapLogger) (\<lambda>logger.
       case logger of
         None \<Rightarrow> stop_with (Panic ''invalid memory address or nil pointer dereference'')
       | Some l \<Rightarrow> modify (\<lambda>s. s\<lparr>lg_lines := lg_lines s @ z_write z l level message now\<rparr>))"

definition Print :: "('c, 'l, 'a) zap \<Rightarrow> log_time \<Rightarrow> string \<Rightarrow> ('l logging, unit) prog" where
  "Print z now message = log_entry z InfoLevel now message"

definition Printf :: "('c, 'l, 'a) zap \<Rightarrow> log_time \<Rightarrow> string \<Rightarrow> 'a list \<Rightarrow> ('l logging, unit) prog" where
  "Printf z now message args = log_entry z InfoLevel now (z_message z message args)"

definition Debug :: "('c, 'l, 'a) zap \<Rightarrow> log_time \<Rightarrow> string \<Rightarrow> ('l logging, unit) prog" where
  "Debug z now message = log_entry z DebugLevel now message"

definition Debugf :: "('c, 'l, 'a) zap \<Rightarrow> log_time \<Rightarrow> string \<Rightarrow> 'a list \<Rightarrow> ('l logging, unit) prog" where
  "Debugf z now message args = log_entry z DebugLevel now (z_message z message args)"

definition Err :: "('c, 'l, 'a) zap \<Rightarrow> log_time \<Rightarrow> string \<Rightarrow> ('l logging, unit) prog" where
  "Err z now message = log_entry z ErrorLevel now message"

definition Errf :: "('c, 'l, 'a) zap \<Rightarrow> log_time \<Rightarrow> string \<Rightarrow> 'a list \<Rightarrow> ('l logging, unit) prog" where
  "Errf z now message args = log_entry z ErrorLevel now (z_message z message args)"


section \<open>What the library documents\<close>

text \<open>
  A logger writes one line for an entry whose level is at least the level of the logger and nothing
  for others; the console encoding begins a line with the time as \<open>EncodeTime\<close> gives it, and the name of
  the level and the message follow. \<open>console\<close> are the configurations with that encoding and with keys for
  time, level and message; the configuration of the package is one.
\<close>

definition console_line :: "string \<Rightarrow> log_level \<Rightarrow> string \<Rightarrow> string \<Rightarrow> bool" where
  "console_line time level message line \<longleftrightarrow>
     (\<exists>a b rest. line = time @ a @ level_name level @ b @ message @ rest)"

definition zap_documented :: "('c \<Rightarrow> bool) \<Rightarrow> ('c, 'l, 'a) zap \<Rightarrow> bool" where
  "zap_documented console z \<longleftrightarrow>
     (\<forall>c. z_Unmarshal z defaultConfig = Inr c \<longrightarrow> console c) \<and>
     (\<forall>c enc least l level message now.
        console c \<and> z_Build z (z_SetLevel z least (z_EncodeTime z enc c)) = Inr l \<longrightarrow>
        (if severity least \<le> severity level
         then (\<exists>line. z_write z l level message now = [line] \<and> console_line (enc now) level message line)
         else z_write z l level message now = []))"


section \<open>Sequences of calls\<close>

datatype 'a log_call =
    CPrint string | CPrintf string "'a list" | CDebug string | CDebugf string "'a list"
  | CErr string | CErrf string "'a list"

fun run_call :: "('c, 'l, 'a) zap \<Rightarrow> log_time \<Rightarrow> 'a log_call \<Rightarrow> ('l logging, unit) prog" where
  "run_call z now (CPrint message) = Print z now message"
| "run_call z now (CPrintf message args) = Printf z now message args"
| "run_call z now (CDebug message) = Debug z now message"
| "run_call z now (CDebugf message args) = Debugf z now message args"
| "run_call z now (CErr message) = Err z now message"
| "run_call z now (CErrf message args) = Errf z now message args"

fun log_calls :: "('c, 'l, 'a) zap \<Rightarrow> (log_time \<times> 'a log_call) list \<Rightarrow> ('l logging, unit) prog" where
  "log_calls z [] = ret ()"
| "log_calls z ((now, call) # calls) = andThen (run_call z now call) (\<lambda>_. log_calls z calls)"

fun call_level :: "'a log_call \<Rightarrow> log_level" where
  "call_level (CPrint _) = InfoLevel"
| "call_level (CPrintf _ _) = InfoLevel"
| "call_level (CDebug _) = DebugLevel"
| "call_level (CDebugf _ _) = DebugLevel"
| "call_level (CErr _) = ErrorLevel"
| "call_level (CErrf _ _) = ErrorLevel"

fun call_text :: "('c, 'l, 'a) zap \<Rightarrow> 'a log_call \<Rightarrow> string" where
  "call_text z (CPrint message) = message"
| "call_text z (CPrintf message args) = z_message z message args"
| "call_text z (CDebug message) = message"
| "call_text z (CDebugf message args) = z_message z message args"
| "call_text z (CErr message) = message"
| "call_text z (CErrf message args) = z_message z message args"

lemma run_call_entry: "run_call z now call = log_entry z (call_level call) now (call_text z call)"
  by (cases call) (simp_all add: Print_def Printf_def Debug_def Debugf_def Err_def Errf_def)

lemma severity_debug_least: "severity DebugLevel \<le> severity level"
  by (cases level) simp_all

lemma initLogger_returns:
  "fst (initLogger z s) = Ret () \<longleftrightarrow>
     (\<exists>c l. z_Unmarshal z defaultConfig = Inr c \<and>
        z_Build z (z_SetLevel z DebugLevel (z_EncodeTime z customTimeEncoder c)) = Inr l \<and>
        snd (initLogger z s) = s\<lparr>zapLogger := Some l\<rparr>)"
  by (auto simp: initLogger_def Let_def stop_with_def modify_def split: sum.splits)

lemma log_before_init:
  "zapLogger s = None \<Longrightarrow>
     run_call z now call s = (Stop (Panic ''invalid memory address or nil pointer dereference''), s)"
  by (simp add: run_call_entry log_entry_def andThen_def reads_def stop_with_def)

text \<open>
  Once the logger is set up no call of the package fails, and every call, debug messages included, writes one
  line, in the order of the calls: the time as \<open>customTimeEncoder\<close> prints it, the level and the message.
\<close>

theorem every_call_is_logged:
  assumes "zap_documented console z" and "initLogger z s = (Ret (), s')"
  shows "\<exists>lines t. log_calls z calls s' = (Ret (), t) \<and> lg_lines t = lg_lines s @ lines \<and>
    list_all2 (\<lambda>(now, call). console_line (customTimeEncoder now) (call_level call) (call_text z call)) calls lines"
proof -
  obtain c l where c: "z_Unmarshal z defaultConfig = Inr c"
      "z_Build z (z_SetLevel z DebugLevel (z_EncodeTime z customTimeEncoder c)) = Inr l" "s' = s\<lparr>zapLogger := Some l\<rparr>"
    using initLogger_returns [of z s] assms(2) by auto
  have writes: "\<exists>line. z_write z l level message now = [line] \<and> console_line (customTimeEncoder now) level message line"
    for level message now
  proof -
    have "console c" using assms(1) c(1) unfolding zap_documented_def by blast
    with assms(1) c(2) have "if severity DebugLevel \<le> severity level
        then \<exists>line. z_write z l level message now = [line] \<and> console_line (customTimeEncoder now) level message line
        else z_write z l level message now = []"
      unfolding zap_documented_def by blast
    then show ?thesis by (simp only: severity_debug_least if_True)
  qed
  have "\<exists>lines t. log_calls z calls u = (Ret (), t) \<and> lg_lines t = lg_lines u @ lines \<and>
      list_all2 (\<lambda>(now, call). console_line (customTimeEncoder now) (call_level call) (call_text z call)) calls lines"
    if "zapLogger u = Some l" for u
    using that
  proof (induction calls arbitrary: u)
    case Nil
    then show ?case by (simp add: ret_def)
  next
    case (Cons p calls)
    obtain now call where p: "p = (now, call)" by (cases p)
    obtain line where line: "z_write z l (call_level call) (call_text z call) now = [line]"
        "console_line (customTimeEncoder now) (call_level call) (call_text z call) line"
      using writes by blast
    let ?u = "u\<lparr>lg_lines := lg_lines u @ [line]\<rparr>"
    obtain lines t where "log_calls z calls ?u = (Ret (), t)" "lg_lines t = lg_lines ?u @ lines"
        "list_all2 (\<lambda>(now, call). console_line (customTimeEncoder now) (call_level call) (call_text z call)) calls lines"
      using Cons.IH [of ?u] Cons.prems by auto
    then show ?case
      using Cons.prems line
      by (intro exI [of _ "line # lines"] exI [of _ t])
        (simp add: p run_call_entry log_entry_def andThen_def reads_def modify_def)
  qed
  from this [of s'] show ?thesis by (simp add: c(3))
qed

text \<open>A library that behaves as documented, and the lines of a start of the service\<close>

definition demo_zap :: "(log_level \<times> (log_time \<Rightarrow> string), log_level \<times> (log_time \<Rightarrow> string), string) zap" where
  "demo_zap =
     \<lparr>z_Unmarshal = (\<lambda>text. if text = defaultConfig then Inr (InfoLevel, \<lambda>_. []) else Inl ''unexpected input''),
      z_EncodeTime = (\<lambda>enc (level, _). (level, enc)), z_SetLevel = (\<lambda>level (_, enc). (level, enc)),
      z_Build = Inr, z_message = (\<lambda>template args. template @ concat args),
      z_write = (\<lambda>(least, enc) level message now.
        if severity least \<le> severity level then [enc now @ [CHR 0x09] @ level_name level @ [CHR 0x09] @ message] else [])\<rparr>"

lemma demo_zap_documented: "zap_documented (\<lambda>_. True) demo_zap"
proof -
  have "console_line time level message (time @ [CHR 0x09] @ level_name level @ [CHR 0x09] @ message)" for time level message
    unfolding console_line_def
    by (rule exI [of _ "[CHR 0x09]"], rule exI [of _ "[CHR 0x09]"], rule exI [of _ "[]"]) simp
  then show ?thesis by (auto simp: zap_documented_def demo_zap_def)
qed

lemma demo_log:
  "map_prod id lg_lines (andThen (initLogger demo_zap) (\<lambda>_. log_calls demo_zap
     [((0, 5000, 3600), CPrint ''Started''), ((1, 0, 3600), CDebugf ''Port '' [''40400''])])
     \<lparr>zapLogger = None, lg_lines = []\<rparr>) =
   (Ret (), [''1970-01-01 01:00:00.000005'' @ [CHR 0x09] @ ''INFO'' @ [CHR 0x09] @ ''Started'',
     ''1970-01-01 01:00:01.000000'' @ [CHR 0x09] @ ''DEBUG'' @ [CHR 0x09] @ ''Port 40400''])"
proof -
  have seconds: "abs_seconds (0 + 3600) = 9223372028715325200" "abs_seconds (1 + 3600) = 9223372028715325201"
    by (simp_all add: abs_seconds_def unixToAbsolute_def)
  have days: "9223372028715325200 div 86400 = (106751991073094 :: nat)" "9223372028715325201 div 86400 = (106751991073094 :: nat)"
    "9223372028715325200 mod 86400 = (3600 :: nat)" "9223372028715325201 mod 86400 = (3601 :: nat)" by simp_all
  have digits: "appendInt 1970 4 = ''1970''" "zero_padded 2 1 = ''01''" "zero_padded 2 0 = ''00''"
    "zero_padded 6 5 = ''000005''" "zero_padded 6 0 = ''000000''" by code_simp+
  have time: "customTimeEncoder (0, 5000, 3600) = ''1970-01-01 01:00:00.000005''"
    "customTimeEncoder (1, 0, 3600) = ''1970-01-01 01:00:01.000000''"
    unfolding customTimeEncoder_def FormatTime_def seconds Let_def prod.case days known_dates by (simp_all add: digits [simplified])
  then show ?thesis
    by (simp add: initLogger_def demo_zap_def andThen_def modify_def ret_def reads_def log_entry_def run_call_entry)
qed

end
