(* ===== verification/Spec2Isabelle.thy ===== *)
theory Spec2Isabelle
  imports Policy_Watch Service_Process Lease Deep_Copy Watch_Rounds Managers Api_Schema Policy_Wire Logger
begin

text \<open>
  A verification development for KVMService (\<open>kubearmor/kvm-service\<close>), which extends KubeArmor
  to virtual machines and bare-metal hosts outside a Kubernetes cluster (external workloads).


  \<^bold>\<open>The program.\<close> Two processes share an etcd server and watch the Kubernetes API.

  The \<^emph>\<open>operator\<close> (\<open>src/operator\<close>) watches the custom resource \<open>KubeArmorExternalWorkload\<close>. For
  each workload it draws a 16-bit identity, and it keeps four maps, in memory and in etcd: name
  to identity, identity to name, identity to label, and label to identities.

  The \<^emph>\<open>service\<close> (\<open>src/service\<close>) watches \<open>KubeArmorHostPolicy\<close>. For each policy event it reads the
  label map from etcd and sends the event, once per identity of each label of the selector, to
  a channel. The gRPC handlers serve the agents on the workloads: an agent registers with its
  identity, opens a stream, and the stream receives from the channel and hands policies over. A
  request of the command line tool returns an installation script with the identity of a
  workload. When a connection ends, the service cleans up etcd.

  Two controllers (\<open>pkg\<close>) validate the resources; a policy they mark as not OK is skipped by the
  watch loops.


  \<^bold>\<open>The theories.\<close>

    \<^item> \<open>KVM_Prelude\<close>: programs as state transformers that return or stop (\<open>log.Fatal\<close>, panic, waiting
      for ever, draws used up), total and partial correctness rules for them (\<open>wp\<close>, \<open>wlp\<close>), the
      rules \<open>keeps\<close> and \<open>never_blocks\<close>, Go maps with an arbitrary iteration order, and the interfaces
      \<open>codec\<close> and \<open>event_handler\<close>.
    \<^item> \<open>Go_Stdlib\<close>: the parts of the Go library the programs use (\<open>strconv\<close>, \<open>strings.Split\<close>, JSON of
      lists of identities), with round trips.
    \<^item> \<open>Constants\<close>: the key spaces of etcd; no key of one begins with the prefix of another.
    \<^item> \<open>Etcd_Client\<close>: \<open>src/etcd/etcdClient.go\<close> over a parameter for the client library. The locale
      \<open>etcd_server\<close> states the documented behaviour of etcd, \<open>kv_client\<close> what the wrapper promises
      to the rest of the program; the sublocale between them is the proof that the wrapper keeps
      the promise. A server in memory interprets \<open>etcd_server\<close>, and all concrete runs use it.
    \<^item> \<open>Types\<close>, \<open>Json_Codec\<close>: the structures of \<open>src/types/types.go\<close>, their JSON, and \<open>Clone\<close>.
      \<open>Go_Json\<close>: the rules of \<open>encoding/json\<close> for any structure, by a description of its type;
      \<open>Data_Types\<close>: all structures of \<open>types.go\<close> as such descriptions; \<open>Api_Json\<close>, \<open>Json_Compat\<close>: those of the
      API types, and what one structure reads of what another writes; \<open>Record_Json\<close>: the records as
      values. \<open>Json_Text\<close>: the text of JSON, with UTF-8 and escapes, shown to be read back;
      \<open>Json_Stream\<close>: both levels together, and the loop that reads one value after the other from a
      response. \<open>Policy_Wire\<close>: JSON from the API server through the service to the agents. The locales
      \<open>ext_json\<close> and \<open>ext_text\<close> are the interface to types of other packages.
    \<^item> \<open>Common\<close>: \<open>src/common/common.go\<close>.
    \<^item> \<open>Identity_List\<close>: the loop that takes an identity out of a slice while it ranges over it, at the
      level of the array behind the slice; it occurs in the operator and in the service.
    \<^item> \<open>Operator\<close>: \<open>crdHandler.go\<close> and \<open>kvmOperator.go\<close> of \<open>src/operator/core\<close>. \<open>Operator_Spec\<close> has the
      abstract state and operations and the refinement; \<open>Operator_Props\<close> the invariant, carried
      over all watch rounds through \<open>event_handler\<close>, and the lock; \<open>Operator_Theorems\<close> the properties.
    \<^item> \<open>Service\<close>: \<open>kvmService.go\<close> and \<open>kvmsUpdate.go\<close> of \<open>src/service/core\<close>.
    \<^item> \<open>Genscript\<close>: \<open>src/service/genscript/genscript.go\<close>.
    \<^item> \<open>Server\<close>: the handlers of \<open>src/service/server\<close> that are sequential. \<open>Policy_Stream\<close>: \<open>SendPolicy\<close>
      with its goroutines and the shared channel, as a step relation with reachable states.
    \<^item> \<open>Host_Policy\<close>: the API types, validation and reconcilers of \<open>pkg\<close>. \<open>Go_Regexp\<close>, \<open>Api_Schema\<close>: the
      patterns, bounds and enumerations of the API types, over a matcher for regular expressions, and
      what they accept together with the validation. \<open>Managers\<close>: the entry points of
      the controllers, over a parameter for the controller runtime.
    \<^item> \<open>K8s_Handler\<close>: \<open>k8sHandler.go\<close> of the service. \<open>Watch_Rounds\<close>: the operator's copy of that file,
      shown equal to it, and one round of the watch loops on top of both. \<open>Daemon\<close>: start-up of both
      programs. \<open>Lifecycle\<close>: the service process from its start to the signal that ends it, as a step
      relation around the channel \<open>PolicyChan\<close>, with \<open>InitServer\<close> and \<open>DestroyKVMS\<close>. \<open>Service_Process\<close>: the
      streams and the life of the process in one step relation, with both as its projections.
    \<^item> \<open>Host_Commands\<close>: the helpers of \<open>common.go\<close> that run commands. \<open>Timestamps\<close>: those that print dates,
      with Go's calendar shown to count days. \<open>Logger\<close>: \<open>src/log\<close>, over a parameter for the library \<open>zap\<close>.
    \<^item> \<open>Go_Heap\<close>: Go values in memory (slices as windows on arrays, maps and pointers as addresses), their
      types, deep values and the memory they reach, and what it means to copy deeply. \<open>Deep_Copy\<close>: the
      generated copy functions of both controllers, one definition per function.
    \<^item> \<open>System\<close>: what the operator leaves in etcd, as the service reads it.
    \<^item> \<open>Etcd_Threads\<close>: code cut at its calls of etcd, as trees of calls, and pools of such threads that
      take turns. \<open>Interleaving\<close>: the handlers of the service and the labelling step of the operator as
      threads, shown to be the sequential definitions when they run alone, and the properties of their
      interleavings. \<open>Memory_Threads\<close>: threads that carry the memory of their process along, with the
      locale \<open>process_memory\<close>, which both programs interpret. \<open>Operator_Threads\<close>: the event handlers of the
      operator as such threads. \<open>Rely_Guarantee\<close>: rules for a thread among others that keep a promise.
      \<open>Policy_Watch\<close>: the handling of host policies as a thread beside the operator and the requests.
      \<open>Lease\<close>: a locale that adds leases and their expiry to \<open>etcd_server\<close>.
    \<^item> This theory has the properties that span both programs.


  \<^bold>\<open>State and effects.\<close> The state of a process is a record with the fields of its Go structure; a
  further field is the state of the etcd server, of an arbitrary type, which outlives the process
  when it stops. What the code cannot control is an argument: the order of a \<open>range\<close> over a map,
  random numbers, answers of the operating system, the Kubernetes API and etcd. Machine integers
  that are stored are words of their width. Endless loops take the list of the rounds that are
  observed, and a loop that draws random numbers takes the list of draws; a run that needs more
  draws than it is given ends with \<open>Starved\<close>, and that enough draws give a result is a theorem. The
  reader of JSON text recurs at most as deep as the text is long, which is shown to be enough for
  every text the writer makes. No other bound is used. Goroutines are step relations: \<open>stream_step\<close> for the streams,
  \<open>life_step\<close> for the channel, \<open>process_step\<close> for both together, \<open>pool_step\<close> for handlers that interleave at their etcd calls.

  \<^bold>\<open>What is shown.\<close>

    \<^item> Operator: identities are unique and etcd mirrors the lists, for all event sequences (C1, C2);
      each operation refines its specification and returns while etcd is up (C10, C12, C13).
    \<^item> From operator to service: policies reach an added workload (C3), scripts and registrations
      work for it (C6, C7); what reconnection, deletion, shutdown and labels with a slash do
      (C18, C35, C36, C39, C32).
    \<^item> Service: targets of a policy (C4), registration (C37), clean-up (C8), the address and port in
      scripts (C40), the copy of a policy (C38).
    \<^item> JSON: every structure survives it (C34), and host policies survive the way from the API server
      through the service to the agents (C33).
    \<^item> Interleavings at etcd: the threads are the handlers (C23), every pool of requests ends (C24),
      the service cannot influence the operator nor the keys of its own (C15), the policy watch comes
      to its end whatever the operator and the requests do (C17), concurrent registrations of different
      identities succeed (C9); the same identity can be registered twice (C11) and a label update can
      be lost (C14). Leases free the identities of a dead pod (C20).
    \<^item> Streams: conservation and addressing (C5), order with one stream (C29), losses with two (C31).
      The life of the channel: a policy that comes too early (C27), shutdown (C26). The whole process:
      it refines both (C19), and from start to end agents get only their policies (C30).
    \<^item> Kubernetes: rounds of the watch loops (C28), controllers (C21, C22), deep copies share no memory
      and keep types (C16, C25).

  The theorems state the behaviour of the code as it is. Several of them (C11, C14, C18, C26, C27,
  C31, C32, C35, C36, C39) state exactly where it falls short of what the code is meant to do.
  Further theorems of the component theories are not on this list: among them the lock of the
  operator, identities that come back after a clean-up, the end of a lone stream, empty policies at
  shutdown, the loop that removes an identity, exhausted identities, modified and repeated events,
  a missing etcd client, the refresh of labels, the exact scripts, comma expansion, addresses,
  tokens, dates, log lines, the status of workloads, and the round trip of the etcd wrapper.

  \<^bold>\<open>What is not modelled.\<close> The generated protobuf code, fractions and exponents in JSON numbers (no
  structure has a field for them), TLS settings and time-outs of HTTP clients, the build details that \<open>main\<close> prints. The calls of the
  logger are left out of the other theories, since they change no state of the programs.

  \<^bold>\<open>Open extensions.\<close> The etcd calls of the closers of streams as steps of the whole process; the
  watch of policies in the whole process down to its etcd calls.
\<close>


section \<open>From a workload to its agent\<close>

text \<open>
  C3. A workload that is added gets the policies of its label. The operator handles the \<open>ADDED\<close>
  event of a new workload with a name, and draws the identity \<open>i\<close>. A service that is started
  afterwards and is given a host policy whose selector is the label of the workload sends that
  policy to exactly the identities the operator lists for the label, and \<open>i\<close> is one of them.
\<close>

theorem policy_reaches_workload:
  assumes "etcd_server api kvs up" and "connected api up s" and "\<not> op_Locked s" and "op_inv (view kvs s)"
    and "label_map_readable (kvs (op_store s))"
    and "we_Type ev = ''ADDED''" and "accepted_status ev" and "event_name ev \<noteq> []"
    and "\<not> ContainsElement DeepEqual_workload (ExternalWorkloadSecurityPolicies s) (workload_of ev)"
    and "find (identity_free (view kvs s)) (map ucast (ch_draws ch)) = Some i"
    and "CHR ''/'' \<notin> set (event_label ch ev)"
    and "selector_labels it1 (kh_Spec (he_Object policy)) = [event_label ch ev]"
    and "st_Status (kh_Status (he_Object policy)) \<in> {[], ''OK''}" and "permuting it2"
  shows "\<exists>t u. HandleEvent (ch, ev) s = (Ret (), t) \<and>
    HandleHostEvent ((it1, it2), policy)
      (NewKVMSDaemon (Some \<lparr>etcdClient = api, leaseResponse = l\<rparr>) (op_store t) podIp port ip) = (Ret (), u) \<and>
    sv_sent u = map (addressed policy) (gm_read [] (MapLabelToIdentities t) (event_label ch ev)) \<and>
    addressed policy i \<in> set (sv_sent u)"
proof -
  let ?label = "event_label ch ev"
  let ?v = "spec_label i ?label (spec_assign i (event_name ev) (view kvs s))"
  obtain t where t: "HandleEvent (ch, ev) s = (Ret (), t)" "connected api up t" "view kvs t = ?v"
    using etcd_server.wp_event_added [OF assms(1-3,7,6,9,10)] by (auto elim!: wpE)
  have kvs: "kvs (op_store t) = v_kvs ?v" and lists: "map_of (MapLabelToIdentities t) = v_label ?v"
    using t(3) by (simp_all add: view_def [of kvs t] flip: t(3))
  have "op_inv ?v"
    by (rule added_view_inv [OF assms(4) _ assms(8)]) (use assms(10) in \<open>auto simp: find_Some_iff simp del: identity_free_view\<close>)
  moreover obtain ids where ids: "v_label ?v ?label = Some ids" "i \<in> set ids" using added_in_list by blast
  ultimately have "policy_targets (kvs (op_store t)) [?label] = ids"
    using kvs by (intro etcd_server.targets_one [OF assms(1)]) (simp add: op_inv_def mirror_ok_def)
  moreover have "label_map_readable (kvs (op_store t))"
    unfolding kvs by (rule added_readable) (use assms(5,11) in \<open>simp_all add: view_def\<close>)
  moreover have "up (op_store t)" using t(2) by (simp add: connected_def)
  ultimately have "wp (HandleHostEvent ((it1, it2), policy)) (\<lambda>_ u. sv_sent u = map (addressed policy) ids)
      (NewKVMSDaemon (Some \<lparr>etcdClient = api, leaseResponse = l\<rparr>) (op_store t) podIp port ip)"
    using etcd_server.wp_fresh_policy [OF assms(1) _ _ assms(14,13), of "op_store t" it1 l podIp port ip] assms(12)
    by simp
  with t(1) ids lists show ?thesis by (fastforce simp: wp_def gm_read_def)
qed

lemma demo_event_facts [simp]:
  "we_Type (demo_event ty name labels) = ty" "event_name (demo_event ty name labels) = name"
  "accepted_status (demo_event ty name labels)"
  "event_label (demo_choices draws) (demo_event ty name [(k, v)]) = k @ ''='' @ v"
  by (simp_all add: demo_event_def accepted_status_def event_label_def demo_choices_def convertLabelsToStr_def)

lemma demo_start_facts [simp]:
  "ExternalWorkloadSecurityPolicies demo_start = []" "mem_kvs (op_store demo_start) = Map.empty"
  "MapIdentityToEWName demo_start = []" "op_inv (view mem_kvs demo_start)"
  "label_map_readable Map.empty"
  by (simp_all add: demo_start_def NewKVMSOperatorDaemon_def mem_kvs_def label_map_readable_def
      op_inv_initial [unfolded NewKVMSOperatorDaemon_def])

lemma demo_choices_draws [simp]: "ch_draws (demo_choices draws) = draws"
  by (simp add: demo_choices_def)

theorem policy_reaches_workload_witness:
  "\<exists>t u. HandleEvent (demo_choices [5], demo_event ''ADDED'' ''vm1'' [(''env'', ''prod'')]) demo_start = (Ret (), t) \<and>
    HandleHostEvent ((\<lambda>m. m, rev), demo_policy [(''env'', ''prod'')])
      (NewKVMSDaemon (Some \<lparr>etcdClient = mem_api, leaseResponse = 1\<rparr>) (op_store t) ''10.0.0.2'' 40400 ''10.0.0.1'') = (Ret (), u) \<and>
    addressed (demo_policy [(''env'', ''prod'')]) 5 \<in> set (sv_sent u)"
proof -
  let ?ev = "demo_event ''ADDED'' ''vm1'' [(''env'', ''prod'')]"
  have "\<exists>t u. HandleEvent (demo_choices [5], ?ev) demo_start = (Ret (), t) \<and>
    HandleHostEvent ((\<lambda>m. m, rev), demo_policy [(''env'', ''prod'')])
      (NewKVMSDaemon (Some \<lparr>etcdClient = mem_api, leaseResponse = 1\<rparr>) (op_store t) ''10.0.0.2'' 40400 ''10.0.0.1'') = (Ret (), u) \<and>
    sv_sent u = map (addressed (demo_policy [(''env'', ''prod'')])) (gm_read [] (MapLabelToIdentities t) (event_label (demo_choices [5]) ?ev)) \<and>
    addressed (demo_policy [(''env'', ''prod'')]) 5 \<in> set (sv_sent u)"
    by (rule policy_reaches_workload [OF mem.etcd_server_axioms demo_start_connected])
      (simp_all add: selector_labels_def demo_policy_def zero_HostPolicyEvent_def)
  then show ?thesis by blast
qed


text \<open>
  C6. After a workload was added, the command line tool gets an installation script for its name,
  with the identity the operator has drawn for it, and the port and address of the service.
\<close>

theorem cli_script_for_workload:
  assumes "etcd_server api kvs up" and "connected api up s" and "\<not> op_Locked s"
    and "we_Type ev = ''ADDED''" and "accepted_status ev"
    and "\<not> ContainsElement DeepEqual_workload (ExternalWorkloadSecurityPolicies s) (workload_of ev)"
    and "find (identity_free (view kvs s)) (map ucast (ch_draws ch)) = Some i"
    and "CHR 0x0A \<notin> set (gs_ipAddress p)"
  shows "\<exists>t r q. HandleEvent (ch, ev) s = (Ret (), t) \<and>
    HandleCliRequest (Some \<lparr>etcdClient = api, leaseResponse = l\<rparr>) (event_name ev) (op_store t, p) = (Ret r, q) \<and>
    rs_Status r = 0 \<and>
    Split (rs_ScriptData r) (CHR 0x0A) = script_lines (gs_port p) (gs_ipAddress p) (u16_str i) @ [[]]"
proof -
  let ?v = "spec_label i (event_label ch ev) (spec_assign i (event_name ev) (view kvs s))"
  obtain t where t: "HandleEvent (ch, ev) s = (Ret (), t)" "connected api up t" "view kvs t = ?v"
    using etcd_server.wp_event_added [OF assms(1-3,5,4,6,7)] by (auto elim!: wpE)
  have "v_kvs (view kvs t) (KvmOprEWNameToIdentity @ event_name ev) = Some (u16_str i)"
    unfolding t(3) by (rule added_name_key)
  then have key: "kvs (op_store t) (KvmOprEWNameToIdentity @ event_name ev) = Some (u16_str i)"
    by (simp add: view_def)
  have "up (op_store t)" using t(2) by (simp add: connected_def)
  from etcd_server.wp_Cli [OF assms(1) this, of l "event_name ev" p] key obtain r e' p' where
    r: "HandleCliRequest (Some \<lparr>etcdClient = api, leaseResponse = l\<rparr>) (event_name ev) (op_store t, p) = (Ret r, (e', p'))"
      "rs_Status r = 0" "(rs_ScriptData r, p') = GenerateEWInstallationScript (event_name ev) (u16_str i) p"
    by (auto simp: wp_def)
  have "CHR 0x0A \<notin> set (u16_str i)" using u16_str_digits by (fastforce simp: is_digit_def)
  then have "Split (fst (GenerateEWInstallationScript (event_name ev) (u16_str i) p)) (CHR 0x0A) =
      script_lines (gs_port p) (gs_ipAddress p) (u16_str i) @ [[]]"
    unfolding GenerateEWInstallationScript_eq
    by (intro Split_lines) (rule script_lines_no_newline [OF assms(8)])
  with t(1) r show ?thesis by (metis fst_conv)
qed

theorem cli_script_for_workload_witness:
  "\<exists>t r q. HandleEvent (demo_choices [5], demo_event ''ADDED'' ''vm1'' [(''env'', ''prod'')]) demo_start = (Ret (), t) \<and>
    HandleCliRequest (Some \<lparr>etcdClient = mem_api, leaseResponse = 1\<rparr>) (event_name (demo_event ''ADDED'' ''vm1'' [(''env'', ''prod'')]))
      (op_store t, \<lparr>gs_port = 40400, gs_ipAddress = ''10.0.0.1'', ScriptData = []\<rparr>) = (Ret r, q) \<and>
    rs_Status r = 0 \<and>
    Split (rs_ScriptData r) (CHR 0x0A) =
      script_lines (gs_port \<lparr>gs_port = 40400, gs_ipAddress = ''10.0.0.1'', ScriptData = []\<rparr>)
        (gs_ipAddress \<lparr>gs_port = 40400, gs_ipAddress = ''10.0.0.1'', ScriptData = []\<rparr>) (u16_str 5) @ [[]]"
  by (rule cli_script_for_workload [OF mem.etcd_server_axioms demo_start_connected]) simp_all




section \<open>Reconnecting, deleting, shutting down\<close>

text \<open>
  C18. An agent that reconnects is cut off from its policies: after its connection has ended it can
  register again, but its identity is gone from the list of its label and a registration does not
  put it back, so that a service that is given a policy for the label does not send it there.
\<close>

theorem reconnected_agent_is_cut_off:
  assumes "etcd_server api kvs up" and "up e" and "label_map_readable (kvs e)"
    and "kvs e (KvmOprIdentityToLabel @ u16_str i) = Some label"
    and "kvs e (KvmOprLabelToIdentities @ label) = Some (MarshalU16s (Some (xs @ i # ys)))"
    and "\<And>x. x \<noteq> [] \<Longrightarrow> kvs e (KvmOprLabelToIdentities @ label @ x) = None"
    and "i \<noteq> 0" and "i \<notin> set xs" and "i \<notin> set ys" and "permuting it" and "permuting it2"
    and "selector_labels it1 (kh_Spec (he_Object policy)) = [label]"
    and "st_Status (kh_Status (he_Object policy)) \<in> {[], ''OK''}"
  shows "\<exists>e1 e2 u. UpdateETCDLabelToIdentitiesMaps (Some \<lparr>etcdClient = api, leaseResponse = l\<rparr>) i e = (Ret (), e1) \<and>
    RegisterAgentIdentity (Some \<lparr>etcdClient = api, leaseResponse = l\<rparr>) podIp it (u16_str i) e1 = (Ret (0, None), e2) \<and>
    HandleHostEvent ((it1, it2), policy) (NewKVMSDaemon (Some \<lparr>etcdClient = api, leaseResponse = l\<rparr>) e2 podIp port ip) = (Ret (), u) \<and>
    i \<notin> wi_Identity ` set (sv_sent u)"
proof -
  let ?cli = "Some \<lparr>etcdClient = api, leaseResponse = l\<rparr>"
  let ?key = "KvmOprLabelToIdentities @ label"
  from etcd_server.wp_disconnect [OF assms(1,2,4-6) drop_identity_once [OF assms(7-9)]]
  obtain e1 where e1: "UpdateETCDLabelToIdentitiesMaps ?cli i e = (Ret (), e1)" "up e1"
      "kvs e1 = (\<lambda>k. if prefix (KvmSvcIdentitiToPodIps @ u16_str i) k then None else kvs e k)
        (?key \<mapsto> MarshalU16s (Some (close_gap xs ys)))"
    by (auto simp: wp_def)
  have "identity_known (kvs e1) (u16_str i)" by (rule identity_known_key) (simp add: e1(3) assms(4))
  moreover have "\<not> identity_taken (kvs e1) (u16_str i)" by (simp add: identity_taken_def e1(3))
  ultimately obtain e2 where e2: "RegisterAgentIdentity ?cli podIp it (u16_str i) e1 = (Ret (0, None), e2)" "up e2"
      "kvs e2 = (kvs e1)(KvmSvcIdentitiToPodIps @ u16_str i \<mapsto> podIp)"
    using etcd_server.wp_Register [OF assms(1) e1(2) assms(10), of l podIp "u16_str i"] by (auto simp: wp_def)
  have "label_map_readable (kvs e2)"
    using assms(3,5) by (auto simp: label_map_readable_def e2(3) e1(3) identities_json.dec_enc split: if_splits)
  from etcd_server.wp_fresh_policy [OF assms(1) e2(2) this assms(11,13), of it1 l podIp port ip]
  obtain u where u: "HandleHostEvent ((it1, it2), policy) (NewKVMSDaemon ?cli e2 podIp port ip) = (Ret (), u)"
      "sv_sent u = map (addressed policy) (policy_targets (kvs e2) [label])"
    using assms(12) by (auto simp: wp_def)
  have "policy_targets (kvs e2) [label] = close_gap xs ys"
    by (rule etcd_server.targets_one [OF assms(1)]) (simp add: e2(3) e1(3))
  with u(2) assms(8,9) have "i \<notin> wi_Identity ` set (sv_sent u)" by (auto simp: addressed_def)
  with e1(1) e2(1) u(1) show ?thesis by blast
qed

theorem reconnected_agent_is_cut_off_witness:
  "\<exists>e1 e2 u. UpdateETCDLabelToIdentitiesMaps (Some \<lparr>etcdClient = mem_api, leaseResponse = 1\<rparr>) 5 demo_connected = (Ret (), e1) \<and>
    RegisterAgentIdentity (Some \<lparr>etcdClient = mem_api, leaseResponse = 1\<rparr>) ''10.0.0.2'' rev (u16_str 5) e1 = (Ret (0, None), e2) \<and>
    HandleHostEvent ((\<lambda>m. m, rev), demo_policy [(''env'', ''prod'')])
      (NewKVMSDaemon (Some \<lparr>etcdClient = mem_api, leaseResponse = 1\<rparr>) e2 ''10.0.0.2'' 40400 ''10.0.0.1'') = (Ret (), u) \<and>
    5 \<notin> wi_Identity ` set (sv_sent u)"
proof (rule reconnected_agent_is_cut_off [OF mem.etcd_server_axioms, where label = "''env=prod''" and xs = "[7]" and ys = "[]"])
  show "label_map_readable (mem_kvs demo_connected)"
    by (auto simp: label_map_readable_def mem_kvs_def demo_connected_def identities_json.dec_enc split: if_splits)
qed (simp_all add: mem_kvs_def demo_connected_def selector_labels_def demo_policy_def zero_HostPolicyEvent_def)


text \<open>
  What the service cleans up the operator undoes: after a connection with the identity \<open>i\<close> has
  ended and \<open>i\<close> was taken off the list of its label in etcd, the next workload that is added with
  the same label makes the operator write its own list, on which \<open>i\<close> still is.
\<close>

theorem cleaned_up_identity_comes_back:
  assumes "etcd_server api kvs up" and "connected api up s" and "\<not> op_Locked s"
    and "we_Type ev = ''ADDED''" and "accepted_status ev"
    and "\<not> ContainsElement DeepEqual_workload (ExternalWorkloadSecurityPolicies s) (workload_of ev)"
    and "find (identity_free (view kvs s)) (map ucast (ch_draws ch)) = Some j"
    and "kvs (op_store s) (KvmOprIdentityToLabel @ u16_str i) = Some (event_label ch ev)"
    and "kvs (op_store s) (KvmOprLabelToIdentities @ event_label ch ev) = Some (MarshalU16s (Some (xs @ i # ys)))"
    and "\<And>x. x \<noteq> [] \<Longrightarrow> kvs (op_store s) (KvmOprLabelToIdentities @ event_label ch ev @ x) = None"
    and "gm_read [] (MapLabelToIdentities s) (event_label ch ev) = xs @ i # ys"
    and "i \<noteq> 0" and "i \<notin> set xs" and "i \<notin> set ys" and "j \<notin> set (xs @ i # ys)"
  shows "\<exists>e l' t. UpdateETCDLabelToIdentitiesMaps (Some \<lparr>etcdClient = api, leaseResponse = l\<rparr>) i (op_store s) = (Ret (), e) \<and>
    kvs e (KvmOprLabelToIdentities @ event_label ch ev) = Some (MarshalU16s (Some l')) \<and> i \<notin> set l' \<and>
    HandleEvent (ch, ev) (s\<lparr>op_store := e\<rparr>) = (Ret (), t) \<and>
    kvs (op_store t) (KvmOprLabelToIdentities @ event_label ch ev) = Some (MarshalU16s (Some (xs @ i # ys @ [j])))"
proof -
  let ?key = "KvmOprLabelToIdentities @ event_label ch ev"
  have up: "up (op_store s)" using assms(2) by (simp add: connected_def)
  from etcd_server.wp_disconnect [OF assms(1) up assms(8-10) drop_identity_once [OF assms(12-14)]]
  obtain e where e: "UpdateETCDLabelToIdentitiesMaps (Some \<lparr>etcdClient = api, leaseResponse = l\<rparr>) i (op_store s) = (Ret (), e)"
      "up e" "kvs e ?key = Some (MarshalU16s (Some (close_gap xs ys)))"
    by (force simp: wp_def)
  let ?s = "s\<lparr>op_store := e\<rparr>"
  have "identity_free (view kvs ?s) = identity_free (view kvs s)"
    by (simp add: fun_eq_iff identity_free_def view_def)
  then have free: "find (identity_free (view kvs ?s)) (map ucast (ch_draws ch)) = Some j" using assms(7) by metis
  have "connected api up ?s" using assms(2) e(2) by (simp add: connected_def)
  then obtain t where t: "HandleEvent (ch, ev) ?s = (Ret (), t)"
      "view kvs t = spec_label j (event_label ch ev) (spec_assign j (event_name ev) (view kvs ?s))"
    using etcd_server.wp_event_added [OF assms(1) _ _ assms(5,4) _ free] assms(3,6) by (auto elim!: wpE)
  have "v_kvs (view kvs t) ?key = Some (MarshalU16s (Some (xs @ i # ys @ [j])))"
    using assms(11,15) unfolding t(2) spec_label_def spec_assign_def Let_def
    by (simp add: label_list_def view_def gm_read_def split: option.splits)
  then have "kvs (op_store t) ?key = Some (MarshalU16s (Some (xs @ i # ys @ [j])))" by (simp add: view_def)
  with e t(1) assms(13,14) show ?thesis by (metis Un_iff set_close_gap)
qed

definition demo_joined :: "mem_etcd KVMSOperator" where
  "demo_joined = demo_start
     \<lparr>MapLabelToIdentities := [(''env=prod'', [7, 5])], op_store := demo_connected\<rparr>"

theorem cleaned_up_identity_comes_back_witness:
  "\<exists>e l' t. UpdateETCDLabelToIdentitiesMaps (Some \<lparr>etcdClient = mem_api, leaseResponse = 1\<rparr>) 5 (op_store demo_joined) = (Ret (), e) \<and>
    mem_kvs e (KvmOprLabelToIdentities @ event_label (demo_choices [9]) (demo_event ''ADDED'' ''vm9'' [(''env'', ''prod'')])) =
      Some (MarshalU16s (Some l')) \<and> 5 \<notin> set l' \<and>
    HandleEvent (demo_choices [9], demo_event ''ADDED'' ''vm9'' [(''env'', ''prod'')]) (demo_joined\<lparr>op_store := e\<rparr>) = (Ret (), t) \<and>
    mem_kvs (op_store t) (KvmOprLabelToIdentities @ event_label (demo_choices [9]) (demo_event ''ADDED'' ''vm9'' [(''env'', ''prod'')])) =
      Some (MarshalU16s (Some ([7] @ 5 # [] @ [9])))"
  by (rule cleaned_up_identity_comes_back [OF mem.etcd_server_axioms])
    (use demo_start_connected in \<open>simp_all add: demo_joined_def demo_connected_def connected_def mem_kvs_def gm_read_def\<close>)

text \<open>
  C35. Deleting a workload leaves the identity 0 on the list of its label in etcd, in its place: a
  policy for the label is then also addressed to 0, which is the identity of every stream that
  was opened without one.
\<close>

theorem deleted_workload_leaves_zero:
  assumes "etcd_server api kvs up" and "connected api up s" and "\<not> op_Locked s"
    and "we_Type ev = ''DELETED''" and "accepted_status ev"
    and "first_index (DeepEqual_workload (workload_of ev)) (ExternalWorkloadSecurityPolicies s) = Some idx"
    and "GetEWIdentityFromName s (event_name ev) = i"
    and "map_of (MapLabelToIdentities s) (event_label ch ev) = Some (xs @ i # ys)"
    and "i \<noteq> 0" and "i \<notin> set xs" and "i \<notin> set ys"
  shows "\<exists>t. HandleEvent (ch, ev) s = (Ret (), t) \<and>
    GetExternalWorkloadIdentities t (event_label ch ev) = Some (close_gap xs ys @ [0]) \<and>
    policy_targets (kvs (op_store t)) [event_label ch ev] = close_gap xs ys @ [st_identity (open_stream None)]"
proof -
  let ?l = "Some (close_gap xs ys @ [0])"
  have "drop_result (GetEWIdentityFromName s (event_name ev)) (v_label (view kvs s) (event_label ch ev)) = Some ?l"
    using assms(7-11) by (simp add: view_def drop_result_def drop_identity_once)
  from etcd_server.wp_event_deleted [OF assms(1-3,5,4,6) this]
  obtain t where t: "HandleEvent (ch, ev) s = (Ret (), t)"
      "view kvs t = spec_unmap i (event_name ev) (event_label ch ev) ?l (view kvs s)"
    using assms(7) by (auto simp: wp_def)
  have "v_kvs (view kvs t) (KvmOprLabelToIdentities @ event_label ch ev) = Some (MarshalU16s ?l)"
    "v_label (view kvs t) (event_label ch ev) = ?l"
    unfolding t(2) by (simp_all add: spec_unmap_def)
  then have "kvs (op_store t) (KvmOprLabelToIdentities @ event_label ch ev) = Some (MarshalU16s ?l)"
    "GetExternalWorkloadIdentities t (event_label ch ev) = ?l"
    by (simp_all add: view_def GetExternalWorkloadIdentities_def)
  moreover have "st_identity (open_stream None) = 0"
    by (simp add: open_stream_def GetIdentityFromContext_def Atoi_def Atoi_sign_def ParseUint_def to_uint16_def)
  ultimately show ?thesis using t(1) etcd_server.targets_one [OF assms(1)] by simp
qed

definition demo_two :: "mem_etcd KVMSOperator" where
  "demo_two = demo_start
     \<lparr>ExternalWorkloadSecurityPolicies :=
        [workload_of (demo_event ''ADDED'' ''vm'' [(''env'', ''prod'')]), workload_of (demo_event ''ADDED'' ''vm2'' [(''env'', ''prod'')])],
      MapEWNameToIdentity := [(''vm'', 5), (''vm2'', 7)], MapIdentityToEWName := [(5, ''vm''), (7, ''vm2'')],
      MapLabelToIdentities := [(''env=prod'', [5, 7])]\<rparr>"

lemma demo_two_facts:
  "connected mem_api mem_online demo_two" "\<not> op_Locked demo_two"
  "first_index (DeepEqual_workload (workload_of (demo_event ''DELETED'' ''vm'' [(''env'', ''prod'')])))
     (ExternalWorkloadSecurityPolicies demo_two) = Some 0"
  "GetEWIdentityFromName demo_two ''vm'' = 5" "map_of (MapLabelToIdentities demo_two) ''env=prod'' = Some ([] @ 5 # [7])"
  "map_of (MapEWNameToIdentity demo_two) ''vm2'' = Some 7"
  using demo_start_connected
  by (simp_all add: demo_two_def workload_of_def demo_event_def DeepEqual_workload_def DeepEqual_gomap_def
      GetEWIdentityFromName_def gm_read_def)

theorem deleted_workload_leaves_zero_witness:
  "\<exists>t. HandleEvent (demo_choices [], demo_event ''DELETED'' ''vm'' [(''env'', ''prod'')]) demo_two = (Ret (), t) \<and>
    GetExternalWorkloadIdentities t ''env=prod'' = Some [7, 0]"
  using deleted_workload_leaves_zero [OF mem.etcd_server_axioms demo_two_facts(1,2), of "demo_event ''DELETED'' ''vm'' [(''env'', ''prod'')]" 0 5 "demo_choices []" "[]" "[7]"]
    demo_two_facts
  by (auto simp: close_gap_def)

text \<open>
  C36. Deleting a workload also takes the etcd entry of every workload whose name begins with its
  name. The operator still knows the identity of the other workload, but the command line tool
  no longer gets a script for it.
\<close>

theorem delete_takes_longer_names:
  assumes "etcd_server api kvs up" and "connected api up s" and "\<not> op_Locked s"
    and "we_Type ev = ''DELETED''" and "accepted_status ev"
    and "first_index (DeepEqual_workload (workload_of ev)) (ExternalWorkloadSecurityPolicies s) = Some idx"
    and "drop_result (GetEWIdentityFromName s (event_name ev)) (v_label (view kvs s) (event_label ch ev)) = Some l'"
    and "x \<noteq> []"
  shows "\<exists>t r q. HandleEvent (ch, ev) s = (Ret (), t) \<and>
    GetEWIdentityFromName t (event_name ev @ x) = GetEWIdentityFromName s (event_name ev @ x) \<and>
    HandleCliRequest (Some \<lparr>etcdClient = api, leaseResponse = l\<rparr>) (event_name ev @ x) (op_store t, p) = (Ret r, q) \<and>
    rs_Status r = -1"
proof -
  let ?i = "GetEWIdentityFromName s (event_name ev)"
  from etcd_server.wp_event_deleted [OF assms(1-3,5,4,6,7)]
  obtain t where t: "HandleEvent (ch, ev) s = (Ret (), t)" "connected api up t"
      "view kvs t = spec_unmap ?i (event_name ev) (event_label ch ev) l' (view kvs s)"
    by (auto simp: wp_def)
  have "v_kvs (view kvs t) (KvmOprEWNameToIdentity @ event_name ev @ x) = None"
    "v_nameid (view kvs t) (event_name ev @ x) = v_nameid (view kvs s) (event_name ev @ x)"
    unfolding t(3) using assms(8) by (simp_all add: spec_unmap_def unmapped_key_def)
  then have gone: "kvs (op_store t) (KvmOprEWNameToIdentity @ event_name ev @ x) = None"
    and kept: "GetEWIdentityFromName t (event_name ev @ x) = GetEWIdentityFromName s (event_name ev @ x)"
    by (simp_all add: view_def GetEWIdentityFromName_def gm_read_def)
  have "up (op_store t)" using t(2) by (simp add: connected_def)
  from etcd_server.wp_Cli [OF assms(1) this, of l "event_name ev @ x" p] gone
  obtain r q where "HandleCliRequest (Some \<lparr>etcdClient = api, leaseResponse = l\<rparr>) (event_name ev @ x) (op_store t, p) = (Ret r, q)"
      "rs_Status r = -1" by (auto simp: wp_def)
  with t(1) kept show ?thesis by blast
qed

theorem delete_takes_longer_names_witness:
  "\<exists>t r q. HandleEvent (demo_choices [], demo_event ''DELETED'' ''vm'' [(''env'', ''prod'')]) demo_two = (Ret (), t) \<and>
    GetEWIdentityFromName t ''vm2'' = 7 \<and>
    HandleCliRequest (Some \<lparr>etcdClient = mem_api, leaseResponse = 1\<rparr>) ''vm2''
      (op_store t, \<lparr>gs_port = 40400, gs_ipAddress = ''10.0.0.1'', ScriptData = []\<rparr>) = (Ret r, q) \<and>
    rs_Status r = -1"
proof -
  have "drop_identity 5 [5, 7] = Ret ([7, 0], 1)" by code_simp
  then have "drop_result 5 (v_label (view mem_kvs demo_two) ''env=prod'') = Some (Some [7, 0])"
    using demo_two_facts(5) by (simp add: view_def drop_result_def)
  moreover have "GetEWIdentityFromName demo_two ''vm2'' = 7"
    using demo_two_facts(6) by (simp add: GetEWIdentityFromName_def gm_read_def)
  ultimately show ?thesis
    using delete_takes_longer_names [OF mem.etcd_server_axioms demo_two_facts(1,2), of "demo_event ''DELETED'' ''vm'' [(''env'', ''prod'')]"
        0 "demo_choices []" "Some [7, 0]" "''2''" 1 "\<lparr>gs_port = 40400, gs_ipAddress = ''10.0.0.1'', ScriptData = []\<rparr>"] demo_two_facts(3,4)
    by simp
qed

text \<open>
  C39. Shutting the operator down makes a running service panic: the shutdown empties the label map
  in etcd, the service still remembers the labels it has read, and the next host policy makes it
  read the list of such a label and use the result without a check.
\<close>

theorem operator_shutdown_crashes_service:
  assumes "etcd_server api kvs up" and "connected api up s" and "permuting it2"
    and "sv_EtcdClient u = Some \<lparr>etcdClient = api, leaseResponse = l\<rparr>"
    and "EtcdEWLabels u = Some (label # labels)"
  shows "\<exists>t. DestroyKVMSOperator s = (Ret (), t) \<and>
    fst (UpdateHostSecurityPolicies it1 it2 event (u\<lparr>sv_store := op_store t\<rparr>)) =
      Stop (Panic ''invalid memory address or nil pointer dereference'')"
proof -
  obtain t where t: "DestroyKVMSOperator s = (Ret (), t)" "connected api up t"
      "\<forall>label. kvs (op_store t) (KvmOprLabelToIdentities @ label) = None"
    using etcd_server.wp_Destroy [OF assms(1,2)] by (auto simp: wp_def)
  moreover have "fst (UpdateHostSecurityPolicies it1 it2 event (u\<lparr>sv_store := op_store t\<rparr>)) =
      Stop (Panic ''invalid memory address or nil pointer dereference'')"
    by (rule etcd_server.stale_label_panics [OF assms(1) _ assms(3)])
      (use t assms(4,5) in \<open>simp_all add: sv_connected_def connected_def\<close>)
  ultimately show ?thesis by blast
qed

theorem operator_shutdown_crashes_service_witness:
  "\<exists>t. DestroyKVMSOperator demo_start = (Ret (), t) \<and>
    fst (UpdateHostSecurityPolicies (\<lambda>m. m) rev (demo_policy [(''env'', ''prod'')])
      ((demo_service demo_labels)\<lparr>EtcdEWLabels := Some [''env=prod''], sv_store := op_store t\<rparr>)) =
      Stop (Panic ''invalid memory address or nil pointer dereference'')"
  by (rule operator_shutdown_crashes_service [OF mem.etcd_server_axioms demo_start_connected(1)])
    (simp_all add: demo_service_def NewKVMSDaemon_def)

text \<open>
  C32. A label with a slash makes the service panic. Kubernetes allows a prefix in the key of a label
  (\<open>app.kubernetes.io/name\<close>). The operator writes the list under the whole label; the service takes what
  follows the last slash of the key for the label, finds nothing under it and uses the missing
  answer. After such a workload was added, every accepted host policy, for whatever labels, ends a
  service that is started then.
\<close>

theorem slash_label_crashes_service:
  assumes "etcd_server api kvs up" and "connected api up s" and "\<not> op_Locked s" and "op_inv (view kvs s)"
    and "lists_decodable (kvs (op_store s))" and "we_Type ev = ''ADDED''" and "accepted_status ev" and "event_name ev \<noteq> []"
    and "\<not> ContainsElement DeepEqual_workload (ExternalWorkloadSecurityPolicies s) (workload_of ev)"
    and "find (identity_free (view kvs s)) (map ucast (ch_draws ch)) = Some i"
    and "event_label ch ev = domain @ CHR ''/'' # rest" and "CHR ''/'' \<notin> set rest" and "\<not> prefix rest (event_label ch ev)"
    and "\<And>x. kvs (op_store s) (KvmOprLabelToIdentities @ rest @ x) = None"
    and "st_Status (kh_Status (he_Object policy)) \<in> {[], ''OK''}" and "permuting it2"
  shows "\<exists>t. HandleEvent (ch, ev) s = (Ret (), t) \<and>
    fst (HandleHostEvent ((it1, it2), policy)
      (NewKVMSDaemon (Some \<lparr>etcdClient = api, leaseResponse = l\<rparr>) (op_store t) podIp port ip)) =
    Stop (Panic ''invalid memory address or nil pointer dereference'')"
proof -
  let ?label = "event_label ch ev"
  let ?v = "spec_label i ?label (spec_assign i (event_name ev) (view kvs s))"
  obtain t where t: "HandleEvent (ch, ev) s = (Ret (), t)" "connected api up t" "view kvs t = ?v"
    using etcd_server.wp_event_added [OF assms(1-3,7,6,9,10)] by (auto elim!: wpE)
  have kvs: "kvs (op_store t) = v_kvs ?v"
    using t(3) by (simp add: view_def [of kvs t] flip: t(3))
  let ?s = "NewKVMSDaemon (Some \<lparr>etcdClient = api, leaseResponse = l\<rparr>) (op_store t) podIp port ip"
  have up: "up (op_store t)" using t(2) by (auto simp: connected_def)
  have "fst (UpdateHostSecurityPolicies it1 it2 policy ?s) = Stop (Panic ''invalid memory address or nil pointer dereference'')"
  proof (rule etcd_server.missing_label_panics [where label = rest, OF assms(1) etcd_server.daemon_connected [OF assms(1) up] _ assms(16)])
    have store: "kvs (sv_store ?s) = v_kvs ?v" by (simp add: NewKVMSDaemon_def kvs)
    show "lists_decodable (kvs (sv_store ?s))"
      unfolding store using added_decodable [of "view kvs s"] assms(5) by (simp add: view_def)
    have "op_inv ?v"
      by (rule added_view_inv [OF assms(4) _ assms(8)]) (use assms(10) in \<open>auto simp: find_Some_iff simp del: identity_free_view\<close>)
    then have "kvs (sv_store ?s) (KvmOprLabelToIdentities @ ?label) \<noteq> None"
      unfolding store using added_in_list [of i ?label "spec_assign i (event_name ev) (view kvs s)"]
      by (auto simp: op_inv_def mirror_ok_def)
    moreover have "last_field (KvmOprLabelToIdentities @ ?label) (CHR ''/'') = rest"
      unfolding assms(11) using last_field_append [OF assms(12), of "KvmOprLabelToIdentities @ domain"] by simp
    ultimately show "rest \<in> set (strings_of (EtcdEWLabels ?s)) \<or>
        (\<exists>k v. prefix KvmOprLabelToIdentities k \<and> kvs (sv_store ?s) k = Some v \<and> rest = last_field k (CHR ''/''))"
      by (metis not_None_eq prefixI)
    have "rest @ x \<noteq> ?label" for x using assms(13) by (metis prefixI)
    then show "kvs (sv_store ?s) (KvmOprLabelToIdentities @ rest @ x) = None" for x
      unfolding store using assms(14) by (subst added_other_lists) (simp_all add: view_def)
  qed
  with t(1) assms(15) show ?thesis by (auto simp: HandleHostEvent_def)
qed

theorem slash_label_crashes_service_witness:
  "\<exists>t. HandleEvent (demo_choices [5], demo_event ''ADDED'' ''vm1'' [(''app.kubernetes.io/name'', ''db'')]) demo_start = (Ret (), t) \<and>
    fst (HandleHostEvent ((\<lambda>m. m, rev), demo_policy [(''env'', ''prod'')])
      (NewKVMSDaemon (Some \<lparr>etcdClient = mem_api, leaseResponse = 1\<rparr>) (op_store t) ''10.0.0.2'' 40400 ''10.0.0.1'')) =
    Stop (Panic ''invalid memory address or nil pointer dereference'')"
  by (rule slash_label_crashes_service [OF mem.etcd_server_axioms demo_start_connected, where domain = "''app.kubernetes.io''" and rest = "''name=db''"])
    (simp_all add: demo_policy_def zero_HostPolicyEvent_def lists_decodable_def)

end
